(* ===== verification/Prelude.thy ===== *)
theory Prelude
  imports
    Main
    "HOL-Library.Finite_Map"
    "HOL-Library.List_Lexorder"
    "HOL-Library.Char_ord"
    "HOL-Library.Sublist"
    "HOL-Library.Multiset"
begin

text \<open>
  Shared vocabulary of the development.

  A Go string is a sequence of bytes, so it is an Isabelle \<^typ>\<open>string\<close> (a list of 8-bit
  characters); the order of \<^theory_text>\<open>List_Lexorder\<close> over \<^theory_text>\<open>Char_ord\<close> is Go's byte-wise string
  order.  A Go map may be nil, and code such as \<^verbatim>\<open>reflect.DeepEqual\<close> or
  \<^verbatim>\<open>json.Marshal\<close> distinguishes a nil map from an empty one; a map is therefore an optional
  finite map, with \<^const>\<open>None\<close> for nil.

  The rest are facts on lists that several components use: when a list sorted by a key is
  determined by its elements, and how a search through a list behaves.
\<close>

named_theorems component_defs \<open>definitions unfolded by the proofs of one component\<close>

section \<open>Go maps\<close>

type_synonym 'v gomap = "(string, 'v) fmap option"
type_synonym strmap = "string gomap"

text \<open>A map of byte slices; a slice may be nil (\<^const>\<open>None\<close>) or empty.\<close>

type_synonym bytemap = "string option gomap"

definition bytes_of :: "string option \<Rightarrow> string" where
  "bytes_of v = (case v of None \<Rightarrow> [] | Some s \<Rightarrow> s)"


definition map_get :: "'v gomap \<Rightarrow> string \<Rightarrow> 'v option" where
  "map_get m k = (case m of None \<Rightarrow> None | Some f \<Rightarrow> fmlookup f k)"

definition map_index :: "string gomap \<Rightarrow> string \<Rightarrow> string" where
  "map_index m k = (case map_get m k of None \<Rightarrow> [] | Some v \<Rightarrow> v)"

definition data_index :: "bytemap \<Rightarrow> string \<Rightarrow> string" where
  "data_index m k = (case map_get m k of None \<Rightarrow> [] | Some v \<Rightarrow> bytes_of v)"

definition map_len0 :: "'v gomap \<Rightarrow> bool" where
  "map_len0 m = (case m of None \<Rightarrow> True | Some f \<Rightarrow> f = fmempty)"

definition map_copy :: "(string, 'v) fmap \<Rightarrow> 'v gomap \<Rightarrow> (string, 'v) fmap" where
  "map_copy dst src = (case src of None \<Rightarrow> dst | Some f \<Rightarrow> dst ++\<^sub>f f)"

lemma bytes_of_simps [simp]: "bytes_of None = []" "bytes_of (Some s) = s"
  by (simp_all add: bytes_of_def)

lemma map_get_None [simp]: "map_get None k = None"
  by (simp add: map_get_def)

lemma map_get_Some [simp]: "map_get (Some f) k = fmlookup f k"
  by (simp add: map_get_def)

lemma map_len0_get: "map_len0 m \<Longrightarrow> map_get m k = None"
  by (auto simp: map_len0_def map_get_def split: option.splits)

lemma fmlookup_map_copy:
  "fmlookup (map_copy dst src) k
     = (case map_get src k of None \<Rightarrow> fmlookup dst k | Some v \<Rightarrow> Some v)"
  by (auto simp: map_copy_def map_get_def fmlookup_dom_iff split: option.splits)

lemma notin_image_iff: "c \<notin> f ` S \<longleftrightarrow> (\<forall>x \<in> S. f x \<noteq> c)"
  by blast

section \<open>Lists ordered by a key\<close>

lemma sort_key_unique:
  fixes f :: "'a \<Rightarrow> 'b::linorder"
  assumes perm: "mset xs = mset ys" and sorted: "sorted (map f ys)" and inj: "inj_on f (set xs)"
  shows "ys = sort_key f xs"
proof -
  have "mset (map f (sort_key f xs)) = mset (map f ys)"
    using perm by simp
  then have "map f ys = map f (sort_key f xs)"
    using sorted sorted_sort_key by (metis properties_for_sort sorted_sort_id)
  moreover have "inj_on f (set ys \<union> set (sort_key f xs))"
    using inj mset_eq_setD [OF perm] by simp
  ultimately show ?thesis
    by (rule map_inj_on)
qed

lemma sort_key_perm_cong:
  fixes f :: "'a \<Rightarrow> 'b::linorder"
  assumes "mset xs = mset ys" and "inj_on f (set xs)"
  shows "sort_key f xs = sort_key f ys"
  using sort_key_unique [of xs "sort_key f ys" f] assms by simp

lemma list_all_weaken: "list_all P t \<Longrightarrow> (\<And>e. P e \<Longrightarrow> Q e) \<Longrightarrow> list_all Q t"
  by (simp add: list_all_iff)

end
