(* ===== verification/Effects.thy ===== *)
theory Effects
  imports Prelude "HOL-Library.State_Monad"
begin

text \<open>
  How the operator's effects are modelled.

  A reconciler talks to the Kubernetes API server, to Omni and to workload clusters.  Their
  state, and everything other actors do to it between two calls, is a hidden value of an
  arbitrary type \<open>'x\<close> (\<open>ext\<close>); a call is any function of it that answers and changes it.  The
  world also carries the list of the calls made so far with their answers (\<open>trace\<close>), which
  nothing in the program reads.  Since the environment is arbitrary, a property of the trace
  holds for every behaviour of the servers, errors at any call included.

  \<open>emits m Q\<close> says that running \<open>m\<close> appends to the trace a list of events \<open>t\<close> and returns a
  value \<open>a\<close> with \<open>Q a t\<close>.  Its rules work backwards through a program, one per construct, so a
  property of a reconciler reduces to one condition per path.
\<close>

record ('e, 'x) world =
  ext :: 'x
  trace :: "'e list"

type_synonym ('e, 'x, 'a) act = "(('e, 'x) world, 'a) state"

definition call :: "('x \<Rightarrow> 'r \<times> 'x) \<Rightarrow> ('r \<Rightarrow> 'e) \<Rightarrow> ('e, 'x, 'r) act" where
  "call f ev = State (\<lambda>w. case f (ext w) of (r, x) \<Rightarrow> (r, \<lparr>ext = x, trace = trace w @ [ev r]\<rparr>))"

text \<open>A reading of the environment that is no event of the trace, such as the clock.\<close>

definition observe :: "('x \<Rightarrow> 'r \<times> 'x) \<Rightarrow> ('e, 'x, 'r) act" where
  "observe f = State (\<lambda>w. case f (ext w) of (r, x) \<Rightarrow> (r, w\<lparr>ext := x\<rparr>))"

text \<open>An entry of the trace that stands for a call made of several smaller ones, when it returns.\<close>

definition remark :: "'e \<Rightarrow> ('e, 'x, unit) act" where
  "remark e = State (\<lambda>w. ((), w\<lparr>trace := trace w @ [e]\<rparr>))"

definition emits :: "('e, 'x, 'a) act \<Rightarrow> ('a \<Rightarrow> 'e list \<Rightarrow> bool) \<Rightarrow> bool" where
  "emits m Q \<longleftrightarrow>
     (\<forall>w a w'. run_state m w = (a, w') \<longrightarrow> (\<exists>t. trace w' = trace w @ t \<and> Q a t))"

named_theorems emits_rules \<open>backward rules for emits\<close>

lemma emits_return [emits_rules]: "Q a [] \<Longrightarrow> emits (State_Monad.return a) Q"
  by (simp add: emits_def)

lemma emits_call [emits_rules]: "(\<And>r. Q r [ev r]) \<Longrightarrow> emits (call f ev) Q"
  by (auto simp: emits_def call_def split: prod.splits)

lemma emits_observe [emits_rules]: "(\<And>r. Q r []) \<Longrightarrow> emits (observe f) Q"
  by (auto simp: emits_def observe_def split: prod.splits)

lemma emits_remark [emits_rules]: "Q () [e] \<Longrightarrow> emits (remark e) Q"
  by (auto simp: emits_def remark_def)

lemma emits_bind:
  assumes "emits m (\<lambda>a t. emits (f a) (\<lambda>b t'. Q b (t @ t')))"
  shows "emits (State_Monad.bind m f) Q"
  unfolding emits_def
proof (intro allI impI)
  fix w b w''
  assume run: "run_state (State_Monad.bind m f) w = (b, w'')"
  obtain a w' where m: "run_state m w = (a, w')" by fastforce
  with run have f: "run_state (f a) w' = (b, w'')" by simp
  from assms m obtain t where t: "trace w' = trace w @ t"
    and k: "emits (f a) (\<lambda>b t'. Q b (t @ t'))"
    unfolding emits_def by blast
  from k f obtain t' where "trace w'' = trace w' @ t'" and "Q b (t @ t')"
    unfolding emits_def by blast
  with t show "\<exists>t. trace w'' = trace w @ t \<and> Q b t"
    by (intro exI [of _ "t @ t'"]) simp
qed

lemma emits_mono: "emits m Q \<Longrightarrow> (\<And>a t. Q a t \<Longrightarrow> R a t) \<Longrightarrow> emits m R"
  unfolding emits_def by meson

lemma emits_conj: "emits m Q \<Longrightarrow> emits m R \<Longrightarrow> emits m (\<lambda>a t. Q a t \<and> R a t)"
  unfolding emits_def by (metis same_append_eq)

text \<open>A step whose specification is known, followed by the rest of the program.\<close>

lemma emits_then:
  assumes "emits m R" and "\<And>a t. R a t \<Longrightarrow> emits (f a) (\<lambda>b t'. Q b (t @ t'))"
  shows "emits (State_Monad.bind m f) Q"
  by (rule emits_bind) (rule emits_mono [OF assms(1)], rule assms(2))

lemma emits_call_bind [emits_rules]:
  "(\<And>r. emits (k r) (\<lambda>b t. Q b (ev r # t))) \<Longrightarrow> emits (State_Monad.bind (call f ev) k) Q"
  by (rule emits_bind, rule emits_call) simp

lemma emits_observe_bind [emits_rules]:
  "(\<And>r. emits (k r) Q) \<Longrightarrow> emits (State_Monad.bind (observe f) k) Q"
  by (rule emits_bind, rule emits_observe) simp

lemma emits_remark_bind [emits_rules]:
  "emits (k ()) (\<lambda>b t. Q b (e # t)) \<Longrightarrow> emits (State_Monad.bind (remark e) k) Q"
  by (rule emits_bind, rule emits_remark) simp

lemma emits_return_bind [emits_rules]:
  "emits (k a) Q \<Longrightarrow> emits (State_Monad.bind (State_Monad.return a) k) Q"
  by simp

lemma emits_if [emits_rules]:
  "(b \<Longrightarrow> emits m Q) \<Longrightarrow> (\<not> b \<Longrightarrow> emits n Q) \<Longrightarrow> emits (if b then m else n) Q"
  by simp

lemma emits_case_sum [emits_rules]:
  "(\<And>e. s = Inl e \<Longrightarrow> emits (f e) Q) \<Longrightarrow> (\<And>a. s = Inr a \<Longrightarrow> emits (g a) Q)
    \<Longrightarrow> emits (case s of Inl e \<Rightarrow> f e | Inr a \<Rightarrow> g a) Q"
  by (cases s) simp_all

lemma emits_case_option [emits_rules]:
  "(o' = None \<Longrightarrow> emits f Q) \<Longrightarrow> (\<And>a. o' = Some a \<Longrightarrow> emits (g a) Q)
    \<Longrightarrow> emits (case o' of None \<Rightarrow> f | Some a \<Rightarrow> g a) Q"
  by (cases o') simp_all

lemma emits_case_prod [emits_rules]:
  "(\<And>a b. p = (a, b) \<Longrightarrow> emits (f a b) Q) \<Longrightarrow> emits (case p of (a, b) \<Rightarrow> f a b) Q"
  by (cases p) simp

lemma emits_run:
  "emits m Q \<Longrightarrow> run_state m w = (a, w') \<Longrightarrow> \<exists>t. trace w' = trace w @ t \<and> Q a t"
  unfolding emits_def by blast

text \<open>A call whose answer is known in every state.\<close>

lemma emits_known_bind:
  assumes "\<And>x. fst (f x) = r" and "emits (k r) (\<lambda>b t. Q b (ev r # t))"
  shows "emits (State_Monad.bind (call f ev) k) Q"
proof (rule emits_bind)
  have "emits (call f ev) (\<lambda>a t. a = r \<and> t = [ev r])"
    unfolding emits_def call_def
  proof (intro allI impI)
    fix w a w'
    assume run: "run_state (State (\<lambda>w. case f (ext w) of (r, x) \<Rightarrow> (r, \<lparr>ext = x, trace = trace w @ [ev r]\<rparr>))) w = (a, w')"
    obtain x where "f (ext w) = (r, x)" using assms(1) [of "ext w"] by (cases "f (ext w)") simp
    with run show "\<exists>t. trace w' = trace w @ t \<and> a = r \<and> t = [ev r]" by auto
  qed
  then show "emits (call f ev) (\<lambda>a t. emits (k a) (\<lambda>b t'. Q b (t @ t')))"
    by (rule emits_mono) (use assms(2) in simp)
qed

text \<open>Running a call in a given state.\<close>

lemma run_call_bind:
  "f (ext w) = (r, x) \<Longrightarrow>
     run_state (State_Monad.bind (call f ev) k) w = run_state (k r) \<lparr>ext = x, trace = trace w @ [ev r]\<rparr>"
  by (simp add: call_def)

lemma run_observe_bind:
  "f (ext w) = (r, x) \<Longrightarrow> run_state (State_Monad.bind (observe f) k) w = run_state (k r) (w\<lparr>ext := x\<rparr>)"
  by (simp add: observe_def)

section \<open>Every event\<close>

text \<open>
  \<open>every P m\<close>: all events of a run of \<open>m\<close> satisfy \<open>P\<close>, whatever it returns.  Its rules take a
  program apart without looking at the order of the pieces.
\<close>

definition every :: "('e \<Rightarrow> bool) \<Rightarrow> ('e, 'x, 'a) act \<Rightarrow> bool" where
  "every P m \<longleftrightarrow> emits m (\<lambda>r t. list_all P t)"

named_theorems every_rules \<open>backward rules for every\<close>

lemma every_return [every_rules]: "every P (State_Monad.return a)"
  by (simp add: every_def emits_return)

lemma every_call [every_rules]: "(\<And>r. P (ev r)) \<Longrightarrow> every P (call f ev)"
  by (simp add: every_def emits_call)

lemma every_observe [every_rules]: "every P (observe f)"
  by (simp add: every_def emits_observe)

lemma every_remark [every_rules]: "P e \<Longrightarrow> every P (remark e)"
  by (simp add: every_def emits_remark)

lemma every_bind [every_rules]: "every P m \<Longrightarrow> (\<And>a. every P (k a)) \<Longrightarrow> every P (State_Monad.bind m k)"
  unfolding every_def by (rule emits_then, assumption) (auto elim!: emits_mono)

lemma every_if [every_rules]: "(b \<Longrightarrow> every P m) \<Longrightarrow> (\<not> b \<Longrightarrow> every P n) \<Longrightarrow> every P (if b then m else n)"
  by simp

lemma every_case_sum [every_rules]:
  "(\<And>e. s = Inl e \<Longrightarrow> every P (f e)) \<Longrightarrow> (\<And>a. s = Inr a \<Longrightarrow> every P (g a))
    \<Longrightarrow> every P (case s of Inl e \<Rightarrow> f e | Inr a \<Rightarrow> g a)"
  by (cases s) simp_all

lemma every_case_option [every_rules]:
  "(o' = None \<Longrightarrow> every P f) \<Longrightarrow> (\<And>a. o' = Some a \<Longrightarrow> every P (g a))
    \<Longrightarrow> every P (case o' of None \<Rightarrow> f | Some a \<Rightarrow> g a)"
  by (cases o') simp_all

lemma every_case_prod [every_rules]:
  "(\<And>a b. p = (a, b) \<Longrightarrow> every P (f a b)) \<Longrightarrow> every P (case p of (a, b) \<Rightarrow> f a b)"
  by (cases p) simp

lemma every_mono: "every P m \<Longrightarrow> (\<And>e. P e \<Longrightarrow> Q e) \<Longrightarrow> every Q m"
  unfolding every_def by (erule emits_mono) (erule list_all_weaken)

lemma every_emits: "emits m R \<Longrightarrow> (\<And>r t. R r t \<Longrightarrow> list_all P t) \<Longrightarrow> every P m"
  unfolding every_def by (rule emits_mono)

lemma every_run: "every P m \<Longrightarrow> run_state m w = (a, w') \<Longrightarrow> trace w' = trace w @ t \<Longrightarrow> list_all P t"
  unfolding every_def by (auto dest: emits_run)

section \<open>Orderings of events\<close>

text \<open>\<open>preceded P Q t\<close>: in the trace \<open>t\<close>, no event satisfies \<open>P\<close> before one satisfies \<open>Q\<close>.\<close>

fun preceded :: "('e \<Rightarrow> bool) \<Rightarrow> ('e \<Rightarrow> bool) \<Rightarrow> 'e list \<Rightarrow> bool" where
  "preceded P Q [] = True"
| "preceded P Q (e # t) = (\<not> P e \<and> (Q e \<or> preceded P Q t))"

lemma preceded_iff: "preceded P Q t \<longleftrightarrow> (\<forall>s e u. t = s @ e # u \<and> P e \<longrightarrow> (\<exists>q \<in> set s. Q q))"
proof (induction t)
  case (Cons x t)
  show ?case
  proof
    assume pre: "preceded P Q (x # t)"
    show "\<forall>s e u. x # t = s @ e # u \<and> P e \<longrightarrow> (\<exists>q \<in> set s. Q q)"
    proof (intro allI impI, elim conjE)
      fix s e u assume "x # t = s @ e # u" and "P e"
      with pre Cons.IH show "\<exists>q \<in> set s. Q q"
        by (cases s) fastforce+
    qed
  next
    assume r: "\<forall>s e u. x # t = s @ e # u \<and> P e \<longrightarrow> (\<exists>q \<in> set s. Q q)"
    have "\<not> P x" using r by (metis append_Nil empty_iff empty_set)
    moreover have "Q x \<or> preceded P Q t"
      unfolding Cons.IH using r by (metis append_Cons set_ConsD)
    ultimately show "preceded P Q (x # t)" by simp
  qed
qed simp

lemma preceded_none: "list_all (\<lambda>e. \<not> P e) t \<Longrightarrow> preceded P Q t"
  by (induction t) auto

lemma preceded_append: "list_all (\<lambda>e. \<not> P e) s \<Longrightarrow> preceded P Q u \<Longrightarrow> preceded P Q (s @ u)"
  by (induction s) auto

lemma preceded_both: "preceded P Q s \<Longrightarrow> preceded P Q u \<Longrightarrow> preceded P Q (s @ u)"
  by (induction s) auto

lemma preceded_after: "preceded P Q s \<Longrightarrow> list_ex Q s \<Longrightarrow> preceded P Q (s @ u)"
  by (induction s) auto

section \<open>Retrying\<close>

text \<open>
  \<^verbatim>\<open>retry.RetryOnConflict\<close> of client-go is not part of the repository.  Its documentation
  says: it runs the function; when that returns a conflict error it waits and runs it again;
  any other result is returned as it is; and when it gives up after too many conflicts it
  returns an error.  \<open>retried\<close> is that description, with the environment free to change while
  it waits, and \<open>retry_contract\<close> says that a given implementation follows it.
\<close>

inductive retried ::
  "('err \<Rightarrow> bool) \<Rightarrow> ('e, 'x, 'err option) act \<Rightarrow> ('e, 'x) world \<Rightarrow> 'err option \<Rightarrow> ('e, 'x) world \<Rightarrow> bool"
  for conflict and fn
where
  finished: "run_state fn w = (r, w') \<Longrightarrow> (\<And>e. r = Some e \<Longrightarrow> \<not> conflict e) \<Longrightarrow>
    retried conflict fn w r w'"
| gave_up: "run_state fn w = (Some e, w') \<Longrightarrow> conflict e \<Longrightarrow> retried conflict fn w (Some e') w'"
| again: "run_state fn w = (Some e, w1) \<Longrightarrow> conflict e \<Longrightarrow>
    retried conflict fn (w1\<lparr>ext := x\<rparr>) r w' \<Longrightarrow> retried conflict fn w r w'"

definition retry_contract ::
  "('err \<Rightarrow> bool) \<Rightarrow> (('e, 'x, 'err option) act \<Rightarrow> ('e, 'x, 'err option) act) \<Rightarrow> bool" where
  "retry_contract conflict retry \<longleftrightarrow>
     (\<forall>fn w. retried conflict fn w (fst (run_state (retry fn) w)) (snd (run_state (retry fn) w)))"

text \<open>
  Whatever holds of the events of one attempt and is kept under concatenation holds of all
  attempts together; and success means that the last attempt succeeded.
\<close>

definition attempts :: "('err option \<Rightarrow> 'e list \<Rightarrow> bool) \<Rightarrow> 'err option \<Rightarrow> 'e list \<Rightarrow> bool" where
  "attempts F r t \<longleftrightarrow>
     (\<exists>ts u r'. t = concat ts @ u \<and> (\<forall>s \<in> set ts. \<exists>e. F (Some e) s) \<and> F r' u \<and>
        (r = None \<longleftrightarrow> r' = None))"

lemma retried_attempts:
  assumes "retried conflict fn w r w'" and F: "emits fn F"
  shows "\<exists>t. trace w' = trace w @ t \<and> attempts F r t"
  using assms(1)
proof (induction rule: retried.induct)
  case (finished w r w')
  from emits_run [OF F finished.hyps(1)] obtain u
    where u: "trace w' = trace w @ u" "F r u" by blast
  have "attempts F r u"
    unfolding attempts_def by (rule exI [of _ "[]"], rule exI [of _ u], rule exI [of _ r]) (simp add: u)
  with u show ?case by blast
next
  case (gave_up w e w' e')
  from emits_run [OF F gave_up.hyps(1)] obtain u
    where u: "trace w' = trace w @ u" "F (Some e) u" by blast
  have "attempts F (Some e') u"
    unfolding attempts_def
    by (rule exI [of _ "[]"], rule exI [of _ u], rule exI [of _ "Some e"]) (simp add: u)
  with u show ?case by blast
next
  case (again w e w1 x r w')
  from emits_run [OF F again.hyps(1)] obtain s
    where s: "trace w1 = trace w @ s" "F (Some e) s" by blast
  from again.IH obtain ts u r' where t: "trace w' = trace w1 @ concat ts @ u"
    "\<forall>s \<in> set ts. \<exists>e. F (Some e) s" "F r' u" "r = None \<longleftrightarrow> r' = None"
    unfolding attempts_def by auto
  have "attempts F r (s @ concat ts @ u)"
    unfolding attempts_def
    by (rule exI [of _ "s # ts"], rule exI [of _ u], rule exI [of _ r'])
      (use s t in auto)
  with s(1) t(1) show ?case by (metis append.assoc)
qed

lemma emits_retry:
  assumes "retry_contract conflict retry" and "emits fn F"
  shows "emits (retry fn) (attempts F)"
  unfolding emits_def
proof (intro allI impI)
  fix w r w' assume "run_state (retry fn) w = (r, w')"
  moreover have "retried conflict fn w (fst (run_state (retry fn) w)) (snd (run_state (retry fn) w))"
    using assms(1) unfolding retry_contract_def by blast
  ultimately show "\<exists>t. trace w' = trace w @ t \<and> attempts F r t"
    using retried_attempts [OF _ assms(2)] by simp
qed

lemma attempts_events:
  assumes "attempts F r t" and "\<And>r t e. F r t \<Longrightarrow> e \<in> set t \<Longrightarrow> P e"
  shows "\<forall>e \<in> set t. P e"
  using assms unfolding attempts_def by fastforce

lemma attempts_success: "attempts F None t \<Longrightarrow> \<exists>s u. t = s @ u \<and> F None u"
  unfolding attempts_def by auto

lemma every_retry:
  assumes "retry_contract conflict retry" and "every P fn"
  shows "every P (retry fn)"
proof (rule every_emits [OF emits_retry [OF assms(1) assms(2) [unfolded every_def]]])
  fix r t assume "attempts (\<lambda>r t. list_all P t) r t"
  then have "\<forall>e \<in> set t. P e" by (rule attempts_events) (simp add: list_all_iff)
  then show "list_all P t" by (simp add: list_all_iff)
qed

text \<open>An attempt that succeeds at once is not repeated.\<close>

lemma retry_at_once:
  assumes "retry_contract conflict retry" and "run_state fn w = (None, w')"
  shows "run_state (retry fn) w = (None, w')"
proof -
  have "retried conflict fn w (fst (run_state (retry fn) w)) (snd (run_state (retry fn) w))"
    using assms(1) unfolding retry_contract_def by blast
  then have "run_state fn w = (fst (run_state (retry fn) w), snd (run_state (retry fn) w))"
    by cases (use assms(2) in auto)
  with assms(2) show ?thesis by simp
qed

end
