(* ===== verification/Go_Text.thy ===== *)
theory Go_Text
  imports Prelude
begin

text \<open>
  The string functions of Go's standard library that the operator calls: UTF-8 decoding
  (package \<^verbatim>\<open>unicode/utf8\<close>), \<^verbatim>\<open>strings.TrimSpace\<close>, \<^verbatim>\<open>strings.ToLower\<close>, \<^verbatim>\<open>strings.Join\<close>,
  \<^verbatim>\<open>strconv.Itoa\<close> and the \<^verbatim>\<open>%q\<close> verb of \<^verbatim>\<open>fmt\<close> (\<^verbatim>\<open>strconv.Quote\<close>).
  Strings are byte lists throughout.

  \<^verbatim>\<open>strings.TrimSpace\<close> removes the runes of \<^verbatim>\<open>unicode.IsSpace\<close> at both ends.  A byte
  sequence that is not valid UTF-8 decodes to the error rune, which is no space, so trimming
  stops there; removing whole encodings of space runes (\<open>space_runes\<close>) does the same.

  \<^verbatim>\<open>strconv.Quote\<close> leaves a rune as it is when \<^verbatim>\<open>strconv.IsPrint\<close> holds.  For ASCII that
  is the range from space to tilde; for the other runes it is a table of the Unicode version
  the Go release was built with, which is a parameter (\<open>isPrint\<close>) of the quoting function.
\<close>

section \<open>Bytes\<close>

abbreviation byte :: "char \<Rightarrow> int" where
  "byte c \<equiv> of_char c"

definition chr :: "int \<Rightarrow> char" where
  "chr n = char_of n"

definition bytes :: "int list \<Rightarrow> string" where
  "bytes ns = map chr ns"

section \<open>UTF-8\<close>

text \<open>\<open>utf8.RuneError\<close>; together with the width 1 it marks an invalid byte.\<close>

definition RuneError :: int where
  "RuneError = 65533"

definition cont :: "int \<Rightarrow> bool" where
  "cont b = (128 \<le> b \<and> b \<le> 191)"

text \<open>
  The second byte of a three- or four-byte encoding is restricted further: no overlong forms,
  no surrogates, nothing beyond U+10FFFF.
\<close>

definition second_ok :: "int \<Rightarrow> int \<Rightarrow> bool" where
  "second_ok b0 b1 =
     (if b0 = 224 then 160 \<le> b1 \<and> b1 \<le> 191
      else if b0 = 237 then 128 \<le> b1 \<and> b1 \<le> 159
      else if b0 = 240 then 144 \<le> b1 \<and> b1 \<le> 191
      else if b0 = 244 then 128 \<le> b1 \<and> b1 \<le> 143
      else cont b1)"

fun DecodeRune :: "string \<Rightarrow> int \<times> nat" where
  "DecodeRune [] = (RuneError, 0)"
| "DecodeRune (c0 # rest) =
     (let b0 = byte c0 in
      if b0 < 128 then (b0, 1)
      else if 194 \<le> b0 \<and> b0 \<le> 223 then
        (case rest of c1 # _ \<Rightarrow>
           if cont (byte c1) then ((b0 - 192) * 64 + (byte c1 - 128), 2) else (RuneError, 1)
         | _ \<Rightarrow> (RuneError, 1))
      else if 224 \<le> b0 \<and> b0 \<le> 239 then
        (case rest of c1 # c2 # _ \<Rightarrow>
           if second_ok b0 (byte c1) \<and> cont (byte c2)
           then ((b0 - 224) * 4096 + (byte c1 - 128) * 64 + (byte c2 - 128), 3)
           else (RuneError, 1)
         | _ \<Rightarrow> (RuneError, 1))
      else if 240 \<le> b0 \<and> b0 \<le> 244 then
        (case rest of c1 # c2 # c3 # _ \<Rightarrow>
           if second_ok b0 (byte c1) \<and> cont (byte c2) \<and> cont (byte c3)
           then ((b0 - 240) * 262144 + (byte c1 - 128) * 4096
                 + (byte c2 - 128) * 64 + (byte c3 - 128), 4)
           else (RuneError, 1)
         | _ \<Rightarrow> (RuneError, 1))
      else (RuneError, 1))"

lemma DecodeRune_width:
  "s \<noteq> [] \<Longrightarrow> 1 \<le> snd (DecodeRune s) \<and> snd (DecodeRune s) \<le> length s"
  by (cases s) (auto simp: Let_def split: list.splits)

section \<open>Trimming white space\<close>

text \<open>
  The UTF-8 encodings of the runes of \<^verbatim>\<open>unicode.IsSpace\<close>: tab, newline, vertical tab, form
  feed, carriage return, space, U+0085, U+00A0, U+1680, U+2000 to U+200A, U+2028, U+2029,
  U+202F, U+205F and U+3000.
\<close>

definition space_runes :: "string list" where
  "space_runes =
     map bytes [[9], [10], [11], [12], [13], [32], [194, 133], [194, 160], [225, 154, 128],
       [226, 128, 128], [226, 128, 129], [226, 128, 130], [226, 128, 131], [226, 128, 132],
       [226, 128, 133], [226, 128, 134], [226, 128, 135], [226, 128, 136], [226, 128, 137],
       [226, 128, 138], [226, 128, 168], [226, 128, 169], [226, 128, 175], [226, 129, 159],
       [227, 128, 128]]"

function strip :: "string list \<Rightarrow> string \<Rightarrow> string" where
  "strip es s =
     (case find (\<lambda>e. e \<noteq> [] \<and> prefix e s) es of
        None \<Rightarrow> s
      | Some e \<Rightarrow> strip es (drop (length e) s))"
  by pat_completeness auto
termination
  by (relation "measure (\<lambda>(es, s). length s)") (auto simp: find_Some_iff prefix_def)

declare strip.simps [simp del]

definition TrimLeftSpace :: "string \<Rightarrow> string" where
  "TrimLeftSpace s = strip space_runes s"

definition TrimRightSpace :: "string \<Rightarrow> string" where
  "TrimRightSpace s = rev (strip (map rev space_runes) (rev s))"

definition TrimSpace :: "string \<Rightarrow> string" where
  "TrimSpace s = TrimRightSpace (TrimLeftSpace s)"

text \<open>\<open>strings.TrimSpace(s) == ""\<close>, the test for a blank field.\<close>

definition blank :: "string \<Rightarrow> bool" where
  "blank s = (TrimSpace s = [])"

lemma strip_suffix: "suffix (strip es s) s"
proof (induction es s rule: strip.induct)
  case (1 es s)
  show ?case
    using 1 by (subst strip.simps)
      (auto split: option.splits intro: suffix_order.trans suffix_drop)
qed

lemma strip_no_prefix:
  "e \<in> set es \<Longrightarrow> e \<noteq> [] \<Longrightarrow> \<not> prefix e (strip es s)"
proof (induction es s rule: strip.induct)
  case (1 es s)
  show ?case
  proof (cases "find (\<lambda>e. e \<noteq> [] \<and> prefix e s) es")
    case None
    then have "strip es s = s"
      by (simp add: strip.simps [of es s])
    with None "1.prems" show ?thesis
      by (auto simp: find_None_iff)
  next
    case (Some x)
    with "1.IH" [OF Some "1.prems"] show ?thesis
      by (simp add: strip.simps [of es s])
  qed
qed

lemma strip_fixed:
  "(\<And>e. e \<in> set es \<Longrightarrow> e \<noteq> [] \<Longrightarrow> \<not> prefix e s) \<Longrightarrow> strip es s = s"
  by (subst strip.simps) (auto simp: find_Some_iff split: option.splits)

lemma strip_strip [simp]: "strip es (strip es s) = strip es s"
  by (rule strip_fixed) (rule strip_no_prefix)

lemma strip_Nil [simp]: "strip es [] = []"
  using strip_suffix [of es "[]"] by simp

lemma TrimRightSpace_prefix: "prefix (TrimRightSpace s) s"
  using strip_suffix [of "map rev space_runes" "rev s"]
  by (simp add: TrimRightSpace_def suffix_to_prefix)

lemma TrimSpace_length: "length (TrimSpace s) \<le> length s"
  using prefix_length_le [OF TrimRightSpace_prefix, of "TrimLeftSpace s"]
    suffix_length_le [OF strip_suffix, of space_runes s]
  by (simp add: TrimSpace_def TrimLeftSpace_def)

lemma TrimSpace_sublist: "sublist (TrimSpace s) s"
  using TrimRightSpace_prefix [of "TrimLeftSpace s"] strip_suffix [of space_runes s]
  by (simp add: TrimSpace_def TrimLeftSpace_def sublist_altdef') blast?

lemma TrimSpace_idem [simp]: "TrimSpace (TrimSpace s) = TrimSpace s"
proof -
  have "TrimLeftSpace (TrimSpace s) = TrimSpace s"
    unfolding TrimLeftSpace_def
  proof (rule strip_fixed)
    fix e assume e: "e \<in> set space_runes" "e \<noteq> []"
    have "prefix (TrimSpace s) (strip space_runes s)"
      by (simp add: TrimSpace_def TrimLeftSpace_def TrimRightSpace_prefix)
    with strip_no_prefix [OF e, of s] show "\<not> prefix e (TrimSpace s)"
      using prefix_order.trans by blast
  qed
  moreover have "TrimRightSpace (TrimSpace s) = TrimSpace s"
    by (simp add: TrimSpace_def TrimRightSpace_def)
  ultimately show ?thesis
    by (simp add: TrimSpace_def [of "TrimSpace s"])
qed

lemma TrimSpace_Nil [simp]: "TrimSpace [] = []"
  by (simp add: TrimSpace_def TrimLeftSpace_def TrimRightSpace_def)

lemma blank_Nil [simp]: "blank []"
  by (simp add: blank_def)

lemma trimmed_not_blank: "TrimSpace s = s \<Longrightarrow> s \<noteq> [] \<Longrightarrow> \<not> blank s"
  by (simp add: blank_def)

section \<open>Numbers and joining\<close>

function digits10 :: "int \<Rightarrow> string" where
  "digits10 n = (if n < 10 then [chr (48 + n)] else digits10 (n div 10) @ [chr (48 + n mod 10)])"
  by pat_completeness auto
termination
  by (relation "measure nat") auto

declare digits10.simps [simp del]

definition Itoa :: "int \<Rightarrow> string" where
  "Itoa i = (if i < 0 then ''-'' @ digits10 (- i) else digits10 i)"

fun Join :: "string list \<Rightarrow> string \<Rightarrow> string" where
  "Join [] sep = []"
| "Join [x] sep = x"
| "Join (x # y # xs) sep = x @ sep @ Join (y # xs) sep"

section \<open>Quoting\<close>

definition hex_digit :: "int \<Rightarrow> char" where
  "hex_digit n = (if n < 10 then chr (48 + n) else chr (87 + n))"

text \<open>The \<open>k\<close> low hexadecimal digits of \<open>n\<close>, most significant first.\<close>

fun hex_digits :: "nat \<Rightarrow> int \<Rightarrow> string" where
  "hex_digits 0 n = []"
| "hex_digits (Suc k) n = hex_digits k (n div 16) @ [hex_digit (n mod 16)]"

definition quote_rune :: "(int \<Rightarrow> bool) \<Rightarrow> int \<Rightarrow> string \<Rightarrow> string" where
  "quote_rune isPrint r enc =
     (if r = 34 then bytes [92, 34]
      else if r = 92 then bytes [92, 92]
      else if (if r < 128 then 32 \<le> r \<and> r < 127 else isPrint r) then enc
      else if r = 7 then bytes [92, 97]
      else if r = 8 then bytes [92, 98]
      else if r = 12 then bytes [92, 102]
      else if r = 10 then bytes [92, 110]
      else if r = 13 then bytes [92, 114]
      else if r = 9 then bytes [92, 116]
      else if r = 11 then bytes [92, 118]
      else if r < 32 \<or> r = 127 then bytes [92, 120] @ hex_digits 2 r
      else if r < 65536 then bytes [92, 117] @ hex_digits 4 r
      else bytes [92, 85] @ hex_digits 8 r)"

function quote_body :: "(int \<Rightarrow> bool) \<Rightarrow> string \<Rightarrow> string" where
  "quote_body isPrint [] = []"
| "quote_body isPrint (c # cs) =
     (let (r, w) = DecodeRune (c # cs) in
      if r = RuneError \<and> w = 1
      then bytes [92, 120] @ hex_digits 2 (byte c) @ quote_body isPrint cs
      else quote_rune isPrint r (take w (c # cs)) @ quote_body isPrint (drop (w - 1) cs))"
  by pat_completeness auto
termination
  by (relation "measure (\<lambda>(p, s). length s)") auto

text \<open>\<open>strconv.Quote\<close>, the \<open>%q\<close> verb.\<close>

definition Quote :: "(int \<Rightarrow> bool) \<Rightarrow> string \<Rightarrow> string" where
  "Quote isPrint s = bytes [34] @ quote_body isPrint s @ bytes [34]"

section \<open>Lower case\<close>

text \<open>
  \<open>utf8.EncodeRune\<close>, and \<open>strings.ToLower\<close>: rune by rune, with an invalid byte replaced by the
  error rune.  Beyond ASCII the lower case of a rune is a Unicode table, the parameter \<open>lower\<close>.
\<close>

definition EncodeRune :: "int \<Rightarrow> string" where
  "EncodeRune r0 =
     (let r = (if r0 < 0 \<or> 1114111 < r0 \<or> (55296 \<le> r0 \<and> r0 \<le> 57343) then RuneError else r0) in
      if r < 128 then bytes [r]
      else if r < 2048 then bytes [192 + r div 64, 128 + r mod 64]
      else if r < 65536 then bytes [224 + r div 4096, 128 + r div 64 mod 64, 128 + r mod 64]
      else bytes [240 + r div 262144, 128 + r div 4096 mod 64, 128 + r div 64 mod 64, 128 + r mod 64])"

definition lower_rune :: "(int \<Rightarrow> int) \<Rightarrow> int \<Rightarrow> int" where
  "lower_rune lower r = (if 65 \<le> r \<and> r \<le> 90 then r + 32 else if r < 128 then r else lower r)"

function ToLower :: "(int \<Rightarrow> int) \<Rightarrow> string \<Rightarrow> string" where
  "ToLower lower [] = []"
| "ToLower lower (c # cs) =
     (let (r, w) = DecodeRune (c # cs) in
      EncodeRune (lower_rune lower r) @ ToLower lower (drop (w - 1) cs))"
  by pat_completeness auto
termination
  by (relation "measure (\<lambda>(p, s). length s)") auto

text \<open>Encoding a decoded rune gives the bytes it was decoded from.\<close>

lemma byte_of_chr: "0 \<le> n \<Longrightarrow> n < 256 \<Longrightarrow> byte (chr n) = n"
  by (simp add: chr_def)

lemma chr_byte: "chr (byte c) = c"
  by (simp add: chr_def)

lemma length_hex_digits [simp]: "length (hex_digits k n) = k"
  by (induction k arbitrary: n) simp_all

end
