(* ===== verification/Go_Time.thy ===== *)
theory Go_Time
  imports Go_Text
begin

text \<open>
  The parts of Go's package \<^verbatim>\<open>time\<close> that the operator uses, over integers.

  A \<open>Time\<close> is an instant in nanoseconds since the Unix epoch together with what
  \<^verbatim>\<open>reflect.DeepEqual\<close> sees besides the instant: the location and whether the value carries a
  monotonic clock reading.  Durations are nanoseconds; \<^verbatim>\<open>Time.Sub\<close> saturates at the bounds
  of \<^verbatim>\<open>int64\<close>.  \<open>Format_RFC3339\<close> is \<^verbatim>\<open>t.UTC().Format(time.RFC3339)\<close>, and \<open>Parse_RFC3339\<close> is
  \<^verbatim>\<open>time.Parse(time.RFC3339, s)\<close> with its leniencies (a one-digit hour, a fraction after a
  comma or a period).  The theory proves that parsing undoes formatting up to the second.
\<close>

datatype Location = UTC | Local | FixedZone int

record Time =
  t_ns :: int
  t_loc :: Location
  t_mono :: bool

type_synonym Duration = int

definition Second :: Duration where "Second = 1000000000"
definition Minute :: Duration where "Minute = 60 * Second"

definition maxDuration :: Duration where "maxDuration = 2 ^ 63 - 1"
definition minDuration :: Duration where "minDuration = - (2 ^ 63)"

text \<open>January 1 of year 1, 00:00:00 UTC: the zero \<open>Time\<close>.\<close>

definition zero_ns :: int where
  "zero_ns = - 62135596800 * 1000000000"

definition Time_IsZero :: "Time option \<Rightarrow> bool" where
  "Time_IsZero t = (case t of None \<Rightarrow> True | Some t \<Rightarrow> t_ns t = zero_ns)"

definition Time_Add :: "Time \<Rightarrow> Duration \<Rightarrow> Time" where
  "Time_Add t d = t\<lparr>t_ns := t_ns t + d\<rparr>"

definition Time_Sub :: "Time \<Rightarrow> Time \<Rightarrow> Duration" where
  "Time_Sub t u =
     (let d = t_ns t - t_ns u in
      if d > maxDuration then maxDuration else if d < minDuration then minDuration else d)"

definition Time_Before :: "Time \<Rightarrow> Time \<Rightarrow> bool" where
  "Time_Before t u = (t_ns t < t_ns u)"

definition Time_UTC :: "Time \<Rightarrow> Time" where
  "Time_UTC t = t\<lparr>t_loc := UTC\<rparr>"

section \<open>The calendar\<close>

definition isLeap :: "int \<Rightarrow> bool" where
  "isLeap y = (y mod 4 = 0 \<and> (y mod 100 \<noteq> 0 \<or> y mod 400 = 0))"

definition daysIn :: "int \<Rightarrow> int \<Rightarrow> int" where
  "daysIn y m =
     (if m = 2 then (if isLeap y then 29 else 28)
      else if m = 4 \<or> m = 6 \<or> m = 9 \<or> m = 11 then 30 else 31)"

definition daysBefore :: "int \<Rightarrow> int \<Rightarrow> int" where
  "daysBefore y m =
     (if m \<le> 1 then 0 else if m = 2 then 31
      else (if isLeap y then 1 else 0) +
       (if m = 3 then 59 else if m = 4 then 90 else if m = 5 then 120 else if m = 6 then 151
        else if m = 7 then 181 else if m = 8 then 212 else if m = 9 then 243
        else if m = 10 then 273 else if m = 11 then 304 else 334))"

text \<open>Days since January 1 of year 1 of a calendar date.\<close>

definition days_of_year :: "int \<Rightarrow> int" where
  "days_of_year y = (let Y = y - 1 in 365 * Y + Y div 4 - Y div 100 + Y div 400)"

definition days_of_date :: "int \<Rightarrow> int \<Rightarrow> int \<Rightarrow> int" where
  "days_of_date y m d = days_of_year y + daysBefore y m + (d - 1)"

text \<open>The year of a day and the day's index in the year, by 400-, 100-, 4- and 1-year cycles.\<close>

definition year_yday :: "int \<Rightarrow> int \<times> int" where
  "year_yday n =
     (let a = n div 146097; r1 = n mod 146097;
          b = min 3 (r1 div 36524); r2 = r1 - 36524 * b;
          c = r2 div 1461; r3 = r2 mod 1461;
          k = min 3 (r3 div 365)
      in (400 * a + 100 * b + 4 * c + k + 1, r3 - 365 * k))"

function month_from :: "int \<Rightarrow> int \<Rightarrow> int \<Rightarrow> int" where
  "month_from y yd m = (if 12 \<le> m \<or> yd < daysBefore y (m + 1) then m else month_from y yd (m + 1))"
  by pat_completeness auto
termination
  by (relation "measure (\<lambda>(y, yd, m). nat (12 - m))") auto

declare month_from.simps [simp del]

definition month_day :: "int \<Rightarrow> int \<Rightarrow> int \<times> int" where
  "month_day y yd = (let m = month_from y yd 1 in (m, yd - daysBefore y m + 1))"

definition date_of_days :: "int \<Rightarrow> int \<times> int \<times> int" where
  "date_of_days n = (let (y, yd) = year_yday n; (m, d) = month_day y yd in (y, m, d))"

text \<open>Days from January 1 of year 1 to the Unix epoch.\<close>

definition unix_days :: int where
  "unix_days = 719162"

lemma year_cycles:
  assumes "0 \<le> b" "b \<le> 3" "0 \<le> c" "c \<le> 24" "0 \<le> k" "k \<le> 3"
  shows "(400 * a + 100 * b + 4 * c + k) div 4 = 100 * a + 25 * b + (c :: int)"
    and "(400 * a + 100 * b + 4 * c + k) div 100 = 4 * a + b"
    and "(400 * a + 100 * b + 4 * c + k) div 400 = a"
  using assms by auto

lemma year_yday_parts:
  fixes n :: int
  defines "a \<equiv> n div 146097" and "r1 \<equiv> n mod 146097"
  defines "b \<equiv> min 3 (r1 div 36524)"
  defines "r2 \<equiv> r1 - 36524 * b"
  defines "c \<equiv> r2 div 1461" and "r3 \<equiv> r2 mod 1461"
  defines "k \<equiv> min 3 (r3 div 365)"
  shows "year_yday n = (400 * a + 100 * b + 4 * c + k + 1, r3 - 365 * k)"
    and "n = 146097 * a + 36524 * b + 1461 * c + r3"
    and "0 \<le> b" "b \<le> 3" "0 \<le> c" "c \<le> 24" "0 \<le> k" "k \<le> 3"
    and "0 \<le> r3 - 365 * k" "r3 - 365 * k \<le> 365"
    and "r3 - 365 * k = 365 \<Longrightarrow> k = 3 \<and> (c \<noteq> 24 \<or> b = 3)"
proof -
  have r1: "0 \<le> r1" "r1 < 146097" by (simp_all add: r1_def)
  then show b: "0 \<le> b" "b \<le> 3" by (simp_all add: b_def)
  define q m where qm: "q = r1 div 36524" "m = r1 mod 36524"
  then have q: "r1 = 36524 * q + m" "0 \<le> m" "m < 36524" by simp_all
  have b': "b = (if q < 3 then q else 3)" by (simp add: b_def qm min_def)
  have r2: "0 \<le> r2" "r2 \<le> 36524" "b < 3 \<Longrightarrow> r2 < 36524"
    unfolding r2_def b' using r1 q by (cases "q < 3"; simp; linarith)+
  have r3: "0 \<le> r3" "r3 < 1461" by (simp_all add: r3_def)
  have c2: "r2 = 1461 * c + r3" by (simp add: c_def r3_def)
  with r2 r3 show c: "0 \<le> c" "c \<le> 24" by auto
  show k: "0 \<le> k" "k \<le> 3" using r3 by (simp_all add: k_def)
  define q' m' where qm': "q' = r3 div 365" "m' = r3 mod 365"
  then have q': "r3 = 365 * q' + m'" "0 \<le> m'" "m' < 365" by simp_all
  have k': "k = (if q' < 3 then q' else 3)" by (simp add: k_def qm' min_def)
  show yd: "0 \<le> r3 - 365 * k" "r3 - 365 * k \<le> 365"
    unfolding k' using r3 q' by (cases "q' < 3"; simp; linarith)+
  show "year_yday n = (400 * a + 100 * b + 4 * c + k + 1, r3 - 365 * k)"
    unfolding year_yday_def Let_def a_def b_def c_def k_def r1_def r2_def r3_def by (rule refl)
  show "n = 146097 * a + 36524 * b + 1461 * c + r3"
    using c2 mult_div_mod_eq [of 146097 n] unfolding r2_def a_def r1_def by linarith
  assume full: "r3 - 365 * k = 365"
  then have "k = 3" using q' unfolding k' by (auto split: if_splits)
  moreover have "b < 3 \<or> b = 3" using b by linarith
  then have "c \<noteq> 24 \<or> b = 3" using full \<open>k = 3\<close> c2 r2 by auto
  ultimately show "k = 3 \<and> (c \<noteq> 24 \<or> b = 3)" ..
qed

lemma leap_cycles:
  fixes a b c k :: int
  assumes "0 \<le> b" "b \<le> 3" "0 \<le> c" "c \<le> 24" "k = 3" "c \<noteq> 24 \<or> b = 3"
  shows "isLeap (400 * a + 100 * b + 4 * c + k + 1)"
proof -
  have y: "400 * a + 100 * b + 4 * c + k + 1 = 4 * (c + 1) + 100 * (b + 4 * a)"
    using assms by simp
  have m4: "(4 * (c + 1) + 100 * (b + 4 * a)) mod 4 = 0" by presburger
  have m100: "(4 * (c + 1) + 100 * (b + 4 * a)) mod 100 = 4 * (c + 1) mod 100"
    by (rule mod_mult_self2)
  show ?thesis
  proof (cases "c = 24")
    case True
    then have "b = 3" using assms(6) by simp
    then have "4 * (c + 1) + 100 * (b + 4 * a) = 400 * (a + 1)"
      using True by simp
    then have "(4 * (c + 1) + 100 * (b + 4 * a)) mod 400 = 0"
      by (simp only: mod_mult_self1_is_0)
    then show ?thesis using m4 unfolding y isLeap_def by simp
  next
    case False
    then have "4 * (c + 1) mod 100 = 4 * (c + 1)"
      using assms by (intro mod_pos_pos_trivial) auto
    then show ?thesis using m4 m100 assms(3) unfolding y isLeap_def by simp
  qed
qed

lemma year_yday_correct:
  assumes "year_yday n = (y, yd)"
  shows "days_of_year y + yd = n" and "0 \<le> yd" and "yd \<le> (if isLeap y then 365 else 364)"
proof -
  obtain a b c r3 k where P:
    "year_yday n = (400 * a + 100 * b + 4 * c + k + 1, r3 - 365 * k)"
    "n = 146097 * a + 36524 * b + 1461 * c + r3"
    "0 \<le> b" "b \<le> 3" "0 \<le> c" "c \<le> 24" "0 \<le> k" "k \<le> 3"
    "0 \<le> r3 - 365 * k" "r3 - 365 * k \<le> 365"
    "r3 - 365 * k = 365 \<Longrightarrow> k = 3 \<and> (c \<noteq> 24 \<or> b = 3)"
    by (rule that [OF year_yday_parts])
  from P(1) assms have y: "y = 400 * a + 100 * b + 4 * c + k + 1" and yd: "yd = r3 - 365 * k"
    by simp_all
  show "days_of_year y + yd = n"
    using P(2) year_cycles [OF P(3-8), of a] by (simp add: days_of_year_def y yd)
  show "0 \<le> yd" using P(9) by (simp add: yd)
  show "yd \<le> (if isLeap y then 365 else 364)"
  proof (cases "yd = 365")
    case True
    then have "isLeap y"
      unfolding y using P(11) leap_cycles [OF P(3-6), of k a] by (simp add: yd)
    with True show ?thesis by simp
  next
    case False
    then show ?thesis using P(10) by (simp add: yd)
  qed
qed

lemma daysBefore_Suc: "1 \<le> m \<Longrightarrow> m < 12 \<Longrightarrow> daysBefore y (m + 1) = daysBefore y m + daysIn y m"
proof -
  assume "1 \<le> m" and "m < 12"
  then have "m \<in> {1, 2, 3, 4, 5, 6, 7, 8, 9, 10, 11}"
    unfolding insert_iff empty_iff by presburger
  then show ?thesis
    by (elim insertE) (simp_all add: daysBefore_def daysIn_def)
qed

lemma month_from_correct:
  assumes "1 \<le> m" and "m \<le> 12" and "daysBefore y m \<le> yd"
  shows "1 \<le> month_from y yd m \<and> month_from y yd m \<le> 12
    \<and> daysBefore y (month_from y yd m) \<le> yd
    \<and> (month_from y yd m < 12 \<longrightarrow> yd < daysBefore y (month_from y yd m + 1))"
  using assms
proof (induction y yd m rule: month_from.induct)
  case (1 y yd m)
  then show ?case
    by (cases "12 \<le> m \<or> yd < daysBefore y (m + 1)") (auto simp: month_from.simps [of y yd m])
qed

lemma month_day_correct:
  assumes "month_day y yd = (m, d)" and "0 \<le> yd" and "yd \<le> (if isLeap y then 365 else 364)"
  shows "1 \<le> m" and "m \<le> 12" and "1 \<le> d" and "d \<le> daysIn y m" and "daysBefore y m + (d - 1) = yd"
proof -
  have m: "m = month_from y yd 1" and d: "d = yd - daysBefore y m + 1"
    using assms(1) by (auto simp: month_day_def Let_def)
  have "daysBefore y 1 \<le> yd" using assms(2) by (simp add: daysBefore_def)
  then have M: "1 \<le> m" "m \<le> 12" "daysBefore y m \<le> yd" "m < 12 \<longrightarrow> yd < daysBefore y (m + 1)"
    using month_from_correct [of 1 y yd] by (auto simp: m)
  then show "1 \<le> m" "m \<le> 12" "1 \<le> d" "daysBefore y m + (d - 1) = yd"
    by (simp_all add: d)
  show "d \<le> daysIn y m"
  proof (cases "m = 12")
    case True
    then show ?thesis using assms(3) by (simp add: d daysBefore_def daysIn_def split: if_splits)
  next
    case False
    then show ?thesis using M daysBefore_Suc [of m y] by (simp add: d)
  qed
qed

lemma date_of_days_correct:
  assumes "date_of_days n = (y, m, d)"
  shows "days_of_date y m d = n" and "1 \<le> m" and "m \<le> 12" and "1 \<le> d" and "d \<le> daysIn y m"
proof -
  obtain yd where y: "year_yday n = (y, yd)" and md: "month_day y yd = (m, d)"
    using assms by (auto simp: date_of_days_def Let_def split: prod.splits)
  note Y = year_yday_correct [OF y] and M = month_day_correct [OF md]
  show "days_of_date y m d = n"
    using Y M(5) by (simp add: days_of_date_def)
  show "1 \<le> m" "m \<le> 12" "1 \<le> d" "d \<le> daysIn y m"
    using Y M by simp_all
qed

section \<open>Durations as text\<close>

text \<open>
  \<open>fmtFrac(v, prec)\<close>: the fraction \<open>v mod 10^prec\<close> as digits without trailing zeros, with its
  period, or nothing when it is zero.
\<close>

fun fmtFrac :: "nat \<Rightarrow> int \<Rightarrow> string \<Rightarrow> bool \<Rightarrow> string" where
  "fmtFrac 0 v acc seen = (if seen then ''.'' @ acc else [])"
| "fmtFrac (Suc k) v acc seen =
     (let seen' = (seen \<or> v mod 10 \<noteq> 0)
      in fmtFrac k (v div 10) (if seen' then chr (48 + v mod 10) # acc else acc) seen')"

text \<open>\<open>Duration.String\<close>; the micro sign is the UTF-8 encoding of U+00B5.\<close>

definition duration_abs :: "int \<Rightarrow> string" where
  "duration_abs u =
     (if u = 0 then ''0s''
      else if u < 1000 then digits10 u @ ''ns''
      else if u < 1000000 then digits10 (u div 1000) @ fmtFrac 3 u [] False @ bytes [194, 181, 115]
      else if u < 1000000000 then digits10 (u div 1000000) @ fmtFrac 6 u [] False @ ''ms''
      else
        (let sec = u div 1000000000; mins = sec div 60; hours = mins div 60
         in (if 0 < hours then digits10 hours @ ''h'' else [])
            @ (if 0 < mins then digits10 (mins mod 60) @ ''m'' else [])
            @ digits10 (sec mod 60) @ fmtFrac 9 u [] False @ ''s''))"

definition Duration_String :: "Duration \<Rightarrow> string" where
  "Duration_String d = (if d < 0 then ''-'' @ duration_abs (- d) else duration_abs d)"

section \<open>RFC 3339\<close>

text \<open>\<open>k\<close> decimal digits of \<open>n\<close>, most significant first.\<close>

fun pad_digits :: "nat \<Rightarrow> int \<Rightarrow> string" where
  "pad_digits 0 n = []"
| "pad_digits (Suc k) n = pad_digits k (n div 10) @ [chr (48 + n mod 10)]"

text \<open>\<open>appendInt(b, year, 4)\<close>: at least four digits, with a sign when negative.\<close>

definition format_year :: "int \<Rightarrow> string" where
  "format_year y =
     (if y < 0 then ''-'' @ (if - y < 10000 then pad_digits 4 (- y) else digits10 (- y))
      else if y < 10000 then pad_digits 4 y else digits10 y)"

definition unix_seconds :: "Time \<Rightarrow> int" where
  "unix_seconds t = t_ns t div 1000000000"

definition Format_RFC3339 :: "Time \<Rightarrow> string" where
  "Format_RFC3339 t =
     (let s = unix_seconds t; (y, m, d) = date_of_days (s div 86400 + unix_days); sod = s mod 86400
      in format_year y @ ''-'' @ pad_digits 2 m @ ''-'' @ pad_digits 2 d @ ''T''
         @ pad_digits 2 (sod div 3600) @ '':'' @ pad_digits 2 (sod div 60 mod 60) @ '':''
         @ pad_digits 2 (sod mod 60) @ ''Z'')"

definition digit :: "char \<Rightarrow> int option" where
  "digit c = (if 48 \<le> byte c \<and> byte c \<le> 57 then Some (byte c - 48) else None)"

text \<open>\<open>k\<close> digits exactly.\<close>

fun get_digits :: "nat \<Rightarrow> int \<Rightarrow> string \<Rightarrow> (int \<times> string) option" where
  "get_digits 0 acc s = Some (acc, s)"
| "get_digits (Suc k) acc [] = None"
| "get_digits (Suc k) acc (c # s) =
     (case digit c of None \<Rightarrow> None | Some v \<Rightarrow> get_digits k (10 * acc + v) s)"

text \<open>\<open>getnum(s, false)\<close>: one or two digits.\<close>

definition getnum_lenient :: "string \<Rightarrow> (int \<times> string) option" where
  "getnum_lenient s =
     (case get_digits 2 0 s of Some r \<Rightarrow> Some r | None \<Rightarrow> get_digits 1 0 s)"

fun expect :: "string \<Rightarrow> string \<Rightarrow> string option" where
  "expect [] s = Some s"
| "expect (p # ps) [] = None"
| "expect (p # ps) (c # s) = (if p = c then expect ps s else None)"

text \<open>
  A fraction of a second after a period or a comma: the first nine digits count, the rest are
  skipped.
\<close>

definition parse_fraction :: "string \<Rightarrow> int \<times> string" where
  "parse_fraction s =
     (case s of
        c # d # rest \<Rightarrow>
          if (c = CHR ''.'' \<or> c = CHR '','') \<and> digit d \<noteq> None then
            (let ds = takeWhile (\<lambda>x. digit x \<noteq> None) (d # rest);
                 nine = take 9 (map (\<lambda>x. the (digit x)) ds @ replicate 9 0)
             in (foldl (\<lambda>a v. 10 * a + v) 0 nine, drop (length ds) (d # rest)))
          else (0, s)
      | _ \<Rightarrow> (0, s))"

text \<open>\<open>Z07:00\<close>: the letter Z, or a sign, two digits, a colon and two digits.\<close>

definition parse_zone :: "string \<Rightarrow> (Location \<times> int \<times> string) option" where
  "parse_zone s =
     (case s of
        [] \<Rightarrow> None
      | c # rest \<Rightarrow>
          if c = CHR ''Z'' then Some (UTC, 0, rest)
          else if c = CHR ''+'' \<or> c = CHR ''-'' then
            Option.bind (get_digits 2 0 rest) (\<lambda>(hr, s1).
            Option.bind (expect '':'' s1) (\<lambda>s2.
            Option.bind (get_digits 2 0 s2) (\<lambda>(mm, s3).
              if hr > 24 \<or> mm > 60 then None
              else let off = (if c = CHR ''+'' then 1 else -1) * (hr * 60 + mm) * 60
                   in Some (FixedZone off, off, s3))))
          else None)"

definition Parse_RFC3339 :: "string \<Rightarrow> Time option" where
  "Parse_RFC3339 s =
     Option.bind (get_digits 4 0 s) (\<lambda>(y, s1).
     Option.bind (expect ''-'' s1) (\<lambda>s2.
     Option.bind (get_digits 2 0 s2) (\<lambda>(m, s3).
     if m < 1 \<or> 12 < m then None else
     Option.bind (expect ''-'' s3) (\<lambda>s4.
     Option.bind (get_digits 2 0 s4) (\<lambda>(d, s5).
     Option.bind (expect ''T'' s5) (\<lambda>s6.
     Option.bind (getnum_lenient s6) (\<lambda>(hh, s7).
     if 24 \<le> hh then None else
     Option.bind (expect '':'' s7) (\<lambda>s8.
     Option.bind (get_digits 2 0 s8) (\<lambda>(mi, s9).
     if 60 \<le> mi then None else
     Option.bind (expect '':'' s9) (\<lambda>s10.
     Option.bind (get_digits 2 0 s10) (\<lambda>(ss, s11).
     if 60 \<le> ss then None else
     let (nsec, s12) = parse_fraction s11 in
     Option.bind (parse_zone s12) (\<lambda>(loc, off, s13).
     if s13 \<noteq> [] \<or> d < 1 \<or> daysIn y m < d then None
     else Some \<lparr>t_ns = (((days_of_date y m d - unix_days) * 86400 + hh * 3600 + mi * 60 + ss - off)
                         * 1000000000 + nsec),
                 t_loc = loc, t_mono = False\<rparr>))))))))))))"

lemma byte_chr: "0 \<le> n \<Longrightarrow> n < 256 \<Longrightarrow> byte (chr n) = n"
  by (simp add: chr_def)

lemma digit_chr: "0 \<le> n \<Longrightarrow> n < 10 \<Longrightarrow> digit (chr (48 + n)) = Some n"
  by (simp add: digit_def byte_chr)

lemma get_digits_append:
  "get_digits j acc s = Some (v, s') \<Longrightarrow> get_digits (j + k) acc s = get_digits k v s'"
  by (induction j acc s rule: get_digits.induct) (auto split: option.splits)

lemma get_pad_digits:
  "0 \<le> n \<Longrightarrow> n < 10 ^ k \<Longrightarrow> get_digits k acc (pad_digits k n @ s) = Some (acc * 10 ^ k + n, s)"
proof (induction k arbitrary: n s)
  case 0
  then show ?case by simp
next
  case (Suc k)
  have "get_digits k acc (pad_digits k (n div 10) @ chr (48 + n mod 10) # s)
      = Some (acc * 10 ^ k + n div 10, chr (48 + n mod 10) # s)"
    using Suc.prems by (intro Suc.IH) auto
  from get_digits_append [OF this, of 1]
  show ?case by (simp add: digit_chr algebra_simps)
qed

lemma get_pad_digits2: "0 \<le> n \<Longrightarrow> n < 100 \<Longrightarrow> get_digits 2 0 (pad_digits 2 n @ s) = Some (n, s)"
  using get_pad_digits [of n 2 0 s] by simp

lemma getnum_pad_digits2: "0 \<le> n \<Longrightarrow> n < 100 \<Longrightarrow> getnum_lenient (pad_digits 2 n @ s) = Some (n, s)"
  by (simp add: getnum_lenient_def get_pad_digits2)

lemma expect_append [simp]: "expect p (p @ s) = Some s"
  by (induction p) simp_all

text \<open>The year of an instant lies between 0 and 9999, the range RFC 3339 can write.\<close>

definition rfc3339_range :: "Time \<Rightarrow> bool" where
  "rfc3339_range t =
     (let (y, m, d) = date_of_days (unix_seconds t div 86400 + unix_days) in 0 \<le> y \<and> y < 10000)"

lemma Parse_fields:
  assumes "0 \<le> y" "y < 10000" "1 \<le> m" "m \<le> 12" "1 \<le> d" "d \<le> daysIn y m"
    "0 \<le> hh" "hh < 24" "0 \<le> mi" "mi < 60" "0 \<le> ss" "ss < 60"
  shows "Parse_RFC3339 (pad_digits 4 y @ ''-'' @ pad_digits 2 m @ ''-'' @ pad_digits 2 d @ ''T''
      @ pad_digits 2 hh @ '':'' @ pad_digits 2 mi @ '':'' @ pad_digits 2 ss @ ''Z'')
    = Some \<lparr>t_ns = ((days_of_date y m d - unix_days) * 86400 + hh * 3600 + mi * 60 + ss) * 1000000000,
            t_loc = UTC, t_mono = False\<rparr>"
proof -
  have y4: "get_digits 4 0 (pad_digits 4 y @ s) = Some (y, s)" for s
    using get_pad_digits [of y 4 0 s] assms by simp
  have "d < 100" using assms(6) by (simp add: daysIn_def split: if_splits)
  then show ?thesis
    using assms
    by (simp add: Parse_RFC3339_def y4 get_pad_digits2 getnum_pad_digits2 parse_fraction_def
        parse_zone_def)
qed

lemma seconds_of_day:
  fixes s :: int
  defines "sod \<equiv> s mod 86400"
  shows "s div 86400 * 86400 + sod div 3600 * 3600 + sod div 60 mod 60 * 60 + sod mod 60 = s"
    and "0 \<le> sod div 3600" and "sod div 3600 < 24"
proof -
  have "sod div 60 div 60 = sod div 3600"
    by (simp add: zdiv_zmult2_eq [symmetric])
  then have "sod div 3600 * 3600 + sod div 60 mod 60 * 60 + sod mod 60 = sod"
    using div_mult_mod_eq [of sod 60] div_mult_mod_eq [of "sod div 60" 60] by linarith
  moreover have "s div 86400 * 86400 + sod = s" by (simp add: sod_def)
  ultimately show "s div 86400 * 86400 + sod div 3600 * 3600 + sod div 60 mod 60 * 60 + sod mod 60 = s"
    by linarith
  have "0 \<le> sod" "sod < 86400" by (simp_all add: sod_def)
  then show "0 \<le> sod div 3600" "sod div 3600 < 24"
    using div_mult_mod_eq [of sod 3600] pos_mod_bound [of 3600 sod] pos_mod_sign [of 3600 sod]
    by linarith+
qed

lemma Parse_Format_RFC3339:
  assumes "rfc3339_range t"
  shows "Parse_RFC3339 (Format_RFC3339 t)
     = Some \<lparr>t_ns = unix_seconds t * 1000000000, t_loc = UTC, t_mono = False\<rparr>"
proof -
  obtain y m d where ymd: "date_of_days (unix_seconds t div 86400 + unix_days) = (y, m, d)"
    by (metis prod_cases3)
  note D = date_of_days_correct [OF ymd] and S = seconds_of_day [of "unix_seconds t"]
  have y: "0 \<le> y" "y < 10000"
    using assms ymd by (auto simp: rfc3339_range_def)
  have days: "days_of_date y m d - unix_days = unix_seconds t div 86400" using D(1) by simp
  define sod where "sod = unix_seconds t mod 86400"
  have mi: "0 \<le> sod div 60 mod 60" "sod div 60 mod 60 < 60" and ss: "0 \<le> sod mod 60" "sod mod 60 < 60"
    by simp_all
  have f: "Format_RFC3339 t = pad_digits 4 y @ ''-'' @ pad_digits 2 m @ ''-'' @ pad_digits 2 d @ ''T''
         @ pad_digits 2 (sod div 3600) @ '':'' @ pad_digits 2 (sod div 60 mod 60) @ '':''
         @ pad_digits 2 (sod mod 60) @ ''Z''"
    unfolding Format_RFC3339_def Let_def ymd format_year_def sod_def using y by simp
  show ?thesis
    unfolding f Parse_fields [OF y D(2-5) S(2,3) [folded sod_def] mi ss] days
    using S(1) [folded sod_def] by (simp only:)
qed

end
