(* ===== verification/K8s_Meta.thy ===== *)
theory K8s_Meta
  imports Go_Time
begin

text \<open>
  The data of the Kubernetes libraries that the operator's code handles: object metadata,
  status conditions, Secrets, error values and reconcile results, each with the fields the
  source reads or writes.  These libraries are not part of the repository, so their functions
  are parameters, gathered in the record \<open>klib\<close>: the finalizer helpers of controller-runtime's
  \<^verbatim>\<open>controllerutil\<close>, \<^verbatim>\<open>meta.SetStatusCondition\<close> of apimachinery, and the tables of printable
  runes behind \<^verbatim>\<open>%q\<close> and of lower case.  \<open>finalizer_contract\<close> and \<open>condition_contract\<close> state what their
  documentation promises.
\<close>

section \<open>Errors\<close>

text \<open>
  An API status error carries the reason that \<^verbatim>\<open>apierrors.IsNotFound\<close> and its kin look for;
  \<open>Sentinel\<close> is an error variable compared by \<^verbatim>\<open>errors.Is\<close>; \<open>WrapError\<close> is
  \<^verbatim>\<open>fmt.Errorf\<close> with \<^verbatim>\<open>%w\<close>, with the whole message and the wrapped error.
\<close>

datatype StatusReason = NotFound | Conflict | AlreadyExists | Forbidden | Unauthorized | OtherReason

datatype goerror =
    StatusError StatusReason string
  | ErrorString string
  | Sentinel string
  | WrapError string goerror

primrec Error :: "goerror \<Rightarrow> string" where
  "Error (StatusError r msg) = msg"
| "Error (ErrorString msg) = msg"
| "Error (Sentinel msg) = msg"
| "Error (WrapError msg e) = msg"

primrec ReasonForError :: "goerror \<Rightarrow> StatusReason option" where
  "ReasonForError (StatusError r msg) = Some r"
| "ReasonForError (ErrorString msg) = None"
| "ReasonForError (Sentinel msg) = None"
| "ReasonForError (WrapError msg e) = ReasonForError e"

primrec errors_Is :: "goerror \<Rightarrow> string \<Rightarrow> bool" where
  "errors_Is (StatusError r msg) s = False"
| "errors_Is (ErrorString msg) s = False"
| "errors_Is (Sentinel msg) s = (msg = s)"
| "errors_Is (WrapError msg e) s = errors_Is e s"

abbreviation IsNotFound :: "goerror \<Rightarrow> bool" where
  "IsNotFound e \<equiv> ReasonForError e = Some NotFound"

abbreviation IsAlreadyExists :: "goerror \<Rightarrow> bool" where
  "IsAlreadyExists e \<equiv> ReasonForError e = Some AlreadyExists"

abbreviation IsConflict :: "goerror \<Rightarrow> bool" where
  "IsConflict e \<equiv> ReasonForError e = Some Conflict"

section \<open>Objects\<close>

record NamespacedName =
  nn_Namespace :: string
  nn_Name :: string

definition NamespacedName_String :: "NamespacedName \<Rightarrow> string" where
  "NamespacedName_String k = nn_Namespace k @ ''/'' @ nn_Name k"

record ObjectMeta =
  om_Name :: string
  om_Namespace :: string
  om_UID :: string
  om_ResourceVersion :: string
  om_Generation :: int
  om_DeletionTimestamp :: "Time option"
  om_Finalizers :: "string list"
  om_Labels :: strmap
  om_Annotations :: strmap

definition ObjectKeyFromMeta :: "ObjectMeta \<Rightarrow> NamespacedName" where
  "ObjectKeyFromMeta m = \<lparr>nn_Namespace = om_Namespace m, nn_Name = om_Name m\<rparr>"

record Secret =
  sec_Meta :: ObjectMeta
  sec_Type :: string
  sec_Data :: bytemap

datatype ConditionStatus = ConditionTrue | ConditionFalse | ConditionUnknown

record Condition =
  cond_Type :: string
  cond_Status :: ConditionStatus
  cond_ObservedGeneration :: int
  cond_LastTransitionTime :: Time
  cond_Reason :: string
  cond_Message :: string

definition zero_time :: Time where
  "zero_time = \<lparr>t_ns = zero_ns, t_loc = UTC, t_mono = False\<rparr>"

text \<open>\<open>ctrl.Result\<close>.\<close>

record Result =
  res_Requeue :: bool
  res_RequeueAfter :: Duration

definition no_requeue :: Result where
  "no_requeue = \<lparr>res_Requeue = False, res_RequeueAfter = 0\<rparr>"

definition requeue_now :: Result where
  "requeue_now = \<lparr>res_Requeue = True, res_RequeueAfter = 0\<rparr>"

definition requeue_after :: "Duration \<Rightarrow> Result" where
  "requeue_after d = \<lparr>res_Requeue = False, res_RequeueAfter = d\<rparr>"

section \<open>Library functions\<close>

record klib =
  lib_ContainsFinalizer :: "string list \<Rightarrow> string \<Rightarrow> bool"
  lib_AddFinalizer :: "string list \<Rightarrow> string \<Rightarrow> string list"
  lib_RemoveFinalizer :: "string list \<Rightarrow> string \<Rightarrow> string list"
  lib_SetStatusCondition :: "Time \<Rightarrow> Condition list \<Rightarrow> Condition \<Rightarrow> Condition list"
  lib_IsPrint :: "int \<Rightarrow> bool"
  lib_ToLower :: "int \<Rightarrow> int"

definition finalizer_contract :: "klib \<Rightarrow> bool" where
  "finalizer_contract L \<longleftrightarrow>
     (\<forall>fs f. lib_ContainsFinalizer L fs f = (f \<in> set fs)) \<and>
     (\<forall>fs f. set (lib_AddFinalizer L fs f) = insert f (set fs)) \<and>
     (\<forall>fs f. set (lib_RemoveFinalizer L fs f) = set fs - {f})"

text \<open>
  \<^verbatim>\<open>SetStatusCondition\<close> updates the first condition of the type in place, keeping its
  transition time when the status stays the same and setting it to the current time otherwise,
  and appends the condition when there is none of the type.  The operator only passes
  conditions without a transition time.
\<close>

fun upsert_condition :: "Time \<Rightarrow> Condition list \<Rightarrow> Condition \<Rightarrow> Condition list" where
  "upsert_condition now [] c = [c\<lparr>cond_LastTransitionTime := now\<rparr>]"
| "upsert_condition now (old # cs) c =
     (if cond_Type old = cond_Type c
      then c\<lparr>cond_LastTransitionTime :=
               (if cond_Status old = cond_Status c then cond_LastTransitionTime old else now)\<rparr> # cs
      else old # upsert_condition now cs c)"

definition condition_contract :: "klib \<Rightarrow> bool" where
  "condition_contract L \<longleftrightarrow>
     (\<forall>now cs c. cond_LastTransitionTime c = zero_time
        \<longrightarrow> lib_SetStatusCondition L now cs c = upsert_condition now cs c)"

text \<open>The condition of a type, as \<open>meta.FindStatusCondition\<close> finds it.\<close>

definition find_condition :: "Condition list \<Rightarrow> string \<Rightarrow> Condition option" where
  "find_condition cs ty = find (\<lambda>c. cond_Type c = ty) cs"

definition condition_is :: "Condition list \<Rightarrow> string \<Rightarrow> ConditionStatus \<Rightarrow> string \<Rightarrow> bool" where
  "condition_is cs ty st reason =
     (case find_condition cs ty of None \<Rightarrow> False | Some c \<Rightarrow> cond_Status c = st \<and> cond_Reason c = reason)"

lemma find_condition_upsert:
  "find_condition (upsert_condition now cs c) ty =
     (if ty = cond_Type c
      then Some (c\<lparr>cond_LastTransitionTime :=
        (case find_condition cs ty of
           Some old \<Rightarrow> if cond_Status old = cond_Status c then cond_LastTransitionTime old else now
         | None \<Rightarrow> now)\<rparr>)
      else find_condition cs ty)"
  by (induction cs) (auto simp: find_condition_def)

lemma upsert_condition_idem [simp]:
  "upsert_condition now' (upsert_condition now cs c) c = upsert_condition now cs c"
  by (induction cs) simp_all

lemma upsert_condition_types:
  "map cond_Type (upsert_condition now cs c) =
     (if cond_Type c \<in> cond_Type ` set cs then map cond_Type cs else map cond_Type cs @ [cond_Type c])"
  by (induction cs) auto

lemma upsert_condition_distinct:
  "distinct (map cond_Type cs) \<Longrightarrow> distinct (map cond_Type (upsert_condition now cs c))"
  by (auto simp: upsert_condition_types)

end
