(* ===== verification/Api_Types.thy ===== *)
theory Api_Types
  imports K8s_Meta
begin

text \<open>
  The API types of \<^verbatim>\<open>api/v1alpha1\<close>: one record per Go struct, with the struct's fields in its
  order.  An embedded struct is a field that holds its record.  A pointer is an option; a
  slice is a list (no code distinguishes a nil slice from an empty one); a map is an optional
  finite map.  \<^verbatim>\<open>apiextensionsv1.JSON\<close> is its raw bytes.  Type metadata (\<^verbatim>\<open>TypeMeta\<close>) carries
  nothing the code reads and is left out.
\<close>

section \<open>Constants\<close>

definition Finalizer :: string where "Finalizer = ''omni.texashpc.com/finalizer''"
definition LegacyFinalizer :: string where "LegacyFinalizer = ''omni.texas-hpc.org/finalizer''"

definition ConditionReady :: string where "ConditionReady = ''Ready''"
definition ConditionStalled :: string where "ConditionStalled = ''Stalled''"
definition ConditionReachable :: string where "ConditionReachable = ''Reachable''"
definition ConditionAccepted :: string where "ConditionAccepted = ''Accepted''"
definition ConditionValidated :: string where "ConditionValidated = ''Validated''"
definition ConditionSynced :: string where "ConditionSynced = ''Synced''"
definition ConditionExported :: string where "ConditionExported = ''Exported''"
definition ConditionReleased :: string where "ConditionReleased = ''Released''"

definition ReasonAccepted :: string where "ReasonAccepted = ''Accepted''"
definition ReasonConnectionReady :: string where "ReasonConnectionReady = ''ConnectionReady''"
definition ReasonConnectionFailed :: string where "ReasonConnectionFailed = ''ConnectionFailed''"
definition ReasonDeleteFailed :: string where "ReasonDeleteFailed = ''DeleteFailed''"
definition ReasonDeleting :: string where "ReasonDeleting = ''Deleting''"
definition ReasonExported :: string where "ReasonExported = ''Exported''"
definition ReasonExportFailed :: string where "ReasonExportFailed = ''ExportFailed''"
definition ReasonHelmInstalled :: string where "ReasonHelmInstalled = ''HelmInstalled''"
definition ReasonHelmUninstalled :: string where "ReasonHelmUninstalled = ''HelmUninstalled''"
definition ReasonHelmUpgraded :: string where "ReasonHelmUpgraded = ''HelmUpgraded''"
definition ReasonReconcileFailed :: string where "ReasonReconcileFailed = ''ReconcileFailed''"
definition ReasonMissingCluster :: string where "ReasonMissingCluster = ''MissingCluster''"
definition ReasonMissingConnection :: string where "ReasonMissingConnection = ''MissingConnection''"
definition ReasonMissingSecret :: string where "ReasonMissingSecret = ''MissingSecret''"
definition ReasonMissingTemplate :: string where "ReasonMissingTemplate = ''MissingTemplate''"
definition ReasonStatusFailed :: string where "ReasonStatusFailed = ''StatusFailed''"
definition ReasonSuspended :: string where "ReasonSuspended = ''Suspended''"
definition ReasonSyncFailed :: string where "ReasonSyncFailed = ''SyncFailed''"
definition ReasonSynced :: string where "ReasonSynced = ''Synced''"
definition ReasonValidated :: string where "ReasonValidated = ''Validated''"
definition ReasonValidationFailed :: string where "ReasonValidationFailed = ''ValidationFailed''"

lemmas condition_type_defs =
  ConditionReady_def ConditionStalled_def ConditionReachable_def ConditionAccepted_def
  ConditionValidated_def ConditionSynced_def ConditionExported_def ConditionReleased_def

section \<open>Shared types\<close>

record LocalObjectReference =
  lor_Name :: string

record SecretKeySelector =
  sks_Name :: string
  sks_Key :: string

record OmniAuthSpec =
  auth_ServiceAccountSecretRef :: SecretKeySelector

record ClusterDeletePolicy =
  cdp_Orphan :: bool
  cdp_DestroyMachines :: bool

record Descriptors =
  d_Labels :: strmap
  d_Annotations :: strmap

type_synonym JSON = string

record Patch =
  pa_File :: string
  pa_Name :: string
  pa_IDOverride :: string
  pa_Labels :: strmap
  pa_Annotations :: strmap
  pa_Inline :: "JSON option"

record KubernetesManifest =
  km_Name :: string
  km_Mode :: string
  km_Inline :: "JSON list"
  km_File :: string

record KubernetesSpec =
  ks_Version :: string
  ks_Manifests :: "KubernetesManifest list"

record TalosSpec =
  ts_Version :: string

record BackupConfiguration =
  bc_Interval :: string

record ClusterFeatures =
  cf_EnableWorkloadProxy :: bool
  cf_UseEmbeddedDiscoveryService :: bool
  cf_DiskEncryption :: bool
  cf_BackupConfiguration :: "BackupConfiguration option"

text \<open>\<open>intstr.IntOrString\<close>: the tag says which of the two values counts.\<close>

datatype IntOrStringType = IntType | StringType

record IntOrString =
  ios_Type :: IntOrStringType
  ios_IntVal :: int
  ios_StrVal :: string

record MachineClass =
  mc_Name :: string
  mc_Size :: IntOrString

record BootstrapSpec =
  bs_ClusterUUID :: string
  bs_Snapshot :: string

record RollingStrategy =
  rs_MaxParallelism :: "int option"

record UpdateStrategy =
  us_Type :: string
  us_Rolling :: "RollingStrategy option"

record MachineSetSpecFields =
  ms_Descriptors :: Descriptors
  ms_Machines :: "string list"
  ms_MachineClass :: "MachineClass option"
  ms_Patches :: "Patch list"
  ms_SystemExtensions :: "string list"
  ms_KernelArgs :: "string list"

record MachineInstallSpec =
  mi_Disk :: string

record CommonStatusFields =
  csf_ObservedGeneration :: int
  csf_Conditions :: "Condition list"

record ConnectionStatusFields =
  cnf_ConnectionRef :: string
  cnf_Endpoint :: string

record SyncStatusFields =
  ssf_ClusterName :: string
  ssf_TemplateHash :: string
  ssf_LastAttemptTime :: "Time option"
  ssf_LastSyncTime :: "Time option"
  ssf_LastSyncOutput :: string
  ssf_LastStatusOutput :: string

text \<open>\<open>NewCondition\<close> leaves the transition time unset.\<close>

definition NewCondition :: "string \<Rightarrow> ConditionStatus \<Rightarrow> int \<Rightarrow> string \<Rightarrow> string \<Rightarrow> Condition" where
  "NewCondition conditionType status observedGeneration reason message =
     \<lparr>cond_Type = conditionType, cond_Status = status,
      cond_ObservedGeneration = observedGeneration, cond_LastTransitionTime = zero_time,
      cond_Reason = reason, cond_Message = message\<rparr>"

definition SetCondition :: "klib \<Rightarrow> Time \<Rightarrow> Condition list \<Rightarrow> Condition \<Rightarrow> Condition list" where
  "SetCondition L now conditions condition = lib_SetStatusCondition L now conditions condition"

section \<open>Resources\<close>

record OmniClusterSpec =
  cs_Descriptors :: Descriptors
  cs_ConnectionRef :: LocalObjectReference
  cs_ClusterName :: string
  cs_Kubernetes :: KubernetesSpec
  cs_Talos :: TalosSpec
  cs_Features :: "ClusterFeatures option"
  cs_Patches :: "Patch list"
  cs_SystemExtensions :: "string list"
  cs_KernelArgs :: "string list"
  cs_TemplateRoot :: string
  cs_DeletePolicy :: ClusterDeletePolicy
  cs_SyncInterval :: Duration
  cs_Suspend :: bool

record OmniClusterStatus =
  cst_Common :: CommonStatusFields
  cst_Connection :: ConnectionStatusFields
  cst_Sync :: SyncStatusFields
  cst_ControlPlaneRef :: string
  cst_WorkersRefs :: "string list"
  cst_MachineRefs :: "string list"

record OmniCluster =
  c_Meta :: ObjectMeta
  c_Spec :: OmniClusterSpec
  c_Status :: OmniClusterStatus

record OmniConnectionSpec =
  ons_Endpoint :: string
  ons_Auth :: OmniAuthSpec
  ons_InsecureSkipTLSVerify :: bool

record OmniConnectionStatus =
  ost_Common :: CommonStatusFields
  ost_Connection :: ConnectionStatusFields
  ost_LastCheckTime :: "Time option"

record OmniConnection =
  on_Meta :: ObjectMeta
  on_Spec :: OmniConnectionSpec
  on_Status :: OmniConnectionStatus

record OmniControlPlaneSpec =
  cps_MachineSet :: MachineSetSpecFields
  cps_ClusterRef :: LocalObjectReference
  cps_BootstrapSpec :: "BootstrapSpec option"

record OmniControlPlaneStatus =
  cpt_Common :: CommonStatusFields
  cpt_ClusterRef :: string

record OmniControlPlane =
  cp_Meta :: ObjectMeta
  cp_Spec :: OmniControlPlaneSpec
  cp_Status :: OmniControlPlaneStatus

record OmniWorkersSpec =
  ws_MachineSet :: MachineSetSpecFields
  ws_ClusterRef :: LocalObjectReference
  ws_WorkerSetName :: string
  ws_UpdateStrategy :: "UpdateStrategy option"
  ws_UpgradeStrategy :: "UpdateStrategy option"
  ws_DeleteStrategy :: "UpdateStrategy option"

record OmniWorkersStatus =
  wst_Common :: CommonStatusFields
  wst_ClusterRef :: string
  wst_WorkerSetName :: string

record OmniWorkers =
  w_Meta :: ObjectMeta
  w_Spec :: OmniWorkersSpec
  w_Status :: OmniWorkersStatus

record OmniMachineSpec =
  mas_Descriptors :: Descriptors
  mas_ClusterRef :: LocalObjectReference
  mas_MachineID :: string
  mas_Locked :: bool
  mas_Install :: "MachineInstallSpec option"
  mas_Patches :: "Patch list"
  mas_SystemExtensions :: "string list"
  mas_KernelArgs :: "string list"

record OmniMachineStatus =
  mast_Common :: CommonStatusFields
  mast_ClusterRef :: string
  mast_MachineID :: string

record OmniMachine =
  m_Meta :: ObjectMeta
  m_Spec :: OmniMachineSpec
  m_Status :: OmniMachineStatus

section \<open>Kubeconfig exports\<close>

definition KubeconfigClusterAdminGroup :: string where
  "KubeconfigClusterAdminGroup = ''system:masters''"

definition KubeconfigExportDeletionPolicyDelete :: string where
  "KubeconfigExportDeletionPolicyDelete = ''Delete''"

definition KubeconfigExportDeletionPolicyOrphan :: string where
  "KubeconfigExportDeletionPolicyOrphan = ''Orphan''"

record KubeconfigTargetSecretRef =
  ktr_Name :: string
  ktr_Namespace :: string
  ktr_Key :: string

record KubeconfigServiceAccountSpec =
  ksa_User :: string
  ksa_Groups :: "string list"
  ksa_AllowClusterAdmin :: bool

record OmniKubeconfigExportSpec =
  kes_ClusterRef :: LocalObjectReference
  kes_TargetSecretRef :: KubeconfigTargetSecretRef
  kes_ServiceAccount :: KubeconfigServiceAccountSpec
  kes_ContextNamespace :: string
  kes_TTL :: Duration
  kes_RenewBefore :: "Duration option"
  kes_DeletionPolicy :: string

record OmniKubeconfigExportStatus =
  ket_Common :: CommonStatusFields
  ket_Connection :: ConnectionStatusFields
  ket_ClusterRef :: string
  ket_ClusterName :: string
  ket_TargetSecretRef :: string
  ket_TargetSecretNamespace :: string
  ket_TargetSecretKey :: string
  ket_ServiceAccountUser :: string
  ket_ServiceAccountGroups :: "string list"
  ket_KubeconfigHash :: string
  ket_ExpirationTime :: "Time option"
  ket_NextRotationTime :: "Time option"
  ket_LastRotationTime :: "Time option"

record OmniKubeconfigExport =
  ke_Meta :: ObjectMeta
  ke_Spec :: OmniKubeconfigExportSpec
  ke_Status :: OmniKubeconfigExportStatus

section \<open>Secret syncs\<close>

definition SecretSyncDeletionPolicyDelete :: string where
  "SecretSyncDeletionPolicyDelete = ''Delete''"

definition SecretSyncDeletionPolicyOrphan :: string where
  "SecretSyncDeletionPolicyOrphan = ''Orphan''"

record SecretSyncKubeconfigSecretRef =
  skr_Name :: string
  skr_Key :: string

record SecretSyncSourceSecretRef =
  ssr_Name :: string

record SecretSyncTargetSecretRef =
  str_Name :: string
  str_Namespace :: string

record OmniSecretSyncSpec =
  sss_ClusterRef :: LocalObjectReference
  sss_KubeconfigSecretRef :: SecretSyncKubeconfigSecretRef
  sss_SourceSecretRef :: SecretSyncSourceSecretRef
  sss_TargetSecretRef :: SecretSyncTargetSecretRef
  sss_Type :: string
  sss_Labels :: strmap
  sss_Annotations :: strmap
  sss_CreateNamespace :: bool
  sss_DeletionPolicy :: string

record OmniSecretSyncStatus =
  sst_Common :: CommonStatusFields
  sst_ClusterRef :: string
  sst_KubeconfigSecretRef :: string
  sst_KubeconfigSecretKey :: string
  sst_SourceSecretRef :: string
  sst_TargetSecretRef :: string
  sst_TargetNamespace :: string
  sst_SecretType :: string
  sst_SecretHash :: string
  sst_LastAttemptTime :: "Time option"
  sst_LastSyncTime :: "Time option"
  sst_LastError :: string

record OmniSecretSync =
  ss_Meta :: ObjectMeta
  ss_Spec :: OmniSecretSyncSpec
  ss_Status :: OmniSecretSyncStatus

section \<open>Helm releases\<close>

definition HelmReleaseDeletionPolicyUninstall :: string where
  "HelmReleaseDeletionPolicyUninstall = ''Uninstall''"

definition HelmReleaseDeletionPolicyOrphan :: string where
  "HelmReleaseDeletionPolicyOrphan = ''Orphan''"

record HelmReleaseKubeconfigSecretRef =
  hkr_Name :: string
  hkr_Key :: string

record OmniHelmChartSpec =
  hcs_Repository :: string
  hcs_Chart :: string
  hcs_Version :: string
  hcs_Values :: "JSON option"

record OmniHelmReleaseSpec =
  hrs_ClusterRef :: LocalObjectReference
  hrs_KubeconfigSecretRef :: HelmReleaseKubeconfigSecretRef
  hrs_ReleaseName :: string
  hrs_Namespace :: string
  hrs_Chart :: OmniHelmChartSpec
  hrs_CreateNamespace :: bool
  hrs_Wait :: bool
  hrs_WaitForJobs :: bool
  hrs_Timeout :: "Duration option"
  hrs_Atomic :: bool
  hrs_DisableHooks :: bool
  hrs_SkipCRDs :: bool
  hrs_MaxHistory :: int
  hrs_DeletionPolicy :: string

record OmniHelmReleaseStatus =
  hst_Common :: CommonStatusFields
  hst_ClusterRef :: string
  hst_KubeconfigSecretRef :: string
  hst_KubeconfigSecretKey :: string
  hst_ReleaseName :: string
  hst_Namespace :: string
  hst_Chart :: string
  hst_ChartVersion :: string
  hst_ReleaseRevision :: int
  hst_ReleaseStatus :: string
  hst_LastAction :: string
  hst_LastAttemptTime :: "Time option"
  hst_LastSuccessTime :: "Time option"
  hst_LastError :: string

record OmniHelmRelease =
  hr_Meta :: ObjectMeta
  hr_Spec :: OmniHelmReleaseSpec
  hr_Status :: OmniHelmReleaseStatus

section \<open>Facts about conditions\<close>

lemma SetCondition_upsert:
  "condition_contract L \<Longrightarrow> cond_LastTransitionTime c = zero_time
    \<Longrightarrow> SetCondition L now cs c = upsert_condition now cs c"
  by (simp add: SetCondition_def condition_contract_def)

lemma NewCondition_time [simp]: "cond_LastTransitionTime (NewCondition ty st g r m) = zero_time"
  and NewCondition_type [simp]: "cond_Type (NewCondition ty st g r m) = ty"
  and NewCondition_status [simp]: "cond_Status (NewCondition ty st g r m) = st"
  and NewCondition_reason [simp]: "cond_Reason (NewCondition ty st g r m) = r"
  and NewCondition_message [simp]: "cond_Message (NewCondition ty st g r m) = m"
  and NewCondition_generation [simp]: "cond_ObservedGeneration (NewCondition ty st g r m) = g"
  by (simp_all add: NewCondition_def)

lemma SetCondition_NewCondition:
  "condition_contract L \<Longrightarrow>
     SetCondition L now cs (NewCondition ty st g r m) = upsert_condition now cs (NewCondition ty st g r m)"
  by (simp add: SetCondition_upsert)

lemma condition_is_upsert:
  "condition_is (upsert_condition now cs c) ty st reason
     = (if ty = cond_Type c then cond_Status c = st \<and> cond_Reason c = reason
        else condition_is cs ty st reason)"
  by (simp add: condition_is_def find_condition_upsert)

end
