(* ===== verification/Go_Encoding.thy ===== *)
theory Go_Encoding
  imports Go_Text "HOL-Library.Word"
begin

unbundle bit_operations_syntax

text \<open>
  The encodings of Go's standard library that the operator hashes and stores with:
  \<^verbatim>\<open>crypto/sha256\<close> over 32-bit words, \<^verbatim>\<open>encoding/hex\<close>, \<^verbatim>\<open>encoding/base64\<close> and the string
  and map cases of \<^verbatim>\<open>json.Marshal\<close>.  All of them are executable functions on byte strings.
\<close>

section \<open>SHA-256\<close>

type_synonym u32 = "32 word"

definition sha_K :: "u32 list" where
  "sha_K = [
    1116352408, 1899447441, 3049323471, 3921009573, 961987163, 1508970993, 2453635748,
    2870763221, 3624381080, 310598401, 607225278, 1426881987, 1925078388, 2162078206,
    2614888103, 3248222580, 3835390401, 4022224774, 264347078, 604807628, 770255983,
    1249150122, 1555081692, 1996064986, 2554220882, 2821834349, 2952996808, 3210313671,
    3336571891, 3584528711, 113926993, 338241895, 666307205, 773529912, 1294757372, 1396182291,
    1695183700, 1986661051, 2177026350, 2456956037, 2730485921, 2820302411, 3259730800,
    3345764771, 3516065817, 3600352804, 4094571909, 275423344, 430227734, 506948616, 659060556,
    883997877, 958139571, 1322822218, 1537002063, 1747873779, 1955562222, 2024104815,
    2227730452, 2361852424, 2428436474, 2756734187, 3204031479, 3329325298]"

definition sha_H0 :: "u32 list" where
  "sha_H0 = [
    1779033703, 3144134277, 1013904242, 2773480762, 1359893119, 2600822924, 528734635,
    1541459225]"

definition sigma0 :: "u32 \<Rightarrow> u32" where
  "sigma0 x = word_rotr 7 x XOR word_rotr 18 x XOR drop_bit 3 x"

definition sigma1 :: "u32 \<Rightarrow> u32" where
  "sigma1 x = word_rotr 17 x XOR word_rotr 19 x XOR drop_bit 10 x"

text \<open>The message schedule, kept with the newest word first.\<close>

fun extend_schedule :: "nat \<Rightarrow> u32 list \<Rightarrow> u32 list" where
  "extend_schedule 0 ws = ws"
| "extend_schedule (Suc n) ws =
     extend_schedule n ((sigma1 (ws ! 1) + ws ! 6 + sigma0 (ws ! 14) + ws ! 15) # ws)"

fun sha_round :: "u32 list \<Rightarrow> u32 \<times> u32 \<Rightarrow> u32 list" where
  "sha_round [a, b, c, d, e, f, g, h] (k, w) =
     (let t1 = h + (word_rotr 6 e XOR word_rotr 11 e XOR word_rotr 25 e)
               + ((e AND f) XOR (NOT e AND g)) + k + w;
          t2 = (word_rotr 2 a XOR word_rotr 13 a XOR word_rotr 22 a)
               + ((a AND b) XOR (a AND c) XOR (b AND c))
      in [t1 + t2, a, b, c, d + t1, e, f, g])"
| "sha_round st kw = st"

definition be_word :: "string \<Rightarrow> u32" where
  "be_word s = word_of_int (foldl (\<lambda>acc c. acc * 256 + byte c) 0 s)"

fun be_words :: "nat \<Rightarrow> string \<Rightarrow> u32 list" where
  "be_words 0 s = []"
| "be_words (Suc n) s = be_word (take 4 s) # be_words n (drop 4 s)"

definition sha_block :: "u32 list \<Rightarrow> string \<Rightarrow> u32 list" where
  "sha_block st blk =
     map2 (+) st (foldl sha_round st (zip sha_K (rev (extend_schedule 48 (rev (be_words 16 blk))))))"

fun sha_blocks :: "nat \<Rightarrow> u32 list \<Rightarrow> string \<Rightarrow> u32 list" where
  "sha_blocks 0 st s = st"
| "sha_blocks (Suc n) st s = sha_blocks n (sha_block st (take 64 s)) (drop 64 s)"

fun be_bytes :: "nat \<Rightarrow> int \<Rightarrow> string" where
  "be_bytes 0 n = []"
| "be_bytes (Suc k) n = be_bytes k (n div 256) @ [chr (n mod 256)]"

text \<open>A one bit, zeros up to 56 bytes modulo 64, and the length in bits as 64 bits.\<close>

definition sha_pad :: "string \<Rightarrow> string" where
  "sha_pad s =
     s @ [chr 128] @ replicate ((119 - length s mod 64) mod 64) (chr 0)
       @ be_bytes 8 (8 * int (length s) mod 2 ^ 64)"

definition sha256 :: "string \<Rightarrow> string" where
  "sha256 s =
     (let p = sha_pad s
      in concat (map (\<lambda>w. be_bytes 4 (uint w)) (sha_blocks (length p div 64) sha_H0 p)))"

definition hex_encode :: "string \<Rightarrow> string" where
  "hex_encode s = concat (map (\<lambda>c. hex_digits 2 (byte c)) s)"

lemma length_be_bytes [simp]: "length (be_bytes k n) = k"
  by (induction k arbitrary: n) simp_all

lemma length_sha_round: "length st = 8 \<Longrightarrow> length (sha_round st kw) = 8"
  by (induction st kw rule: sha_round.induct) (auto simp: Let_def)

lemma length_sha_rounds: "length st = 8 \<Longrightarrow> length (foldl sha_round st kws) = 8"
  by (induction kws arbitrary: st) (auto simp: length_sha_round)

lemma length_sha_blocks: "length st = 8 \<Longrightarrow> length (sha_blocks n st s) = 8"
  by (induction n arbitrary: st s) (auto simp: sha_block_def length_sha_rounds)

lemma length_concat_const: "(\<And>x. x \<in> set xs \<Longrightarrow> length (f x) = n) \<Longrightarrow> length (concat (map f xs)) = n * length xs"
  by (induction xs) auto

lemma length_sha256: "length (sha256 s) = 32"
proof -
  have "length (sha_blocks n sha_H0 p) = 8" for n p
    by (rule length_sha_blocks) (simp add: sha_H0_def)
  then show ?thesis
    by (simp add: sha256_def Let_def length_concat_const [where n = 4])
qed

lemma length_hex_encode: "length (hex_encode s) = 2 * length s"
  by (simp add: hex_encode_def length_concat_const [where n = 2])

text \<open>The padded message is a whole number of blocks.\<close>

lemma sha_pad_blocks: "64 dvd length (sha_pad s)"
proof -
  define q r where qr: "q = length s div 64" "r = length s mod 64"
  then have len: "length s = 64 * q + r" and r: "r < 64" by simp_all
  have "(119 - r) mod 64 = (if r \<le> 55 then 55 - r else 119 - r)"
  proof (cases "r \<le> 55")
    case True
    then have "119 - r = 64 + (55 - r)" by simp
    then show ?thesis using True by (simp only: mod_add_self1) simp
  qed (use r in simp)
  then have "length s + 1 + (119 - r) mod 64 + 8 = 64 * (if r \<le> 55 then q + 1 else q + 2)"
    using r len by auto
  then have "64 dvd length s + 1 + (119 - length s mod 64) mod 64 + 8"
    unfolding qr(2) [symmetric] by (metis dvd_triv_left)
  then show ?thesis
    by (simp add: sha_pad_def ac_simps)
qed

section \<open>Base64\<close>

definition base64_char :: "int \<Rightarrow> char" where
  "base64_char n =
     (if n < 26 then chr (65 + n) else if n < 52 then chr (71 + n) else if n < 62 then chr (n - 4)
      else if n = 62 then CHR ''+'' else CHR ''/'')"

fun base64_encode :: "string \<Rightarrow> string" where
  "base64_encode [] = []"
| "base64_encode [a] =
     [base64_char (byte a div 4), base64_char (byte a mod 4 * 16), CHR ''='', CHR ''='']"
| "base64_encode [a, b] =
     [base64_char (byte a div 4), base64_char (byte a mod 4 * 16 + byte b div 16),
      base64_char (byte b mod 16 * 4), CHR ''='']"
| "base64_encode (a # b # c # s) =
     base64_char (byte a div 4) # base64_char (byte a mod 4 * 16 + byte b div 16)
       # base64_char (byte b mod 16 * 4 + byte c div 64) # base64_char (byte c mod 64)
       # base64_encode s"

section \<open>JSON\<close>

text \<open>
  A string as \<^verbatim>\<open>json.Marshal\<close> writes it: quotes, backslashes and control characters escaped,
  the characters \<open><\<close>, \<open>>\<close> and \<open>&\<close> and the separators U+2028 and U+2029 as \<open>u\<close> escapes, an
  invalid byte as the replacement character.
\<close>

definition json_rune :: "int \<Rightarrow> string \<Rightarrow> string" where
  "json_rune r enc =
     (if r = 34 then bytes [92, 34]
      else if r = 92 then bytes [92, 92]
      else if r = 8 then bytes [92, 98]
      else if r = 12 then bytes [92, 102]
      else if r = 10 then bytes [92, 110]
      else if r = 13 then bytes [92, 114]
      else if r = 9 then bytes [92, 116]
      else if r < 32 \<or> r = 60 \<or> r = 62 \<or> r = 38 \<or> r = 8232 \<or> r = 8233
      then bytes [92, 117] @ hex_digits 4 r
      else enc)"

function json_body :: "string \<Rightarrow> string" where
  "json_body [] = []"
| "json_body (c # cs) =
     (let (r, w) = DecodeRune (c # cs) in
      if r = RuneError \<and> w = 1
      then bytes [92, 117] @ hex_digits 4 RuneError @ json_body cs
      else json_rune r (take w (c # cs)) @ json_body (drop (w - 1) cs))"
  by pat_completeness auto
termination
  by (relation "measure length") auto

definition json_string :: "string \<Rightarrow> string" where
  "json_string s = bytes [34] @ json_body s @ bytes [34]"

definition json_field :: "string \<Rightarrow> string \<Rightarrow> string" where
  "json_field name value = json_string name @ '':'' @ value"

definition json_object :: "string list \<Rightarrow> string" where
  "json_object fields = ''{'' @ Join fields '','' @ ''}''"

text \<open>A slice of strings; a nil slice, which is what copying an empty one gives, is \<open>null\<close>.\<close>

definition json_strings :: "string list \<Rightarrow> string" where
  "json_strings xs = (if xs = [] then ''null'' else ''['' @ Join (map json_string xs) '','' @ '']'')"

text \<open>
  A map of byte slices: keys in order, values in base64.  A nil map and a nil slice are \<open>null\<close>.
\<close>

definition json_bytes :: "string option \<Rightarrow> string" where
  "json_bytes v = (case v of None \<Rightarrow> ''null'' | Some s \<Rightarrow> bytes [34] @ base64_encode s @ bytes [34])"

definition json_byte_map :: "bytemap \<Rightarrow> string" where
  "json_byte_map m =
     (case m of None \<Rightarrow> ''null''
      | Some f \<Rightarrow> json_object
          (map (\<lambda>k. json_field k (case fmlookup f k of Some v \<Rightarrow> json_bytes v | None \<Rightarrow> []))
             (sorted_list_of_fset (fmdom f))))"

end
