(* ===== verification/Secret_Sync.thy ===== *)
theory Secret_Sync
  imports Api_Types Go_Encoding
begin

text \<open>
  The pure part of the package \<^verbatim>\<open>internal/secretsync\<close>: the Secret that a sync wants to see in the
  workload cluster, the hash of its contents, and when a Secret counts as written by an item.
  The names carry the prefix \<open>Sync\<close> where the package \<^verbatim>\<open>internal/kubeconfigexport\<close> has one of the
  same name.

  The lemmas say that the wanted Secret is owned by its item whatever labels and annotations the
  spec adds, and what its hash depends on.
\<close>

section \<open>Names\<close>

definition DefaultKubeconfigKey :: string where "DefaultKubeconfigKey = ''kubeconfig''"
definition SyncManagedByLabel :: string where "SyncManagedByLabel = ''app.kubernetes.io/managed-by''"
definition SyncOwnerUIDLabel :: string where "SyncOwnerUIDLabel = ''omni.texashpc.com/secret-sync-uid''"
definition SyncClusterLabel :: string where "SyncClusterLabel = ''omni.texashpc.com/cluster''"
definition SyncManagedByValue :: string where "SyncManagedByValue = ''omni-cluster-operator''"
definition SyncOwnerAnnotation :: string where "SyncOwnerAnnotation = ''omni.texashpc.com/secret-sync-name''"
definition SyncHashAnnotation :: string where "SyncHashAnnotation = ''omni.texashpc.com/secret-sync-hash''"
definition SyncSourceAnnotation :: string where "SyncSourceAnnotation = ''omni.texashpc.com/secret-sync-source''"
definition SyncContentAnnotation :: string where "SyncContentAnnotation = ''omni.texashpc.com/secret-sync-content''"
definition contentHashVersion :: string where "contentHashVersion = ''v1''"

lemmas sync_name_defs =
  SyncManagedByLabel_def SyncOwnerUIDLabel_def SyncClusterLabel_def SyncManagedByValue_def
  SyncOwnerAnnotation_def SyncHashAnnotation_def SyncSourceAnnotation_def SyncContentAnnotation_def

record Target =
  tg_Namespace :: string
  tg_Name :: string

record SyncResult =
  sr_Target :: Target
  sr_Type :: string
  sr_Hash :: string

definition KubeconfigSecretKey :: "OmniSecretSync \<Rightarrow> string" where
  "KubeconfigSecretKey item =
     (if skr_Key (sss_KubeconfigSecretRef (ss_Spec item)) \<noteq> []
      then skr_Key (sss_KubeconfigSecretRef (ss_Spec item))
      else DefaultKubeconfigKey)"

definition TargetForItem :: "OmniSecretSync \<Rightarrow> Target" where
  "TargetForItem item =
     \<lparr>tg_Namespace = str_Namespace (sss_TargetSecretRef (ss_Spec item)),
      tg_Name = str_Name (sss_TargetSecretRef (ss_Spec item))\<rparr>"

definition namespacedName :: "Target \<Rightarrow> string" where
  "namespacedName target =
     NamespacedName_String \<lparr>nn_Namespace = tg_Namespace target, nn_Name = tg_Name target\<rparr>"

section \<open>Maps\<close>

text \<open>A copied slice is nil when it is empty.\<close>

definition copyByteMap :: "bytemap \<Rightarrow> bytemap" where
  "copyByteMap input =
     (case input of
        None \<Rightarrow> None
      | Some f \<Rightarrow> if f = fmempty then None
                  else Some (fmmap (\<lambda>v. if bytes_of v = [] then None else Some (bytes_of v)) f))"

definition mergeStringMaps_sync :: "strmap \<Rightarrow> strmap \<Rightarrow> strmap" where
  "mergeStringMaps_sync base overrides =
     (if map_len0 base \<and> map_len0 overrides then None
      else Some (map_copy (map_copy fmempty base) overrides))"

section \<open>The wanted Secret\<close>

definition SyncSecretLabels :: "OmniSecretSync \<Rightarrow> string \<Rightarrow> strmap" where
  "SyncSecretLabels item clusterName =
     Some (fmap_of_list
       [(SyncManagedByLabel, SyncManagedByValue), (SyncOwnerUIDLabel, om_UID (ss_Meta item)),
        (SyncClusterLabel, clusterName)])"

definition SyncSecretAnnotations :: "OmniSecretSync \<Rightarrow> Secret \<Rightarrow> strmap" where
  "SyncSecretAnnotations item source =
     Some (fmap_of_list
       [(SyncOwnerAnnotation, om_Name (ss_Meta item)),
        (SyncSourceAnnotation, NamespacedName_String
           \<lparr>nn_Namespace = om_Namespace (sec_Meta source), nn_Name = om_Name (sec_Meta source)\<rparr>)])"

definition DesiredSecret :: "OmniSecretSync \<Rightarrow> Secret \<Rightarrow> string \<Rightarrow> Secret" where
  "DesiredSecret item source clusterName =
     (let target = TargetForItem item;
          secretType = (if sss_Type (ss_Spec item) \<noteq> [] then sss_Type (ss_Spec item) else sec_Type source) in
      \<lparr>sec_Meta =
         \<lparr>om_Name = tg_Name target, om_Namespace = tg_Namespace target, om_UID = [], om_ResourceVersion = [],
          om_Generation = 0, om_DeletionTimestamp = None, om_Finalizers = [],
          om_Labels = mergeStringMaps_sync (sss_Labels (ss_Spec item)) (SyncSecretLabels item clusterName),
          om_Annotations = mergeStringMaps_sync (sss_Annotations (ss_Spec item)) (SyncSecretAnnotations item source)\<rparr>,
       sec_Type = secretType, sec_Data = copyByteMap (sec_Data source)\<rparr>)"

text \<open>
  The payload is marshalled from a struct of strings and byte slices, for which \<^verbatim>\<open>json.Marshal\<close>
  has no error; the error result stays in the type, and the caller keeps its branch for it.
\<close>

definition sync_hash_payload :: "string \<Rightarrow> bytemap \<Rightarrow> string" where
  "sync_hash_payload secretType data =
     json_object
       [json_field ''version'' (json_string contentHashVersion),
        json_field ''type'' (json_string secretType),
        json_field ''data'' (json_byte_map (copyByteMap data))]"

definition SyncHash :: "string \<Rightarrow> bytemap \<Rightarrow> goerror + string" where
  "SyncHash secretType data = Inr (hex_encode (sha256 (sync_hash_payload secretType data)))"

text \<open>The wanted Secret with the hash of its contents.\<close>

definition with_hash :: "string \<Rightarrow> Secret \<Rightarrow> Secret" where
  "with_hash hash desired =
     desired\<lparr>sec_Meta := (sec_Meta desired)\<lparr>om_Annotations :=
        mergeStringMaps_sync (om_Annotations (sec_Meta desired))
          (Some (fmap_of_list [(SyncHashAnnotation, hash), (SyncContentAnnotation, contentHashVersion)]))\<rparr>\<rparr>"

definition SyncIsOwnedSecret :: "OmniSecretSync \<Rightarrow> Secret option \<Rightarrow> bool" where
  "SyncIsOwnedSecret item secret =
     (case secret of
        None \<Rightarrow> False
      | Some s \<Rightarrow>
          if om_UID (ss_Meta item) \<noteq> []
          then map_index (om_Labels (sec_Meta s)) SyncOwnerUIDLabel = om_UID (ss_Meta item)
          else map_index (om_Annotations (sec_Meta s)) SyncOwnerAnnotation = om_Name (ss_Meta item))"

section \<open>Facts\<close>

lemma map_index_merge_sync:
  "map_index (mergeStringMaps_sync base (Some f)) k =
     (case fmlookup f k of Some v \<Rightarrow> v | None \<Rightarrow> map_index base k)"
  by (auto simp: mergeStringMaps_sync_def map_index_def map_len0_def map_copy_def map_get_def
      split: option.splits)

text \<open>No label or annotation of the spec can shadow the operator's own.\<close>

lemma desired_secret_marks:
  "map_index (om_Labels (sec_Meta (DesiredSecret item source name))) SyncOwnerUIDLabel = om_UID (ss_Meta item)"
  "map_index (om_Labels (sec_Meta (DesiredSecret item source name))) SyncManagedByLabel = SyncManagedByValue"
  "map_index (om_Labels (sec_Meta (DesiredSecret item source name))) SyncClusterLabel = name"
  "map_index (om_Annotations (sec_Meta (DesiredSecret item source name))) SyncOwnerAnnotation = om_Name (ss_Meta item)"
  by (simp_all add: DesiredSecret_def Let_def SyncSecretLabels_def SyncSecretAnnotations_def map_index_merge_sync
      fmlookup_of_list sync_name_defs)

lemma with_hash_marks [simp]:
  "om_Labels (sec_Meta (with_hash h s)) = om_Labels (sec_Meta s)"
  "sec_Type (with_hash h s) = sec_Type s" "sec_Data (with_hash h s) = sec_Data s"
  "om_Name (sec_Meta (with_hash h s)) = om_Name (sec_Meta s)"
  "om_Namespace (sec_Meta (with_hash h s)) = om_Namespace (sec_Meta s)"
  "map_index (om_Annotations (sec_Meta (with_hash h s))) SyncHashAnnotation = h"
  "map_index (om_Annotations (sec_Meta (with_hash h s))) SyncOwnerAnnotation =
     map_index (om_Annotations (sec_Meta s)) SyncOwnerAnnotation"
  by (simp_all add: with_hash_def map_index_merge_sync fmlookup_of_list sync_name_defs)

lemma desired_secret_owned: "SyncIsOwnedSecret item (Some (with_hash h (DesiredSecret item source name)))"
  by (simp add: SyncIsOwnedSecret_def desired_secret_marks)

lemma data_index_copy: "data_index (copyByteMap m) k = data_index m k"
  by (auto simp: copyByteMap_def data_index_def map_get_def split: option.splits)

lemma copyByteMap_copy: "copyByteMap (copyByteMap m) = copyByteMap m"
proof (cases m)
  case (Some f)
  have "fmmap g f = fmempty \<longleftrightarrow> f = fmempty" for g :: "string option \<Rightarrow> string option"
    by (metis fmdom_empty fmdom_map fmrestrict_fset_dom fmrestrict_fset_null)
  then show ?thesis
    by (auto simp: copyByteMap_def Some option.map_comp comp_def intro!: fmap_ext option.map_cong)
qed (simp add: copyByteMap_def)

lemma SyncHash_copy: "SyncHash ty (copyByteMap m) = SyncHash ty m"
  by (simp add: SyncHash_def sync_hash_payload_def copyByteMap_copy)

end
