(* ===== verification/Template.thy ===== *)
theory Template
  imports Api_Types Go_Encoding
begin

text \<open>
  The template builder (\<^verbatim>\<open>internal/omnitemplate/builder.go\<close>): the documents of an Omni cluster
  template, the functions that build them from the custom resources, and \<open>Render\<close>.

  The YAML encoder is a third-party package and \<^verbatim>\<open>json.Unmarshal\<close> into an untyped value is
  used only to hand its result to that encoder; both are parameters (\<open>tmpl_lib\<close>).  The encoder
  is a function of the documents it was given: \<open>tl_Encode earlier doc\<close> is the error of encoding
  \<open>doc\<close> after \<open>earlier\<close>, and \<open>tl_Close docs\<close> the bytes of the whole template or the error of
  closing the encoder.

  \<^verbatim>\<open>sort.Slice\<close> promises a sorted permutation and no more.  \<open>Render\<close> uses a stable sort, and
  \<open>Render_any_sort\<close> shows that every other sorted permutation gives the same template
  when the sorted names are distinct.
\<close>

section \<open>Documents\<close>

datatype any =
    AnyNil
  | AnyBool bool
  | AnyInt int
  | AnyFloat int int
  | AnyString string
  | AnyList "any list"
  | AnyMap "(string \<times> any) list"

record manifestDoc =
  md_Name :: string
  md_Mode :: string
  md_Inline :: "any list option"
  md_File :: string

record kubernetesDoc =
  kd_Version :: string
  kd_Manifest :: "manifestDoc list"

record talosDoc =
  td_Version :: string

record backupConfigDoc =
  bd_Interval :: string

record featuresDoc =
  fd_EnableWorkloadProxy :: bool
  fd_UseEmbeddedDiscoveryService :: bool
  fd_DiskEncryption :: bool
  fd_BackupConfiguration :: "backupConfigDoc option"

record patchDoc =
  pd_File :: string
  pd_Name :: string
  pd_IDOverride :: string
  pd_Labels :: strmap
  pd_Annotations :: strmap
  pd_Inline :: "any option"

record machineClassDoc =
  mcd_Name :: string
  mcd_Size :: any

record bootstrapDoc =
  bod_ClusterUUID :: string
  bod_Snapshot :: string

record rollingDoc =
  rd_MaxParallelism :: "int option"

record updateStrategyDoc =
  usd_Type :: string
  usd_Rolling :: "rollingDoc option"

record installDoc =
  id_Disk :: string

record clusterDoc =
  cd_Kind :: string
  cd_Name :: string
  cd_Labels :: strmap
  cd_Annotations :: strmap
  cd_Kubernetes :: kubernetesDoc
  cd_Talos :: talosDoc
  cd_Features :: "featuresDoc option"
  cd_Patches :: "patchDoc list"
  cd_SystemExtensions :: "string list"
  cd_KernelArgs :: "string list"

record controlPlaneDoc =
  cpd_Kind :: string
  cpd_Labels :: strmap
  cpd_Annotations :: strmap
  cpd_Machines :: "string list"
  cpd_MachineClass :: "machineClassDoc option"
  cpd_BootstrapSpec :: "bootstrapDoc option"
  cpd_Patches :: "patchDoc list"
  cpd_SystemExtensions :: "string list"
  cpd_KernelArgs :: "string list"

record workersDoc =
  wd_Kind :: string
  wd_Name :: string
  wd_Labels :: strmap
  wd_Annotations :: strmap
  wd_Machines :: "string list"
  wd_MachineClass :: "machineClassDoc option"
  wd_UpdateStrategy :: "updateStrategyDoc option"
  wd_UpgradeStrategy :: "updateStrategyDoc option"
  wd_DeleteStrategy :: "updateStrategyDoc option"
  wd_Patches :: "patchDoc list"
  wd_SystemExtensions :: "string list"
  wd_KernelArgs :: "string list"

record machineDoc =
  mad_Kind :: string
  mad_Name :: string
  mad_Labels :: strmap
  mad_Annotations :: strmap
  mad_Locked :: bool
  mad_Install :: "installDoc option"
  mad_Patches :: "patchDoc list"
  mad_SystemExtensions :: "string list"
  mad_KernelArgs :: "string list"

datatype doc =
    DocCluster clusterDoc
  | DocControlPlane controlPlaneDoc
  | DocWorkers workersDoc
  | DocMachine machineDoc

record tmpl_lib =
  tl_Unmarshal :: "string \<Rightarrow> goerror + any"
  tl_Encode :: "doc list \<Rightarrow> doc \<Rightarrow> goerror option"
  tl_Close :: "doc list \<Rightarrow> goerror + string"
  tl_IsPrint :: "int \<Rightarrow> bool"

record Inputs =
  in_Cluster :: "OmniCluster option"
  in_ControlPlane :: "OmniControlPlane option"
  in_Workers :: "OmniWorkers list"
  in_Machines :: "OmniMachine list"

record Rendered =
  re_ClusterName :: string
  re_Template :: string
  re_TemplateHash :: string
  re_ControlPlaneRef :: string
  re_WorkersRefs :: "string list"
  re_MachineRefs :: "string list"

section \<open>Names\<close>

definition ClusterName :: "OmniCluster \<Rightarrow> string" where
  "ClusterName cluster =
     (if cs_ClusterName (c_Spec cluster) \<noteq> [] then cs_ClusterName (c_Spec cluster)
      else om_Name (c_Meta cluster))"

definition workerSetName :: "OmniWorkers \<Rightarrow> string" where
  "workerSetName workers =
     (if ws_WorkerSetName (w_Spec workers) \<noteq> [] then ws_WorkerSetName (w_Spec workers)
      else om_Name (w_Meta workers))"

definition machineID :: "OmniMachine \<Rightarrow> string" where
  "machineID machine =
     (if mas_MachineID (m_Spec machine) \<noteq> [] then mas_MachineID (m_Spec machine)
      else om_Name (m_Meta machine))"

section \<open>Building documents\<close>

definition intOrStringValue :: "IntOrString \<Rightarrow> any" where
  "intOrStringValue value =
     (if ios_Type value = StringType then AnyString (ios_StrVal value) else AnyInt (ios_IntVal value))"

definition renderJSON :: "tmpl_lib \<Rightarrow> JSON \<Rightarrow> any" where
  "renderJSON T value =
     (if value = [] then AnyMap []
      else (case tl_Unmarshal T value of Inl err \<Rightarrow> AnyString value | Inr decoded \<Rightarrow> decoded))"

definition renderJSONList :: "tmpl_lib \<Rightarrow> JSON list \<Rightarrow> any list" where
  "renderJSONList T values = map (renderJSON T) values"

definition renderManifestInline :: "tmpl_lib \<Rightarrow> KubernetesManifest \<Rightarrow> any list option" where
  "renderManifestInline T manifest =
     (if km_File manifest \<noteq> [] then None else Some (renderJSONList T (km_Inline manifest)))"

definition renderManifests :: "tmpl_lib \<Rightarrow> KubernetesManifest list \<Rightarrow> manifestDoc list" where
  "renderManifests T manifests =
     map (\<lambda>manifest. \<lparr>md_Name = km_Name manifest, md_Mode = km_Mode manifest,
            md_Inline = renderManifestInline T manifest, md_File = km_File manifest\<rparr>) manifests"

definition renderPatches :: "tmpl_lib \<Rightarrow> Patch list \<Rightarrow> patchDoc list" where
  "renderPatches T patches =
     map (\<lambda>patch. \<lparr>pd_File = pa_File patch, pd_Name = pa_Name patch,
            pd_IDOverride = pa_IDOverride patch, pd_Labels = pa_Labels patch,
            pd_Annotations = pa_Annotations patch,
            pd_Inline = map_option (renderJSON T) (pa_Inline patch)\<rparr>) patches"

definition renderFeatures :: "ClusterFeatures option \<Rightarrow> featuresDoc option" where
  "renderFeatures features =
     (case features of None \<Rightarrow> None
      | Some f \<Rightarrow> Some \<lparr>fd_EnableWorkloadProxy = cf_EnableWorkloadProxy f,
          fd_UseEmbeddedDiscoveryService = cf_UseEmbeddedDiscoveryService f,
          fd_DiskEncryption = cf_DiskEncryption f,
          fd_BackupConfiguration =
            map_option (\<lambda>b. \<lparr>bd_Interval = bc_Interval b\<rparr>) (cf_BackupConfiguration f)\<rparr>)"

definition renderMachineClass :: "MachineClass option \<Rightarrow> machineClassDoc option" where
  "renderMachineClass machineClass =
     map_option (\<lambda>m. \<lparr>mcd_Name = mc_Name m, mcd_Size = intOrStringValue (mc_Size m)\<rparr>) machineClass"

definition renderBootstrap :: "BootstrapSpec option \<Rightarrow> bootstrapDoc option" where
  "renderBootstrap bootstrap =
     map_option (\<lambda>b. \<lparr>bod_ClusterUUID = bs_ClusterUUID b, bod_Snapshot = bs_Snapshot b\<rparr>) bootstrap"

definition renderUpdateStrategy :: "UpdateStrategy option \<Rightarrow> updateStrategyDoc option" where
  "renderUpdateStrategy strategy =
     map_option (\<lambda>s. \<lparr>usd_Type = us_Type s,
       usd_Rolling = map_option (\<lambda>r. \<lparr>rd_MaxParallelism = rs_MaxParallelism r\<rparr>) (us_Rolling s)\<rparr>) strategy"

definition renderInstall :: "MachineInstallSpec option \<Rightarrow> installDoc option" where
  "renderInstall install = map_option (\<lambda>i. \<lparr>id_Disk = mi_Disk i\<rparr>) install"

definition renderCluster :: "tmpl_lib \<Rightarrow> OmniCluster \<Rightarrow> string \<Rightarrow> clusterDoc" where
  "renderCluster T cluster clusterName =
     (let spec = c_Spec cluster in
      \<lparr>cd_Kind = ''Cluster'', cd_Name = clusterName,
       cd_Labels = d_Labels (cs_Descriptors spec),
       cd_Annotations = d_Annotations (cs_Descriptors spec),
       cd_Kubernetes = \<lparr>kd_Version = ks_Version (cs_Kubernetes spec),
                        kd_Manifest = renderManifests T (ks_Manifests (cs_Kubernetes spec))\<rparr>,
       cd_Talos = \<lparr>td_Version = ts_Version (cs_Talos spec)\<rparr>,
       cd_Features = renderFeatures (cs_Features spec),
       cd_Patches = renderPatches T (cs_Patches spec),
       cd_SystemExtensions = cs_SystemExtensions spec,
       cd_KernelArgs = cs_KernelArgs spec\<rparr>)"

definition renderControlPlane :: "tmpl_lib \<Rightarrow> OmniControlPlane \<Rightarrow> controlPlaneDoc" where
  "renderControlPlane T controlPlane =
     (let spec = cp_Spec controlPlane; ms = cps_MachineSet spec in
      \<lparr>cpd_Kind = ''ControlPlane'',
       cpd_Labels = d_Labels (ms_Descriptors ms),
       cpd_Annotations = d_Annotations (ms_Descriptors ms),
       cpd_Machines = ms_Machines ms,
       cpd_MachineClass = renderMachineClass (ms_MachineClass ms),
       cpd_BootstrapSpec = renderBootstrap (cps_BootstrapSpec spec),
       cpd_Patches = renderPatches T (ms_Patches ms),
       cpd_SystemExtensions = ms_SystemExtensions ms,
       cpd_KernelArgs = ms_KernelArgs ms\<rparr>)"

definition renderWorkers :: "tmpl_lib \<Rightarrow> OmniWorkers \<Rightarrow> string \<Rightarrow> workersDoc" where
  "renderWorkers T workers name =
     (let spec = w_Spec workers; ms = ws_MachineSet spec in
      \<lparr>wd_Kind = ''Workers'', wd_Name = name,
       wd_Labels = d_Labels (ms_Descriptors ms),
       wd_Annotations = d_Annotations (ms_Descriptors ms),
       wd_Machines = ms_Machines ms,
       wd_MachineClass = renderMachineClass (ms_MachineClass ms),
       wd_UpdateStrategy = renderUpdateStrategy (ws_UpdateStrategy spec),
       wd_UpgradeStrategy = renderUpdateStrategy (ws_UpgradeStrategy spec),
       wd_DeleteStrategy = renderUpdateStrategy (ws_DeleteStrategy spec),
       wd_Patches = renderPatches T (ms_Patches ms),
       wd_SystemExtensions = ms_SystemExtensions ms,
       wd_KernelArgs = ms_KernelArgs ms\<rparr>)"

definition renderMachine :: "tmpl_lib \<Rightarrow> OmniMachine \<Rightarrow> string \<Rightarrow> machineDoc" where
  "renderMachine T machine ident =
     (let spec = m_Spec machine in
      \<lparr>mad_Kind = ''Machine'', mad_Name = ident,
       mad_Labels = d_Labels (mas_Descriptors spec),
       mad_Annotations = d_Annotations (mas_Descriptors spec),
       mad_Locked = mas_Locked spec,
       mad_Install = renderInstall (mas_Install spec),
       mad_Patches = renderPatches T (mas_Patches spec),
       mad_SystemExtensions = mas_SystemExtensions spec,
       mad_KernelArgs = mas_KernelArgs spec\<rparr>)"

section \<open>Manifest names\<close>

definition claimManifestName ::
  "tmpl_lib \<Rightarrow> (string \<rightharpoonup> string) \<Rightarrow> string \<Rightarrow> string \<Rightarrow> goerror + (string \<rightharpoonup> string)" where
  "claimManifestName T owners name owner =
     (let existing = (case owners name of None \<Rightarrow> [] | Some o' \<Rightarrow> o') in
      if existing \<noteq> []
      then Inl (ErrorString (''duplicate Kubernetes manifest name '' @ Quote (tl_IsPrint T) name
                  @ '' for '' @ owner @ '' conflicts with '' @ existing))
      else Inr (owners(name \<mapsto> owner)))"

definition manifest_owner :: string where
  "manifest_owner = ''OmniCluster.spec.kubernetes.manifests[]''"

fun claim_manifests ::
  "tmpl_lib \<Rightarrow> (string \<rightharpoonup> string) \<Rightarrow> KubernetesManifest list \<Rightarrow> goerror option" where
  "claim_manifests T owners [] = None"
| "claim_manifests T owners (existing # rest) =
     (case claimManifestName T owners (km_Name existing) manifest_owner of
        Inl err \<Rightarrow> Some err
      | Inr owners' \<Rightarrow> claim_manifests T owners' rest)"

definition validateManifestNames :: "tmpl_lib \<Rightarrow> OmniCluster \<Rightarrow> goerror option" where
  "validateManifestNames T cluster =
     claim_manifests T Map.empty (ks_Manifests (cs_Kubernetes (c_Spec cluster)))"

section \<open>Rendering\<close>

definition reserved_worker_set :: string where
  "reserved_worker_set = ''control-planes''"

fun render_workers_loop ::
  "tmpl_lib \<Rightarrow> OmniWorkers list \<Rightarrow> goerror + (doc list \<times> string list)" where
  "render_workers_loop T [] = Inr ([], [])"
| "render_workers_loop T (w # ws) =
     (let name = workerSetName w in
      if name = reserved_worker_set
      then Inl (ErrorString (''workers '' @ Quote (tl_IsPrint T) (om_Name (w_Meta w))
                  @ '' uses reserved workerSetName '' @ Quote (tl_IsPrint T) name))
      else (case render_workers_loop T ws of
              Inl err \<Rightarrow> Inl err
            | Inr (docs, refs) \<Rightarrow>
                Inr (DocWorkers (renderWorkers T w name) # docs, om_Name (w_Meta w) # refs)))"

fun encode_docs :: "tmpl_lib \<Rightarrow> doc list \<Rightarrow> doc list \<Rightarrow> goerror option" where
  "encode_docs T earlier [] = None"
| "encode_docs T earlier (d # ds) =
     (case tl_Encode T earlier d of
        Some err \<Rightarrow> Some (WrapError (''encode template document: '' @ Error err) err)
      | None \<Rightarrow> encode_docs T (earlier @ [d]) ds)"

text \<open>The two sorted slices are arguments here, so that any outcome of \<open>sort.Slice\<close> can be plugged in.\<close>

definition render_sorted ::
  "tmpl_lib \<Rightarrow> OmniCluster \<Rightarrow> OmniControlPlane \<Rightarrow> OmniWorkers list \<Rightarrow> OmniMachine list
     \<Rightarrow> goerror + Rendered" where
  "render_sorted T cluster controlPlane workers machines =
     (let clusterName = ClusterName cluster in
      case validateManifestNames T cluster of
        Some err \<Rightarrow> Inl err
      | None \<Rightarrow>
        (case render_workers_loop T workers of
           Inl err \<Rightarrow> Inl err
         | Inr (workerDocs, workerRefs) \<Rightarrow>
           (let docs = DocCluster (renderCluster T cluster clusterName)
                       # DocControlPlane (renderControlPlane T controlPlane)
                       # workerDocs @ map (\<lambda>m. DocMachine (renderMachine T m (machineID m))) machines in
            case encode_docs T [] docs of
              Some err \<Rightarrow> Inl err
            | None \<Rightarrow>
              (case tl_Close T docs of
                 Inl err \<Rightarrow> Inl (WrapError (''close template encoder: '' @ Error err) err)
               | Inr buf \<Rightarrow>
                   Inr \<lparr>re_ClusterName = clusterName, re_Template = buf,
                        re_TemplateHash = hex_encode (sha256 buf),
                        re_ControlPlaneRef = om_Name (cp_Meta controlPlane),
                        re_WorkersRefs = workerRefs,
                        re_MachineRefs = map (\<lambda>m. om_Name (m_Meta m)) machines\<rparr>))))"

definition Render :: "tmpl_lib \<Rightarrow> Inputs \<Rightarrow> goerror + Rendered" where
  "Render T inp =
     (case in_Cluster inp of
        None \<Rightarrow> Inl (ErrorString ''cluster is required'')
      | Some cluster \<Rightarrow>
        (case in_ControlPlane inp of
           None \<Rightarrow> Inl (ErrorString (''exactly one OmniControlPlane must reference OmniCluster ''
                     @ Quote (tl_IsPrint T) (om_Name (c_Meta cluster))))
         | Some controlPlane \<Rightarrow>
             render_sorted T cluster controlPlane
               (sort_key workerSetName (in_Workers inp)) (sort_key machineID (in_Machines inp))))"

text \<open>
  \<^verbatim>\<open>sort.Slice\<close> does not keep the order of elements with equal keys: it may leave any sorted
  permutation.  \<open>renders\<close> relates the inputs to every outcome the code can have; \<open>Render\<close> is the
  outcome under a stable sort.
\<close>

inductive renders :: "tmpl_lib \<Rightarrow> Inputs \<Rightarrow> goerror + Rendered \<Rightarrow> bool" for T inp where
  no_cluster: "in_Cluster inp = None \<Longrightarrow> renders T inp (Inl (ErrorString ''cluster is required''))"
| no_control_plane: "in_Cluster inp = Some cluster \<Longrightarrow> in_ControlPlane inp = None \<Longrightarrow>
    renders T inp (Inl (ErrorString (''exactly one OmniControlPlane must reference OmniCluster ''
      @ Quote (tl_IsPrint T) (om_Name (c_Meta cluster)))))"
| any_sort: "in_Cluster inp = Some cluster \<Longrightarrow> in_ControlPlane inp = Some controlPlane \<Longrightarrow>
    mset workers = mset (in_Workers inp) \<Longrightarrow> sorted (map workerSetName workers) \<Longrightarrow>
    mset machines = mset (in_Machines inp) \<Longrightarrow> sorted (map machineID machines) \<Longrightarrow>
    renders T inp (render_sorted T cluster controlPlane workers machines)"

inductive_simps renders_iff: "renders T inp r"

section \<open>Facts\<close>

lemma manifest_owner_nonempty [simp]: "manifest_owner \<noteq> []"
  by (simp add: manifest_owner_def)

text \<open>The owners map holds no empty owner, so a name is refused exactly when it was claimed before.\<close>

lemma claim_manifests_None:
  assumes "\<And>n. owners n \<noteq> Some []"
  shows "claim_manifests T owners ms = None
    \<longleftrightarrow> distinct (map km_Name ms) \<and> (\<forall>m \<in> set ms. owners (km_Name m) = None)"
  using assms
proof (induction ms arbitrary: owners)
  case Nil
  then show ?case by simp
next
  case (Cons m ms)
  show ?case
  proof (cases "owners (km_Name m)")
    case None
    have "claim_manifests T (owners(km_Name m \<mapsto> manifest_owner)) ms = None
      \<longleftrightarrow> distinct (map km_Name ms)
        \<and> (\<forall>x \<in> set ms. (owners(km_Name m \<mapsto> manifest_owner)) (km_Name x) = None)"
      using Cons.prems by (intro Cons.IH) simp
    moreover have "km_Name m \<in> km_Name ` set ms \<longleftrightarrow> (\<exists>x \<in> set ms. km_Name x = km_Name m)"
      by (metis imageE image_eqI)
    ultimately show ?thesis
      using None by (auto simp: claimManifestName_def)
  next
    case (Some o')
    then have "o' \<noteq> []" using Cons.prems by auto
    with Some show ?thesis by (simp add: claimManifestName_def)
  qed
qed

lemma validateManifestNames_None:
  "validateManifestNames T cluster = None
    \<longleftrightarrow> distinct (map km_Name (ks_Manifests (cs_Kubernetes (c_Spec cluster))))"
  by (simp add: validateManifestNames_def claim_manifests_None)

lemma render_workers_loop_ok:
  "render_workers_loop T ws = Inr r \<longleftrightarrow>
     (\<forall>w \<in> set ws. workerSetName w \<noteq> reserved_worker_set) \<and>
     r = (map (\<lambda>w. DocWorkers (renderWorkers T w (workerSetName w))) ws, map (\<lambda>w. om_Name (w_Meta w)) ws)"
proof (induction ws arbitrary: r)
  case (Cons w ws)
  show ?case
    using Cons.IH by (cases "render_workers_loop T ws") (auto simp: Let_def)
qed auto

text \<open>The documents of a template, in the order \<open>Render\<close> emits them.\<close>

definition template_docs ::
  "tmpl_lib \<Rightarrow> OmniCluster \<Rightarrow> OmniControlPlane \<Rightarrow> OmniWorkers list \<Rightarrow> OmniMachine list \<Rightarrow> doc list" where
  "template_docs T cluster controlPlane workers machines =
     DocCluster (renderCluster T cluster (ClusterName cluster))
     # DocControlPlane (renderControlPlane T controlPlane)
     # map (\<lambda>w. DocWorkers (renderWorkers T w (workerSetName w))) workers
     @ map (\<lambda>m. DocMachine (renderMachine T m (machineID m))) machines"

lemma render_sorted_ok:
  "render_sorted T cluster controlPlane workers machines = Inr res \<longleftrightarrow>
     distinct (map km_Name (ks_Manifests (cs_Kubernetes (c_Spec cluster)))) \<and>
     (\<forall>w \<in> set workers. workerSetName w \<noteq> reserved_worker_set) \<and>
     encode_docs T [] (template_docs T cluster controlPlane workers machines) = None \<and>
     (\<exists>buf. tl_Close T (template_docs T cluster controlPlane workers machines) = Inr buf \<and>
        res = \<lparr>re_ClusterName = ClusterName cluster, re_Template = buf,
               re_TemplateHash = hex_encode (sha256 buf),
               re_ControlPlaneRef = om_Name (cp_Meta controlPlane),
               re_WorkersRefs = map (\<lambda>w. om_Name (w_Meta w)) workers,
               re_MachineRefs = map (\<lambda>m. om_Name (m_Meta m)) machines\<rparr>)"
proof (cases "render_workers_loop T workers")
  case (Inl err)
  then have "\<not> (\<forall>w \<in> set workers. workerSetName w \<noteq> reserved_worker_set)"
    using render_workers_loop_ok [of T workers] by (metis Inl_Inr_False)
  with Inl show ?thesis
    by (auto simp: render_sorted_def Let_def split: option.splits)
next
  case (Inr p)
  then have ok: "\<forall>w \<in> set workers. workerSetName w \<noteq> reserved_worker_set"
    and p: "p = (map (\<lambda>w. DocWorkers (renderWorkers T w (workerSetName w))) workers,
                map (\<lambda>w. om_Name (w_Meta w)) workers)"
    by (simp_all add: render_workers_loop_ok)
  have "render_sorted T cluster controlPlane workers machines = Inr res \<longleftrightarrow>
     validateManifestNames T cluster = None \<and>
     encode_docs T [] (template_docs T cluster controlPlane workers machines) = None \<and>
     (\<exists>buf. tl_Close T (template_docs T cluster controlPlane workers machines) = Inr buf \<and>
        res = \<lparr>re_ClusterName = ClusterName cluster, re_Template = buf,
               re_TemplateHash = hex_encode (sha256 buf),
               re_ControlPlaneRef = om_Name (cp_Meta controlPlane),
               re_WorkersRefs = map (\<lambda>w. om_Name (w_Meta w)) workers,
               re_MachineRefs = map (\<lambda>m. om_Name (m_Meta m)) machines\<rparr>)"
    by (auto simp: render_sorted_def template_docs_def Inr p Let_def
        split: option.splits sum.splits)
  with ok show ?thesis
    by (simp add: validateManifestNames_None)
qed

lemma Render_some:
  "in_Cluster inp = Some cluster \<Longrightarrow> in_ControlPlane inp = Some controlPlane \<Longrightarrow>
     Render T inp = render_sorted T cluster controlPlane
       (sort_key workerSetName (in_Workers inp)) (sort_key machineID (in_Machines inp))"
  by (simp add: Render_def)

lemma Render_InrE:
  assumes "Render T inp = Inr res"
  obtains cluster controlPlane where "in_Cluster inp = Some cluster"
    and "in_ControlPlane inp = Some controlPlane"
    and "render_sorted T cluster controlPlane
       (sort_key workerSetName (in_Workers inp)) (sort_key machineID (in_Machines inp)) = Inr res"
  using assms by (auto simp: Render_def split: option.splits)

section \<open>Properties\<close>

lemma Render_ok:
  "Render T inp = Inr res \<longleftrightarrow>
     (\<exists>cluster controlPlane workers machines buf.
        in_Cluster inp = Some cluster \<and> in_ControlPlane inp = Some controlPlane \<and>
        workers = sort_key workerSetName (in_Workers inp) \<and>
        machines = sort_key machineID (in_Machines inp) \<and>
        distinct (map km_Name (ks_Manifests (cs_Kubernetes (c_Spec cluster)))) \<and>
        ''control-planes'' \<notin> workerSetName ` set (in_Workers inp) \<and>
        encode_docs T [] (template_docs T cluster controlPlane workers machines) = None \<and>
        tl_Close T (template_docs T cluster controlPlane workers machines) = Inr buf \<and>
        res = \<lparr>re_ClusterName = ClusterName cluster, re_Template = buf,
               re_TemplateHash = hex_encode (sha256 buf),
               re_ControlPlaneRef = om_Name (cp_Meta controlPlane),
               re_WorkersRefs = map (\<lambda>w. om_Name (w_Meta w)) workers,
               re_MachineRefs = map (\<lambda>m. om_Name (m_Meta m)) machines\<rparr>)"
  by (cases "in_Cluster inp"; cases "in_ControlPlane inp")
    (simp_all add: Render_def render_sorted_ok reserved_worker_set_def notin_image_iff)

lemma renders_Render: "renders T inp (Render T inp)"
proof (cases "in_Cluster inp")
  case None
  then show ?thesis unfolding Render_def option.case by (simp only: option.case renders.no_cluster)
next
  case (Some cluster)
  show ?thesis
  proof (cases "in_ControlPlane inp")
    case None
    with Some show ?thesis unfolding Render_def by (simp only: option.case renders.no_control_plane)
  next
    case (Some controlPlane)
    with \<open>in_Cluster inp = Some cluster\<close> show ?thesis
      unfolding Render_def option.case
      by (simp only: option.case) (rule renders.any_sort; simp)
  qed
qed

lemma renders_ok:
  "renders T inp (Inr res) \<longleftrightarrow>
     (\<exists>cluster controlPlane workers machines.
        in_Cluster inp = Some cluster \<and> in_ControlPlane inp = Some controlPlane \<and>
        mset workers = mset (in_Workers inp) \<and> sorted (map workerSetName workers) \<and>
        mset machines = mset (in_Machines inp) \<and> sorted (map machineID machines) \<and>
        render_sorted T cluster controlPlane workers machines = Inr res)"
  unfolding renders_iff by (auto simp: eq_commute)

text \<open>
  Claim C8.  \<open>Render\<close> can return a template exactly when a cluster and a control plane are given,
  the names of the cluster's Kubernetes manifests are distinct, no worker set bears the reserved
  name \<open>control-planes\<close>, and the YAML encoder accepts each of the documents and the end of the
  stream.  The documents are the cluster, the control plane, the workers sorted by set name and the
  machines sorted by machine ID, those with equal names in any order, as \<^verbatim>\<open>sort.Slice\<close> leaves them;
  the result holds their bytes, the SHA-256 of these bytes, and the names of the resources in the
  same order.  The outcome under a stable sort is one of these.
\<close>

theorem Render_ok_iff:
  "(renders T inp (Inr res) \<longleftrightarrow>
     (\<exists>cluster controlPlane workers machines buf.
        in_Cluster inp = Some cluster \<and> in_ControlPlane inp = Some controlPlane \<and>
        mset workers = mset (in_Workers inp) \<and> sorted (map workerSetName workers) \<and>
        mset machines = mset (in_Machines inp) \<and> sorted (map machineID machines) \<and>
        distinct (map km_Name (ks_Manifests (cs_Kubernetes (c_Spec cluster)))) \<and>
        ''control-planes'' \<notin> workerSetName ` set (in_Workers inp) \<and>
        encode_docs T [] (template_docs T cluster controlPlane workers machines) = None \<and>
        tl_Close T (template_docs T cluster controlPlane workers machines) = Inr buf \<and>
        res = \<lparr>re_ClusterName = ClusterName cluster, re_Template = buf,
               re_TemplateHash = hex_encode (sha256 buf),
               re_ControlPlaneRef = om_Name (cp_Meta controlPlane),
               re_WorkersRefs = map (\<lambda>w. om_Name (w_Meta w)) workers,
               re_MachineRefs = map (\<lambda>m. om_Name (m_Meta m)) machines\<rparr>))
   \<and> renders T inp (Render T inp)"
proof -
  have "(\<forall>w \<in> set workers. workerSetName w \<noteq> reserved_worker_set)
      \<longleftrightarrow> ''control-planes'' \<notin> workerSetName ` set (in_Workers inp)"
    if "mset workers = mset (in_Workers inp)" for workers
    using mset_eq_setD [OF that] by (simp add: reserved_worker_set_def notin_image_iff)
  then show ?thesis
    unfolding renders_ok render_sorted_ok by (simp add: renders_Render cong: conj_cong)
qed

text \<open>
  Claim C30.  Whatever sorted permutation \<open>sort.Slice\<close> leaves of the workers and of the machines,
  the outcome of \<open>Render\<close> (its result or its error) is the same, provided the worker set names
  are distinct and the machine IDs are distinct.
\<close>

theorem Render_any_sort:
  assumes "in_Cluster inp = Some cluster" and "in_ControlPlane inp = Some controlPlane"
    and "mset workers = mset (in_Workers inp)" and "sorted (map workerSetName workers)"
    and "mset machines = mset (in_Machines inp)" and "sorted (map machineID machines)"
    and "inj_on workerSetName (set (in_Workers inp))" and "inj_on machineID (set (in_Machines inp))"
  shows "render_sorted T cluster controlPlane workers machines = Render T inp"
  using assms sort_key_unique [of "in_Workers inp" workers workerSetName]
    sort_key_unique [of "in_Machines inp" machines machineID]
  by (simp add: Render_some)

text \<open>
  The template does not depend on the order in which the API server lists the
  resources: permuting the workers and the machines changes neither the result of \<open>Render\<close>, and
  so neither the template bytes nor their hash, nor its error, when the worker set names and the
  machine IDs are distinct.
\<close>

theorem Render_order_independent:
  assumes "in_Cluster inp' = in_Cluster inp" and "in_ControlPlane inp' = in_ControlPlane inp"
    and "mset (in_Workers inp') = mset (in_Workers inp)"
    and "mset (in_Machines inp') = mset (in_Machines inp)"
    and "inj_on workerSetName (set (in_Workers inp))" and "inj_on machineID (set (in_Machines inp))"
  shows "Render T inp' = Render T inp"
proof -
  have "sort_key workerSetName (in_Workers inp') = sort_key workerSetName (in_Workers inp)"
    and "sort_key machineID (in_Machines inp') = sort_key machineID (in_Machines inp)"
    using assms mset_eq_setD [OF assms(3)] mset_eq_setD [OF assms(4)]
    by (intro sort_key_perm_cong; simp)+
  then show ?thesis
    unfolding Render_def by (simp only: assms(1,2))
qed

text \<open>
  A rendered result names every worker and every machine resource exactly once, keeps
  the cluster's Omni name, and its hash is 64 characters long.
\<close>

theorem Render_refs:
  assumes "Render T inp = Inr res" and "in_Cluster inp = Some cluster"
  shows "mset (re_WorkersRefs res) = mset (map (\<lambda>w. om_Name (w_Meta w)) (in_Workers inp))
    \<and> mset (re_MachineRefs res) = mset (map (\<lambda>m. om_Name (m_Meta m)) (in_Machines inp))
    \<and> re_ClusterName res = ClusterName cluster
    \<and> re_TemplateHash res = hex_encode (sha256 (re_Template res))
    \<and> length (re_TemplateHash res) = 64"
proof -
  from assms obtain controlPlane where
    "render_sorted T cluster controlPlane
       (sort_key workerSetName (in_Workers inp)) (sort_key machineID (in_Machines inp)) = Inr res"
    by (auto elim: Render_InrE)
  then show ?thesis
    unfolding render_sorted_ok
    by (elim conjE exE) (simp add: length_hex_encode length_sha256)
qed

end
