(* ===== verification/Helm_Release.thy ===== *)
theory Helm_Release
  imports Template
begin

text \<open>
  The package \<^verbatim>\<open>internal/helmrelease\<close> without its client: how the fields of an OmniHelmRelease are
  read, with their defaults.  \<^verbatim>\<open>json.Unmarshal\<close> is the parameter of \<^theory_text>\<open>Template\<close>.  The result of a
  Helm action is a record; the client returns it as an option, for a nil pointer.
\<close>

section \<open>Constants\<close>

definition DefaultNamespace :: string where "DefaultNamespace = ''default''"
definition HelmDefaultKubeconfigKey :: string where "HelmDefaultKubeconfigKey = ''kubeconfig''"
definition DefaultTimeout :: Duration where "DefaultTimeout = 5 * Minute"
definition DefaultDeletionPolicy :: string where "DefaultDeletionPolicy = HelmReleaseDeletionPolicyUninstall"
definition OCIChartPrefix :: string where "OCIChartPrefix = ''oci://''"
definition ActionInstall :: string where "ActionInstall = ''Install''"
definition ActionUpgrade :: string where "ActionUpgrade = ''Upgrade''"
definition ActionUninstall :: string where "ActionUninstall = ''Uninstall''"
definition StatusDeployed :: string where "StatusDeployed = ''deployed''"
definition StatusUninstalled :: string where "StatusUninstalled = ''uninstalled''"
definition StatusUnknown :: string where "StatusUnknown = ''unknown''"

lemmas helm_action_defs = ActionInstall_def ActionUpgrade_def ActionUninstall_def

record HelmResult =
  he_Action :: string
  he_ReleaseName :: string
  he_Namespace :: string
  he_Chart :: string
  he_ChartVersion :: string
  he_Revision :: int
  he_Status :: string

section \<open>Fields with defaults\<close>

definition IsOCIChartReference :: "string \<Rightarrow> bool" where
  "IsOCIChartReference chart = prefix OCIChartPrefix (TrimSpace chart)"

definition ChartLocator :: "OmniHelmRelease \<Rightarrow> string \<times> string" where
  "ChartLocator item =
     (let chart = hcs_Chart (hrs_Chart (hr_Spec item)) in
      if IsOCIChartReference chart then (chart, []) else (chart, hcs_Repository (hrs_Chart (hr_Spec item))))"

definition ReleaseName :: "OmniHelmRelease \<Rightarrow> string" where
  "ReleaseName item =
     (if hrs_ReleaseName (hr_Spec item) \<noteq> [] then hrs_ReleaseName (hr_Spec item) else om_Name (hr_Meta item))"

definition ReleaseNamespace :: "OmniHelmRelease \<Rightarrow> string" where
  "ReleaseNamespace item =
     (if hrs_Namespace (hr_Spec item) \<noteq> [] then hrs_Namespace (hr_Spec item) else DefaultNamespace)"

definition HelmKubeconfigSecretKey :: "OmniHelmRelease \<Rightarrow> string" where
  "HelmKubeconfigSecretKey item =
     (if hkr_Key (hrs_KubeconfigSecretRef (hr_Spec item)) \<noteq> []
      then hkr_Key (hrs_KubeconfigSecretRef (hr_Spec item))
      else HelmDefaultKubeconfigKey)"

definition Timeout :: "OmniHelmRelease \<Rightarrow> Duration" where
  "Timeout item =
     (case hrs_Timeout (hr_Spec item) of
        None \<Rightarrow> DefaultTimeout
      | Some d \<Rightarrow> if d > 0 then d else DefaultTimeout)"

definition DeletionPolicy :: "OmniHelmRelease \<Rightarrow> string" where
  "DeletionPolicy item =
     (if hrs_DeletionPolicy (hr_Spec item) \<noteq> [] then hrs_DeletionPolicy (hr_Spec item) else DefaultDeletionPolicy)"

text \<open>Helm values: a JSON object, empty when nothing is given.\<close>

type_synonym helm_values = "(string \<times> any) list"

definition Values :: "tmpl_lib \<Rightarrow> OmniHelmRelease \<Rightarrow> goerror + helm_values" where
  "Values T item =
     (case hcs_Values (hrs_Chart (hr_Spec item)) of
        None \<Rightarrow> Inr []
      | Some raw \<Rightarrow>
          if TrimSpace raw = [] then Inr []
          else (case tl_Unmarshal T raw of
             Inl err \<Rightarrow> Inl (WrapError (''decode Helm release values: '' @ Error err) err)
           | Inr decoded \<Rightarrow>
               (case decoded of
                  AnyMap object \<Rightarrow> Inr object
                | _ \<Rightarrow> Inl (ErrorString ''helm release values must be a JSON object''))))"

section \<open>Facts\<close>

lemma Timeout_pos: "0 < Timeout item"
  by (simp add: Timeout_def DefaultTimeout_def Minute_def Second_def split: option.split)

lemma ReleaseNamespace_nonempty: "ReleaseNamespace item \<noteq> []"
  by (simp add: ReleaseNamespace_def DefaultNamespace_def)

lemma ChartLocator_repository:
  "snd (ChartLocator item) = (if IsOCIChartReference (fst (ChartLocator item)) then []
     else hcs_Repository (hrs_Chart (hr_Spec item)))"
  by (simp add: ChartLocator_def Let_def)

end
