(* ===== verification/Go_Path.thy ===== *)
theory Go_Path
  imports Go_Text
begin

text \<open>
  The lexical part of Go's \<^verbatim>\<open>path/filepath\<close> on Unix that the operator uses: \<^verbatim>\<open>Clean\<close>, \<^verbatim>\<open>Join\<close> and
  \<^verbatim>\<open>Rel\<close>.  A path is split at its slashes; cleaning drops empty and \<open>.\<close> elements and lets \<open>..\<close>
  take back the element before it.

  The lemmas say that cleaning is idempotent and that joining a plain name to a path goes one
  level down from it.
\<close>

section \<open>Definitions\<close>

definition slash :: char where "slash = CHR ''/''"

fun split_path :: "string \<Rightarrow> string list" where
  "split_path [] = [[]]"
| "split_path (c # cs) =
     (if c = slash then [] # split_path cs
      else (case split_path cs of [] \<Rightarrow> [[c]] | s # ss \<Rightarrow> (c # s) # ss))"

definition rooted :: "string \<Rightarrow> bool" where
  "rooted p = (case p of [] \<Rightarrow> False | c # cs \<Rightarrow> c = slash)"

text \<open>The elements kept so far are in reverse.\<close>

fun clean_elements :: "bool \<Rightarrow> string list \<Rightarrow> string list \<Rightarrow> string list" where
  "clean_elements root acc [] = rev acc"
| "clean_elements root acc (e # es) =
     (if e = [] \<or> e = ''.'' then clean_elements root acc es
      else if e = ''..'' then
        (case acc of
           [] \<Rightarrow> clean_elements root (if root then [] else [''..'']) es
         | a # as \<Rightarrow> if a = ''..'' then clean_elements root (''..'' # acc) es else clean_elements root as es)
      else clean_elements root (e # acc) es)"

definition path_elements :: "string \<Rightarrow> string list" where
  "path_elements p = clean_elements (rooted p) [] (split_path p)"

definition make_path :: "bool \<Rightarrow> string list \<Rightarrow> string" where
  "make_path root es =
     (if root then slash # Join es [slash] else if es = [] then ''.'' else Join es [slash])"

definition Clean :: "string \<Rightarrow> string" where
  "Clean p = make_path (rooted p) (path_elements p)"

definition path_Join :: "string list \<Rightarrow> string" where
  "path_Join elems =
     (let es = filter (\<lambda>e. e \<noteq> []) elems in if es = [] then [] else Clean (Join es [slash]))"

fun drop_common :: "string list \<Rightarrow> string list \<Rightarrow> string list \<times> string list" where
  "drop_common (a # as) (b # bs) = (if a = b then drop_common as bs else (a # as, b # bs))"
| "drop_common as bs = (as, bs)"

text \<open>\<open>filepath.Rel\<close>; its two errors have the same message.\<close>

definition path_Rel :: "string \<Rightarrow> string \<Rightarrow> string option" where
  "path_Rel basepath targpath =
     (if Clean targpath = Clean basepath then Some ''.''
      else if rooted basepath \<noteq> rooted targpath then None
      else
        (let (bs, ts) = drop_common (path_elements basepath)
               (if Clean targpath = ''.'' then [''.''] else path_elements targpath) in
         if bs \<noteq> [] \<and> hd bs = ''..'' then None
         else Some (Join (replicate (length bs) ''..'' @ ts) [slash])))"

section \<open>Clean paths\<close>

text \<open>An element that is a plain name.\<close>

definition plain :: "string \<Rightarrow> bool" where
  "plain e \<longleftrightarrow> e \<noteq> [] \<and> e \<noteq> ''.'' \<and> e \<noteq> ''..'' \<and> slash \<notin> set e"

text \<open>The elements of a clean path: plain names after, for a relative path, some \<open>..\<close>.\<close>

definition clean_list :: "bool \<Rightarrow> string list \<Rightarrow> bool" where
  "clean_list root es \<longleftrightarrow>
     (\<exists>n names. es = replicate n ''..'' @ names \<and> list_all plain names \<and> (root \<longrightarrow> n = 0))"

lemma split_path_no_slash: "e \<in> set (split_path p) \<Longrightarrow> slash \<notin> set e"
  by (induction p arbitrary: e) (auto split: if_splits list.splits)

lemma split_path_not_nil [simp]: "split_path p \<noteq> []"
  by (cases p) (auto split: list.splits)

lemma clean_elements_clean:
  assumes "acc = rev (replicate n ''..'' @ names)" and "list_all plain names" and "root \<longrightarrow> n = 0"
    and "list_all (\<lambda>e. slash \<notin> set e) es"
  shows "clean_list root (clean_elements root acc es)"
  using assms
proof (induction es arbitrary: acc n names)
  case Nil
  then show ?case by (auto simp: clean_list_def)
next
  case (Cons e es)
  note IH = Cons.IH
  have no_slash: "list_all (\<lambda>e. slash \<notin> set e) es" "slash \<notin> set e" using Cons.prems(4) by simp_all
  consider (skip) "e = [] \<or> e = ''.''" | (up) "e = ''..''" | (name) "plain e"
    using no_slash(2) by (auto simp: plain_def)
  then show ?case
  proof cases
    case skip
    then show ?thesis using IH [OF Cons.prems(1-3) no_slash(1)] by simp
  next
    case name
    then have "clean_list root (clean_elements root (e # acc) es)"
      using Cons.prems by (intro IH [where names = "names @ [e]" and n = n]) (auto simp: no_slash)
    with name show ?thesis by (simp add: plain_def)
  next
    case up
    show ?thesis
    proof (cases "names = []")
      case True
      then have acc: "acc = replicate n ''..''" using Cons.prems(1) by simp
      have "clean_list root (clean_elements root (if root then [] else ''..'' # acc) es)"
        using Cons.prems(3) acc no_slash(1)
        by (intro IH [where names = "[]" and n = "if root then 0 else Suc n"]) (auto simp: replicate_append_same)
      then show ?thesis
        using up acc Cons.prems(3) by (cases n) (auto split: if_splits)
    next
      case False
      then obtain front l where names: "names = front @ [l]" by (metis rev_exhaust)
      then have "plain l" "list_all plain front" using Cons.prems(2) by simp_all
      then have "clean_list root (clean_elements root (rev (replicate n ''..'' @ front)) es)"
        using Cons.prems(3) no_slash(1) by (intro IH [where names = front and n = n]) auto
      then show ?thesis
        using up Cons.prems(1) names \<open>plain l\<close> by (auto simp: plain_def)
    qed
  qed
qed

lemma path_elements_clean: "clean_list (rooted p) (path_elements p)"
  unfolding path_elements_def
  by (rule clean_elements_clean [where n = 0 and names = "[]"]) (auto simp: list_all_iff split_path_no_slash)

lemma clean_elements_names:
  "list_all plain names \<Longrightarrow> clean_elements root acc (names @ es) = clean_elements root (rev names @ acc) es"
  by (induction names arbitrary: acc) (auto simp: plain_def)

lemma clean_elements_ups:
  "clean_elements False (replicate m ''..'') (replicate n ''..'' @ es) =
     clean_elements False (replicate (m + n) ''..'') es"
proof (induction n arbitrary: m)
  case (Suc n)
  have "clean_elements False (replicate m ''..'') (''..'' # replicate n ''..'' @ es) =
      clean_elements False (replicate (Suc m) ''..'') (replicate n ''..'' @ es)"
    by (cases m) simp_all
  with Suc [of "Suc m"] show ?case by simp
qed simp

lemma clean_elements_id:
  assumes "clean_list root es"
  shows "clean_elements root [] es = es"
proof -
  obtain n names where es: "es = replicate n ''..'' @ names" "list_all plain names" "root \<longrightarrow> n = 0"
    using assms unfolding clean_list_def by blast
  show ?thesis
  proof (cases root)
    case True
    with es clean_elements_names [of names True "[]" "[]"] show ?thesis by simp
  next
    case False
    have "clean_elements False [] es = clean_elements False (replicate n ''..'') names"
      using clean_elements_ups [of 0 n names] es(1) by simp
    also have "\<dots> = es"
      using clean_elements_names [of names False "replicate n ''..''" "[]"] es by simp
    finally show ?thesis using False by simp
  qed
qed

section \<open>Paths and their elements\<close>

lemma split_path_append: "split_path (a @ slash # b) = split_path a @ split_path b"
  by (induction a) (auto split: list.splits)

lemma split_path_single: "slash \<notin> set a \<Longrightarrow> split_path a = [a]"
  by (induction a) auto

lemma Join_Cons: "es \<noteq> [] \<Longrightarrow> Join (d # es) sep = d @ sep @ Join es sep"
  by (cases es) simp_all

lemma rooted_simps [simp]: "\<not> rooted []" "rooted (c # cs) \<longleftrightarrow> c = slash" "a \<noteq> [] \<Longrightarrow> rooted (a @ b) = rooted a"
  by (simp_all add: rooted_def split: list.splits)

lemma rooted_no_slash: "slash \<notin> set a \<Longrightarrow> \<not> rooted a"
  by (cases a) auto

lemma split_path_Join:
  "es \<noteq> [] \<Longrightarrow> list_all (\<lambda>e. slash \<notin> set e) es \<Longrightarrow> split_path (Join es [slash]) = es"
proof (induction es)
  case (Cons e es)
  then show ?case
    by (cases "es = []") (simp_all add: Join_Cons split_path_append split_path_single)
qed simp

lemma clean_list_no_slash:
  assumes "clean_list root es"
  shows "list_all (\<lambda>e. slash \<notin> set e \<and> e \<noteq> []) es"
proof -
  obtain n names where "es = replicate n ''..'' @ names" and "list_all plain names"
    using assms unfolding clean_list_def by blast
  moreover have "list_all (\<lambda>e. slash \<notin> set e \<and> e \<noteq> []) (replicate n ''..'')"
    by (induction n) (simp_all add: slash_def)
  moreover have "list_all (\<lambda>e. slash \<notin> set e \<and> e \<noteq> []) names" if "list_all plain names"
    using that by (simp add: list_all_iff plain_def)
  ultimately show ?thesis
    by (simp only: list_all_append)
qed

lemma rooted_Join:
  assumes "list_all (\<lambda>e. slash \<notin> set e \<and> e \<noteq> []) es" and "es \<noteq> []"
  shows "\<not> rooted (Join es [slash])"
  using assms by (cases es; cases "tl es = []") (auto simp: Join_Cons rooted_no_slash)

lemma make_path_elements:
  assumes "clean_list root es"
  shows "rooted (make_path root es) = root" "path_elements (make_path root es) = es"
proof -
  note no_slash = clean_list_no_slash [OF assms]
  have dot: "\<not> rooted ''.''" "split_path ''.'' = [''.'']"
    by (simp_all add: slash_def)
  show root: "rooted (make_path root es) = root"
    using rooted_Join [OF no_slash] dot(1) by (auto simp: make_path_def)
  have split: "es \<noteq> [] \<Longrightarrow> split_path (Join es [slash]) = es"
    using no_slash by (intro split_path_Join) (auto simp: list_all_iff)
  have "clean_elements root [] (split_path (make_path root es)) = clean_elements root [] es"
    using split dot by (cases "es = []") (auto simp: make_path_def)
  then show "path_elements (make_path root es) = es"
    unfolding path_elements_def root by (simp add: clean_elements_id [OF assms])
qed

lemma Clean_elements [simp]: "rooted (Clean p) = rooted p" "path_elements (Clean p) = path_elements p"
  unfolding Clean_def by (rule make_path_elements [OF path_elements_clean])+

lemma Clean_Clean: "Clean (Clean p) = Clean p"
  by (simp add: Clean_def [of "Clean p"]) (simp add: Clean_def)

lemma clean_elements_snoc:
  "plain e \<Longrightarrow> clean_elements root acc (es @ [e]) = clean_elements root acc es @ [e]"
  by (induction root acc es rule: clean_elements.induct) (auto simp: plain_def split: list.splits)

lemma append_plain:
  assumes "d \<noteq> []" and "plain e"
  shows "rooted (d @ slash # e) = rooted d" "path_elements (d @ slash # e) = path_elements d @ [e]"
proof -
  show r: "rooted (d @ slash # e) = rooted d"
    using assms(1) by simp
  have "split_path e = [e]" using assms(2) by (simp add: plain_def split_path_single)
  then show "path_elements (d @ slash # e) = path_elements d @ [e]"
    unfolding path_elements_def r split_path_append using assms(2) by (simp add: clean_elements_snoc)
qed

lemma Join_path_elements:
  assumes "d \<noteq> []" and "list_all plain es"
  shows "rooted (Join (d # es) [slash]) = rooted d \<and> path_elements (Join (d # es) [slash]) = path_elements d @ es"
  using assms
proof (induction es arbitrary: d)
  case (Cons e es)
  show ?case
  proof (cases "es = []")
    case True
    then show ?thesis using append_plain [of d e] Cons.prems by simp
  next
    case False
    have "Join (d # e # es) [slash] = Join ((d @ slash # e) # es) [slash]"
      using False by (simp add: Join_Cons)
    with Cons.IH [of "d @ slash # e"] append_plain [of d e] Cons.prems show ?thesis by simp
  qed
qed simp

text \<open>Joining plain names to a directory goes down from it.\<close>

lemma path_Join_under:
  assumes "d \<noteq> []" and "list_all plain es"
  shows "rooted (path_Join (d # es)) = rooted d" "path_elements (path_Join (d # es)) = path_elements d @ es"
proof -
  have "filter (\<lambda>e. e \<noteq> []) (d # es) = d # es"
    using assms by (auto simp: filter_id_conv list_all_iff plain_def)
  then have "path_Join (d # es) = Clean (Join (d # es) [slash])"
    by (simp only: path_Join_def Let_def) simp
  with Join_path_elements [OF assms]
  show "rooted (path_Join (d # es)) = rooted d" "path_elements (path_Join (d # es)) = path_elements d @ es"
    by simp_all
qed

text \<open>A path below another one.\<close>

definition path_under :: "string \<Rightarrow> string \<Rightarrow> bool" where
  "path_under d p \<longleftrightarrow> rooted p = rooted d \<and> prefix (path_elements d) (path_elements p)"

lemma path_under_Join: "d \<noteq> [] \<Longrightarrow> list_all plain es \<Longrightarrow> path_under d (path_Join (d # es))"
  by (simp add: path_under_def path_Join_under)

lemma path_under_trans: "path_under a b \<Longrightarrow> path_under b c \<Longrightarrow> path_under a c"
  by (auto simp: path_under_def)

lemma Clean_nonempty [simp]: "Clean p \<noteq> []"
proof (cases "path_elements p")
  case (Cons e es)
  then have "e \<noteq> []" using clean_list_no_slash [OF path_elements_clean [of p]] by simp
  then show ?thesis by (cases "es = []") (simp_all add: Clean_def make_path_def Cons Join_Cons)
qed (simp add: Clean_def make_path_def)

lemma path_Join_nonempty: "e \<in> set es \<Longrightarrow> e \<noteq> [] \<Longrightarrow> path_Join es \<noteq> []"
  by (auto simp: path_Join_def Let_def filter_empty_conv)

end
