(* ===== verification/Operator_Env.thy ===== *)
theory Operator_Env
  imports Effects Secret_Sync Helm_Release Go_Path
begin

text \<open>
  What the operator runs against.  The Kubernetes client, the Omni client library, the file
  system and the clock are not part of the repository; each is a field of the record \<open>env\<close>, an
  arbitrary function of the hidden environment state \<open>'x\<close>.  No law of an API server is built in:
  a read may return anything, a write may fail in any way, and two reads need not agree.

  The reconcilers' optional fields are optional here as well: a nil \<^verbatim>\<open>SecretReader\<close>, \<^verbatim>\<open>Omni\<close>,
  \<^verbatim>\<open>Clock\<close>, \<^verbatim>\<open>KubeconfigValidator\<close>, \<^verbatim>\<open>SecretSync\<close> or \<^verbatim>\<open>Helm\<close> is \<^const>\<open>None\<close>.

  Every call a reconciler makes on its clients is an event of the trace, with the object or
  arguments sent and the answer.  A call of the Omni client is one event, however many requests
  the client makes for it.  The secret sync client of the repository talks to a workload cluster;
  its requests are events of their own, followed by one for the call as a whole; so are the Helm
  client's calls of Helm's SDK and of the operating system.
\<close>

section \<open>Events\<close>

datatype api_kind =
    KCluster | KConnection | KControlPlane | KWorkers | KMachine | KKubeconfigExport | KSecretSync | KHelmRelease
  | KSecret

datatype api_object =
    ObjCluster OmniCluster
  | ObjConnection OmniConnection
  | ObjControlPlane OmniControlPlane
  | ObjWorkers OmniWorkers
  | ObjMachine OmniMachine
  | ObjKubeconfigExport OmniKubeconfigExport
  | ObjSecretSync OmniSecretSync
  | ObjHelmRelease OmniHelmRelease
  | ObjSecret Secret

record SyncOptions =
  so_DestroyMachines :: bool

record KubeconfigOptions =
  ko_TTL :: Duration
  ko_User :: string
  ko_Groups :: "string list"

text \<open>A request to a workload cluster and its answer.\<close>

datatype workload_event =
    WGetNamespace string "goerror option"
  | WCreateNamespace string "goerror option"
  | WGetSecret NamespacedName "goerror + Secret"
  | WCreateSecret Secret "goerror option"
  | WUpdateSecret Secret "goerror option"
  | WDeleteSecret NamespacedName "goerror option"

text \<open>
  Helm's SDK.  A configuration is made for one kubeconfig and namespace; a chart that was loaded, a
  configuration and a registry client are numbers.  The records of options hold the fields that the
  operator sets on an action before it runs it.
\<close>

record restClientGetter =
  rg_config :: nat

record EnvSettings =
  es_Debug :: bool
  es_RepositoryCache :: string
  es_ContentCache :: string
  es_RepositoryConfig :: string
  es_RegistryConfig :: string
  es_Rest :: string

record HelmConfiguration =
  hc_Handle :: nat
  hc_RegistryClient :: nat

datatype WaitStrategy = StatusWatcherStrategy | HookOnlyStrategy

record ChartOptions =
  co_RepoURL :: string
  co_Version :: string
  co_ReleaseName :: string
  co_Namespace :: string

record InstallOptions =
  io_ReleaseName :: string
  io_Namespace :: string
  io_CreateNamespace :: bool
  io_DisableHooks :: bool
  io_SkipCRDs :: bool
  io_WaitStrategy :: WaitStrategy
  io_WaitForJobs :: bool
  io_Timeout :: Duration
  io_RollbackOnFailure :: bool

record UpgradeOptions =
  uo_Namespace :: string
  uo_DisableHooks :: bool
  uo_SkipCRDs :: bool
  uo_WaitStrategy :: WaitStrategy
  uo_WaitForJobs :: bool
  uo_Timeout :: Duration
  uo_RollbackOnFailure :: bool
  uo_CleanupOnFail :: bool
  uo_MaxHistory :: int

record UninstallOptions =
  no_DisableHooks :: bool
  no_IgnoreNotFound :: bool
  no_Timeout :: Duration
  no_WaitStrategy :: WaitStrategy

text \<open>What the accessor of a release answers; a nil release is \<^const>\<open>None\<close>.\<close>

record ReleaseInfo =
  ri_Name :: string
  ri_Namespace :: string
  ri_Version :: int
  ri_Status :: string

type_synonym Release = "goerror + ReleaseInfo"

datatype helm_event =
    HLocateChart ChartOptions string EnvSettings "goerror + string"
  | HLoad string "goerror + nat"
  | HLast HelmConfiguration string "goerror option"
  | HInstall HelmConfiguration InstallOptions nat helm_values "Release option \<times> goerror option"
  | HUpgrade HelmConfiguration UpgradeOptions string nat helm_values "Release option \<times> goerror option"
  | HUninstall HelmConfiguration UninstallOptions string "Release option \<times> goerror option"

text \<open>What the process does to itself and to its file system.\<close>

datatype process_event =
    PLock | PUnlock
  | PMkdirAll string "goerror option"
  | PMkdirTemp string string "goerror + string"
  | PGetwd "goerror + string"
  | PChdir string "goerror option"
  | PRemoveAll string "goerror option"

datatype event =
    EvGet api_kind NamespacedName "goerror option"
  | EvList api_kind string "goerror option"
  | EvCreate api_object "goerror option"
  | EvUpdate api_object "goerror option"
  | EvStatusUpdate api_object "goerror option"
  | EvDelete api_object "goerror option"
  | EvPing OmniConnection "string \<times> goerror option"
  | EvSyncTemplate OmniConnection string string SyncOptions "string \<times> goerror option"
  | EvDeleteCluster OmniConnection string SyncOptions "string \<times> goerror option"
  | EvStatusCluster OmniConnection string "string \<times> goerror option"
  | EvKubeconfig OmniConnection string KubeconfigOptions "goerror + string"
  | EvValidateKubeconfig string "goerror option"
  | EvWorkload nat workload_event
  | EvSync OmniSecretSync Secret string string "goerror + SyncResult"
  | EvSyncDelete OmniSecretSync string Target "goerror option"
  | EvProcess process_event
  | EvHelm helm_event
  | EvHelmReconcile OmniHelmRelease string "HelmResult option \<times> goerror option"
  | EvHelmUninstall OmniHelmRelease string "HelmResult option \<times> goerror option"

fun omni_event :: "event \<Rightarrow> bool" where
  "omni_event (EvPing c r) = True"
| "omni_event (EvSyncTemplate c b t opts r) = True"
| "omni_event (EvDeleteCluster c n opts r) = True"
| "omni_event (EvStatusCluster c n r) = True"
| "omni_event (EvKubeconfig c n opts r) = True"
| "omni_event e = False"

section \<open>Interfaces\<close>

text \<open>The operations of \<open>client.Client\<close> on one kind of object.\<close>

record ('x, 'o) kind_api =
  api_Get :: "NamespacedName \<Rightarrow> 'x \<Rightarrow> (goerror + 'o) \<times> 'x"
  api_List :: "string \<Rightarrow> 'x \<Rightarrow> (goerror + 'o list) \<times> 'x"
  api_Create :: "'o \<Rightarrow> 'x \<Rightarrow> goerror option \<times> 'x"
  api_Update :: "'o \<Rightarrow> 'x \<Rightarrow> goerror option \<times> 'x"
  api_StatusUpdate :: "'o \<Rightarrow> 'x \<Rightarrow> goerror option \<times> 'x"
  api_Delete :: "'o \<Rightarrow> 'x \<Rightarrow> goerror option \<times> 'x"

text \<open>The interface \<open>omniapi.Client\<close>.\<close>

record 'x omni_client =
  oc_Ping :: "OmniConnection \<Rightarrow> 'x \<Rightarrow> (string \<times> goerror option) \<times> 'x"
  oc_SyncTemplate :: "OmniConnection \<Rightarrow> string \<Rightarrow> string \<Rightarrow> SyncOptions \<Rightarrow> 'x \<Rightarrow> (string \<times> goerror option) \<times> 'x"
  oc_DeleteCluster :: "OmniConnection \<Rightarrow> string \<Rightarrow> SyncOptions \<Rightarrow> 'x \<Rightarrow> (string \<times> goerror option) \<times> 'x"
  oc_StatusCluster :: "OmniConnection \<Rightarrow> string \<Rightarrow> 'x \<Rightarrow> (string \<times> goerror option) \<times> 'x"
  oc_Kubeconfig :: "OmniConnection \<Rightarrow> string \<Rightarrow> KubeconfigOptions \<Rightarrow> 'x \<Rightarrow> (goerror + string) \<times> 'x"

text \<open>
  Sidero's Omni client library and its template operations.  A client handle and an open
  directory are numbers; a nil directory is \<^const>\<open>None\<close>.
\<close>

record 'x omni_sdk =
  sdk_New :: "string \<Rightarrow> string \<Rightarrow> bool \<Rightarrow> 'x \<Rightarrow> (goerror + nat) \<times> 'x"
  sdk_Close :: "nat \<Rightarrow> 'x \<Rightarrow> unit \<times> 'x"
  sdk_Endpoint :: "nat \<Rightarrow> string"
  sdk_ListClusters :: "nat \<Rightarrow> 'x \<Rightarrow> goerror option \<times> 'x"
  sdk_SyncTemplate :: "nat \<Rightarrow> string \<Rightarrow> bool \<Rightarrow> nat option \<Rightarrow> 'x \<Rightarrow> (string \<times> goerror option) \<times> 'x"
  sdk_DeleteCluster :: "nat \<Rightarrow> string \<Rightarrow> bool \<Rightarrow> 'x \<Rightarrow> (string \<times> goerror option) \<times> 'x"
  sdk_StatusCluster :: "nat \<Rightarrow> string \<Rightarrow> 'x \<Rightarrow> (string \<times> goerror option) \<times> 'x"
  sdk_Kubeconfig :: "nat \<Rightarrow> string \<Rightarrow> KubeconfigOptions \<Rightarrow> 'x \<Rightarrow> (goerror + string) \<times> 'x"
  sdk_ValidateTemplate :: "string \<Rightarrow> nat option \<Rightarrow> 'x \<Rightarrow> goerror option \<times> 'x"

text \<open>
  A loaded kubeconfig (client-go's \<open>clientcmdapi.Config\<close>) as far as the operator looks at it: the
  current context's name and the contexts' namespaces; the rest is opaque.  Rest configurations and
  clientsets are numbers; \<open>cc_WithTimeout\<close> is the configuration with its field \<^verbatim>\<open>Timeout\<close> set.
\<close>

record KubeContext =
  kcx_Namespace :: string
  kcx_Rest :: string

record KubeConfig =
  kc_CurrentContext :: string
  kc_Contexts :: "KubeContext gomap"
  kc_Rest :: string

record 'x clientcmd =
  cc_Load :: "string \<Rightarrow> goerror + KubeConfig"
  cc_Write :: "KubeConfig \<Rightarrow> goerror + string"
  cc_RESTConfigFromKubeConfig :: "string \<Rightarrow> goerror + nat"
  cc_AddUserAgent :: "nat \<Rightarrow> string \<Rightarrow> nat"
  cc_WithTimeout :: "nat \<Rightarrow> Duration \<Rightarrow> nat"
  cc_NewForConfig :: "nat \<Rightarrow> goerror + nat"
  cc_NewClientConfigFromBytes :: "string \<Rightarrow> goerror + nat"
  cc_ClientConfig :: "nat \<Rightarrow> goerror + nat"
  cc_NewDiscoveryClientForConfig :: "nat \<Rightarrow> goerror + nat"
  cc_NewMemCacheClient :: "nat \<Rightarrow> nat"
  cc_NewDeferredDiscoveryRESTMapper :: "nat \<Rightarrow> nat"
  cc_ServerVersion :: "nat \<Rightarrow> 'x \<Rightarrow> goerror option \<times> 'x"

text \<open>
  A clientset of a workload cluster: the requests that the secret sync client makes, each with the
  number of the clientset.  The methods for Secrets take the namespace they are bound to.
\<close>

record 'x workload_api =
  wl_GetNamespace :: "nat \<Rightarrow> string \<Rightarrow> 'x \<Rightarrow> goerror option \<times> 'x"
  wl_CreateNamespace :: "nat \<Rightarrow> string \<Rightarrow> 'x \<Rightarrow> goerror option \<times> 'x"
  wl_GetSecret :: "nat \<Rightarrow> string \<Rightarrow> string \<Rightarrow> 'x \<Rightarrow> (goerror + Secret) \<times> 'x"
  wl_CreateSecret :: "nat \<Rightarrow> string \<Rightarrow> Secret \<Rightarrow> 'x \<Rightarrow> goerror option \<times> 'x"
  wl_UpdateSecret :: "nat \<Rightarrow> string \<Rightarrow> Secret \<Rightarrow> 'x \<Rightarrow> goerror option \<times> 'x"
  wl_DeleteSecret :: "nat \<Rightarrow> string \<Rightarrow> string \<Rightarrow> 'x \<Rightarrow> goerror option \<times> 'x"

text \<open>The interface \<open>SecretSyncClient\<close> of the controller.\<close>

record 'x SecretSyncClient =
  sc_Sync :: "OmniSecretSync \<Rightarrow> Secret \<Rightarrow> string \<Rightarrow> string \<Rightarrow> 'x \<Rightarrow> (goerror + SyncResult) \<times> 'x"
  sc_Delete :: "OmniSecretSync \<Rightarrow> string \<Rightarrow> Target \<Rightarrow> 'x \<Rightarrow> goerror option \<times> 'x"

text \<open>The operating system, and Helm's SDK.  \<open>os_CtxErr\<close> is the error of the context, if it is done.\<close>

record 'x os_api =
  os_TempDir :: "'x \<Rightarrow> string \<times> 'x"
  os_MkdirAll :: "string \<Rightarrow> 'x \<Rightarrow> goerror option \<times> 'x"
  os_MkdirTemp :: "string \<Rightarrow> string \<Rightarrow> 'x \<Rightarrow> (goerror + string) \<times> 'x"
  os_Getwd :: "'x \<Rightarrow> (goerror + string) \<times> 'x"
  os_Chdir :: "string \<Rightarrow> 'x \<Rightarrow> goerror option \<times> 'x"
  os_RemoveAll :: "string \<Rightarrow> 'x \<Rightarrow> goerror option \<times> 'x"
  os_CtxErr :: "'x \<Rightarrow> goerror option \<times> 'x"

record 'x helm_sdk =
  hs_cli_New :: "'x \<Rightarrow> EnvSettings \<times> 'x"
  hs_Init :: "restClientGetter \<Rightarrow> string \<Rightarrow> string \<Rightarrow> 'x \<Rightarrow> (goerror + nat) \<times> 'x"
  hs_NewRegistryClient :: "bool \<Rightarrow> string \<Rightarrow> 'x \<Rightarrow> (goerror + nat) \<times> 'x"
  hs_LocateChart :: "HelmConfiguration \<Rightarrow> ChartOptions \<Rightarrow> string \<Rightarrow> EnvSettings \<Rightarrow> 'x \<Rightarrow> (goerror + string) \<times> 'x"
  hs_Load :: "string \<Rightarrow> 'x \<Rightarrow> (goerror + nat) \<times> 'x"
  hs_Last :: "HelmConfiguration \<Rightarrow> string \<Rightarrow> 'x \<Rightarrow> goerror option \<times> 'x"
  hs_Install :: "HelmConfiguration \<Rightarrow> InstallOptions \<Rightarrow> nat \<Rightarrow> helm_values \<Rightarrow> 'x \<Rightarrow> (Release option \<times> goerror option) \<times> 'x"
  hs_Upgrade :: "HelmConfiguration \<Rightarrow> UpgradeOptions \<Rightarrow> string \<Rightarrow> nat \<Rightarrow> helm_values \<Rightarrow> 'x \<Rightarrow> (Release option \<times> goerror option) \<times> 'x"
  hs_Uninstall :: "HelmConfiguration \<Rightarrow> UninstallOptions \<Rightarrow> string \<Rightarrow> 'x \<Rightarrow> (Release option \<times> goerror option) \<times> 'x"

text \<open>The interface \<open>HelmReleaseClient\<close> of the controller.\<close>

record 'x HelmReleaseClient =
  hl_Reconcile :: "OmniHelmRelease \<Rightarrow> string \<Rightarrow> 'x \<Rightarrow> (HelmResult option \<times> goerror option) \<times> 'x"
  hl_Uninstall :: "OmniHelmRelease \<Rightarrow> string \<Rightarrow> 'x \<Rightarrow> (HelmResult option \<times> goerror option) \<times> 'x"

record 'x env =
  env_Lib :: klib
  env_Tmpl :: tmpl_lib
  env_Retry :: "(event, 'x, goerror option) act \<Rightarrow> (event, 'x, goerror option) act"
  env_Now :: "'x \<Rightarrow> Time \<times> 'x"
  env_Clusters :: "('x, OmniCluster) kind_api"
  env_Connections :: "('x, OmniConnection) kind_api"
  env_ControlPlanes :: "('x, OmniControlPlane) kind_api"
  env_Workers :: "('x, OmniWorkers) kind_api"
  env_Machines :: "('x, OmniMachine) kind_api"
  env_KubeconfigExports :: "('x, OmniKubeconfigExport) kind_api"
  env_SecretSyncs :: "('x, OmniSecretSync) kind_api"
  env_HelmReleases :: "('x, OmniHelmRelease) kind_api"
  env_Secrets :: "('x, Secret) kind_api"
  env_SecretReader :: "(NamespacedName \<Rightarrow> 'x \<Rightarrow> (goerror + Secret) \<times> 'x) option"
  env_Omni :: "'x omni_client option"
  env_Sdk :: "'x omni_sdk"
  env_OpenRoot :: "string \<Rightarrow> 'x \<Rightarrow> (goerror + nat) \<times> 'x"
  env_CloseRoot :: "nat \<Rightarrow> 'x \<Rightarrow> unit \<times> 'x"
  env_Clock :: "('x \<Rightarrow> Time \<times> 'x) option"
  env_KubeconfigValidator :: "(string \<Rightarrow> 'x \<Rightarrow> goerror option \<times> 'x) option"
  env_Clientcmd :: "'x clientcmd"
  env_SecretSync :: "'x SecretSyncClient option"
  env_Workload :: "'x workload_api"
  env_Helm :: "'x HelmReleaseClient option"
  env_HelmSdk :: "'x helm_sdk"
  env_Os :: "'x os_api"

type_synonym ('x, 'a) action = "(event, 'x, 'a) act"

text \<open>What a reconciler returns; a helper that ends the run returns it as \<^const>\<open>Inl\<close>.\<close>

type_synonym early = "Result \<times> goerror option"

definition err_of :: "goerror + 'a \<Rightarrow> goerror option" where
  "err_of r = (case r of Inl e \<Rightarrow> Some e | Inr _ \<Rightarrow> None)"

lemma err_of_simps [simp]: "err_of (Inl e) = Some e" "err_of (Inr a) = None"
  by (simp_all add: err_of_def)

section \<open>Calls\<close>

definition k_get :: "('x, 'o) kind_api \<Rightarrow> api_kind \<Rightarrow> NamespacedName \<Rightarrow> ('x, goerror + 'o) action" where
  "k_get A kind key = call (api_Get A key) (\<lambda>r. EvGet kind key (err_of r))"

definition k_list :: "('x, 'o) kind_api \<Rightarrow> api_kind \<Rightarrow> string \<Rightarrow> ('x, goerror + 'o list) action" where
  "k_list A kind ns = call (api_List A ns) (\<lambda>r. EvList kind ns (err_of r))"

definition k_create :: "('x, 'o) kind_api \<Rightarrow> ('o \<Rightarrow> api_object) \<Rightarrow> 'o \<Rightarrow> ('x, goerror option) action" where
  "k_create A mk obj = call (api_Create A obj) (EvCreate (mk obj))"

definition k_update :: "('x, 'o) kind_api \<Rightarrow> ('o \<Rightarrow> api_object) \<Rightarrow> 'o \<Rightarrow> ('x, goerror option) action" where
  "k_update A mk obj = call (api_Update A obj) (EvUpdate (mk obj))"

definition k_status_update :: "('x, 'o) kind_api \<Rightarrow> ('o \<Rightarrow> api_object) \<Rightarrow> 'o \<Rightarrow> ('x, goerror option) action" where
  "k_status_update A mk obj = call (api_StatusUpdate A obj) (EvStatusUpdate (mk obj))"

definition k_delete :: "('x, 'o) kind_api \<Rightarrow> ('o \<Rightarrow> api_object) \<Rightarrow> 'o \<Rightarrow> ('x, goerror option) action" where
  "k_delete A mk obj = call (api_Delete A obj) (EvDelete (mk obj))"

lemmas k_call_defs = k_get_def k_list_def k_create_def k_update_def k_status_update_def k_delete_def

definition secretReader_Get :: "'x env \<Rightarrow> NamespacedName \<Rightarrow> 'x \<Rightarrow> (goerror + Secret) \<times> 'x" where
  "secretReader_Get E = (case env_SecretReader E of Some g \<Rightarrow> g | None \<Rightarrow> api_Get (env_Secrets E))"

definition get_secret :: "'x env \<Rightarrow> NamespacedName \<Rightarrow> ('x, goerror + Secret) action" where
  "get_secret E key = call (secretReader_Get E key) (\<lambda>r. EvGet KSecret key (err_of r))"

section \<open>Finalizers\<close>

text \<open>
  The controllers that own remote state guard their resources with a finalizer, and honour the
  one of an earlier release of the operator as well.
\<close>

definition has_finalizer :: "klib \<Rightarrow> ObjectMeta \<Rightarrow> bool" where
  "has_finalizer L m =
     (lib_ContainsFinalizer L (om_Finalizers m) Finalizer
      \<or> lib_ContainsFinalizer L (om_Finalizers m) LegacyFinalizer)"

definition remove_finalizers :: "klib \<Rightarrow> ObjectMeta \<Rightarrow> ObjectMeta" where
  "remove_finalizers L m =
     m\<lparr>om_Finalizers :=
        lib_RemoveFinalizer L (lib_RemoveFinalizer L (om_Finalizers m) Finalizer) LegacyFinalizer\<rparr>"

definition add_finalizer :: "klib \<Rightarrow> ObjectMeta \<Rightarrow> ObjectMeta" where
  "add_finalizer L m = m\<lparr>om_Finalizers := lib_AddFinalizer L (om_Finalizers m) Finalizer\<rparr>"

lemma add_finalizer_has:
  "finalizer_contract L \<Longrightarrow> has_finalizer L (add_finalizer L m)"
  by (simp add: finalizer_contract_def has_finalizer_def add_finalizer_def)

lemma remove_finalizers_has:
  "finalizer_contract L \<Longrightarrow> \<not> has_finalizer L (remove_finalizers L m)"
  by (auto simp: finalizer_contract_def has_finalizer_def remove_finalizers_def)

lemma remove_finalizers_others:
  "finalizer_contract L \<Longrightarrow>
     set (om_Finalizers (remove_finalizers L m)) = set (om_Finalizers m) - {Finalizer, LegacyFinalizer}"
  by (auto simp: finalizer_contract_def remove_finalizers_def)

section \<open>Writing status\<close>

text \<open>
  The operator's status writers share one shape: under \<^verbatim>\<open>retry.RetryOnConflict\<close>, read the
  object afresh, change its status in memory and write the status.  The writers of the child
  resources and of the kubeconfig export skip the write when the status did not change
  (\<open>only_changed\<close>).  The clock is read once per attempt; conditions take their transition times
  from it.
\<close>

definition status_attempt ::
  "'x env \<Rightarrow> ('x, 'o) kind_api \<Rightarrow> api_kind \<Rightarrow> ('o \<Rightarrow> api_object) \<Rightarrow> bool \<Rightarrow> (Time \<Rightarrow> 'o \<Rightarrow> 'o)
     \<Rightarrow> NamespacedName \<Rightarrow> ('x, goerror option) action" where
  "status_attempt E A kind mk only_changed mutate key = do {
     got \<leftarrow> k_get A kind key;
     (case got of
        Inl err \<Rightarrow> State_Monad.return (Some err)
      | Inr latest \<Rightarrow> do {
          now \<leftarrow> observe (env_Now E);
          if only_changed \<and> mutate now latest = latest
          then State_Monad.return None
          else k_status_update A mk (mutate now latest) })
   }"

definition write_status ::
  "'x env \<Rightarrow> ('x, 'o) kind_api \<Rightarrow> api_kind \<Rightarrow> ('o \<Rightarrow> api_object) \<Rightarrow> bool \<Rightarrow> (Time \<Rightarrow> 'o \<Rightarrow> 'o)
     \<Rightarrow> NamespacedName \<Rightarrow> ('x, goerror option) action" where
  "write_status E A kind mk only_changed mutate key =
     env_Retry E (status_attempt E A kind mk only_changed mutate key)"

abbreviation env_retry_ok :: "'x env \<Rightarrow> bool" where
  "env_retry_ok E \<equiv> retry_contract (\<lambda>e. IsConflict e) (env_Retry E)"

text \<open>The events of one attempt.\<close>

definition attempt_trace ::
  "api_kind \<Rightarrow> ('o \<Rightarrow> api_object) \<Rightarrow> bool \<Rightarrow> (Time \<Rightarrow> 'o \<Rightarrow> 'o) \<Rightarrow> NamespacedName
     \<Rightarrow> goerror option \<Rightarrow> event list \<Rightarrow> bool" where
  "attempt_trace kind mk only_changed mutate key r t \<longleftrightarrow>
     (\<exists>err. r = Some err \<and> t = [EvGet kind key (Some err)])
     \<or> (\<exists>now latest. t = [EvGet kind key None, EvStatusUpdate (mk (mutate now latest)) r])
     \<or> (only_changed \<and> r = None \<and> t = [EvGet kind key None])"

definition status_write_event ::
  "api_kind \<Rightarrow> NamespacedName \<Rightarrow> (api_object \<Rightarrow> bool) \<Rightarrow> event \<Rightarrow> bool" where
  "status_write_event kind key P e \<longleftrightarrow>
     (\<exists>r. e = EvGet kind key r) \<or> (\<exists>obj r. e = EvStatusUpdate obj r \<and> P obj)"

lemma status_attempt_emits:
  "emits (status_attempt E A kind mk oc mutate key) (attempt_trace kind mk oc mutate key)"
  unfolding status_attempt_def k_call_defs
  by (intro emits_rules) (auto simp: attempt_trace_def)

lemma write_status_emits:
  assumes "env_retry_ok E" and "\<And>now o'. P (mk (mutate now o'))"
  shows "emits (write_status E A kind mk oc mutate key)
     (\<lambda>r t. list_all (status_write_event kind key P) t)"
proof (rule emits_mono)
  show "emits (write_status E A kind mk oc mutate key)
    (attempts (attempt_trace kind mk oc mutate key))"
    unfolding write_status_def by (rule emits_retry [OF assms(1) status_attempt_emits])
next
  fix r t assume "attempts (attempt_trace kind mk oc mutate key) r t"
  then have "\<forall>e \<in> set t. status_write_event kind key P e"
    by (rule attempts_events)
      (auto simp: attempt_trace_def status_write_event_def assms(2))
  then show "list_all (status_write_event kind key P) t"
    by (simp add: list_all_iff)
qed

lemma write_status_success:
  assumes "env_retry_ok E"
  shows "emits (write_status E A kind mk False mutate key)
     (\<lambda>r t. r = None \<longrightarrow> (\<exists>s now latest. t = s @ [EvGet kind key None, EvStatusUpdate (mk (mutate now latest)) None]))"
proof (rule emits_mono)
  show "emits (write_status E A kind mk False mutate key)
    (attempts (attempt_trace kind mk False mutate key))"
    unfolding write_status_def by (rule emits_retry [OF assms status_attempt_emits])
next
  fix r t assume "attempts (attempt_trace kind mk False mutate key) r t"
  then show "r = None \<longrightarrow> (\<exists>s now latest. t = s @ [EvGet kind key None, EvStatusUpdate (mk (mutate now latest)) None])"
    by (auto dest!: attempts_success simp: attempt_trace_def) blast
qed

text \<open>A status write reaches neither Omni nor any object other than the one named by the key.\<close>

lemma status_write_event_not_omni: "status_write_event kind key P e \<Longrightarrow> \<not> omni_event e"
  by (auto simp: status_write_event_def)

text \<open>Report a failure that the next periodic run may cure: the status write's own error wins.\<close>

definition report_and_requeue ::
  "('x, goerror option) action \<Rightarrow> Duration \<Rightarrow> goerror option \<Rightarrow> ('x, Result \<times> goerror option) action" where
  "report_and_requeue write after err = do {
     statusErr \<leftarrow> write;
     State_Monad.return (case statusErr of Some e \<Rightarrow> (no_requeue, Some e) | None \<Rightarrow> (requeue_after after, err)) }"

lemma report_and_requeue_emits:
  assumes "emits w (\<lambda>r t. list_all S t)"
  shows "emits (report_and_requeue w after err)
    (\<lambda>out t. list_all S t \<and> (snd out = None \<longrightarrow> fst out = requeue_after after))"
  unfolding report_and_requeue_def
  by (rule emits_then [OF assms], rule emits_return) (auto split: option.splits)

end
