(* ===== verification/Omni_Api.thy ===== *)
theory Omni_Api
  imports Operator_Env
begin

text \<open>
  The Omni client (\<^verbatim>\<open>internal/omniapi/client.go\<close>) and the two file functions of the template
  package (\<^verbatim>\<open>OpenRoot\<close> and \<^verbatim>\<open>Validate\<close> in \<^verbatim>\<open>internal/omnitemplate/builder.go\<close>).

  \<open>serviceAccountKey\<close> reads and checks the credential; each operation of \<open>RealClient\<close> opens a
  client with it, runs one call of Sidero's library and closes the client, also on the error
  paths (Go's \<^verbatim>\<open>defer\<close>).  The operations live in the state monad over the environment and are
  collected in a record of the interface type \<open>omni_client\<close>; \<open>omniClient\<close> is the reconcilers'
  choice between a configured client and the real one.
\<close>

section \<open>The service account key\<close>

definition newline :: "char \<Rightarrow> bool" where
  "newline c = (c = chr 10 \<or> c = chr 13)"

text \<open>\<open>strings.FieldsFunc\<close> on line breaks: the maximal non-empty pieces between them.\<close>

function lines_of :: "string \<Rightarrow> string list" where
  "lines_of [] = []"
| "lines_of (c # cs) =
     (if newline c then lines_of cs
      else (c # takeWhile (\<lambda>x. \<not> newline x) cs) # lines_of (dropWhile (\<lambda>x. \<not> newline x) cs))"
  by pat_completeness auto
termination
  by (relation "measure length") (auto simp: length_dropWhile_le le_imp_less_Suc)

definition TrimPrefix :: "string \<Rightarrow> string \<Rightarrow> string" where
  "TrimPrefix s p = (if prefix p s then drop (length p) s else s)"

definition env_assignment_line :: "string \<Rightarrow> bool" where
  "env_assignment_line line =
     (let l = TrimSpace (TrimPrefix (TrimSpace line) ''export '') in
      prefix ''OMNI_ENDPOINT='' l \<or> prefix ''OMNI_SERVICE_ACCOUNT_KEY='' l
      \<or> prefix ''SIDERO_SERVICE_ACCOUNT_KEY='' l)"

definition containsOmniEnvAssignment :: "string \<Rightarrow> bool" where
  "containsOmniEnvAssignment value = list_ex env_assignment_line (lines_of value)"

definition base64_alphabet :: "char \<Rightarrow> bool" where
  "base64_alphabet c =
     (let b = byte c in
      (65 \<le> b \<and> b \<le> 90) \<or> (97 \<le> b \<and> b \<le> 122) \<or> (48 \<le> b \<and> b \<le> 57) \<or> b = 43 \<or> b = 47)"

text \<open>
  \<open>base64.StdEncoding.DecodeString\<close>: the offset of the first corrupt input byte, or none.  Line
  breaks are skipped; \<open>si\<close> is the offset and \<open>j\<close> the place in the group of four.
\<close>

fun base64_corrupt :: "string \<Rightarrow> int \<Rightarrow> int \<Rightarrow> int option" where
  "base64_corrupt [] si j = (if j = 0 then None else Some (si - j))"
| "base64_corrupt (c # cs) si j =
     (if base64_alphabet c then base64_corrupt cs (si + 1) (if j = 3 then 0 else j + 1)
      else if newline c then base64_corrupt cs (si + 1) j
      else if c \<noteq> CHR ''='' \<or> j = 0 \<or> j = 1 then Some si
      else
        (let rest = dropWhile newline cs; si' = si + 1 + int (length cs - length rest) in
         if j = 2 then
           (case rest of
              [] \<Rightarrow> Some si'
            | d # ds \<Rightarrow>
                if d \<noteq> CHR ''='' then Some (si' - 1)
                else (let rest' = dropWhile newline ds in
                      if rest' = [] then None
                      else Some (si' + 1 + int (length ds - length rest'))))
         else if rest = [] then None else Some si'))"

definition base64_decode_error :: "string \<Rightarrow> goerror option" where
  "base64_decode_error s =
     map_option (\<lambda>off. ErrorString (''illegal base64 data at input byte '' @ Itoa off)) (base64_corrupt s 0 0)"

definition serviceAccountKey :: "'x env \<Rightarrow> OmniConnection \<Rightarrow> ('x, goerror + string) state" where
  "serviceAccountKey E connection =
     (let ref = auth_ServiceAccountSecretRef (ons_Auth (on_Spec connection));
          ns = om_Namespace (on_Meta connection);
          q = Quote (lib_IsPrint (env_Lib E));
          loc = ''secret '' @ ns @ ''/'' @ sks_Name ref in do {
      got \<leftarrow> State (secretReader_Get E \<lparr>nn_Namespace = ns, nn_Name = sks_Name ref\<rparr>);
      State_Monad.return
       (case got of
          Inl err \<Rightarrow>
            if IsNotFound err
            then Inl (WrapError (ReasonMissingSecret @ '' '' @ q (sks_Name ref) @ '': '' @ Error err) err)
            else Inl err
        | Inr secret \<Rightarrow>
          (case map_get (sec_Data secret) (sks_Key ref) of
             None \<Rightarrow> Inl (ErrorString (loc @ '' missing key '' @ q (sks_Key ref)))
           | Some value \<Rightarrow>
             (let key = TrimSpace (bytes_of value) in
              if key = [] then Inl (ErrorString (loc @ '' key '' @ q (sks_Key ref) @ '' is empty''))
              else if containsOmniEnvAssignment key
              then Inl (ErrorString (loc @ '' key '' @ q (sks_Key ref)
                     @ '' contains Omni environment assignments; store only the OMNI_SERVICE_ACCOUNT_KEY value''))
              else (case base64_decode_error key of
                      Some err \<Rightarrow> Inl (WrapError (loc @ '' key '' @ q (sks_Key ref)
                         @ '' must contain the base64-encoded Omni service account key: '' @ Error err) err)
                    | None \<Rightarrow> Inr key)))) })"

section \<open>The client's operations\<close>

definition newOmniClient :: "'x env \<Rightarrow> OmniConnection \<Rightarrow> ('x, goerror + nat) state" where
  "newOmniClient E connection = do {
     key \<leftarrow> serviceAccountKey E connection;
     (case key of
        Inl err \<Rightarrow> State_Monad.return (Inl err)
      | Inr k \<Rightarrow> do {
          c \<leftarrow> State (sdk_New (env_Sdk E) (ons_Endpoint (on_Spec connection)) k
                 (ons_InsecureSkipTLSVerify (on_Spec connection)));
          State_Monad.return
            (case c of
               Inl err \<Rightarrow> Inl (WrapError (''create Omni client: '' @ Error err) err)
             | Inr h \<Rightarrow> Inr h) }) }"

text \<open>Open a client, run the body, close the client.\<close>

definition with_client ::
  "'x env \<Rightarrow> OmniConnection \<Rightarrow> (goerror \<Rightarrow> 'r) \<Rightarrow> (nat \<Rightarrow> ('x, 'r) state) \<Rightarrow> ('x, 'r) state" where
  "with_client E connection on_error body = do {
     c \<leftarrow> newOmniClient E connection;
     (case c of
        Inl err \<Rightarrow> State_Monad.return (on_error err)
      | Inr h \<Rightarrow> do {
          r \<leftarrow> body h;
          _ \<leftarrow> State (sdk_Close (env_Sdk E) h);
          State_Monad.return r }) }"

definition OpenRoot :: "'x env \<Rightarrow> string \<Rightarrow> ('x, goerror + nat option) state" where
  "OpenRoot E rootPath =
     (if rootPath = [] then State_Monad.return (Inr None)
      else do {
        r \<leftarrow> State (env_OpenRoot E rootPath);
        State_Monad.return
          (case r of
             Inl err \<Rightarrow> Inl (WrapError (''open template root ''
                @ Quote (lib_IsPrint (env_Lib E)) rootPath @ '': '' @ Error err) err)
           | Inr h \<Rightarrow> Inr (Some h)) })"

definition closeRoot :: "'x env \<Rightarrow> nat option \<Rightarrow> ('x, unit) state" where
  "closeRoot E root = (case root of None \<Rightarrow> State_Monad.return () | Some h \<Rightarrow> State (env_CloseRoot E h))"

definition Validate :: "'x env \<Rightarrow> string \<Rightarrow> string \<Rightarrow> ('x, goerror option) state" where
  "Validate E templateBytes rootPath = do {
     opened \<leftarrow> OpenRoot E rootPath;
     (case opened of
        Inl err \<Rightarrow> State_Monad.return (Some err)
      | Inr root \<Rightarrow> do {
          r \<leftarrow> State (sdk_ValidateTemplate (env_Sdk E) templateBytes root);
          _ \<leftarrow> closeRoot E root;
          State_Monad.return r }) }"

definition Ping :: "'x env \<Rightarrow> OmniConnection \<Rightarrow> ('x, string \<times> goerror option) state" where
  "Ping E connection =
     with_client E connection (\<lambda>err. ([], Some err)) (\<lambda>h. do {
       r \<leftarrow> State (sdk_ListClusters (env_Sdk E) h);
       State_Monad.return
         (case r of
            Some err \<Rightarrow> ([], Some (WrapError (''list Omni clusters: '' @ Error err) err))
          | None \<Rightarrow> (''connected to '' @ sdk_Endpoint (env_Sdk E) h, None)) })"

definition SyncTemplate ::
  "'x env \<Rightarrow> OmniConnection \<Rightarrow> string \<Rightarrow> string \<Rightarrow> SyncOptions \<Rightarrow> ('x, string \<times> goerror option) state" where
  "SyncTemplate E connection templateBytes templateRoot options =
     with_client E connection (\<lambda>err. ([], Some err)) (\<lambda>h. do {
       opened \<leftarrow> OpenRoot E templateRoot;
       (case opened of
          Inl err \<Rightarrow> State_Monad.return ([], Some err)
        | Inr root \<Rightarrow> do {
            r \<leftarrow> State (sdk_SyncTemplate (env_Sdk E) h templateBytes (so_DestroyMachines options) root);
            _ \<leftarrow> closeRoot E root;
            State_Monad.return r }) })"

definition DeleteCluster ::
  "'x env \<Rightarrow> OmniConnection \<Rightarrow> string \<Rightarrow> SyncOptions \<Rightarrow> ('x, string \<times> goerror option) state" where
  "DeleteCluster E connection clusterName options =
     with_client E connection (\<lambda>err. ([], Some err))
       (\<lambda>h. State (sdk_DeleteCluster (env_Sdk E) h clusterName (so_DestroyMachines options)))"

definition StatusCluster ::
  "'x env \<Rightarrow> OmniConnection \<Rightarrow> string \<Rightarrow> ('x, string \<times> goerror option) state" where
  "StatusCluster E connection clusterName =
     with_client E connection (\<lambda>err. ([], Some err))
       (\<lambda>h. State (sdk_StatusCluster (env_Sdk E) h clusterName))"

definition Kubeconfig ::
  "'x env \<Rightarrow> OmniConnection \<Rightarrow> string \<Rightarrow> KubeconfigOptions \<Rightarrow> ('x, goerror + string) state" where
  "Kubeconfig E connection clusterName options =
     with_client E connection Inl (\<lambda>h. do {
       r \<leftarrow> State (sdk_Kubeconfig (env_Sdk E) h clusterName options);
       State_Monad.return
         (let pre = ''get kubeconfig for Omni cluster '' @ Quote (lib_IsPrint (env_Lib E)) clusterName @ '': '' in
          case r of
            Inl err \<Rightarrow> Inl (WrapError (pre @ Error err) err)
          | Inr data \<Rightarrow> if data = [] then Inl (ErrorString (pre @ ''response was empty'')) else Inr data) })"

definition RealClient :: "'x env \<Rightarrow> 'x omni_client" where
  "RealClient E =
     \<lparr>oc_Ping = (\<lambda>c. run_state (Ping E c)),
      oc_SyncTemplate = (\<lambda>c b t opts. run_state (SyncTemplate E c b t opts)),
      oc_DeleteCluster = (\<lambda>c n opts. run_state (DeleteCluster E c n opts)),
      oc_StatusCluster = (\<lambda>c n. run_state (StatusCluster E c n)),
      oc_Kubeconfig = (\<lambda>c n opts. run_state (Kubeconfig E c n opts))\<rparr>"

definition omniClient :: "'x env \<Rightarrow> 'x omni_client" where
  "omniClient E = (case env_Omni E of Some c \<Rightarrow> c | None \<Rightarrow> RealClient E)"

text \<open>The reconcilers' calls of the client, as events.\<close>

definition omni_Ping :: "'x env \<Rightarrow> OmniConnection \<Rightarrow> ('x, string \<times> goerror option) action" where
  "omni_Ping E c = call (oc_Ping (omniClient E) c) (EvPing c)"

definition omni_SyncTemplate ::
  "'x env \<Rightarrow> OmniConnection \<Rightarrow> string \<Rightarrow> string \<Rightarrow> SyncOptions \<Rightarrow> ('x, string \<times> goerror option) action" where
  "omni_SyncTemplate E c b t opts = call (oc_SyncTemplate (omniClient E) c b t opts) (EvSyncTemplate c b t opts)"

definition omni_DeleteCluster ::
  "'x env \<Rightarrow> OmniConnection \<Rightarrow> string \<Rightarrow> SyncOptions \<Rightarrow> ('x, string \<times> goerror option) action" where
  "omni_DeleteCluster E c n opts = call (oc_DeleteCluster (omniClient E) c n opts) (EvDeleteCluster c n opts)"

definition omni_StatusCluster :: "'x env \<Rightarrow> OmniConnection \<Rightarrow> string \<Rightarrow> ('x, string \<times> goerror option) action" where
  "omni_StatusCluster E c n = call (oc_StatusCluster (omniClient E) c n) (EvStatusCluster c n)"

definition omni_Kubeconfig ::
  "'x env \<Rightarrow> OmniConnection \<Rightarrow> string \<Rightarrow> KubeconfigOptions \<Rightarrow> ('x, goerror + string) action" where
  "omni_Kubeconfig E c n opts = call (oc_Kubeconfig (omniClient E) c n opts) (EvKubeconfig c n opts)"

lemmas omni_call_defs =
  omni_Ping_def omni_SyncTemplate_def omni_DeleteCluster_def omni_StatusCluster_def omni_Kubeconfig_def

end
