(* ===== verification/Omni_Credentials.thy ===== *)
theory Omni_Credentials
  imports Omni_Api
begin

text \<open>
  How the Omni client treats credentials: which stored values it accepts as a service account
  key, that every properly encoded key is among them, and that without one no operation reaches
  Omni.
\<close>

section \<open>Visible characters\<close>

definition graphic :: "char \<Rightarrow> bool" where
  "graphic c \<longleftrightarrow> 33 \<le> byte c \<and> byte c \<le> 126"

lemma space_runes_not_graphic: "list_all (list_all (\<lambda>c. \<not> graphic c)) space_runes"
  by code_simp

lemma not_space_prefix:
  assumes "list_all (\<lambda>c. \<not> graphic c) e" and "e \<noteq> []" and "list_all graphic s"
  shows "\<not> prefix e s"
proof
  assume "prefix e s"
  then have "set e \<subseteq> set s" by (rule set_mono_prefix)
  moreover have "hd e \<in> set e" using assms(2) by simp
  ultimately show False using assms(1,3) by (auto simp: list_all_iff)
qed

lemma TrimSpace_graphic:
  assumes "list_all graphic s"
  shows "TrimSpace s = s"
proof -
  have "strip space_runes s = s"
    using space_runes_not_graphic assms
    by (intro strip_fixed not_space_prefix) (auto simp: list_all_iff)
  moreover have "strip (map rev space_runes) (rev s) = rev s"
    using space_runes_not_graphic assms
    by (intro strip_fixed not_space_prefix) (auto simp: list_all_iff)
  ultimately show ?thesis
    by (simp add: TrimSpace_def TrimLeftSpace_def TrimRightSpace_def)
qed

section \<open>Base64\<close>

lemma of_char_chr: "0 \<le> n \<Longrightarrow> n < 256 \<Longrightarrow> byte (chr n) = n"
  by (rule byte_chr)

definition base64_ok :: "char \<Rightarrow> bool" where
  "base64_ok c \<longleftrightarrow> base64_alphabet c \<and> graphic c \<and> c \<noteq> CHR ''_''"

lemma base64_char_ok: "0 \<le> n \<Longrightarrow> n < 64 \<Longrightarrow> base64_ok (base64_char n)"
  by (auto simp: base64_char_def base64_ok_def base64_alphabet_def graphic_def Let_def of_char_chr
      dest: arg_cong [where f = byte])

lemma byte_range: "0 \<le> byte c \<and> byte c < 256"
proof -
  have "(of_char c :: int) = of_char c mod 256" by (simp add: of_char_mod_256)
  then show ?thesis using pos_mod_bound [of 256 "byte c"] pos_mod_sign [of 256 "byte c"] by simp
qed

lemma base64_groups:
  "0 \<le> byte a div 4 \<and> byte a div 4 < 64"
  "0 \<le> byte a mod 4 * 16 \<and> byte a mod 4 * 16 < 64"
  "0 \<le> byte a mod 4 * 16 + byte b div 16 \<and> byte a mod 4 * 16 + byte b div 16 < 64"
  "0 \<le> byte b mod 16 * 4 \<and> byte b mod 16 * 4 < 64"
  "0 \<le> byte b mod 16 * 4 + byte c div 64 \<and> byte b mod 16 * 4 + byte c div 64 < 64"
  "0 \<le> byte c mod 64 \<and> byte c mod 64 < 64"
proof -
  have d: "0 \<le> x div 4 \<and> x div 4 < 64" "0 \<le> x div 16 \<and> x div 16 < 16" "0 \<le> x div 64 \<and> x div 64 < 4"
    if "0 \<le> x \<and> x < 256" for x :: int
    using that by presburger+
  have m: "0 \<le> x mod 4 \<and> x mod 4 < 4" "0 \<le> x mod 16 \<and> x mod 16 < 16" "0 \<le> x mod 64 \<and> x mod 64 < 64" for x :: int
    by simp_all
  note d' = d [OF byte_range]
  show "0 \<le> byte a div 4 \<and> byte a div 4 < 64" by (rule d')
  show "0 \<le> byte a mod 4 * 16 \<and> byte a mod 4 * 16 < 64" using m(1) [of "byte a"] by linarith
  show "0 \<le> byte a mod 4 * 16 + byte b div 16 \<and> byte a mod 4 * 16 + byte b div 16 < 64"
    using m(1) [of "byte a"] d'(2) [of b] by linarith
  show "0 \<le> byte b mod 16 * 4 \<and> byte b mod 16 * 4 < 64" using m(2) [of "byte b"] by linarith
  show "0 \<le> byte b mod 16 * 4 + byte c div 64 \<and> byte b mod 16 * 4 + byte c div 64 < 64"
    using m(2) [of "byte b"] d'(3) [of c] by linarith
  show "0 \<le> byte c mod 64 \<and> byte c mod 64 < 64" by (rule m)
qed

lemma base64_char_group [simp]:
  "base64_ok (base64_char (byte a div 4))"
  "base64_ok (base64_char (byte a mod 4 * 16))"
  "base64_ok (base64_char (byte a mod 4 * 16 + byte b div 16))"
  "base64_ok (base64_char (byte b mod 16 * 4))"
  "base64_ok (base64_char (byte b mod 16 * 4 + byte c div 64))"
  "base64_ok (base64_char (byte c mod 64))"
  using base64_groups by (simp_all add: base64_char_ok)

lemma base64_ok_alphabet [simp]: "base64_ok c \<Longrightarrow> base64_alphabet c"
  by (simp add: base64_ok_def)

lemma base64_encode_chars: "list_all (\<lambda>c. base64_ok c \<or> c = CHR ''='') (base64_encode s)"
  by (induction s rule: base64_encode.induct) simp_all

lemma base64_encode_graphic: "list_all graphic (base64_encode s)"
  using base64_encode_chars [of s] by (rule list_all_weaken) (auto simp: base64_ok_def graphic_def)

lemma equals_not_alphabet: "\<not> base64_alphabet CHR ''='' \<and> \<not> newline CHR ''=''"
  by code_simp

lemma base64_encode_not_corrupt: "base64_corrupt (base64_encode s) si 0 = None"
  by (induction s arbitrary: si rule: base64_encode.induct)
    (simp_all add: Let_def equals_not_alphabet)

section \<open>Environment assignments\<close>

lemma lines_of_chars: "l \<in> set (lines_of s) \<Longrightarrow> set l \<subseteq> set s"
proof (induction s rule: lines_of.induct)
  case (2 c cs)
  then show ?case
    by (auto split: if_splits dest: set_takeWhileD set_dropWhileD)
qed simp

lemma TrimSpace_chars: "set (TrimSpace s) \<subseteq> set s"
  using TrimSpace_sublist [of s] by (rule set_mono_sublist)

lemma env_assignment_chars: "env_assignment_line l \<Longrightarrow> CHR ''_'' \<in> set l"
proof -
  assume "env_assignment_line l"
  then obtain p where p: "p \<in> {''OMNI_ENDPOINT='', ''OMNI_SERVICE_ACCOUNT_KEY='', ''SIDERO_SERVICE_ACCOUNT_KEY=''}"
    and "prefix p (TrimSpace (TrimPrefix (TrimSpace l) ''export ''))"
    by (auto simp: env_assignment_line_def Let_def)
  then have "set p \<subseteq> set (TrimSpace (TrimPrefix (TrimSpace l) ''export ''))"
    by (metis set_mono_prefix)
  also have "\<dots> \<subseteq> set (TrimPrefix (TrimSpace l) ''export '')" by (rule TrimSpace_chars)
  also have "\<dots> \<subseteq> set (TrimSpace l)" by (auto simp: TrimPrefix_def dest: in_set_dropD)
  also have "\<dots> \<subseteq> set l" by (rule TrimSpace_chars)
  finally show ?thesis using p by auto
qed

lemma encoded_no_assignment: "\<not> containsOmniEnvAssignment (base64_encode s)"
proof
  assume "containsOmniEnvAssignment (base64_encode s)"
  then obtain l where "l \<in> set (lines_of (base64_encode s))" and "CHR ''_'' \<in> set l"
    by (auto simp: containsOmniEnvAssignment_def list_ex_iff dest: env_assignment_chars)
  then have "CHR ''_'' \<in> set (base64_encode s)" using lines_of_chars by blast
  then show False
    using base64_encode_chars [of s] by (auto simp: list_all_iff base64_ok_def)
qed

section \<open>Properties\<close>

abbreviation key_ref :: "OmniConnection \<Rightarrow> SecretKeySelector" where
  "key_ref connection \<equiv> auth_ServiceAccountSecretRef (ons_Auth (on_Spec connection))"

abbreviation key_secret :: "'x env \<Rightarrow> OmniConnection \<Rightarrow> 'x \<Rightarrow> goerror + Secret" where
  "key_secret E connection x \<equiv>
     fst (secretReader_Get E \<lparr>nn_Namespace = om_Namespace (on_Meta connection), nn_Name = sks_Name (key_ref connection)\<rparr> x)"

lemma serviceAccountKey_run:
  "fst (run_state (serviceAccountKey E connection) x) = Inr key \<longleftrightarrow>
     (\<exists>secret value. key_secret E connection x = Inr secret
        \<and> map_get (sec_Data secret) (sks_Key (key_ref connection)) = Some value
        \<and> key = TrimSpace (bytes_of value) \<and> key \<noteq> [] \<and> \<not> containsOmniEnvAssignment key
        \<and> base64_corrupt key 0 0 = None)"
  by (cases "secretReader_Get E \<lparr>nn_Namespace = om_Namespace (on_Meta connection), nn_Name = sks_Name (key_ref connection)\<rparr> x")
    (auto simp: serviceAccountKey_def Let_def base64_decode_error_def split: sum.splits option.splits)

text \<open>
  Claim C32.  The key the client uses is exactly what is stored, without surrounding white space,
  under the referenced name and key in the connection's own namespace, and it is not empty, holds
  no environment assignment and is correct base64; in every other case there is an error.
\<close>

theorem serviceAccountKey_checked:
  "fst (run_state (serviceAccountKey E connection) x) = Inr key \<longleftrightarrow>
     (\<exists>secret value. key_secret E connection x = Inr secret
        \<and> map_get (sec_Data secret) (sks_Key (key_ref connection)) = Some value
        \<and> key = TrimSpace (bytes_of value) \<and> key \<noteq> [] \<and> \<not> containsOmniEnvAssignment key
        \<and> base64_corrupt key 0 0 = None)"
  by (rule serviceAccountKey_run)

text \<open>
  Every key that is stored base64-encoded, as the documentation asks, is accepted and
  used unchanged: the checks never reject the encoding of a non-empty key.
\<close>

theorem encoded_key_accepted:
  assumes "key_secret E connection x = Inr secret"
    and "map_get (sec_Data secret) (sks_Key (key_ref connection)) = Some (Some (base64_encode k))" and "k \<noteq> []"
  shows "fst (run_state (serviceAccountKey E connection) x) = Inr (base64_encode k)"
proof -
  have "base64_encode k \<noteq> []" using assms(3) by (cases k rule: base64_encode.cases) simp_all
  then show ?thesis
    using assms(1,2)
    by (simp add: serviceAccountKey_run TrimSpace_graphic base64_encode_graphic encoded_no_assignment
        base64_encode_not_corrupt)
qed

text \<open>
  Claim C33.  Without a usable key nothing reaches Omni: when the key cannot be read, every
  operation of the client returns that error and leaves the environment as the read left it.
\<close>

theorem no_key_no_call:
  assumes "run_state (serviceAccountKey E connection) x = (Inl err, x')"
  shows "run_state (Ping E connection) x = (([], Some err), x')
    \<and> run_state (SyncTemplate E connection b root opts) x = (([], Some err), x')
    \<and> run_state (DeleteCluster E connection n opts) x = (([], Some err), x')
    \<and> run_state (StatusCluster E connection n) x = (([], Some err), x')
    \<and> run_state (Kubeconfig E connection n kopts) x = (Inl err, x')"
  using assms
  by (simp add: Ping_def SyncTemplate_def DeleteCluster_def StatusCluster_def Kubeconfig_def with_client_def
      newOmniClient_def)

end
