(* ===== verification/Finalizers.thy ===== *)
theory Finalizers
  imports Operator_Env
begin

text \<open>
  The two halves of a finalizer's life that the controllers share: an item is claimed by writing
  it with the finalizer, and let go by writing its latest version without, under retry.  Each half
  is a locale, interpreted by the controllers that have it in this shape.
\<close>

section \<open>Claiming\<close>

locale claimed_kind =
  fixes ensure :: "'x env \<Rightarrow> 'o \<Rightarrow> ('x, early + unit) action"
    and api :: "'x env \<Rightarrow> ('x, 'o) kind_api"
    and mk :: "'o \<Rightarrow> api_object"
    and meta_of :: "'o \<Rightarrow> ObjectMeta"
    and with_meta :: "ObjectMeta \<Rightarrow> 'o \<Rightarrow> 'o"
  assumes ensure_eq: "ensure E item =
      (if lib_ContainsFinalizer (env_Lib E) (om_Finalizers (meta_of item)) Finalizer
       then State_Monad.return (Inr ())
       else do {
         err \<leftarrow> k_update (api E) mk (with_meta (add_finalizer (env_Lib E) (meta_of item)) item);
         State_Monad.return (case err of Some e \<Rightarrow> Inl (no_requeue, Some e) | None \<Rightarrow> Inl (requeue_now, None)) })"
    and meta_with_meta: "meta_of (with_meta m item) = m"
begin

text \<open>
  Claiming an item goes on at once when it has the finalizer; otherwise it writes the item with it
  and ends the run, which comes back at once unless the write failed.
\<close>

lemma ensure_emits:
  assumes "finalizer_contract (env_Lib E)"
  shows "emits (ensure E item) (\<lambda>r t.
    (r = Inr () \<and> t = [] \<and> lib_ContainsFinalizer (env_Lib E) (om_Finalizers (meta_of item)) Finalizer)
    \<or> (\<exists>x err. t = [EvUpdate (mk x) err] \<and> lib_ContainsFinalizer (env_Lib E) (om_Finalizers (meta_of x)) Finalizer
         \<and> r = (case err of Some e \<Rightarrow> Inl (no_requeue, Some e) | None \<Rightarrow> Inl (requeue_now, None))))"
  unfolding ensure_eq k_call_defs
  by (intro emits_rules)
    (use assms in \<open>auto simp: finalizer_contract_def add_finalizer_def meta_with_meta intro!: exI [of _ "with_meta _ _"]\<close>)

lemma ensure_claimed:
  "lib_ContainsFinalizer (env_Lib E) (om_Finalizers (meta_of item)) Finalizer \<Longrightarrow>
     ensure E item = State_Monad.return (Inr ())"
  by (simp add: ensure_eq)

lemma ensure_unclaimed:
  assumes "\<not> lib_ContainsFinalizer (env_Lib E) (om_Finalizers (meta_of item)) Finalizer"
  shows "emits (ensure E item) (\<lambda>r t.
    (\<exists>err. t = [EvUpdate (mk (with_meta (add_finalizer (env_Lib E) (meta_of item)) item)) err]) \<and> isl r)"
  unfolding ensure_eq k_call_defs using assms
  by (simp) (intro emits_rules; simp split: option.split)

lemma ensure_events:
  assumes "finalizer_contract (env_Lib E)"
    and "\<And>x err. lib_ContainsFinalizer (env_Lib E) (om_Finalizers (meta_of x)) Finalizer \<Longrightarrow> P (EvUpdate (mk x) err)"
  shows "emits (ensure E item) (\<lambda>r t. list_all P t)"
  by (rule emits_mono [OF ensure_emits [OF assms(1)]]) (auto intro: assms(2))

end

section \<open>Letting go\<close>

definition strip_finalizer :: "klib \<Rightarrow> ObjectMeta \<Rightarrow> ObjectMeta" where
  "strip_finalizer L m = m\<lparr>om_Finalizers := lib_RemoveFinalizer L (om_Finalizers m) Finalizer\<rparr>"

lemma strip_finalizer_lacks:
  "finalizer_contract L \<Longrightarrow> \<not> lib_ContainsFinalizer L (om_Finalizers (strip_finalizer L m)) Finalizer"
  by (simp add: finalizer_contract_def strip_finalizer_def)

locale released_kind =
  fixes release :: "'x env \<Rightarrow> 'o \<Rightarrow> ('x, goerror option) action"
    and attempt :: "'x env \<Rightarrow> NamespacedName \<Rightarrow> ('x, goerror option) action"
    and api :: "'x env \<Rightarrow> ('x, 'o) kind_api"
    and kind :: api_kind
    and mk :: "'o \<Rightarrow> api_object"
    and meta_of :: "'o \<Rightarrow> ObjectMeta"
    and strip :: "klib \<Rightarrow> 'o \<Rightarrow> 'o"
  assumes release_eq: "release E item = env_Retry E (attempt E (ObjectKeyFromMeta (meta_of item)))"
    and attempt_eq: "attempt E key = do {
      got \<leftarrow> k_get (api E) kind key;
      (case got of
         Inl err \<Rightarrow> State_Monad.return (if IsNotFound err then None else Some err)
       | Inr latest \<Rightarrow> k_update (api E) mk (strip (env_Lib E) latest)) }"
begin

definition release_event :: "'x env \<Rightarrow> NamespacedName \<Rightarrow> event \<Rightarrow> bool" where
  "release_event E key e \<longleftrightarrow>
     (\<exists>r. e = EvGet kind key r) \<or> (\<exists>latest r. e = EvUpdate (mk (strip (env_Lib E) latest)) r)"

text \<open>The item is gone, or its latest version was written without the finalizer.\<close>

definition let_go :: "'x env \<Rightarrow> NamespacedName \<Rightarrow> event list \<Rightarrow> bool" where
  "let_go E key t \<longleftrightarrow>
     (\<exists>s err. t = s @ [EvGet kind key (Some err)] \<and> IsNotFound err)
     \<or> (\<exists>s latest. t = s @ [EvGet kind key None, EvUpdate (mk (strip (env_Lib E) latest)) None])"

lemma attempt_emits:
  "emits (attempt E key) (\<lambda>r t. list_all (release_event E key) t \<and> (r = None \<longrightarrow> let_go E key t))"
  unfolding attempt_eq k_call_defs
  by (intro emits_rules) (auto simp: release_event_def let_go_def)

lemma let_go_append: "let_go E key t \<Longrightarrow> let_go E key (s @ t)"
  unfolding let_go_def by (metis append.assoc)

text \<open>All attempts only read and write the item, and success means that it is let go.\<close>

lemma release_emits:
  assumes "env_retry_ok E"
  shows "emits (release E item) (\<lambda>r t.
    list_all (release_event E (ObjectKeyFromMeta (meta_of item))) t
    \<and> (r = None \<longrightarrow> let_go E (ObjectKeyFromMeta (meta_of item)) t))"
  unfolding release_eq
proof (rule emits_mono [OF emits_retry [OF assms attempt_emits]])
  fix r t
  assume tried: "attempts (\<lambda>r t. list_all (release_event E (ObjectKeyFromMeta (meta_of item))) t
      \<and> (r = None \<longrightarrow> let_go E (ObjectKeyFromMeta (meta_of item)) t)) r t"
  then have "\<forall>e \<in> set t. release_event E (ObjectKeyFromMeta (meta_of item)) e"
    by (rule attempts_events) (simp add: list_all_iff)
  moreover have "let_go E (ObjectKeyFromMeta (meta_of item)) t" if "r = None"
    using attempts_success [OF tried [unfolded that]] by (auto intro: let_go_append)
  ultimately show "list_all (release_event E (ObjectKeyFromMeta (meta_of item))) t
      \<and> (r = None \<longrightarrow> let_go E (ObjectKeyFromMeta (meta_of item)) t)"
    by (simp add: list_all_iff)
qed

lemma release_events:
  assumes "env_retry_ok E" and "\<And>key r. P (EvGet kind key r)" and "\<And>latest r. P (EvUpdate (mk (strip (env_Lib E) latest)) r)"
  shows "emits (release E item) (\<lambda>r t. list_all P t)"
  by (rule emits_mono [OF release_emits [OF assms(1)]])
    (auto simp: release_event_def list_all_iff assms(2,3))

end

end
