(* ===== verification/Connection_Controller.thy ===== *)
theory Connection_Controller
  imports Omni_Api Finalizers
begin

text \<open>
  The OmniConnection controller (\<^verbatim>\<open>internal/controller/omniconnection_controller.go\<close>): it pings
  the Omni endpoint, reports reachability, and keeps a connection that is being deleted until no
  OmniCluster of its namespace refers to it.
\<close>

section \<open>Status\<close>

definition updateConnectionStatus ::
  "'x env \<Rightarrow> OmniConnection \<Rightarrow> (Time \<Rightarrow> OmniConnectionStatus \<Rightarrow> OmniConnectionStatus)
     \<Rightarrow> ('x, goerror option) action" where
  "updateConnectionStatus E connection mutate =
     write_status E (env_Connections E) KConnection ObjConnection False
       (\<lambda>now latest. latest\<lparr>on_Status := mutate now (on_Status latest)\<rparr>)
       (ObjectKeyFromMeta (on_Meta connection))"

definition set_connection_condition ::
  "klib \<Rightarrow> Time \<Rightarrow> Condition \<Rightarrow> OmniConnectionStatus \<Rightarrow> OmniConnectionStatus" where
  "set_connection_condition L now c status =
     status\<lparr>ost_Common := (ost_Common status)\<lparr>csf_Conditions :=
        SetCondition L now (csf_Conditions (ost_Common status)) c\<rparr>\<rparr>"

definition observe_connection :: "OmniConnection \<Rightarrow> OmniConnectionStatus \<Rightarrow> OmniConnectionStatus" where
  "observe_connection connection status =
     status\<lparr>ost_Common := (ost_Common status)\<lparr>csf_ObservedGeneration := om_Generation (on_Meta connection)\<rparr>,
            ost_Connection := \<lparr>cnf_ConnectionRef = om_Name (on_Meta connection),
                               cnf_Endpoint = ons_Endpoint (on_Spec connection)\<rparr>\<rparr>"

definition ping_status ::
  "klib \<Rightarrow> OmniConnection \<Rightarrow> Time \<Rightarrow> string \<Rightarrow> goerror option \<Rightarrow> Time \<Rightarrow> OmniConnectionStatus \<Rightarrow> OmniConnectionStatus" where
  "ping_status L connection checked outp err now status =
     (let g = om_Generation (on_Meta connection);
          s1 = (observe_connection connection status)\<lparr>ost_LastCheckTime := Some checked\<rparr>
      in case err of
           Some e \<Rightarrow>
             (let message = ''failed to connect to Omni: '' @ Error e;
                  s2 = set_connection_condition L now
                         (NewCondition ConditionReachable ConditionFalse g ReasonConnectionFailed message) s1;
                  s3 = set_connection_condition L now
                         (NewCondition ConditionReady ConditionFalse g ReasonConnectionFailed message) s2
              in set_connection_condition L now
                   (NewCondition ConditionStalled ConditionTrue g ReasonConnectionFailed message) s3)
         | None \<Rightarrow>
             (let s2 = set_connection_condition L now
                         (NewCondition ConditionReachable ConditionTrue g ReasonConnectionReady outp) s1;
                  s3 = set_connection_condition L now
                         (NewCondition ConditionReady ConditionTrue g ReasonConnectionReady outp) s2
              in set_connection_condition L now
                   (NewCondition ConditionStalled ConditionFalse g ReasonConnectionReady outp) s3))"

definition waiting_status ::
  "klib \<Rightarrow> OmniConnection \<Rightarrow> string \<Rightarrow> Time \<Rightarrow> OmniConnectionStatus \<Rightarrow> OmniConnectionStatus" where
  "waiting_status L connection message now status =
     (let g = om_Generation (on_Meta connection);
          s1 = observe_connection connection status;
          s2 = set_connection_condition L now
                 (NewCondition ConditionReady ConditionFalse g ReasonDeleting message) s1
      in set_connection_condition L now
           (NewCondition ConditionStalled ConditionTrue g ReasonDeleting message) s2)"

section \<open>Deletion\<close>

text \<open>\<open>sort.Strings\<close> orders by the bytes of the strings.\<close>

definition referencing :: "OmniConnection \<Rightarrow> OmniCluster list \<Rightarrow> string list" where
  "referencing connection clusters =
     sort (map (\<lambda>c. om_Name (c_Meta c))
       (filter (\<lambda>c. lor_Name (cs_ConnectionRef (c_Spec c)) = om_Name (on_Meta connection)) clusters))"

definition referencingClusterNames :: "'x env \<Rightarrow> OmniConnection \<Rightarrow> ('x, goerror + string list) action" where
  "referencingClusterNames E connection = do {
     clusters \<leftarrow> k_list (env_Clusters E) KCluster (om_Namespace (on_Meta connection));
     State_Monad.return (case clusters of Inl err \<Rightarrow> Inl err | Inr cs \<Rightarrow> Inr (referencing connection cs)) }"

definition release_attempt :: "'x env \<Rightarrow> NamespacedName \<Rightarrow> ('x, goerror option) action" where
  "release_attempt E key = do {
     got \<leftarrow> k_get (env_Connections E) KConnection key;
     (case got of
        Inl err \<Rightarrow> State_Monad.return (if IsNotFound err then None else Some err)
      | Inr latest \<Rightarrow>
          k_update (env_Connections E) ObjConnection
            (latest\<lparr>on_Meta := remove_finalizers (env_Lib E) (on_Meta latest)\<rparr>)) }"

definition removeFinalizers :: "'x env \<Rightarrow> OmniConnection \<Rightarrow> ('x, goerror option) action" where
  "removeFinalizers E connection = env_Retry E (release_attempt E (ObjectKeyFromMeta (on_Meta connection)))"

interpretation connection_release: released_kind removeFinalizers release_attempt env_Connections KConnection ObjConnection
  on_Meta "\<lambda>L c. c\<lparr>on_Meta := remove_finalizers L (on_Meta c)\<rparr>"
  by unfold_locales (simp_all add: removeFinalizers_def release_attempt_def)

definition Connection_reconcileDelete :: "'x env \<Rightarrow> OmniConnection \<Rightarrow> ('x, Result \<times> goerror option) action" where
  "Connection_reconcileDelete E connection =
     (let L = env_Lib E in
      if \<not> has_finalizer L (on_Meta connection) then State_Monad.return (no_requeue, None)
      else do {
        references \<leftarrow> referencingClusterNames E connection;
        (case references of
           Inl err \<Rightarrow> State_Monad.return (no_requeue, Some err)
         | Inr refs \<Rightarrow>
             if length refs > 0 then do {
               statusErr \<leftarrow> updateConnectionStatus E connection
                 (waiting_status L connection
                   (''waiting for OmniCluster references to be deleted: '' @ Join refs '', ''));
               State_Monad.return (requeue_after Minute, statusErr) }
             else do {
               err \<leftarrow> removeFinalizers E connection;
               State_Monad.return (no_requeue, err) }) })"

section \<open>Reconcile\<close>

definition Connection_Reconcile :: "'x env \<Rightarrow> NamespacedName \<Rightarrow> ('x, Result \<times> goerror option) action" where
  "Connection_Reconcile E req =
     (let L = env_Lib E in do {
      got \<leftarrow> k_get (env_Connections E) KConnection req;
      (case got of
         Inl err \<Rightarrow> State_Monad.return (if IsNotFound err then (no_requeue, None) else (no_requeue, Some err))
       | Inr connection \<Rightarrow>
           if \<not> Time_IsZero (om_DeletionTimestamp (on_Meta connection))
           then Connection_reconcileDelete E connection
           else if \<not> has_finalizer L (on_Meta connection) then do {
             err \<leftarrow> k_update (env_Connections E) ObjConnection
               (connection\<lparr>on_Meta := add_finalizer L (on_Meta connection)\<rparr>);
             State_Monad.return (case err of Some e \<Rightarrow> (no_requeue, Some e) | None \<Rightarrow> (requeue_now, None)) }
           else do {
             now \<leftarrow> observe (env_Now E);
             (outp, err) \<leftarrow> omni_Ping E connection;
             statusErr \<leftarrow> updateConnectionStatus E connection (ping_status L connection now outp err);
             State_Monad.return (case statusErr of
                 Some e \<Rightarrow> (no_requeue, Some e)
               | None \<Rightarrow> (case err of
                   Some e \<Rightarrow> (requeue_after Minute, Some e)
                 | None \<Rightarrow> (requeue_after (5 * Minute), None))) }) })"

section \<open>What a status claims\<close>

abbreviation connection_condition :: "OmniConnectionStatus \<Rightarrow> string \<Rightarrow> ConditionStatus \<Rightarrow> string \<Rightarrow> bool" where
  "connection_condition s \<equiv> condition_is (csf_Conditions (ost_Common s))"

definition connection_ready :: "OmniConnectionStatus \<Rightarrow> bool" where
  "connection_ready s \<longleftrightarrow>
     connection_condition s ConditionReachable ConditionTrue ReasonConnectionReady
     \<and> connection_condition s ConditionReady ConditionTrue ReasonConnectionReady
     \<and> connection_condition s ConditionStalled ConditionFalse ReasonConnectionReady"

definition connection_stalled :: "OmniConnectionStatus \<Rightarrow> bool" where
  "connection_stalled s \<longleftrightarrow>
     (\<exists>reason. connection_condition s ConditionReady ConditionFalse reason
        \<and> connection_condition s ConditionStalled ConditionTrue reason)"

lemma set_connection_condition_is:
  "condition_contract L \<Longrightarrow> cond_LastTransitionTime c = zero_time \<Longrightarrow>
     connection_condition (set_connection_condition L now c s) ty st reason =
       (if ty = cond_Type c then cond_Status c = st \<and> cond_Reason c = reason
        else connection_condition s ty st reason)"
  by (simp add: set_connection_condition_def condition_is_def SetCondition_upsert find_condition_upsert)

lemma ping_status_claims:
  assumes "condition_contract L"
  shows "connection_ready (ping_status L connection checked outp err now s) = (err = None)"
    and "connection_stalled (ping_status L connection checked outp err now s) = (err \<noteq> None)"
  using assms
  by (auto simp: connection_ready_def connection_stalled_def ping_status_def Let_def
      set_connection_condition_is condition_type_defs split: option.split)

lemma waiting_status_claims:
  assumes "condition_contract L"
  shows "connection_stalled (waiting_status L connection message now s)"
    and "\<not> connection_ready (waiting_status L connection message now s)"
  using assms
  by (auto simp: connection_ready_def connection_stalled_def waiting_status_def Let_def
      set_connection_condition_is condition_type_defs)

section \<open>Traces\<close>

definition connection_writes :: "(OmniConnectionStatus \<Rightarrow> bool) \<Rightarrow> event \<Rightarrow> bool" where
  "connection_writes P e \<longleftrightarrow>
     (\<exists>k key r. e = EvGet k key r) \<or> (\<exists>c r. e = EvStatusUpdate (ObjConnection c) r \<and> P (on_Status c))"

lemma updateConnectionStatus_emits:
  assumes "env_retry_ok E" and "\<And>now s. P (mutate now s)"
  shows "emits (updateConnectionStatus E connection mutate) (\<lambda>r t. list_all (connection_writes P) t)"
  unfolding updateConnectionStatus_def
  by (rule emits_mono [OF write_status_emits [where P = "\<lambda>obj. \<exists>c. obj = ObjConnection c \<and> P (on_Status c)"]])
    (use assms in \<open>auto elim!: list_all_weaken simp: status_write_event_def connection_writes_def\<close>)

lemma removeFinalizers_emits:
  assumes "env_retry_ok E"
  shows "emits (removeFinalizers E connection)
    (\<lambda>r t. list_all (\<lambda>e. (\<exists>k key r. e = EvGet k key r) \<or> (\<exists>c r. e = EvUpdate (ObjConnection c) r)) t)"
  by (rule connection_release.release_events [OF assms]) auto

fun ping_ok :: "event \<Rightarrow> bool" where
  "ping_ok (EvPing connection (out, err)) = (err = None)"
| "ping_ok e = False"

fun writes_connection :: "(OmniConnectionStatus \<Rightarrow> bool) \<Rightarrow> event \<Rightarrow> bool" where
  "writes_connection P (EvStatusUpdate (ObjConnection c) r) = P (on_Status c)"
| "writes_connection P e = False"

lemma connection_writes_not:
  "list_all (connection_writes P) t \<Longrightarrow> (\<And>s. P s \<Longrightarrow> \<not> Q s) \<Longrightarrow>
     list_all (\<lambda>e. \<not> writes_connection Q e) t"
  by (elim list_all_weaken) (auto simp: connection_writes_def)

lemma referencingClusterNames_emits:
  "emits (referencingClusterNames E connection)
     (\<lambda>r t. \<exists>answer. t = [EvList KCluster (om_Namespace (on_Meta connection)) answer])"
  unfolding referencingClusterNames_def k_list_def by (intro emits_rules) auto

lemma Connection_reconcileDelete_emits:
  assumes retry: "env_retry_ok E" and L: "condition_contract (env_Lib E)"
  shows "emits (Connection_reconcileDelete E connection)
    (\<lambda>out t. list_all (\<lambda>e. \<not> writes_connection (\<lambda>s. \<not> connection_stalled s \<or> connection_ready s) e) t)"
  unfolding Connection_reconcileDelete_def Let_def
proof (intro emits_if emits_return emits_then [OF referencingClusterNames_emits] emits_case_sum)
  fix references t refs
  assume t: "\<exists>answer. t = [EvList KCluster (om_Namespace (on_Meta connection)) answer]"
  show "emits (State_Monad.bind (updateConnectionStatus E connection
        (waiting_status (env_Lib E) connection
          (''waiting for OmniCluster references to be deleted: '' @ Join refs '', '')))
        (\<lambda>statusErr. State_Monad.return (requeue_after Minute, statusErr)))
      (\<lambda>out t'. list_all (\<lambda>e. \<not> writes_connection (\<lambda>s. \<not> connection_stalled s \<or> connection_ready s) e) (t @ t'))"
    by (intro emits_then [OF updateConnectionStatus_emits
          [where P = "\<lambda>s. connection_stalled s \<and> \<not> connection_ready s", OF retry]] emits_return conjI
        waiting_status_claims [OF L])
      (use t in \<open>auto elim: connection_writes_not\<close>)
  show "emits (State_Monad.bind (removeFinalizers E connection) (\<lambda>err. State_Monad.return (no_requeue, err)))
      (\<lambda>out t'. list_all (\<lambda>e. \<not> writes_connection (\<lambda>s. \<not> connection_stalled s \<or> connection_ready s) e) (t @ t'))"
    by (intro emits_then [OF removeFinalizers_emits [OF retry]] emits_return)
      (use t in \<open>auto elim!: list_all_weaken\<close>)
qed auto

section \<open>Properties\<close>

text \<open>
  Claim C28.  Every status the controller writes for a connection says either Reachable and Ready
  and not Stalled, or not Ready and Stalled; and the first only after a successful ping.
\<close>

theorem connection_ready_after_ping:
  assumes retry: "env_retry_ok E" and L: "condition_contract (env_Lib E)"
  shows "emits (Connection_Reconcile E req) (\<lambda>out t.
     preceded (writes_connection (\<lambda>s. \<not> connection_stalled s)) ping_ok t
     \<and> list_all (\<lambda>e. \<not> writes_connection (\<lambda>s. connection_ready s = connection_stalled s) e) t)"
  unfolding Connection_Reconcile_def Let_def k_call_defs omni_Ping_def
proof (intro emits_call_bind emits_observe_bind emits_case_sum emits_if emits_case_prod)
  fix got :: "goerror + OmniConnection" and connection now and answer :: "string \<times> goerror option" and outp err
  assume answer: "answer = (outp, err)"
  let ?P = "\<lambda>s. connection_ready s = (err = None) \<and> connection_stalled s = (err \<noteq> None)"
  have P: "?P (ping_status (env_Lib E) connection now outp err now' s)" for now' s
    using ping_status_claims [OF L] by simp
  show "emits (State_Monad.bind (updateConnectionStatus E connection (ping_status (env_Lib E) connection now outp err))
      (\<lambda>statusErr. State_Monad.return (case statusErr of
          None \<Rightarrow> (case err of None \<Rightarrow> (requeue_after (5 * Minute), None) | Some e \<Rightarrow> (requeue_after Minute, Some e))
        | Some e \<Rightarrow> (no_requeue, Some e))))
     (\<lambda>out t. preceded (writes_connection (\<lambda>s. \<not> connection_stalled s)) ping_ok
         (EvGet KConnection req (err_of got) # EvPing connection answer # t)
       \<and> list_all (\<lambda>e. \<not> writes_connection (\<lambda>s. connection_ready s = connection_stalled s) e)
         (EvGet KConnection req (err_of got) # EvPing connection answer # t))"
    by (intro emits_then [OF updateConnectionStatus_emits [where P = ?P, OF retry P]] emits_return)
      (auto simp: answer intro!: preceded_none elim: connection_writes_not)
next
  fix got :: "goerror + OmniConnection" and connection
  show "emits (Connection_reconcileDelete E connection)
      (\<lambda>out t. preceded (writes_connection (\<lambda>s. \<not> connection_stalled s)) ping_ok
         (EvGet KConnection req (err_of got) # t)
       \<and> list_all (\<lambda>e. \<not> writes_connection (\<lambda>s. connection_ready s = connection_stalled s) e)
         (EvGet KConnection req (err_of got) # t))"
    by (rule emits_mono [OF Connection_reconcileDelete_emits [OF retry L]])
      (auto intro!: preceded_none elim!: list_all_weaken elim: writes_connection.elims)
qed (auto intro!: emits_return split: option.splits)

lemma referencing_iff:
  "n \<in> set (referencing connection cs) \<longleftrightarrow>
     (\<exists>c \<in> set cs. lor_Name (cs_ConnectionRef (c_Spec c)) = om_Name (on_Meta connection) \<and> om_Name (c_Meta c) = n)"
  by (auto simp: referencing_def)

text \<open>
  Claim C27.  A connection that is being deleted is kept while a cluster of its namespace refers
  to it: the handler then writes no connection back, so the finalizer stays, and asks to be run
  again after a minute.
\<close>

theorem connection_kept_while_referenced:
  assumes retry: "env_retry_ok E" and fin: "has_finalizer (env_Lib E) (on_Meta connection)"
    and listed: "fst (api_List (env_Clusters E) (om_Namespace (on_Meta connection)) (ext w)) = Inr cs"
    and c: "c \<in> set cs" "lor_Name (cs_ConnectionRef (c_Spec c)) = om_Name (on_Meta connection)"
    and run: "run_state (Connection_reconcileDelete E connection) w = (out, w')"
  shows "fst out = requeue_after Minute \<and>
    (\<exists>t. trace w' = trace w @ t \<and> list_all (\<lambda>e. \<not> (\<exists>obj r. e = EvUpdate obj r)) t)"
proof -
  obtain x where answer: "api_List (env_Clusters E) (om_Namespace (on_Meta connection)) (ext w) = (Inr cs, x)"
    using listed by (cases "api_List (env_Clusters E) (om_Namespace (on_Meta connection)) (ext w)") simp
  have "om_Name (c_Meta c) \<in> set (referencing connection cs)"
    using c by (auto simp: referencing_iff)
  then have refs: "0 < length (referencing connection cs)" by (rule length_pos_if_in_set)
  let ?wait = "State_Monad.bind (updateConnectionStatus E connection
        (waiting_status (env_Lib E) connection
          (''waiting for OmniCluster references to be deleted: '' @ Join (referencing connection cs) '', '')))
        (\<lambda>statusErr. State_Monad.return (requeue_after Minute, statusErr))"
  have "run_state ?wait \<lparr>ext = x, trace = trace w @ [EvList KCluster (om_Namespace (on_Meta connection)) None]\<rparr> = (out, w')"
    using run fin answer refs
    by (simp add: Connection_reconcileDelete_def referencingClusterNames_def k_list_def call_def)
  moreover have "emits ?wait (\<lambda>out t. fst out = requeue_after Minute \<and>
      list_all (\<lambda>e. \<not> (\<exists>obj r. e = EvUpdate obj r)) t)"
    by (intro emits_then [OF updateConnectionStatus_emits [where P = "\<lambda>s. True", OF retry]] emits_return)
      (auto elim!: list_all_weaken simp: connection_writes_def)
  ultimately obtain t where "fst out = requeue_after Minute"
    "trace w' = (trace w @ [EvList KCluster (om_Namespace (on_Meta connection)) None]) @ t"
    "list_all (\<lambda>e. \<not> (\<exists>obj r. e = EvUpdate obj r)) t"
    by (auto dest: emits_run)
  then show ?thesis
    by (intro conjI exI [of _ "EvList KCluster (om_Namespace (on_Meta connection)) None # t"]) simp_all
qed

end
