(* ===== verification/Secret_Sync_Client.thy ===== *)
theory Secret_Sync_Client
  imports Operator_Env
begin

text \<open>
  The client of \<^verbatim>\<open>internal/secretsync\<close>: how a Secret is written to a workload cluster and removed
  from it again.  A clientset is made from a kubeconfig by client-go; its requests are events.

  The lemmas say which requests the two operations make, and what their success means for the
  target.
\<close>

section \<open>Requests\<close>

definition w_get_namespace :: "'x env \<Rightarrow> nat \<Rightarrow> string \<Rightarrow> ('x, goerror option) action" where
  "w_get_namespace E cs ns = call (wl_GetNamespace (env_Workload E) cs ns) (\<lambda>r. EvWorkload cs (WGetNamespace ns r))"

definition w_create_namespace :: "'x env \<Rightarrow> nat \<Rightarrow> string \<Rightarrow> ('x, goerror option) action" where
  "w_create_namespace E cs ns =
     call (wl_CreateNamespace (env_Workload E) cs ns) (\<lambda>r. EvWorkload cs (WCreateNamespace ns r))"

definition target_key :: "Target \<Rightarrow> NamespacedName" where
  "target_key target = \<lparr>nn_Namespace = tg_Namespace target, nn_Name = tg_Name target\<rparr>"

definition w_get_secret :: "'x env \<Rightarrow> nat \<Rightarrow> Target \<Rightarrow> ('x, goerror + Secret) action" where
  "w_get_secret E cs target =
     call (wl_GetSecret (env_Workload E) cs (tg_Namespace target) (tg_Name target))
       (\<lambda>r. EvWorkload cs (WGetSecret (target_key target) r))"

definition w_create_secret :: "'x env \<Rightarrow> nat \<Rightarrow> Target \<Rightarrow> Secret \<Rightarrow> ('x, goerror option) action" where
  "w_create_secret E cs target secret =
     call (wl_CreateSecret (env_Workload E) cs (tg_Namespace target) secret)
       (\<lambda>r. EvWorkload cs (WCreateSecret secret r))"

definition w_update_secret :: "'x env \<Rightarrow> nat \<Rightarrow> Target \<Rightarrow> Secret \<Rightarrow> ('x, goerror option) action" where
  "w_update_secret E cs target secret =
     call (wl_UpdateSecret (env_Workload E) cs (tg_Namespace target) secret)
       (\<lambda>r. EvWorkload cs (WUpdateSecret secret r))"

definition w_delete_secret :: "'x env \<Rightarrow> nat \<Rightarrow> Target \<Rightarrow> ('x, goerror option) action" where
  "w_delete_secret E cs target =
     call (wl_DeleteSecret (env_Workload E) cs (tg_Namespace target) (tg_Name target))
       (\<lambda>r. EvWorkload cs (WDeleteSecret (target_key target) r))"

lemmas w_call_defs = w_get_namespace_def w_create_namespace_def w_get_secret_def w_create_secret_def
  w_update_secret_def w_delete_secret_def

section \<open>Operations\<close>

definition clientset :: "'x env \<Rightarrow> string \<Rightarrow> goerror + nat" where
  "clientset E kubeconfig =
     (case cc_RESTConfigFromKubeConfig (env_Clientcmd E) kubeconfig of
        Inl err \<Rightarrow> Inl (WrapError (''load workload kubeconfig: '' @ Error err) err)
      | Inr config \<Rightarrow>
          (case cc_NewForConfig (env_Clientcmd E)
                  (cc_AddUserAgent (env_Clientcmd E) config ''omni-cluster-operator-secret-sync'') of
             Inl err \<Rightarrow> Inl (WrapError (''create workload Kubernetes client: '' @ Error err) err)
           | Inr cs \<Rightarrow> Inr cs))"

definition ensureNamespace :: "'x env \<Rightarrow> nat \<Rightarrow> string \<Rightarrow> ('x, goerror option) action" where
  "ensureNamespace E cs namespace = do {
     got \<leftarrow> w_get_namespace E cs namespace;
     (case got of
        None \<Rightarrow> State_Monad.return None
      | Some err \<Rightarrow>
          if \<not> IsNotFound err
          then State_Monad.return (Some (WrapError
            (''get workload namespace '' @ Quote (lib_IsPrint (env_Lib E)) namespace @ '': '' @ Error err) err))
          else do {
            created \<leftarrow> w_create_namespace E cs namespace;
            State_Monad.return (case created of
                None \<Rightarrow> None
              | Some e \<Rightarrow>
                  if IsAlreadyExists e then None
                  else Some (WrapError
                    (''create workload namespace '' @ Quote (lib_IsPrint (env_Lib E)) namespace @ '': '' @ Error e) e)) }) }"

text \<open>An error of a request for the target Secret.\<close>

definition secret_error :: "klib \<Rightarrow> string \<Rightarrow> Target \<Rightarrow> goerror \<Rightarrow> goerror" where
  "secret_error L verb target err =
     WrapError (verb @ '' workload Secret '' @ Quote (lib_IsPrint L) (namespacedName target) @ '': '' @ Error err) err"

definition same_content :: "Secret \<Rightarrow> Secret \<Rightarrow> bool" where
  "same_content existing desired \<longleftrightarrow>
     sec_Type existing = sec_Type desired \<and> sec_Data existing = sec_Data desired
     \<and> om_Labels (sec_Meta existing) = om_Labels (sec_Meta desired)
     \<and> om_Annotations (sec_Meta existing) = om_Annotations (sec_Meta desired)"

definition write_target ::
  "'x env \<Rightarrow> nat \<Rightarrow> Target \<Rightarrow> Secret \<Rightarrow> string \<Rightarrow> ('x, goerror + SyncResult) action" where
  "write_target E cs target desired hash =
     (let result = \<lparr>sr_Target = target, sr_Type = sec_Type desired, sr_Hash = hash\<rparr>;
          outcome = (\<lambda>verb err. case err of None \<Rightarrow> Inr result | Some e \<Rightarrow> Inl (secret_error (env_Lib E) verb target e)) in do {
      got \<leftarrow> w_get_secret E cs target;
      (case got of
         Inl err \<Rightarrow>
           if IsNotFound err then do {
             createErr \<leftarrow> w_create_secret E cs target desired;
             State_Monad.return (outcome ''create'' createErr) }
           else State_Monad.return (Inl (secret_error (env_Lib E) ''get'' target err))
       | Inr existing \<Rightarrow>
           (let updated = desired\<lparr>sec_Meta := (sec_Meta desired)\<lparr>om_ResourceVersion :=
                  om_ResourceVersion (sec_Meta existing)\<rparr>\<rparr> in
            if same_content existing updated then State_Monad.return (Inr result)
            else do {
              updateErr \<leftarrow> w_update_secret E cs target updated;
              State_Monad.return (outcome ''update'' updateErr) })) })"

definition sync_target ::
  "'x env \<Rightarrow> nat \<Rightarrow> OmniSecretSync \<Rightarrow> Secret \<Rightarrow> string \<Rightarrow> ('x, goerror + SyncResult) action" where
  "sync_target E cs item source clusterName =
     (let desired = DesiredSecret item source clusterName in
      case SyncHash (sec_Type desired) (sec_Data desired) of
        Inl err \<Rightarrow> State_Monad.return (Inl err)
      | Inr hash \<Rightarrow> write_target E cs (TargetForItem item) (with_hash hash desired) hash)"

definition Client_Sync ::
  "'x env \<Rightarrow> OmniSecretSync \<Rightarrow> Secret \<Rightarrow> string \<Rightarrow> string \<Rightarrow> ('x, goerror + SyncResult) action" where
  "Client_Sync E item source kubeconfig clusterName =
     (case clientset E kubeconfig of
        Inl err \<Rightarrow> State_Monad.return (Inl err)
      | Inr cs \<Rightarrow>
          if sss_CreateNamespace (ss_Spec item) then do {
            err \<leftarrow> ensureNamespace E cs (tg_Namespace (TargetForItem item));
            (case err of
               Some e \<Rightarrow> State_Monad.return (Inl e)
             | None \<Rightarrow> sync_target E cs item source clusterName) }
          else sync_target E cs item source clusterName)"

definition Client_Delete ::
  "'x env \<Rightarrow> OmniSecretSync \<Rightarrow> string \<Rightarrow> Target \<Rightarrow> ('x, goerror option) action" where
  "Client_Delete E item kubeconfig target =
     (case clientset E kubeconfig of
        Inl err \<Rightarrow> State_Monad.return (Some err)
      | Inr cs \<Rightarrow> do {
          got \<leftarrow> w_get_secret E cs target;
          (case got of
             Inl err \<Rightarrow> State_Monad.return
               (if IsNotFound err then None else Some (secret_error (env_Lib E) ''get'' target err))
           | Inr secret \<Rightarrow>
               if \<not> SyncIsOwnedSecret item (Some secret) then State_Monad.return None
               else do {
                 deleteErr \<leftarrow> w_delete_secret E cs target;
                 State_Monad.return (case deleteErr of
                     None \<Rightarrow> None
                   | Some e \<Rightarrow> if IsNotFound e then None else Some (secret_error (env_Lib E) ''delete'' target e)) }) })"

section \<open>What the operations do\<close>

text \<open>
  The Secret that the item puts into the workload cluster of a name for a source Secret, with
  whatever resource version; and such a Secret for some source and cluster.
\<close>

definition sync_content :: "OmniSecretSync \<Rightarrow> Secret \<Rightarrow> string \<Rightarrow> Secret \<Rightarrow> bool" where
  "sync_content item source name s \<longleftrightarrow>
     (\<exists>v. s = (let d = DesiredSecret item source name;
         d' = with_hash (hex_encode (sha256 (sync_hash_payload (sec_Type d) (sec_Data d)))) d
       in d'\<lparr>sec_Meta := (sec_Meta d')\<lparr>om_ResourceVersion := v\<rparr>\<rparr>))"

definition wanted_secret :: "OmniSecretSync \<Rightarrow> Secret \<Rightarrow> bool" where
  "wanted_secret item s \<longleftrightarrow> (\<exists>source name. sync_content item source name s)"

fun workload_event_of :: "OmniSecretSync \<Rightarrow> workload_event \<Rightarrow> bool" where
  "workload_event_of item (WGetNamespace ns r) = (ns = tg_Namespace (TargetForItem item) \<and> sss_CreateNamespace (ss_Spec item))"
| "workload_event_of item (WCreateNamespace ns r) = (ns = tg_Namespace (TargetForItem item) \<and> sss_CreateNamespace (ss_Spec item))"
| "workload_event_of item (WGetSecret key r) = True"
| "workload_event_of item (WCreateSecret s r) = wanted_secret item s"
| "workload_event_of item (WUpdateSecret s r) = wanted_secret item s"
| "workload_event_of item (WDeleteSecret key r) = True"

fun found_owned :: "OmniSecretSync \<Rightarrow> nat \<Rightarrow> NamespacedName \<Rightarrow> event \<Rightarrow> bool" where
  "found_owned item h key (EvWorkload h' (WGetSecret key' (Inr s))) =
     (h' = h \<and> key' = key \<and> SyncIsOwnedSecret item (Some s))"
| "found_owned item h key e = False"

fun deletes_target :: "nat \<Rightarrow> NamespacedName \<Rightarrow> event \<Rightarrow> bool" where
  "deletes_target h key (EvWorkload h' (WDeleteSecret key' r)) = (h' = h \<and> key' = key)"
| "deletes_target h key e = False"

text \<open>The Secret of the key is gone, or it is not the item's.\<close>

fun cleaned :: "OmniSecretSync \<Rightarrow> NamespacedName \<Rightarrow> event \<Rightarrow> bool" where
  "cleaned item key (EvWorkload h (WGetSecret key' r)) =
     (key' = key \<and> (case r of Inl err \<Rightarrow> IsNotFound err | Inr s \<Rightarrow> \<not> SyncIsOwnedSecret item (Some s)))"
| "cleaned item key (EvWorkload h (WDeleteSecret key' r)) =
     (key' = key \<and> (case r of None \<Rightarrow> True | Some err \<Rightarrow> IsNotFound err))"
| "cleaned item key e = False"

text \<open>
  The target of the item in the workload cluster of handle \<open>h\<close> holds what it should for the source:
  it was just written, or found to be so.
\<close>

fun in_place_of :: "OmniSecretSync \<Rightarrow> nat \<Rightarrow> Secret \<Rightarrow> string \<Rightarrow> event \<Rightarrow> bool" where
  "in_place_of item h source name (EvWorkload h' (WCreateSecret s r)) =
     (h' = h \<and> r = None \<and> sync_content item source name s)"
| "in_place_of item h source name (EvWorkload h' (WUpdateSecret s r)) =
     (h' = h \<and> r = None \<and> sync_content item source name s)"
| "in_place_of item h source name (EvWorkload h' (WGetSecret key r)) =
     (h' = h \<and> key = target_key (TargetForItem item) \<and> (case r of
        Inl err \<Rightarrow> False | Inr s \<Rightarrow> \<exists>d. sync_content item source name d \<and> same_content s d))"
| "in_place_of item h source name e = False"

definition client_event :: "OmniSecretSync \<Rightarrow> event \<Rightarrow> bool" where
  "client_event item e \<longleftrightarrow> (\<exists>h w. e = EvWorkload h w \<and> workload_event_of item w)"

lemma sync_content_hash:
  assumes "SyncHash (sec_Type (DesiredSecret item source name)) (sec_Data (DesiredSecret item source name)) = Inr hash"
  shows "sync_content item source name (with_hash hash (DesiredSecret item source name))"
    and "sync_content item source name ((with_hash hash (DesiredSecret item source name))\<lparr>sec_Meta :=
      (sec_Meta (with_hash hash (DesiredSecret item source name)))\<lparr>om_ResourceVersion := v\<rparr>\<rparr>)"
proof -
  let ?d = "with_hash hash (DesiredSecret item source name)"
  show "sync_content item source name (?d\<lparr>sec_Meta := (sec_Meta ?d)\<lparr>om_ResourceVersion := v\<rparr>\<rparr>)" for v
    using assms unfolding sync_content_def SyncHash_def Let_def by blast
  from this [of "[]"] show "sync_content item source name ?d"
    by (simp add: with_hash_def DesiredSecret_def Let_def)
qed

lemma sync_content_wanted: "sync_content item source name s \<Longrightarrow> wanted_secret item s"
  by (auto simp: wanted_secret_def)

lemma wanted_secret_facts:
  assumes "wanted_secret item s"
  shows "SyncIsOwnedSecret item (Some s)" "ObjectKeyFromMeta (sec_Meta s) = target_key (TargetForItem item)"
proof -
  obtain source name v h where s: "s = (with_hash h (DesiredSecret item source name))\<lparr>sec_Meta :=
      (sec_Meta (with_hash h (DesiredSecret item source name)))\<lparr>om_ResourceVersion := v\<rparr>\<rparr>"
    using assms unfolding wanted_secret_def sync_content_def Let_def by blast
  show "SyncIsOwnedSecret item (Some s)"
    by (simp add: s SyncIsOwnedSecret_def desired_secret_marks)
  show "ObjectKeyFromMeta (sec_Meta s) = target_key (TargetForItem item)"
    by (simp add: s ObjectKeyFromMeta_def target_key_def DesiredSecret_def Let_def)
qed

lemma ensureNamespace_emits:
  assumes "sss_CreateNamespace (ss_Spec item)"
  shows "emits (ensureNamespace E cs (tg_Namespace (TargetForItem item)))
    (\<lambda>r t. list_all (client_event item) t \<and> list_all (\<lambda>e. \<not> deletes_target h key e) t)"
  unfolding ensureNamespace_def w_call_defs
  by (intro emits_rules) (auto simp: client_event_def assms)

lemma sync_target_emits:
  "emits (sync_target E cs item source name)
    (\<lambda>r t. list_all (client_event item) t \<and> list_all (\<lambda>e. \<not> deletes_target h key e) t
       \<and> (\<forall>res. r = Inr res \<longrightarrow> list_ex (in_place_of item cs source name) t))"
  unfolding sync_target_def write_target_def Let_def w_call_defs
  by (intro emits_rules)
    (auto simp: client_event_def dest: sync_content_hash intro: sync_content_wanted split: option.splits)

lemma Client_Sync_emits:
  "emits (Client_Sync E item source kc name)
    (\<lambda>r t. list_all (client_event item) t \<and> list_all (\<lambda>e. \<not> deletes_target h key e) t
       \<and> (\<forall>res. r = Inr res \<longrightarrow> (\<exists>cs. clientset E kc = Inr cs \<and> list_ex (in_place_of item cs source name) t)))"
  unfolding Client_Sync_def
  by (intro emits_case_sum emits_if emits_return
      emits_then [OF ensureNamespace_emits [of item _ _ h key]] emits_case_option
      emits_mono [OF sync_target_emits [of _ _ item source name h key]]) auto

lemma Client_Delete_emits:
  "emits (Client_Delete E item kc target)
    (\<lambda>r t. list_all (client_event item) t
       \<and> preceded (deletes_target h key) (found_owned item h key) t
       \<and> (r = None \<longrightarrow> list_ex (cleaned item (target_key target)) t))"
  unfolding Client_Delete_def w_call_defs
  by (intro emits_rules) (auto simp: client_event_def split: option.splits)

section \<open>Repeated and first syncs\<close>

text \<open>
  A server that keeps the content of the Secrets it is given, while nobody else writes the one of
  this name: reading again, and reading after a successful create or update, returns the content.
\<close>

definition reads_content :: "'x workload_api \<Rightarrow> nat \<Rightarrow> string \<Rightarrow> string \<Rightarrow> Secret \<Rightarrow> 'x \<Rightarrow> bool" where
  "reads_content W cs ns name s x \<longleftrightarrow> (\<exists>s' x'. wl_GetSecret W cs ns name x = (Inr s', x') \<and> same_content s' s)"

definition keeps_secrets :: "'x workload_api \<Rightarrow> nat \<Rightarrow> string \<Rightarrow> string \<Rightarrow> bool" where
  "keeps_secrets W cs ns name \<longleftrightarrow>
     (\<forall>x s x'. wl_GetSecret W cs ns name x = (Inr s, x') \<longrightarrow> reads_content W cs ns name s x')
     \<and> (\<forall>s x x'. om_Name (sec_Meta s) = name \<longrightarrow> wl_CreateSecret W cs ns s x = (None, x')
          \<longrightarrow> reads_content W cs ns name s x')
     \<and> (\<forall>s x x'. om_Name (sec_Meta s) = name \<longrightarrow> wl_UpdateSecret W cs ns s x = (None, x')
          \<longrightarrow> reads_content W cs ns name s x')"

lemma same_content_trans: "same_content a b \<Longrightarrow> same_content b c \<Longrightarrow> same_content a c"
  by (simp add: same_content_def)

lemma same_content_version [simp]:
  "same_content s (d\<lparr>sec_Meta := (sec_Meta d)\<lparr>om_ResourceVersion := v\<rparr>\<rparr>) = same_content s d"
  by (simp add: same_content_def)

text \<open>After a successful write the content is in place, and then a write only reads.\<close>

lemma write_target_leaves:
  assumes keeps: "keeps_secrets (env_Workload E) cs (tg_Namespace target) (tg_Name target)"
    and name: "om_Name (sec_Meta desired) = tg_Name target"
    and run: "run_state (write_target E cs target desired hash) w = (Inr res, w')"
  shows "reads_content (env_Workload E) cs (tg_Namespace target) (tg_Name target) desired (ext w')
    \<and> res = \<lparr>sr_Target = target, sr_Type = sec_Type desired, sr_Hash = hash\<rparr>"
proof -
  let ?W = "env_Workload E" and ?ns = "tg_Namespace target" and ?n = "tg_Name target"
  have again: "reads_content ?W cs ?ns ?n s x'" if "wl_GetSecret ?W cs ?ns ?n x = (Inr s, x')" for x s x'
    using keeps that unfolding keeps_secrets_def by blast
  have created: "reads_content ?W cs ?ns ?n desired x'" if "wl_CreateSecret ?W cs ?ns desired x = (None, x')" for x x'
    using keeps that name unfolding keeps_secrets_def by blast
  have updated: "reads_content ?W cs ?ns ?n desired x'"
    if "wl_UpdateSecret ?W cs ?ns (desired\<lparr>sec_Meta := (sec_Meta desired)\<lparr>om_ResourceVersion := v\<rparr>\<rparr>) x = (None, x')" for v x x'
  proof -
    have "reads_content ?W cs ?ns ?n (desired\<lparr>sec_Meta := (sec_Meta desired)\<lparr>om_ResourceVersion := v\<rparr>\<rparr>) x'"
      using keeps that name unfolding keeps_secrets_def by simp
    then show ?thesis by (simp add: reads_content_def)
  qed
  obtain got x where got: "wl_GetSecret ?W cs ?ns ?n (ext w) = (got, x)" by fastforce
  show ?thesis
  proof (cases got)
    case (Inl err)
    with run got show ?thesis
      by (auto simp: write_target_def Let_def w_call_defs call_def split: if_splits prod.splits option.splits
          intro: created)
  next
    case (Inr existing)
    have "reads_content ?W cs ?ns ?n desired x" if "same_content existing desired"
      using again [OF got [unfolded Inr]] that by (auto simp: reads_content_def dest: same_content_trans)
    with run got Inr show ?thesis
      by (auto simp: write_target_def Let_def w_call_defs call_def split: if_splits prod.splits option.splits
          intro: updated)
  qed
qed

lemma write_target_again:
  assumes "reads_content (env_Workload E) cs (tg_Namespace target) (tg_Name target) desired (ext w)"
  shows "\<exists>s x. run_state (write_target E cs target desired hash) w =
    (Inr \<lparr>sr_Target = target, sr_Type = sec_Type desired, sr_Hash = hash\<rparr>,
     \<lparr>ext = x, trace = trace w @ [EvWorkload cs (WGetSecret (target_key target) (Inr s))]\<rparr>)"
  using assms by (auto simp: reads_content_def write_target_def Let_def w_call_defs call_def)

text \<open>
  Syncing is idempotent: when a sync has succeeded and the workload cluster keeps what
  it is given, the next sync of the same source reads the target, finds it as wanted, writes
  nothing and returns the same result.
\<close>

theorem second_sync_only_reads:
  assumes "keeps_secrets (env_Workload E) cs (tg_Namespace (TargetForItem item)) (tg_Name (TargetForItem item))"
    and "clientset E kubeconfig = Inr cs" and "\<not> sss_CreateNamespace (ss_Spec item)"
    and "run_state (Client_Sync E item source kubeconfig clusterName) w = (Inr res, w')"
  shows "\<exists>s x. run_state (Client_Sync E item source kubeconfig clusterName) w' =
    (Inr res, \<lparr>ext = x, trace = trace w' @ [EvWorkload cs (WGetSecret (target_key (TargetForItem item)) (Inr s))]\<rparr>)"
proof -
  define desired where "desired = DesiredSecret item source clusterName"
  define hash where "hash = hex_encode (sha256 (sync_hash_payload (sec_Type desired) (sec_Data desired)))"
  have eq: "Client_Sync E item source kubeconfig clusterName =
      write_target E cs (TargetForItem item) (with_hash hash desired) hash"
    using assms(2,3) by (simp add: Client_Sync_def sync_target_def SyncHash_def desired_def hash_def Let_def)
  have "om_Name (sec_Meta (with_hash hash desired)) = tg_Name (TargetForItem item)"
    by (simp add: desired_def DesiredSecret_def Let_def)
  from write_target_leaves [OF assms(1) this assms(4) [unfolded eq]]
  show ?thesis unfolding eq using write_target_again by blast
qed

text \<open>
  Claim C38.  A sync takes over a Secret it did not write: when a Secret of the target's name is
  there and is not the item's, the sync replaces it by one that is, so that deleting the item with
  policy Delete then removes it.
\<close>

theorem sync_takes_over_foreign:
  assumes "clientset E kubeconfig = Inr cs" and "\<not> sss_CreateNamespace (ss_Spec item)"
    and "wl_GetSecret (env_Workload E) cs (tg_Namespace (TargetForItem item)) (tg_Name (TargetForItem item)) (ext w)
           = (Inr foreign, x)"
    and "\<not> SyncIsOwnedSecret item (Some foreign)"
  shows "\<exists>s r w'. run_state (Client_Sync E item source kubeconfig clusterName) w =
      (if r = None then Inr \<lparr>sr_Target = TargetForItem item, sr_Type = sec_Type s, sr_Hash = map_index (om_Annotations (sec_Meta s)) SyncHashAnnotation\<rparr>
       else Inl (secret_error (env_Lib E) ''update'' (TargetForItem item) (the r)), w')
    \<and> trace w' = trace w @ [EvWorkload cs (WGetSecret (target_key (TargetForItem item)) (Inr foreign)),
                            EvWorkload cs (WUpdateSecret s r)]
    \<and> SyncIsOwnedSecret item (Some s) \<and> ObjectKeyFromMeta (sec_Meta s) = target_key (TargetForItem item)"
proof -
  define desired where "desired = DesiredSecret item source clusterName"
  define hash where "hash = hex_encode (sha256 (sync_hash_payload (sec_Type desired) (sec_Data desired)))"
  define s where "s = (with_hash hash desired)\<lparr>sec_Meta := (sec_Meta (with_hash hash desired))\<lparr>om_ResourceVersion :=
      om_ResourceVersion (sec_Meta foreign)\<rparr>\<rparr>"
  have wanted: "wanted_secret item s"
    unfolding s_def desired_def by (rule sync_content_wanted, rule sync_content_hash) (simp add: SyncHash_def hash_def desired_def)
  have "\<not> same_content foreign s"
    using assms(4) wanted_secret_facts(1) [OF wanted] by (auto simp: same_content_def SyncIsOwnedSecret_def split: if_splits)
  then have new: "\<not> same_content foreign (with_hash hash desired)"
    by (simp add: s_def)
  have eq: "Client_Sync E item source kubeconfig clusterName =
      write_target E cs (TargetForItem item) (with_hash hash desired) hash"
    using assms(1,2) by (simp add: Client_Sync_def sync_target_def SyncHash_def desired_def hash_def Let_def)
  obtain r x' where upd: "wl_UpdateSecret (env_Workload E) cs (tg_Namespace (TargetForItem item)) s x = (r, x')"
    by fastforce
  have "run_state (Client_Sync E item source kubeconfig clusterName) w =
      (if r = None then Inr \<lparr>sr_Target = TargetForItem item, sr_Type = sec_Type s, sr_Hash = map_index (om_Annotations (sec_Meta s)) SyncHashAnnotation\<rparr>
       else Inl (secret_error (env_Lib E) ''update'' (TargetForItem item) (the r)),
       \<lparr>ext = x', trace = trace w @ [EvWorkload cs (WGetSecret (target_key (TargetForItem item)) (Inr foreign)),
                            EvWorkload cs (WUpdateSecret s r)]\<rparr>)"
    using assms(3) new upd unfolding eq
    by (auto simp: write_target_def Let_def w_call_defs call_def s_def split: option.splits)
  with wanted_secret_facts [OF wanted] show ?thesis by fastforce
qed

end
