(* ===== verification/Child_Controllers.thy ===== *)
theory Child_Controllers
  imports Operator_Env
begin

text \<open>
  The controllers of the child resources OmniControlPlane, OmniWorkers and OmniMachine
  (\<^verbatim>\<open>internal/controller/child_status.go\<close> and the three \<^verbatim>\<open>omni*_controller.go\<close> files).  A child
  controller looks up the OmniCluster its resource refers to and writes an Accepted condition.

  The three controllers are written out one after the other, as in the code.  What they promise
  is stated once, in the locale \<open>child_controller\<close>, and each of them is an instance of it.
\<close>

section \<open>Shared helpers\<close>

definition clusterExists :: "'x env \<Rightarrow> string \<Rightarrow> string \<Rightarrow> ('x, goerror + bool) action" where
  "clusterExists E namespace name = do {
     got \<leftarrow> k_get (env_Clusters E) KCluster \<lparr>nn_Namespace = namespace, nn_Name = name\<rparr>;
     State_Monad.return (case got of
         Inl err \<Rightarrow> if IsNotFound err then Inr False else Inl err
       | Inr cluster \<Rightarrow> Inr True) }"

definition acceptedCondition :: "klib \<Rightarrow> int \<Rightarrow> string \<Rightarrow> bool \<Rightarrow> Condition" where
  "acceptedCondition L generation clusterName exists =
     (if exists
      then NewCondition ConditionAccepted ConditionTrue generation ReasonAccepted
             (''attached to OmniCluster '' @ Quote (lib_IsPrint L) clusterName)
      else NewCondition ConditionAccepted ConditionFalse generation ReasonMissingCluster
             (''OmniCluster '' @ Quote (lib_IsPrint L) clusterName @ '' does not exist''))"

definition accept_common :: "klib \<Rightarrow> bool \<Rightarrow> Time \<Rightarrow> ObjectMeta \<Rightarrow> string \<Rightarrow> CommonStatusFields \<Rightarrow> CommonStatusFields" where
  "accept_common L exists now m clusterName s =
     s\<lparr>csf_ObservedGeneration := om_Generation m,
       csf_Conditions := SetCondition L now (csf_Conditions s)
         (acceptedCondition L (om_Generation m) clusterName exists)\<rparr>"

section \<open>Status updates\<close>

definition accept_control_plane :: "klib \<Rightarrow> bool \<Rightarrow> Time \<Rightarrow> OmniControlPlane \<Rightarrow> OmniControlPlane" where
  "accept_control_plane L exists now latest =
     (let s = cp_Status latest; clusterName = lor_Name (cps_ClusterRef (cp_Spec latest)) in
      latest\<lparr>cp_Status := s\<lparr>
        cpt_ClusterRef := clusterName,
        cpt_Common := accept_common L exists now (cp_Meta latest) clusterName (cpt_Common s)\<rparr>\<rparr>)"

definition updateControlPlaneStatus :: "'x env \<Rightarrow> OmniControlPlane \<Rightarrow> bool \<Rightarrow> ('x, goerror option) action" where
  "updateControlPlaneStatus E controlPlane exists =
     write_status E (env_ControlPlanes E) KControlPlane ObjControlPlane True
       (accept_control_plane (env_Lib E) exists) (ObjectKeyFromMeta (cp_Meta controlPlane))"

definition accept_workers :: "klib \<Rightarrow> bool \<Rightarrow> Time \<Rightarrow> OmniWorkers \<Rightarrow> OmniWorkers" where
  "accept_workers L exists now latest =
     (let s = w_Status latest; clusterName = lor_Name (ws_ClusterRef (w_Spec latest)) in
      latest\<lparr>w_Status := s\<lparr>
        wst_ClusterRef := clusterName,
        wst_WorkerSetName :=
          (if ws_WorkerSetName (w_Spec latest) = [] then om_Name (w_Meta latest)
           else ws_WorkerSetName (w_Spec latest)),
        wst_Common := accept_common L exists now (w_Meta latest) clusterName (wst_Common s)\<rparr>\<rparr>)"

definition updateWorkersStatus :: "'x env \<Rightarrow> OmniWorkers \<Rightarrow> bool \<Rightarrow> ('x, goerror option) action" where
  "updateWorkersStatus E workers exists =
     write_status E (env_Workers E) KWorkers ObjWorkers True
       (accept_workers (env_Lib E) exists) (ObjectKeyFromMeta (w_Meta workers))"

definition accept_machine :: "klib \<Rightarrow> bool \<Rightarrow> Time \<Rightarrow> OmniMachine \<Rightarrow> OmniMachine" where
  "accept_machine L exists now latest =
     (let s = m_Status latest; clusterName = lor_Name (mas_ClusterRef (m_Spec latest)) in
      latest\<lparr>m_Status := s\<lparr>
        mast_ClusterRef := clusterName,
        mast_MachineID :=
          (if mas_MachineID (m_Spec latest) = [] then om_Name (m_Meta latest)
           else mas_MachineID (m_Spec latest)),
        mast_Common := accept_common L exists now (m_Meta latest) clusterName (mast_Common s)\<rparr>\<rparr>)"

definition updateMachineStatus :: "'x env \<Rightarrow> OmniMachine \<Rightarrow> bool \<Rightarrow> ('x, goerror option) action" where
  "updateMachineStatus E machine exists =
     write_status E (env_Machines E) KMachine ObjMachine True
       (accept_machine (env_Lib E) exists) (ObjectKeyFromMeta (m_Meta machine))"

section \<open>Reconcilers\<close>

definition ControlPlane_Reconcile :: "'x env \<Rightarrow> NamespacedName \<Rightarrow> ('x, Result \<times> goerror option) action" where
  "ControlPlane_Reconcile E req = do {
     got \<leftarrow> k_get (env_ControlPlanes E) KControlPlane req;
     (case got of
        Inl err \<Rightarrow> State_Monad.return (if IsNotFound err then (no_requeue, None) else (no_requeue, Some err))
      | Inr controlPlane \<Rightarrow> do {
          found \<leftarrow> clusterExists E (om_Namespace (cp_Meta controlPlane))
                     (lor_Name (cps_ClusterRef (cp_Spec controlPlane)));
          (case found of
             Inl err \<Rightarrow> State_Monad.return (no_requeue, Some err)
           | Inr exists \<Rightarrow> do {
               err \<leftarrow> updateControlPlaneStatus E controlPlane exists;
               State_Monad.return (no_requeue, err) }) }) }"

definition Workers_Reconcile :: "'x env \<Rightarrow> NamespacedName \<Rightarrow> ('x, Result \<times> goerror option) action" where
  "Workers_Reconcile E req = do {
     got \<leftarrow> k_get (env_Workers E) KWorkers req;
     (case got of
        Inl err \<Rightarrow> State_Monad.return (if IsNotFound err then (no_requeue, None) else (no_requeue, Some err))
      | Inr workers \<Rightarrow> do {
          found \<leftarrow> clusterExists E (om_Namespace (w_Meta workers))
                     (lor_Name (ws_ClusterRef (w_Spec workers)));
          (case found of
             Inl err \<Rightarrow> State_Monad.return (no_requeue, Some err)
           | Inr exists \<Rightarrow> do {
               err \<leftarrow> updateWorkersStatus E workers exists;
               State_Monad.return (no_requeue, err) }) }) }"

definition Machine_Reconcile :: "'x env \<Rightarrow> NamespacedName \<Rightarrow> ('x, Result \<times> goerror option) action" where
  "Machine_Reconcile E req = do {
     got \<leftarrow> k_get (env_Machines E) KMachine req;
     (case got of
        Inl err \<Rightarrow> State_Monad.return (if IsNotFound err then (no_requeue, None) else (no_requeue, Some err))
      | Inr machine \<Rightarrow> do {
          found \<leftarrow> clusterExists E (om_Namespace (m_Meta machine))
                     (lor_Name (mas_ClusterRef (m_Spec machine)));
          (case found of
             Inl err \<Rightarrow> State_Monad.return (no_requeue, Some err)
           | Inr exists \<Rightarrow> do {
               err \<leftarrow> updateMachineStatus E machine exists;
               State_Monad.return (no_requeue, err) }) }) }"

section \<open>The contract of a child controller\<close>

definition child_accepted :: "CommonStatusFields \<Rightarrow> bool" where
  "child_accepted s = condition_is (csf_Conditions s) ConditionAccepted ConditionTrue ReasonAccepted"

definition child_rejected :: "CommonStatusFields \<Rightarrow> bool" where
  "child_rejected s = condition_is (csf_Conditions s) ConditionAccepted ConditionFalse ReasonMissingCluster"

lemma acceptedCondition_simps [simp]:
  "cond_Type (acceptedCondition L g name ex) = ConditionAccepted"
  "cond_LastTransitionTime (acceptedCondition L g name ex) = zero_time"
  "cond_Status (acceptedCondition L g name ex) = (if ex then ConditionTrue else ConditionFalse)"
  "cond_Reason (acceptedCondition L g name ex) = (if ex then ReasonAccepted else ReasonMissingCluster)"
  by (simp_all add: acceptedCondition_def)

lemma accept_common_accepted:
  assumes "condition_contract L"
  shows "child_accepted (accept_common L ex now m name s) = ex"
    and "child_rejected (accept_common L ex now m name s) = (\<not> ex)"
  using assms
  by (simp_all add: child_accepted_def child_rejected_def condition_is_def accept_common_def
      SetCondition_upsert find_condition_upsert)

lemma accept_common_idem:
  "condition_contract L \<Longrightarrow>
     accept_common L ex now' m name (accept_common L ex now m name s) = accept_common L ex now m name s"
  by (simp add: accept_common_def SetCondition_upsert)

text \<open>The events that decide: the cluster was found, or the API server said it does not exist.\<close>

fun cluster_found :: "event \<Rightarrow> bool" where
  "cluster_found (EvGet KCluster key None) = True"
| "cluster_found e = False"

fun cluster_missing :: "event \<Rightarrow> bool" where
  "cluster_missing (EvGet KCluster key (Some err)) = IsNotFound err"
| "cluster_missing e = False"

lemma clusterExists_emits:
  "emits (clusterExists E ns name) (\<lambda>r t. \<exists>answer.
     t = [EvGet KCluster \<lparr>nn_Namespace = ns, nn_Name = name\<rparr> answer]
     \<and> (r = Inr True \<longleftrightarrow> answer = None) \<and> (r = Inr False \<longleftrightarrow> (\<exists>e. answer = Some e \<and> IsNotFound e)))"
  unfolding clusterExists_def k_get_def
  by (intro emits_rules) (auto split: sum.splits)

locale child_controller =
  fixes recon :: "'x env \<Rightarrow> NamespacedName \<Rightarrow> ('x, Result \<times> goerror option) action"
    and upd :: "'x env \<Rightarrow> 'o \<Rightarrow> bool \<Rightarrow> ('x, goerror option) action"
    and api :: "'x env \<Rightarrow> ('x, 'o) kind_api"
    and kind :: api_kind
    and mk :: "'o \<Rightarrow> api_object"
    and meta_of :: "'o \<Rightarrow> ObjectMeta"
    and ref_of :: "'o \<Rightarrow> string"
    and common_of :: "'o \<Rightarrow> CommonStatusFields"
    and accept :: "klib \<Rightarrow> bool \<Rightarrow> Time \<Rightarrow> 'o \<Rightarrow> 'o"
  assumes recon_eq: "recon E req = State_Monad.bind (k_get (api E) kind req) (\<lambda>got.
      case got of
        Inl err \<Rightarrow> State_Monad.return (if IsNotFound err then (no_requeue, None) else (no_requeue, Some err))
      | Inr obj \<Rightarrow> State_Monad.bind (clusterExists E (om_Namespace (meta_of obj)) (ref_of obj)) (\<lambda>found.
          case found of
            Inl err \<Rightarrow> State_Monad.return (no_requeue, Some err)
          | Inr exists \<Rightarrow> State_Monad.bind (upd E obj exists) (\<lambda>err. State_Monad.return (no_requeue, err))))"
    and upd_eq: "upd E obj ex =
      write_status E (api E) kind mk True (accept (env_Lib E) ex) (ObjectKeyFromMeta (meta_of obj))"
    and mk_inj: "mk a = mk b \<longleftrightarrow> a = b"
    and kind_not_cluster: "kind \<noteq> KCluster"
    and accept_common_of: "common_of (accept L ex now obj) =
      accept_common L ex now (meta_of obj) (ref_of obj) (common_of obj)"
    and accept_idem: "condition_contract L \<Longrightarrow> accept L ex now' (accept L ex now obj) = accept L ex now obj"
begin

definition decision_events :: "NamespacedName \<Rightarrow> bool \<Rightarrow> event list \<Rightarrow> bool" where
  "decision_events key ex t \<longleftrightarrow>
     list_all (\<lambda>e. (\<exists>k key r. e = EvGet k key r) \<or> (\<exists>obj r. e = EvStatusUpdate (mk obj) r \<and>
       (child_accepted (common_of obj) = ex) \<and> (child_rejected (common_of obj) = (\<not> ex)))) t"

lemma upd_emits:
  assumes "env_retry_ok E" and "condition_contract (env_Lib E)"
  shows "emits (upd E obj ex) (\<lambda>r t. decision_events key ex t)"
proof -
  let ?P = "\<lambda>o'. \<exists>obj. o' = mk obj \<and> child_accepted (common_of obj) = ex \<and> child_rejected (common_of obj) = (\<not> ex)"
  have "emits (upd E obj ex) (\<lambda>r t. list_all (status_write_event kind (ObjectKeyFromMeta (meta_of obj)) ?P) t)"
    unfolding upd_eq
    by (rule write_status_emits [OF assms(1)])
      (use accept_common_of accept_common_accepted [OF assms(2)] in metis)
  then show ?thesis
    unfolding decision_events_def
    by (rule emits_mono, elim list_all_weaken) (unfold status_write_event_def, blast)
qed

text \<open>
  A run writes an acceptance only when the cluster was found, and a rejection only when the API
  server said that there is none; any other failure to read leaves the status alone.
\<close>

lemma recon_decides:
  assumes "env_retry_ok E" and "condition_contract (env_Lib E)"
  shows "emits (recon E req) (\<lambda>out t. fst out = no_requeue \<and>
     preceded (\<lambda>e. \<exists>obj r. e = EvStatusUpdate (mk obj) r \<and> \<not> child_rejected (common_of obj)) cluster_found t \<and>
     preceded (\<lambda>e. \<exists>obj r. e = EvStatusUpdate (mk obj) r \<and> \<not> child_accepted (common_of obj)) cluster_missing t)"
  unfolding recon_eq k_get_def
proof (intro emits_call_bind emits_case_sum emits_then [OF clusterExists_emits])
  fix got obj found t ex
  assume "\<exists>answer. t = [EvGet KCluster \<lparr>nn_Namespace = om_Namespace (meta_of obj), nn_Name = ref_of obj\<rparr> answer]
     \<and> (found = Inr True \<longleftrightarrow> answer = None) \<and> (found = Inr False \<longleftrightarrow> (\<exists>e. answer = Some e \<and> IsNotFound e))"
    and "found = Inr ex"
  then obtain answer where found: "t = [EvGet KCluster \<lparr>nn_Namespace = om_Namespace (meta_of obj), nn_Name = ref_of obj\<rparr> answer]"
    "found = Inr True \<longleftrightarrow> answer = None" "found = Inr False \<longleftrightarrow> (\<exists>e. answer = Some e \<and> IsNotFound e)" "found = Inr ex"
    by blast
  then have "cluster_found (hd t) = ex" and "cluster_missing (hd t) = (\<not> ex)"
    by (cases ex; cases answer; simp)+
  with found(1) show "emits (State_Monad.bind (upd E obj ex) (\<lambda>err. State_Monad.return (no_requeue, err)))
      (\<lambda>out t'. fst out = no_requeue \<and>
        preceded (\<lambda>e. \<exists>obj r. e = EvStatusUpdate (mk obj) r \<and> \<not> child_rejected (common_of obj)) cluster_found
          (EvGet kind req (err_of got) # t @ t') \<and>
        preceded (\<lambda>e. \<exists>obj r. e = EvStatusUpdate (mk obj) r \<and> \<not> child_accepted (common_of obj)) cluster_missing
          (EvGet kind req (err_of got) # t @ t'))"
    by (intro emits_then [OF upd_emits [OF assms]] emits_return)
      (auto simp: decision_events_def mk_inj intro!: preceded_none elim!: list_all_weaken)
qed (auto intro!: emits_return)

text \<open>Writing the same decision again is not a change: the second run only reads.\<close>

lemma upd_stable:
  assumes "env_retry_ok E" and "condition_contract (env_Lib E)"
    and "fst (api_Get (api E) (ObjectKeyFromMeta (meta_of obj)) (ext w)) = Inr (accept (env_Lib E) ex before stored)"
  shows "fst (run_state (upd E obj ex) w) = None \<and>
    trace (snd (run_state (upd E obj ex) w)) = trace w @ [EvGet kind (ObjectKeyFromMeta (meta_of obj)) None]"
proof -
  let ?fn = "status_attempt E (api E) kind mk True (accept (env_Lib E) ex) (ObjectKeyFromMeta (meta_of obj))"
  obtain w' where w': "run_state ?fn w = (None, w')"
    and t: "trace w' = trace w @ [EvGet kind (ObjectKeyFromMeta (meta_of obj)) None]"
    using assms(3)
    by (cases "env_Now E (snd (api_Get (api E) (ObjectKeyFromMeta (meta_of obj)) (ext w)))";
        cases "api_Get (api E) (ObjectKeyFromMeta (meta_of obj)) (ext w)")
      (auto simp: status_attempt_def k_get_def call_def observe_def accept_idem [OF assms(2)]
        split: prod.splits)
  show ?thesis
    using retry_at_once [OF assms(1) w'] t by (simp add: upd_eq write_status_def)
qed

end

section \<open>The three controllers\<close>

interpretation control_plane: child_controller ControlPlane_Reconcile updateControlPlaneStatus env_ControlPlanes
  KControlPlane ObjControlPlane cp_Meta "\<lambda>cp. lor_Name (cps_ClusterRef (cp_Spec cp))" "\<lambda>cp. cpt_Common (cp_Status cp)"
  accept_control_plane
  by unfold_locales
    (simp_all add: ControlPlane_Reconcile_def updateControlPlaneStatus_def accept_control_plane_def Let_def
      accept_common_idem)

interpretation workers: child_controller Workers_Reconcile updateWorkersStatus env_Workers
  KWorkers ObjWorkers w_Meta "\<lambda>w. lor_Name (ws_ClusterRef (w_Spec w))" "\<lambda>w. wst_Common (w_Status w)"
  accept_workers
  by unfold_locales
    (simp_all add: Workers_Reconcile_def updateWorkersStatus_def accept_workers_def Let_def accept_common_idem)

interpretation machine: child_controller Machine_Reconcile updateMachineStatus env_Machines
  KMachine ObjMachine m_Meta "\<lambda>m. lor_Name (mas_ClusterRef (m_Spec m))" "\<lambda>m. mast_Common (m_Status m)"
  accept_machine
  by unfold_locales
    (simp_all add: Machine_Reconcile_def updateMachineStatus_def accept_machine_def Let_def accept_common_idem)

section \<open>Properties\<close>

text \<open>
  Claim C31.  None of the three child controllers writes an acceptance before it has found the
  cluster, nor a rejection before the API server has said that there is no such cluster; and
  none asks to be run again.
\<close>

theorem child_decisions:
  assumes "env_retry_ok E" and "condition_contract (env_Lib E)"
  shows "emits (ControlPlane_Reconcile E req) (\<lambda>out t. fst out = no_requeue \<and>
       preceded (\<lambda>e. \<exists>obj r. e = EvStatusUpdate (ObjControlPlane obj) r
         \<and> \<not> child_rejected (cpt_Common (cp_Status obj))) cluster_found t \<and>
       preceded (\<lambda>e. \<exists>obj r. e = EvStatusUpdate (ObjControlPlane obj) r
         \<and> \<not> child_accepted (cpt_Common (cp_Status obj))) cluster_missing t)
    \<and> emits (Workers_Reconcile E req) (\<lambda>out t. fst out = no_requeue \<and>
       preceded (\<lambda>e. \<exists>obj r. e = EvStatusUpdate (ObjWorkers obj) r
         \<and> \<not> child_rejected (wst_Common (w_Status obj))) cluster_found t \<and>
       preceded (\<lambda>e. \<exists>obj r. e = EvStatusUpdate (ObjWorkers obj) r
         \<and> \<not> child_accepted (wst_Common (w_Status obj))) cluster_missing t)
    \<and> emits (Machine_Reconcile E req) (\<lambda>out t. fst out = no_requeue \<and>
       preceded (\<lambda>e. \<exists>obj r. e = EvStatusUpdate (ObjMachine obj) r
         \<and> \<not> child_rejected (mast_Common (m_Status obj))) cluster_found t \<and>
       preceded (\<lambda>e. \<exists>obj r. e = EvStatusUpdate (ObjMachine obj) r
         \<and> \<not> child_accepted (mast_Common (m_Status obj))) cluster_missing t)"
  using control_plane.recon_decides [OF assms] workers.recon_decides [OF assms]
    machine.recon_decides [OF assms]
  by (intro conjI) assumption+

text \<open>
  Status updates of the child resources settle: when the stored object already
  carries the decision, however long ago it was written, the update only reads it.
\<close>

theorem child_status_settles:
  assumes "env_retry_ok E" and "condition_contract (env_Lib E)"
    and "fst (api_Get (env_ControlPlanes E) (ObjectKeyFromMeta (cp_Meta cp)) (ext w)) =
           Inr (accept_control_plane (env_Lib E) ex before cp0)"
    and "fst (api_Get (env_Workers E) (ObjectKeyFromMeta (w_Meta ws)) (ext w)) =
           Inr (accept_workers (env_Lib E) ex before ws0)"
    and "fst (api_Get (env_Machines E) (ObjectKeyFromMeta (m_Meta m)) (ext w)) =
           Inr (accept_machine (env_Lib E) ex before m0)"
  shows "trace (snd (run_state (updateControlPlaneStatus E cp ex) w)) =
           trace w @ [EvGet KControlPlane (ObjectKeyFromMeta (cp_Meta cp)) None]
    \<and> trace (snd (run_state (updateWorkersStatus E ws ex) w)) =
           trace w @ [EvGet KWorkers (ObjectKeyFromMeta (w_Meta ws)) None]
    \<and> trace (snd (run_state (updateMachineStatus E m ex) w)) =
           trace w @ [EvGet KMachine (ObjectKeyFromMeta (m_Meta m)) None]"
  using control_plane.upd_stable [OF assms(1,2,3)] workers.upd_stable [OF assms(1,2,4)]
    machine.upd_stable [OF assms(1,2,5)]
  by simp

text \<open>
  The names a child reports in its status are the names the template uses for it, so
  a status shows under which name Omni knows the worker set or the machine.
\<close>

theorem child_status_names:
  "wst_WorkerSetName (w_Status (accept_workers L ex now ws)) = workerSetName ws
   \<and> mast_MachineID (m_Status (accept_machine L ex now m)) = machineID m
   \<and> workerSetName (accept_workers L ex now ws) = workerSetName ws
   \<and> machineID (accept_machine L ex now m) = machineID m"
  by (simp add: accept_workers_def accept_machine_def Let_def workerSetName_def machineID_def)

end
