(* ===== verification/Cluster_Controller.thy ===== *)
theory Cluster_Controller
  imports Omni_Api
begin

text \<open>
  The OmniCluster controller (\<^verbatim>\<open>internal/controller/omnicluster_controller.go\<close>): its reconcile
  and delete handlers, the collection of template inputs and the status writers.

  The theorems are about every environment: they speak of the events a run of the handler adds
  to the trace, whatever the API server and Omni answer.
\<close>

section \<open>Pure helpers\<close>

definition syncInterval :: "OmniCluster \<Rightarrow> Duration" where
  "syncInterval cluster =
     (if cs_SyncInterval (c_Spec cluster) > 0 then cs_SyncInterval (c_Spec cluster) else 5 * Minute)"

definition trimStatus :: "string \<Rightarrow> string" where
  "trimStatus output =
     (let out = TrimSpace output in if length out \<le> 4096 then out else take 4096 out)"

definition set_cluster_condition ::
  "klib \<Rightarrow> Time \<Rightarrow> Condition \<Rightarrow> OmniClusterStatus \<Rightarrow> OmniClusterStatus" where
  "set_cluster_condition L now c status =
     status\<lparr>cst_Common := (cst_Common status)\<lparr>csf_Conditions :=
        SetCondition L now (csf_Conditions (cst_Common status)) c\<rparr>\<rparr>"

definition set_observed_generation :: "int \<Rightarrow> OmniClusterStatus \<Rightarrow> OmniClusterStatus" where
  "set_observed_generation g status =
     status\<lparr>cst_Common := (cst_Common status)\<lparr>csf_ObservedGeneration := g\<rparr>\<rparr>"

definition setRenderedStatus ::
  "OmniCluster \<Rightarrow> OmniConnection \<Rightarrow> Rendered \<Rightarrow> OmniClusterStatus \<Rightarrow> OmniClusterStatus" where
  "setRenderedStatus cluster connection rendered status =
     (set_observed_generation (om_Generation (c_Meta cluster)) status)
       \<lparr>cst_Connection := \<lparr>cnf_ConnectionRef = om_Name (on_Meta connection),
                           cnf_Endpoint = ons_Endpoint (on_Spec connection)\<rparr>,
        cst_Sync := (cst_Sync status)\<lparr>ssf_ClusterName := re_ClusterName rendered,
                                      ssf_TemplateHash := re_TemplateHash rendered\<rparr>,
        cst_ControlPlaneRef := re_ControlPlaneRef rendered,
        cst_WorkersRefs := re_WorkersRefs rendered,
        cst_MachineRefs := re_MachineRefs rendered\<rparr>"

section \<open>Status writers\<close>

definition updateClusterStatus ::
  "'x env \<Rightarrow> OmniCluster \<Rightarrow> (Time \<Rightarrow> OmniClusterStatus \<Rightarrow> OmniClusterStatus) \<Rightarrow> ('x, goerror option) action" where
  "updateClusterStatus E cluster mutate =
     write_status E (env_Clusters E) KCluster ObjCluster False
       (\<lambda>now latest. latest\<lparr>c_Status := mutate now (c_Status latest)\<rparr>)
       (ObjectKeyFromMeta (c_Meta cluster))"

definition failed_status ::
  "klib \<Rightarrow> OmniCluster \<Rightarrow> string \<Rightarrow> string \<Rightarrow> string \<Rightarrow> Time \<Rightarrow> OmniClusterStatus \<Rightarrow> OmniClusterStatus" where
  "failed_status L cluster conditionType reason message now status =
     (let g = om_Generation (c_Meta cluster);
          s1 = set_observed_generation g status;
          s2 = s1\<lparr>cst_Sync := (cst_Sync s1)\<lparr>ssf_ClusterName := ClusterName cluster\<rparr>\<rparr>;
          s3 = set_cluster_condition L now (NewCondition conditionType ConditionFalse g reason message) s2
      in set_cluster_condition L now (NewCondition ConditionReady ConditionFalse g reason message) s3)"

definition markClusterFailed ::
  "'x env \<Rightarrow> OmniCluster \<Rightarrow> string \<Rightarrow> string \<Rightarrow> string \<Rightarrow> ('x, goerror option) action" where
  "markClusterFailed E cluster conditionType reason message =
     updateClusterStatus E cluster (failed_status (env_Lib E) cluster conditionType reason message)"

definition suspended_status :: "klib \<Rightarrow> OmniCluster \<Rightarrow> Time \<Rightarrow> OmniClusterStatus \<Rightarrow> OmniClusterStatus" where
  "suspended_status L cluster now status =
     (let g = om_Generation (c_Meta cluster) in
      set_cluster_condition L now
        (NewCondition ConditionReady ConditionFalse g ReasonSuspended ''remote Omni sync is suspended'')
        (set_observed_generation g status))"

definition invalid_status ::
  "klib \<Rightarrow> OmniCluster \<Rightarrow> OmniConnection \<Rightarrow> Rendered \<Rightarrow> string \<Rightarrow> Time \<Rightarrow> OmniClusterStatus \<Rightarrow> OmniClusterStatus" where
  "invalid_status L cluster connection rendered message now status =
     (let g = om_Generation (c_Meta cluster);
          s1 = setRenderedStatus cluster connection rendered status;
          s2 = set_cluster_condition L now (NewCondition ConditionValidated ConditionFalse g ReasonValidationFailed message) s1
      in set_cluster_condition L now (NewCondition ConditionReady ConditionFalse g ReasonValidationFailed message) s2)"

definition valid_template_condition :: "int \<Rightarrow> Condition" where
  "valid_template_condition g =
     NewCondition ConditionValidated ConditionTrue g ReasonValidated ''rendered Omni cluster template is valid''"

definition sync_failed_status ::
  "klib \<Rightarrow> OmniCluster \<Rightarrow> OmniConnection \<Rightarrow> Rendered \<Rightarrow> Time \<Rightarrow> string \<Rightarrow> string
     \<Rightarrow> Time \<Rightarrow> OmniClusterStatus \<Rightarrow> OmniClusterStatus" where
  "sync_failed_status L cluster connection rendered attempt syncOutput message now status =
     (let g = om_Generation (c_Meta cluster);
          s1 = setRenderedStatus cluster connection rendered status;
          s2 = s1\<lparr>cst_Sync := (cst_Sync s1)\<lparr>ssf_LastAttemptTime := Some attempt,
                                            ssf_LastSyncOutput := trimStatus syncOutput\<rparr>\<rparr>;
          s3 = set_cluster_condition L now (valid_template_condition g) s2;
          s4 = set_cluster_condition L now (NewCondition ConditionSynced ConditionFalse g ReasonSyncFailed message) s3
      in set_cluster_condition L now (NewCondition ConditionReady ConditionFalse g ReasonSyncFailed message) s4)"

definition synced_status ::
  "klib \<Rightarrow> OmniCluster \<Rightarrow> OmniConnection \<Rightarrow> Rendered \<Rightarrow> Time \<Rightarrow> string \<Rightarrow> string \<Rightarrow> goerror option
     \<Rightarrow> Time \<Rightarrow> OmniClusterStatus \<Rightarrow> OmniClusterStatus" where
  "synced_status L cluster connection rendered attempt syncOutput statusOutput statusErr now status =
     (let g = om_Generation (c_Meta cluster);
          s1 = setRenderedStatus cluster connection rendered status;
          s2 = s1\<lparr>cst_Sync := (cst_Sync s1)\<lparr>ssf_LastAttemptTime := Some attempt,
                                            ssf_LastSyncTime := Some attempt,
                                            ssf_LastSyncOutput := trimStatus syncOutput,
                                            ssf_LastStatusOutput := trimStatus statusOutput\<rparr>\<rparr>;
          s3 = set_cluster_condition L now (valid_template_condition g) s2;
          s4 = set_cluster_condition L now (NewCondition ConditionSynced ConditionTrue g ReasonSynced ''template synced to Omni'') s3
      in case statusErr of
           Some err \<Rightarrow> set_cluster_condition L now
             (NewCondition ConditionReady ConditionFalse g ReasonStatusFailed (Error err)) s4
         | None \<Rightarrow> set_cluster_condition L now
             (NewCondition ConditionReady ConditionTrue g ReasonSynced
               ''cluster template is synced and status was read from Omni'') s4)"

definition delete_failed_status ::
  "klib \<Rightarrow> OmniCluster \<Rightarrow> string \<Rightarrow> string \<Rightarrow> Time \<Rightarrow> OmniClusterStatus \<Rightarrow> OmniClusterStatus" where
  "delete_failed_status L cluster output message now status =
     set_cluster_condition L now
       (NewCondition ConditionReady ConditionFalse (om_Generation (c_Meta cluster)) ReasonDeleteFailed message)
       (status\<lparr>cst_Sync := (cst_Sync status)\<lparr>ssf_LastSyncOutput := trimStatus output\<rparr>\<rparr>)"

section \<open>Template inputs\<close>

definition templateInputs :: "'x env \<Rightarrow> OmniCluster \<Rightarrow> ('x, goerror + Inputs) action" where
  "templateInputs E cluster =
     (let ns = om_Namespace (c_Meta cluster); name = om_Name (c_Meta cluster) in do {
      controlPlanes \<leftarrow> k_list (env_ControlPlanes E) KControlPlane ns;
      (case controlPlanes of
         Inl err \<Rightarrow> State_Monad.return (Inl err)
       | Inr cps \<Rightarrow>
         (let selected = filter (\<lambda>cp. lor_Name (cps_ClusterRef (cp_Spec cp)) = name) cps in
          if length selected \<noteq> 1
          then State_Monad.return (Inl (ErrorString
                 (''expected exactly one OmniControlPlane referencing '' @ ns @ ''/'' @ name
                  @ '', found '' @ Itoa (int (length selected)))))
          else do {
            workersList \<leftarrow> k_list (env_Workers E) KWorkers ns;
            (case workersList of
               Inl err \<Rightarrow> State_Monad.return (Inl err)
             | Inr ws \<Rightarrow> do {
                 machineList \<leftarrow> k_list (env_Machines E) KMachine ns;
                 State_Monad.return
                  (case machineList of
                     Inl err \<Rightarrow> Inl err
                   | Inr ms \<Rightarrow>
                       Inr \<lparr>in_Cluster = Some cluster, in_ControlPlane = Some (hd selected),
                            in_Workers = filter (\<lambda>w. lor_Name (ws_ClusterRef (w_Spec w)) = name) ws,
                            in_Machines = filter (\<lambda>m. lor_Name (mas_ClusterRef (m_Spec m)) = name) ms\<rparr>) }) })) })"

section \<open>Handlers\<close>

text \<open>The end of the delete handler: both finalizers are removed and the object is written.\<close>

definition release_cluster :: "'x env \<Rightarrow> OmniCluster \<Rightarrow> ('x, Result \<times> goerror option) action" where
  "release_cluster E cluster = do {
     err \<leftarrow> k_update (env_Clusters E) ObjCluster
       (cluster\<lparr>c_Meta := remove_finalizers (env_Lib E) (c_Meta cluster)\<rparr>);
     State_Monad.return (no_requeue, err) }"

definition connection_key :: "OmniCluster \<Rightarrow> NamespacedName" where
  "connection_key cluster =
     \<lparr>nn_Namespace = om_Namespace (c_Meta cluster), nn_Name = lor_Name (cs_ConnectionRef (c_Spec cluster))\<rparr>"

definition Cluster_reconcileDelete :: "'x env \<Rightarrow> OmniCluster \<Rightarrow> ('x, Result \<times> goerror option) action" where
  "Cluster_reconcileDelete E cluster =
     (let L = env_Lib E in
      if \<not> has_finalizer L (c_Meta cluster) then State_Monad.return (no_requeue, None)
      else if cdp_Orphan (cs_DeletePolicy (c_Spec cluster)) then release_cluster E cluster
      else do {
        got \<leftarrow> k_get (env_Connections E) KConnection (connection_key cluster);
        (case got of
           Inl err \<Rightarrow> do {
             statusErr \<leftarrow> markClusterFailed E cluster ConditionReady ReasonDeleteFailed
               (''cannot delete remote Omni cluster without OmniConnection ''
                @ Quote (lib_IsPrint L) (nn_Name (connection_key cluster)) @ '': '' @ Error err);
             State_Monad.return (case statusErr of Some e \<Rightarrow> (no_requeue, Some e) | None \<Rightarrow> (no_requeue, Some err)) }
         | Inr connection \<Rightarrow> do {
             (output, err) \<leftarrow> omni_DeleteCluster E connection (ClusterName cluster)
               \<lparr>so_DestroyMachines = cdp_DestroyMachines (cs_DeletePolicy (c_Spec cluster))\<rparr>;
             (case err of
                Some e \<Rightarrow> do {
                  statusErr \<leftarrow> updateClusterStatus E cluster (delete_failed_status L cluster output (Error e));
                  State_Monad.return (case statusErr of Some e' \<Rightarrow> (no_requeue, Some e') | None \<Rightarrow> (no_requeue, Some e)) }
              | None \<Rightarrow> release_cluster E cluster) }) })"

definition sync_message :: "goerror \<Rightarrow> string \<Rightarrow> string" where
  "sync_message err syncOutput =
     ''sync failed: '' @ Error err
       @ (if TrimSpace syncOutput \<noteq> [] then [chr 10] @ trimStatus syncOutput else [])"

definition sync_cluster ::
  "'x env \<Rightarrow> OmniCluster \<Rightarrow> OmniConnection \<Rightarrow> Rendered \<Rightarrow> ('x, Result \<times> goerror option) action" where
  "sync_cluster E cluster connection rendered =
     (let L = env_Lib E; after = syncInterval cluster; root = cs_TemplateRoot (c_Spec cluster) in do {
      now \<leftarrow> observe (env_Now E);
      (syncOutput, err) \<leftarrow> omni_SyncTemplate E connection (re_Template rendered) root \<lparr>so_DestroyMachines = False\<rparr>;
      (case err of
         Some e \<Rightarrow>
           report_and_requeue
             (updateClusterStatus E cluster
               (sync_failed_status L cluster connection rendered now syncOutput (sync_message e syncOutput)))
             after (Some e)
       | None \<Rightarrow> do {
           (statusOutput, statusErr) \<leftarrow> omni_StatusCluster E connection (re_ClusterName rendered);
           report_and_requeue
             (updateClusterStatus E cluster
               (synced_status L cluster connection rendered now syncOutput statusOutput statusErr))
             after None }) })"

definition reconcile_template ::
  "'x env \<Rightarrow> OmniCluster \<Rightarrow> OmniConnection \<Rightarrow> ('x, Result \<times> goerror option) action" where
  "reconcile_template E cluster connection =
     (let after = syncInterval cluster in do {
      inputs \<leftarrow> templateInputs E cluster;
      (case inputs of
         Inl err \<Rightarrow> report_and_requeue
           (markClusterFailed E cluster ConditionValidated ReasonMissingTemplate (Error err)) after None
       | Inr inp \<Rightarrow>
         (case Render (env_Tmpl E) inp of
            Inl err \<Rightarrow> report_and_requeue
              (markClusterFailed E cluster ConditionValidated ReasonValidationFailed (Error err)) after None
          | Inr rendered \<Rightarrow> do {
              invalid \<leftarrow> observe (run_state (Validate E (re_Template rendered) (cs_TemplateRoot (c_Spec cluster))));
              (case invalid of
                 Some err \<Rightarrow> report_and_requeue
                   (updateClusterStatus E cluster
                     (invalid_status (env_Lib E) cluster connection rendered (Error err))) after None
               | None \<Rightarrow> sync_cluster E cluster connection rendered) })) })"

definition reconcile_live :: "'x env \<Rightarrow> OmniCluster \<Rightarrow> ('x, Result \<times> goerror option) action" where
  "reconcile_live E cluster =
     (let L = env_Lib E; after = syncInterval cluster in
      if \<not> has_finalizer L (c_Meta cluster) then do {
        err \<leftarrow> k_update (env_Clusters E) ObjCluster (cluster\<lparr>c_Meta := add_finalizer L (c_Meta cluster)\<rparr>);
        State_Monad.return (case err of Some e \<Rightarrow> (no_requeue, Some e) | None \<Rightarrow> (requeue_now, None)) }
      else if cs_Suspend (c_Spec cluster) then do {
        err \<leftarrow> updateClusterStatus E cluster (suspended_status L cluster);
        State_Monad.return (requeue_after after, err) }
      else do {
        got \<leftarrow> k_get (env_Connections E) KConnection (connection_key cluster);
        (case got of
           Inl err \<Rightarrow> report_and_requeue
             (markClusterFailed E cluster ConditionSynced ReasonMissingConnection
               (''failed to get OmniConnection '' @ Quote (lib_IsPrint L) (nn_Name (connection_key cluster))
                @ '': '' @ Error err)) after None
         | Inr connection \<Rightarrow> reconcile_template E cluster connection) })"

definition Cluster_Reconcile :: "'x env \<Rightarrow> NamespacedName \<Rightarrow> ('x, Result \<times> goerror option) action" where
  "Cluster_Reconcile E req = do {
     got \<leftarrow> k_get (env_Clusters E) KCluster req;
     (case got of
        Inl err \<Rightarrow> State_Monad.return (if IsNotFound err then (no_requeue, None) else (no_requeue, Some err))
      | Inr cluster \<Rightarrow>
          if \<not> Time_IsZero (om_DeletionTimestamp (c_Meta cluster)) then Cluster_reconcileDelete E cluster
          else reconcile_live E cluster) }"

section \<open>What a status claims\<close>

definition cluster_ready :: "OmniClusterStatus \<Rightarrow> bool" where
  "cluster_ready status =
     (case find_condition (csf_Conditions (cst_Common status)) ConditionReady of
        None \<Rightarrow> False | Some c \<Rightarrow> cond_Status c = ConditionTrue)"

lemma cluster_ready_set_condition:
  "condition_contract L \<Longrightarrow> cond_LastTransitionTime c = zero_time \<Longrightarrow>
     cluster_ready (set_cluster_condition L now c status) =
       (if cond_Type c = ConditionReady then cond_Status c = ConditionTrue else cluster_ready status)"
  by (simp add: cluster_ready_def set_cluster_condition_def SetCondition_upsert find_condition_upsert)

lemma not_ready_statuses:
  assumes "condition_contract L"
  shows "\<not> cluster_ready (failed_status L cluster ty reason msg now s)"
    and "\<not> cluster_ready (suspended_status L cluster now s)"
    and "\<not> cluster_ready (invalid_status L cluster conn rendered msg now s)"
    and "\<not> cluster_ready (sync_failed_status L cluster conn rendered att out msg now s)"
    and "\<not> cluster_ready (delete_failed_status L cluster out msg now s)"
  using assms
  by (simp_all add: failed_status_def suspended_status_def invalid_status_def
      sync_failed_status_def delete_failed_status_def Let_def cluster_ready_set_condition)

lemma synced_status_ready:
  "condition_contract L \<Longrightarrow>
     cluster_ready (synced_status L cluster conn rendered att out out' statusErr now s) = (statusErr = None)"
  by (simp add: synced_status_def Let_def cluster_ready_set_condition split: option.split)

section \<open>Traces of the handlers\<close>

text \<open>
  An event is quiet when it reads, or writes a status of an OmniCluster that does not claim
  readiness: it neither reaches Omni nor changes metadata.
\<close>

fun cluster_quiet :: "event \<Rightarrow> bool" where
  "cluster_quiet (EvGet k key r) = True"
| "cluster_quiet (EvList k ns r) = True"
| "cluster_quiet (EvStatusUpdate (ObjCluster c) r) = (\<not> cluster_ready (c_Status c))"
| "cluster_quiet e = False"

fun cluster_status_write :: "event \<Rightarrow> bool" where
  "cluster_status_write (EvGet k key r) = True"
| "cluster_status_write (EvStatusUpdate (ObjCluster c) r) = True"
| "cluster_status_write e = False"

lemma updateClusterStatus_emits:
  assumes "env_retry_ok E" and "\<And>now s. P (mutate now s)"
  shows "emits (updateClusterStatus E cluster mutate)
    (\<lambda>r t. list_all (\<lambda>e. cluster_status_write e \<and> (\<forall>c r. e = EvStatusUpdate (ObjCluster c) r \<longrightarrow> P (c_Status c))) t)"
  unfolding updateClusterStatus_def
  by (rule emits_mono [OF write_status_emits [where P = "\<lambda>obj. \<exists>c. obj = ObjCluster c \<and> P (c_Status c)"]])
    (use assms in \<open>auto elim!: list.pred_mono_strong simp: status_write_event_def\<close>)

lemma updateClusterStatus_quiet:
  assumes "env_retry_ok E" and "\<And>now s. \<not> cluster_ready (mutate now s)"
  shows "emits (updateClusterStatus E cluster mutate) (\<lambda>r t. list_all cluster_quiet t)"
proof (rule emits_mono [OF updateClusterStatus_emits [OF assms(1), where P = "\<lambda>s. \<not> cluster_ready s"]])
  show "\<not> cluster_ready (mutate now s)" for now s by (rule assms(2))
next
  fix t
  assume "list_all (\<lambda>e. cluster_status_write e \<and>
    (\<forall>c r. e = EvStatusUpdate (ObjCluster c) r \<longrightarrow> \<not> cluster_ready (c_Status c))) t"
  then show "list_all cluster_quiet t"
    by (rule list.pred_mono_strong) (auto elim: cluster_status_write.elims)
qed

lemma updateClusterStatus_writes:
  assumes "env_retry_ok E"
  shows "emits (updateClusterStatus E cluster mutate) (\<lambda>r t. list_all cluster_status_write t)"
  by (rule emits_mono [OF updateClusterStatus_emits [OF assms, where P = "\<lambda>s. True"]])
    (auto elim!: list.pred_mono_strong)

text \<open>Template inputs of a cluster: nothing that belongs to another cluster.\<close>

definition inputs_of :: "OmniCluster \<Rightarrow> Inputs \<Rightarrow> bool" where
  "inputs_of cluster inp \<longleftrightarrow>
     (let name = om_Name (c_Meta cluster) in
      in_Cluster inp = Some cluster
      \<and> (\<exists>cp. in_ControlPlane inp = Some cp \<and> lor_Name (cps_ClusterRef (cp_Spec cp)) = name)
      \<and> list_all (\<lambda>w. lor_Name (ws_ClusterRef (w_Spec w)) = name) (in_Workers inp)
      \<and> list_all (\<lambda>m. lor_Name (mas_ClusterRef (m_Spec m)) = name) (in_Machines inp))"

lemma length_1_hd: "length (filter P xs) = Suc 0 \<Longrightarrow> P (hd (filter P xs))"
  by (cases "filter P xs") (auto dest!: arg_cong [where f = set])

lemma templateInputs_emits:
  "emits (templateInputs E cluster) (\<lambda>r t. list_all cluster_quiet t \<and>
     (case r of Inl err \<Rightarrow> True | Inr inp \<Rightarrow> inputs_of cluster inp))"
  unfolding templateInputs_def k_call_defs Let_def inputs_of_def
  by (intro emits_rules) (auto split: sum.splits simp: list_all_iff dest: length_1_hd)

section \<open>The protocol of a reconcile run\<close>

text \<open>
  What one run of the controller may do with a cluster it has read, as a relation between the
  cluster, the outcome and the events.  A run that only reads and reports failures is quiet; the
  other shapes are the four in which the run changes something outside the status.
\<close>

abbreviation sync_event ::
  "OmniCluster \<Rightarrow> OmniConnection \<Rightarrow> Rendered \<Rightarrow> string \<times> goerror option \<Rightarrow> event" where
  "sync_event cluster connection rendered answer \<equiv>
     EvSyncTemplate connection (re_Template rendered) (cs_TemplateRoot (c_Spec cluster))
       \<lparr>so_DestroyMachines = False\<rparr> answer"

abbreviation delete_event :: "OmniCluster \<Rightarrow> OmniConnection \<Rightarrow> string \<times> goerror option \<Rightarrow> event" where
  "delete_event cluster connection answer \<equiv>
     EvDeleteCluster connection (ClusterName cluster)
       \<lparr>so_DestroyMachines = cdp_DestroyMachines (cs_DeletePolicy (c_Spec cluster))\<rparr> answer"

inductive sync_run ::
  "OmniCluster \<Rightarrow> OmniConnection \<Rightarrow> Rendered \<Rightarrow> event list \<Rightarrow> bool"
  for cluster connection rendered
where
  sync_error: "list_all cluster_quiet rest \<Longrightarrow>
    sync_run cluster connection rendered (sync_event cluster connection rendered (out, Some e) # rest)"
| status_error: "list_all cluster_quiet rest \<Longrightarrow>
    sync_run cluster connection rendered
      (sync_event cluster connection rendered (out, None)
       # EvStatusCluster connection (re_ClusterName rendered) (out', Some e) # rest)"
| synced: "list_all cluster_status_write rest \<Longrightarrow>
    sync_run cluster connection rendered
      (sync_event cluster connection rendered (out, None)
       # EvStatusCluster connection (re_ClusterName rendered) (out', None) # rest)"

inductive live_run ::
  "'x env \<Rightarrow> OmniCluster \<Rightarrow> event list \<Rightarrow> bool"
  for E cluster
where
  claim: "\<not> has_finalizer (env_Lib E) (c_Meta cluster) \<Longrightarrow>
    live_run E cluster [EvUpdate (ObjCluster (cluster\<lparr>c_Meta := add_finalizer (env_Lib E) (c_Meta cluster)\<rparr>)) r]"
| report: "list_all cluster_quiet t \<Longrightarrow> live_run E cluster t"
| sync: "list_all cluster_quiet pre \<Longrightarrow> inputs_of cluster inp \<Longrightarrow>
    Render (env_Tmpl E) inp = Inr rendered \<Longrightarrow> \<not> cs_Suspend (c_Spec cluster) \<Longrightarrow>
    has_finalizer (env_Lib E) (c_Meta cluster) \<Longrightarrow>
    sync_run cluster connection rendered t \<Longrightarrow> live_run E cluster (pre @ t)"

inductive delete_run ::
  "'x env \<Rightarrow> OmniCluster \<Rightarrow> event list \<Rightarrow> bool"
  for E cluster
where
  quiet_delete: "list_all cluster_quiet t \<Longrightarrow> delete_run E cluster t"
| orphan: "cdp_Orphan (cs_DeletePolicy (c_Spec cluster)) \<Longrightarrow>
    delete_run E cluster [EvUpdate (ObjCluster (cluster\<lparr>c_Meta := remove_finalizers (env_Lib E) (c_Meta cluster)\<rparr>)) r]"
| delete_error: "\<not> cdp_Orphan (cs_DeletePolicy (c_Spec cluster)) \<Longrightarrow> list_all cluster_quiet rest \<Longrightarrow>
    delete_run E cluster (EvGet KConnection (connection_key cluster) None
      # delete_event cluster connection (out, Some e) # rest)"
| deleted: "\<not> cdp_Orphan (cs_DeletePolicy (c_Spec cluster)) \<Longrightarrow>
    delete_run E cluster
      [EvGet KConnection (connection_key cluster) None,
       delete_event cluster connection (out, None),
       EvUpdate (ObjCluster (cluster\<lparr>c_Meta := remove_finalizers (env_Lib E) (c_Meta cluster)\<rparr>)) r]"

lemmas quiet_reports =
  report_and_requeue_emits [OF updateClusterStatus_quiet]

lemma sync_cluster_emits:
  assumes retry: "env_retry_ok E" and L: "condition_contract (env_Lib E)"
  shows "emits (sync_cluster E cluster connection rendered)
    (\<lambda>out t. sync_run cluster connection rendered t
       \<and> (snd out = None \<longrightarrow> fst out = requeue_after (syncInterval cluster)))"
  unfolding sync_cluster_def omni_call_defs Let_def
proof (intro emits_observe_bind emits_call_bind emits_case_prod emits_case_option)
  fix now and answer :: "string \<times> goerror option" and syncOutput err e
  assume "answer = (syncOutput, err)" and "err = Some e"
  then show "emits
      (report_and_requeue
        (updateClusterStatus E cluster
          (sync_failed_status (env_Lib E) cluster connection rendered now syncOutput (sync_message e syncOutput)))
        (syncInterval cluster) (Some e))
      (\<lambda>out t. sync_run cluster connection rendered (sync_event cluster connection rendered answer # t)
         \<and> (snd out = None \<longrightarrow> fst out = requeue_after (syncInterval cluster)))"
    by (auto intro!: emits_mono [OF quiet_reports] retry not_ready_statuses L intro: sync_run.sync_error)
next
  fix now and answer :: "string \<times> goerror option" and syncOutput err
    and answer' :: "string \<times> goerror option" and statusOutput statusErr
  assume a: "answer = (syncOutput, err)" "err = None" "answer' = (statusOutput, statusErr)"
  show "emits
      (report_and_requeue
        (updateClusterStatus E cluster
          (synced_status (env_Lib E) cluster connection rendered now syncOutput statusOutput statusErr))
        (syncInterval cluster) None)
      (\<lambda>out t. sync_run cluster connection rendered (sync_event cluster connection rendered answer
             # EvStatusCluster connection (re_ClusterName rendered) answer' # t)
         \<and> (snd out = None \<longrightarrow> fst out = requeue_after (syncInterval cluster)))"
  proof (cases statusErr)
    case None
    then show ?thesis
      by (auto intro!: emits_mono [OF report_and_requeue_emits [OF updateClusterStatus_writes]] retry
          intro: sync_run.synced simp: a)
  next
    case (Some e)
    then show ?thesis
      by (auto intro!: emits_mono [OF quiet_reports] retry
          intro: sync_run.status_error simp: a synced_status_ready [OF L])
  qed
qed

lemma markClusterFailed_quiet:
  assumes "env_retry_ok E" and "condition_contract (env_Lib E)"
  shows "emits (markClusterFailed E cluster ty reason msg) (\<lambda>r t. list_all cluster_quiet t)"
  unfolding markClusterFailed_def
  by (rule updateClusterStatus_quiet [OF assms(1)]) (rule not_ready_statuses [OF assms(2)])

text \<open>The outcome of a run that does not fail: it is scheduled again.\<close>

definition requeued :: "OmniCluster \<Rightarrow> Result \<times> goerror option \<Rightarrow> bool" where
  "requeued cluster out \<longleftrightarrow>
     snd out \<noteq> None \<or> fst out = requeue_now \<or> fst out = requeue_after (syncInterval cluster)"

lemma report_live:
  assumes "emits w (\<lambda>r t. list_all cluster_quiet t)" and "list_all cluster_quiet pre"
  shows "emits (report_and_requeue w (syncInterval cluster) err)
    (\<lambda>out t. live_run E cluster (pre @ t) \<and> requeued cluster out)"
  by (rule emits_mono [OF report_and_requeue_emits [OF assms(1)]])
    (use assms(2) in \<open>auto simp: requeued_def intro: live_run.report\<close>)

lemma reconcile_template_emits:
  assumes retry: "env_retry_ok E" and L: "condition_contract (env_Lib E)"
    and live: "\<not> cs_Suspend (c_Spec cluster)" "has_finalizer (env_Lib E) (c_Meta cluster)"
    and pre: "list_all cluster_quiet pre"
  shows "emits (reconcile_template E cluster connection)
    (\<lambda>out t. live_run E cluster (pre @ t) \<and> requeued cluster out)"
  unfolding reconcile_template_def Let_def
proof (rule emits_then [OF templateInputs_emits], elim conjE,
    intro emits_case_sum emits_observe_bind emits_case_option)
  fix inputs t inp rendered
  assume "list_all cluster_quiet t" and inp: "inputs = Inr inp"
    and "case inputs of Inl err \<Rightarrow> True | Inr inp \<Rightarrow> inputs_of cluster inp"
    and "Render (env_Tmpl E) inp = Inr rendered"
  then show "emits (sync_cluster E cluster connection rendered)
      (\<lambda>out t'. live_run E cluster (pre @ t @ t') \<and> requeued cluster out)"
    using live pre
    by (auto intro!: emits_mono [OF sync_cluster_emits [OF retry L]]
        intro: live_run.sync [where pre = "pre @ t", simplified] simp: requeued_def)
next
  fix inputs t err
  assume "list_all cluster_quiet t"
  then show "emits
      (report_and_requeue (markClusterFailed E cluster ConditionValidated ReasonMissingTemplate (Error err))
        (syncInterval cluster) None)
      (\<lambda>out t'. live_run E cluster (pre @ t @ t') \<and> requeued cluster out)"
    using report_live [OF markClusterFailed_quiet [OF retry L], of "pre @ t"] pre by simp
next
  fix inputs t inp err
  assume "list_all cluster_quiet t"
  then show "emits
      (report_and_requeue (markClusterFailed E cluster ConditionValidated ReasonValidationFailed (Error err))
        (syncInterval cluster) None)
      (\<lambda>out t'. live_run E cluster (pre @ t @ t') \<and> requeued cluster out)"
    using report_live [OF markClusterFailed_quiet [OF retry L], of "pre @ t"] pre by simp
next
  fix inputs t inp rendered invalid err
  assume "list_all cluster_quiet t"
  then show "emits
      (report_and_requeue
        (updateClusterStatus E cluster (invalid_status (env_Lib E) cluster connection rendered (Error err)))
        (syncInterval cluster) None)
      (\<lambda>out t'. live_run E cluster (pre @ t @ t') \<and> requeued cluster out)"
    using report_live [OF updateClusterStatus_quiet [OF retry not_ready_statuses(3) [OF L]], of "pre @ t"] pre
    by simp
qed

lemma reconcile_live_emits:
  assumes retry: "env_retry_ok E" and L: "condition_contract (env_Lib E)"
  shows "emits (reconcile_live E cluster) (\<lambda>out t. live_run E cluster t \<and> requeued cluster out)"
  unfolding reconcile_live_def k_call_defs Let_def
proof (intro emits_if emits_call_bind emits_case_sum)
  fix err
  assume "\<not> has_finalizer (env_Lib E) (c_Meta cluster)"
  then show "emits (State_Monad.return
      (case err of None \<Rightarrow> (requeue_now, None) | Some e \<Rightarrow> (no_requeue, Some e)))
      (\<lambda>out t. live_run E cluster
          (EvUpdate (ObjCluster (cluster\<lparr>c_Meta := add_finalizer (env_Lib E) (c_Meta cluster)\<rparr>)) err # t)
        \<and> requeued cluster out)"
    by (intro emits_return) (auto simp: requeued_def intro: live_run.claim split: option.split)
next
  show "emits (State_Monad.bind (updateClusterStatus E cluster (suspended_status (env_Lib E) cluster))
      (\<lambda>err. State_Monad.return (requeue_after (syncInterval cluster), err)))
      (\<lambda>out t. live_run E cluster t \<and> requeued cluster out)"
    by (rule emits_then [OF updateClusterStatus_quiet [OF retry not_ready_statuses(2) [OF L]]],
        rule emits_return) (auto simp: requeued_def intro: live_run.report)
next
  fix got :: "goerror + OmniConnection" and err
  show "emits
      (report_and_requeue
        (markClusterFailed E cluster ConditionSynced ReasonMissingConnection
          (''failed to get OmniConnection '' @ Quote (lib_IsPrint (env_Lib E)) (nn_Name (connection_key cluster))
           @ '': '' @ Error err))
        (syncInterval cluster) None)
      (\<lambda>out t. live_run E cluster (EvGet KConnection (connection_key cluster) (err_of got) # t)
        \<and> requeued cluster out)"
    using report_live [OF markClusterFailed_quiet [OF retry L], where pre = "[EvGet KConnection (connection_key cluster) (err_of got)]"]
    by simp
next
  fix got :: "goerror + OmniConnection" and connection
  assume "\<not> \<not> has_finalizer (env_Lib E) (c_Meta cluster)" and "\<not> cs_Suspend (c_Spec cluster)"
  then show "emits (reconcile_template E cluster connection)
      (\<lambda>out t. live_run E cluster (EvGet KConnection (connection_key cluster) (err_of got) # t)
        \<and> requeued cluster out)"
    using reconcile_template_emits [OF retry L, where pre = "[EvGet KConnection (connection_key cluster) (err_of got)]"]
    by simp
qed

lemma Cluster_reconcileDelete_emits:
  assumes retry: "env_retry_ok E" and L: "condition_contract (env_Lib E)"
  shows "emits (Cluster_reconcileDelete E cluster) (\<lambda>out t. delete_run E cluster t)"
  unfolding Cluster_reconcileDelete_def Let_def release_cluster_def k_call_defs omni_call_defs
proof (intro emits_if emits_call_bind emits_case_sum emits_case_prod emits_case_option)
  fix got :: "goerror + OmniConnection" and err
  show "emits
      (State_Monad.bind
        (markClusterFailed E cluster ConditionReady ReasonDeleteFailed
          (''cannot delete remote Omni cluster without OmniConnection ''
           @ Quote (lib_IsPrint (env_Lib E)) (nn_Name (connection_key cluster)) @ '': '' @ Error err))
        (\<lambda>statusErr. State_Monad.return
          (case statusErr of None \<Rightarrow> (no_requeue, Some err) | Some e \<Rightarrow> (no_requeue, Some e))))
      (\<lambda>out t. delete_run E cluster (EvGet KConnection (connection_key cluster) (err_of got) # t))"
    by (rule emits_then [OF markClusterFailed_quiet [OF retry L]], rule emits_return)
      (auto intro: delete_run.quiet_delete)
next
  fix got :: "goerror + OmniConnection" and connection and answer :: "string \<times> goerror option" and outp err e
  assume "\<not> cdp_Orphan (cs_DeletePolicy (c_Spec cluster))" "got = Inr connection"
    "answer = (outp, err)" "err = Some e"
  then show "emits
      (State_Monad.bind
        (updateClusterStatus E cluster (delete_failed_status (env_Lib E) cluster outp (Error e)))
        (\<lambda>statusErr. State_Monad.return
          (case statusErr of None \<Rightarrow> (no_requeue, Some e) | Some e' \<Rightarrow> (no_requeue, Some e'))))
      (\<lambda>out t. delete_run E cluster
        (EvGet KConnection (connection_key cluster) (err_of got) # delete_event cluster connection answer # t))"
    by (intro emits_then [OF updateClusterStatus_quiet [OF retry not_ready_statuses(5) [OF L]]] emits_return)
      (auto intro: delete_run.delete_error)
qed (auto intro!: emits_return intro: delete_run.intros)

text \<open>A whole run: the cluster is read first, and the rest follows the protocol above.\<close>

definition cluster_run :: "'x env \<Rightarrow> NamespacedName \<Rightarrow> Result \<times> goerror option \<Rightarrow> event list \<Rightarrow> bool" where
  "cluster_run E req out t \<longleftrightarrow>
     (\<exists>err. t = [EvGet KCluster req (Some err)] \<and> fst out = no_requeue
        \<and> snd out = (if IsNotFound err then None else Some err))
     \<or> (\<exists>cluster rest. t = EvGet KCluster req None # rest \<and>
          (if Time_IsZero (om_DeletionTimestamp (c_Meta cluster))
           then live_run E cluster rest \<and> requeued cluster out
           else delete_run E cluster rest))"

lemma Cluster_Reconcile_emits:
  assumes "env_retry_ok E" and "condition_contract (env_Lib E)"
  shows "emits (Cluster_Reconcile E req) (cluster_run E req)"
  unfolding Cluster_Reconcile_def k_get_def
proof (intro emits_call_bind emits_case_sum emits_if emits_return)
  fix got :: "goerror + OmniCluster" and err
  assume "got = Inl err"
  then show "cluster_run E req (if IsNotFound err then (no_requeue, None) else (no_requeue, Some err))
      [EvGet KCluster req (err_of got)]"
    by (simp add: cluster_run_def)
next
  fix got :: "goerror + OmniCluster" and cluster
  assume "got = Inr cluster" and "\<not> Time_IsZero (om_DeletionTimestamp (c_Meta cluster))"
  then show "emits (Cluster_reconcileDelete E cluster)
      (\<lambda>out t. cluster_run E req out (EvGet KCluster req (err_of got) # t))"
    by (intro emits_mono [OF Cluster_reconcileDelete_emits [OF assms]]) (auto simp: cluster_run_def)
next
  fix got :: "goerror + OmniCluster" and cluster
  assume "got = Inr cluster" and "\<not> \<not> Time_IsZero (om_DeletionTimestamp (c_Meta cluster))"
  then show "emits (reconcile_live E cluster)
      (\<lambda>out t. cluster_run E req out (EvGet KCluster req (err_of got) # t))"
    by (intro emits_mono [OF reconcile_live_emits [OF assms]]) (auto simp: cluster_run_def)
qed

lemma cluster_run_cases [consumes 1, case_names missing live deleting]:
  assumes "cluster_run E req out t"
  obtains err where "t = [EvGet KCluster req (Some err)]" "snd out = (if IsNotFound err then None else Some err)"
  | cluster rest where "t = EvGet KCluster req None # rest" "live_run E cluster rest" "requeued cluster out"
      "Time_IsZero (om_DeletionTimestamp (c_Meta cluster))"
  | cluster rest where "t = EvGet KCluster req None # rest" "delete_run E cluster rest"
      "\<not> Time_IsZero (om_DeletionTimestamp (c_Meta cluster))"
  using assms unfolding cluster_run_def by (auto split: if_splits)

lemma ClusterName_meta_frame [simp]:
  "ClusterName (cluster\<lparr>c_Meta := add_finalizer L (c_Meta cluster)\<rparr>) = ClusterName cluster"
  "ClusterName (cluster\<lparr>c_Meta := remove_finalizers L (c_Meta cluster)\<rparr>) = ClusterName cluster"
  by (simp_all add: ClusterName_def add_finalizer_def remove_finalizers_def)

section \<open>Properties\<close>

text \<open>Events that are neither quiet nor status writes, and what they promise.\<close>

definition releases_cluster :: "klib \<Rightarrow> OmniCluster \<Rightarrow> event \<Rightarrow> bool" where
  "releases_cluster L cluster e \<longleftrightarrow>
     (\<exists>r. e = EvUpdate (ObjCluster cluster) r) \<and> \<not> has_finalizer L (c_Meta cluster)
     \<and> \<not> cdp_Orphan (cs_DeletePolicy (c_Spec cluster))"

definition deleted_in_omni :: "OmniCluster \<Rightarrow> event \<Rightarrow> bool" where
  "deleted_in_omni cluster e \<longleftrightarrow> (\<exists>connection out. e = delete_event cluster connection (out, None))"

fun writes_ready :: "event \<Rightarrow> bool" where
  "writes_ready (EvStatusUpdate (ObjCluster c) r) = cluster_ready (c_Status c)"
| "writes_ready e = False"

fun status_asked :: "event \<Rightarrow> bool" where
  "status_asked (EvStatusCluster connection name answer) = True"
| "status_asked e = False"

fun status_read :: "event \<Rightarrow> bool" where
  "status_read (EvStatusCluster connection name (out, err)) = (err = None)"
| "status_read e = False"

fun sync_succeeded :: "event \<Rightarrow> bool" where
  "sync_succeeded (EvSyncTemplate connection tmpl root opts (out, err)) = (err = None)"
| "sync_succeeded e = False"

lemma quiet_not_promising:
  "cluster_quiet e \<Longrightarrow> \<not> releases_cluster L c e"
  "cluster_quiet e \<Longrightarrow> \<not> writes_ready e"
  "cluster_quiet e \<Longrightarrow> \<not> status_asked e"
  "cluster_quiet e \<Longrightarrow> \<not> omni_event e"
  "cluster_status_write e \<Longrightarrow> \<not> releases_cluster L c e"
  "cluster_status_write e \<Longrightarrow> \<not> status_asked e"
  "cluster_status_write e \<Longrightarrow> \<not> omni_event e"
  by (auto simp: releases_cluster_def elim: cluster_quiet.elims cluster_status_write.elims)

lemma quiet_list:
  "list_all cluster_quiet t \<Longrightarrow> list_all (\<lambda>e. \<not> releases_cluster L c e) t"
  "list_all cluster_quiet t \<Longrightarrow> list_all (\<lambda>e. \<not> writes_ready e) t"
  "list_all cluster_quiet t \<Longrightarrow> list_all (\<lambda>e. \<not> status_asked e) t"
  "list_all cluster_quiet t \<Longrightarrow> list_all (\<lambda>e. \<not> omni_event e) t"
  "list_all cluster_status_write t \<Longrightarrow> list_all (\<lambda>e. \<not> releases_cluster L c e) t"
  "list_all cluster_status_write t \<Longrightarrow> list_all (\<lambda>e. \<not> status_asked e) t"
  by (auto elim!: list_all_weaken dest: quiet_not_promising)

lemma sync_run_not_releasing: "sync_run cluster connection rendered t \<Longrightarrow> list_all (\<lambda>e. \<not> releases_cluster L c e) t"
  by (induction rule: sync_run.induct) (auto simp: quiet_list, auto simp: releases_cluster_def)

lemma live_run_not_releasing:
  assumes "finalizer_contract (env_Lib E)" and "live_run E cluster t"
  shows "list_all (\<lambda>e. \<not> releases_cluster (env_Lib E) c e) t"
  using assms(2)
proof cases
  case claim
  then show ?thesis using add_finalizer_has [OF assms(1)] by (auto simp: releases_cluster_def)
next
  case report
  then show ?thesis by (rule quiet_list)
next
  case sync
  then show ?thesis using sync_run_not_releasing quiet_list(1) by auto
qed

lemma delete_run_releases:
  assumes "delete_run E cluster t"
  shows "preceded (releases_cluster L c) (deleted_in_omni c) t"
  using assms
proof cases
  case quiet_delete
  then show ?thesis by (intro preceded_none quiet_list)
next
  case orphan
  then show ?thesis by (auto simp: releases_cluster_def)
next
  case (delete_error rest connection out e)
  then show ?thesis by (simp add: preceded_none quiet_list) (simp add: releases_cluster_def)
next
  case (deleted connection out r)
  then show ?thesis by (auto simp: releases_cluster_def deleted_in_omni_def)
qed

lemma live_run_ready:
  assumes "live_run E cluster t"
  shows "preceded writes_ready status_read t \<and> preceded status_asked sync_succeeded t"
  using assms
proof cases
  case claim
  then show ?thesis by simp
next
  case report
  then show ?thesis by (simp add: preceded_none quiet_list)
next
  case (sync pre inp rendered connection t')
  have "preceded writes_ready status_read t' \<and> preceded status_asked sync_succeeded t'"
    using \<open>sync_run _ _ _ t'\<close>
    by (induction rule: sync_run.induct)
      (auto intro: preceded_none quiet_list)
  with sync show ?thesis by (simp add: preceded_append quiet_list)
qed

lemma delete_run_ready:
  assumes "delete_run E cluster t"
  shows "list_all (\<lambda>e. \<not> writes_ready e \<and> \<not> status_asked e) t"
  using assms
  by (induction rule: delete_run.induct)
    (auto simp: list_all_iff dest: quiet_not_promising)

text \<open>
  Claim C5.  A cluster that is being deleted and not orphaned is released (written without the
  operator's finalizers) only after Omni has answered a delete of that very cluster, under its
  Omni name and with its own machine policy, without an error.
\<close>

theorem release_after_delete:
  assumes "env_retry_ok E" and "condition_contract (env_Lib E)" and "finalizer_contract (env_Lib E)"
  shows "emits (Cluster_Reconcile E req)
    (\<lambda>out t. \<forall>c. preceded (releases_cluster (env_Lib E) c) (deleted_in_omni c) t)"
proof (rule emits_mono [OF Cluster_Reconcile_emits [OF assms(1,2)]], rule allI)
  fix out t c
  assume "cluster_run E req out t"
  then show "preceded (releases_cluster (env_Lib E) c) (deleted_in_omni c) t"
  proof (cases rule: cluster_run_cases)
    case (live cluster rest)
    then show ?thesis
      using live_run_not_releasing [OF assms(3)] by (simp add: preceded_none releases_cluster_def)
  next
    case (deleting cluster rest)
    then show ?thesis using delete_run_releases [of E cluster rest] by (auto simp: releases_cluster_def)
  qed (simp add: releases_cluster_def)
qed

text \<open>
  Claim C6.  A run claims a cluster to be Ready only after Omni's status was read without an
  error, and it asks for the status only after a template was synchronised without an error.
\<close>

theorem ready_after_sync:
  assumes "env_retry_ok E" and "condition_contract (env_Lib E)"
  shows "emits (Cluster_Reconcile E req)
    (\<lambda>out t. preceded writes_ready status_read t \<and> preceded status_asked sync_succeeded t)"
proof (rule emits_mono [OF Cluster_Reconcile_emits [OF assms]])
  fix out t
  assume "cluster_run E req out t"
  then show "preceded writes_ready status_read t \<and> preceded status_asked sync_succeeded t"
  proof (cases rule: cluster_run_cases)
    case (live cluster rest)
    then show ?thesis using live_run_ready by simp
  next
    case (deleting cluster rest)
    then show ?thesis using delete_run_ready [of E cluster rest] by (auto simp: list_all_iff intro!: preceded_none)
  qed simp
qed

text \<open>What a synchronisation may send: a rendered template of the cluster, and no permission to
  destroy machines.\<close>

definition sends_rendered :: "'x env \<Rightarrow> event \<Rightarrow> bool" where
  "sends_rendered E e \<longleftrightarrow>
     (\<exists>connection inp cluster rendered answer.
        e = sync_event cluster connection rendered answer \<and> inputs_of cluster inp
        \<and> Render (env_Tmpl E) inp = Inr rendered \<and> \<not> cs_Suspend (c_Spec cluster)
        \<and> Time_IsZero (om_DeletionTimestamp (c_Meta cluster))
        \<and> has_finalizer (env_Lib E) (c_Meta cluster))"

fun sync_sent :: "event \<Rightarrow> bool" where
  "sync_sent (EvSyncTemplate connection tmpl root opts answer) = True"
| "sync_sent e = False"

lemma quiet_not_sent: "cluster_quiet e \<Longrightarrow> \<not> sync_sent e" "cluster_status_write e \<Longrightarrow> \<not> sync_sent e"
  by (auto elim: cluster_quiet.elims cluster_status_write.elims)

lemma live_run_sends:
  assumes "live_run E cluster t" and zero: "Time_IsZero (om_DeletionTimestamp (c_Meta cluster))"
  shows "list_all (\<lambda>e. sync_sent e \<longrightarrow> sends_rendered E e) t"
  using assms(1)
proof cases
  case (sync pre inp rendered connection t')
  have "sends_rendered E (sync_event cluster connection rendered answer)" for answer
    unfolding sends_rendered_def using sync zero by blast
  with \<open>sync_run _ _ _ t'\<close> have "list_all (\<lambda>e. sync_sent e \<longrightarrow> sends_rendered E e) t'"
    by (induction rule: sync_run.induct) (auto simp: list_all_iff dest: quiet_not_sent)
  with sync show ?thesis by (auto simp: list_all_iff dest: quiet_not_sent)
qed (auto simp: list_all_iff dest: quiet_not_sent)

lemma delete_run_sends: "delete_run E cluster t \<Longrightarrow> list_all (\<lambda>e. \<not> sync_sent e) t"
  by (induction rule: delete_run.induct) (auto simp: list_all_iff dest: quiet_not_sent)

text \<open>
  Claim C7.  Every template a run sends to Omni was rendered without an error from inputs that
  contain the cluster and only resources that refer to it, goes out under the cluster's template root and without permission to
  destroy machines, and the cluster is claimed by the finalizer, neither suspended nor being
  deleted.
\<close>

theorem sync_sends_rendered:
  assumes "env_retry_ok E" and "condition_contract (env_Lib E)"
  shows "emits (Cluster_Reconcile E req) (\<lambda>out t. list_all (\<lambda>e. sync_sent e \<longrightarrow> sends_rendered E e) t)"
proof (rule emits_mono [OF Cluster_Reconcile_emits [OF assms]])
  fix out t
  assume "cluster_run E req out t"
  then show "list_all (\<lambda>e. sync_sent e \<longrightarrow> sends_rendered E e) t"
  proof (cases rule: cluster_run_cases)
    case (live cluster rest)
    then show ?thesis using live_run_sends by simp
  next
    case (deleting cluster rest)
    then show ?thesis using delete_run_sends by (fastforce simp: list_all_iff)
  qed simp
qed

text \<open>
  While a cluster is suspended, a reconcile run that does not delete it makes no call
  to Omni at all and does not claim it to be Ready.
\<close>

theorem suspended_no_remote:
  assumes "env_retry_ok E" and "condition_contract (env_Lib E)" and "cs_Suspend (c_Spec cluster)"
  shows "emits (reconcile_live E cluster) (\<lambda>out t. list_all (\<lambda>e. \<not> omni_event e \<and> \<not> writes_ready e) t)"
proof (rule emits_mono [OF reconcile_live_emits [OF assms(1,2)]], elim conjE)
  fix out t
  assume "live_run E cluster t"
  then show "list_all (\<lambda>e. \<not> omni_event e \<and> \<not> writes_ready e) t"
    by cases (use assms(3) in \<open>auto simp: list_all_iff dest: quiet_not_promising\<close>)
qed

text \<open>
  A reconcile run of a live cluster is never forgotten: it ends with an error, an
  immediate requeue or a requeue after a positive delay.
\<close>

theorem live_cluster_requeued:
  assumes "env_retry_ok E" and "condition_contract (env_Lib E)"
  shows "emits (reconcile_live E cluster)
    (\<lambda>out t. snd out \<noteq> None \<or> res_Requeue (fst out) \<or> res_RequeueAfter (fst out) > 0)"
proof (rule emits_mono [OF reconcile_live_emits [OF assms]])
  have "syncInterval cluster > 0" by (simp add: syncInterval_def Minute_def Second_def)
  then show "live_run E cluster t \<and> requeued cluster out \<Longrightarrow>
      snd out \<noteq> None \<or> res_Requeue (fst out) \<or> res_RequeueAfter (fst out) > 0" for out t
    by (auto simp: requeued_def requeue_now_def requeue_after_def)
qed

lemma updateClusterStatus_any: "env_retry_ok E \<Longrightarrow> emits (updateClusterStatus E cluster mutate) (\<lambda>r t. True)"
  by (rule emits_mono [OF updateClusterStatus_writes]) simp_all

text \<open>
  The delete handler never drops a cluster silently: when it reports success, either
  the cluster carried no finalizer of the operator, or the last thing it did was to write the
  cluster without them, and that write succeeded.
\<close>

theorem delete_reports_progress:
  assumes "env_retry_ok E"
  shows "emits (Cluster_reconcileDelete E cluster)
    (\<lambda>out t. snd out \<noteq> None \<or> \<not> has_finalizer (env_Lib E) (c_Meta cluster) \<or>
       (\<exists>s. t = s @ [EvUpdate (ObjCluster (cluster\<lparr>c_Meta := remove_finalizers (env_Lib E) (c_Meta cluster)\<rparr>)) None]))"
  unfolding Cluster_reconcileDelete_def Let_def release_cluster_def markClusterFailed_def
    k_call_defs omni_call_defs
  by (intro emits_then [OF updateClusterStatus_any [OF assms]] emits_rules) (auto split: option.splits)

end
