(* ===== verification/Watches.thy ===== *)
theory Watches
  imports Cluster_Controller Child_Controllers
begin

text \<open>
  How changes of one resource wake the controllers of others
  (\<^verbatim>\<open>internal/controller/child_watch.go\<close>, \<^verbatim>\<open>predicates.go\<close> and the mapping functions at the end
  of the controller files).  A mapping function receives the changed object; the list mappers
  only look at its namespace and name, so they take its metadata.
\<close>

section \<open>Predicates\<close>

datatype watch_event =
    CreateEvent | DeleteEvent | GenericEvent
  | UpdateEvent "ObjectMeta option" "ObjectMeta option"

fun specOrDeletionChangedPredicate :: "watch_event \<Rightarrow> bool" where
  "specOrDeletionChangedPredicate CreateEvent = True"
| "specOrDeletionChangedPredicate DeleteEvent = True"
| "specOrDeletionChangedPredicate GenericEvent = True"
| "specOrDeletionChangedPredicate (UpdateEvent old new) =
     (case (old, new) of
        (Some o', Some n) \<Rightarrow>
          if om_Generation o' \<noteq> om_Generation n then True
          else Time_IsZero (om_DeletionTimestamp o') \<noteq> Time_IsZero (om_DeletionTimestamp n)
      | _ \<Rightarrow> True)"

section \<open>Mapping functions\<close>

definition sortRequests :: "NamespacedName list \<Rightarrow> NamespacedName list" where
  "sortRequests requests = sort_key NamespacedName_String requests"

definition requests_matching ::
  "('o \<Rightarrow> ObjectMeta) \<Rightarrow> ('o \<Rightarrow> string) \<Rightarrow> string \<Rightarrow> 'o list \<Rightarrow> NamespacedName list" where
  "requests_matching meta_of ref_of name items =
     map (\<lambda>item. \<lparr>nn_Namespace = om_Namespace (meta_of item), nn_Name = om_Name (meta_of item)\<rparr>)
       (filter (\<lambda>item. ref_of item = name) items)"

definition controlPlaneRequestsForCluster :: "'x env \<Rightarrow> ObjectMeta \<Rightarrow> ('x, NamespacedName list) action" where
  "controlPlaneRequestsForCluster E object = do {
     items \<leftarrow> k_list (env_ControlPlanes E) KControlPlane (om_Namespace object);
     State_Monad.return (case items of
         Inl err \<Rightarrow> []
       | Inr controlPlanes \<Rightarrow> sortRequests
           (requests_matching cp_Meta (\<lambda>cp. lor_Name (cps_ClusterRef (cp_Spec cp))) (om_Name object) controlPlanes)) }"

definition workersRequestsForCluster :: "'x env \<Rightarrow> ObjectMeta \<Rightarrow> ('x, NamespacedName list) action" where
  "workersRequestsForCluster E object = do {
     items \<leftarrow> k_list (env_Workers E) KWorkers (om_Namespace object);
     State_Monad.return (case items of
         Inl err \<Rightarrow> []
       | Inr workersList \<Rightarrow> sortRequests
           (requests_matching w_Meta (\<lambda>w. lor_Name (ws_ClusterRef (w_Spec w))) (om_Name object) workersList)) }"

definition machineRequestsForCluster :: "'x env \<Rightarrow> ObjectMeta \<Rightarrow> ('x, NamespacedName list) action" where
  "machineRequestsForCluster E object = do {
     items \<leftarrow> k_list (env_Machines E) KMachine (om_Namespace object);
     State_Monad.return (case items of
         Inl err \<Rightarrow> []
       | Inr machineList \<Rightarrow> sortRequests
           (requests_matching m_Meta (\<lambda>m. lor_Name (mas_ClusterRef (m_Spec m))) (om_Name object) machineList)) }"

definition clustersForConnection :: "'x env \<Rightarrow> ObjectMeta \<Rightarrow> ('x, NamespacedName list) action" where
  "clustersForConnection E object = do {
     items \<leftarrow> k_list (env_Clusters E) KCluster (om_Namespace object);
     State_Monad.return (case items of
         Inl err \<Rightarrow> []
       | Inr clusterList \<Rightarrow> sortRequests
           (requests_matching c_Meta (\<lambda>c. lor_Name (cs_ConnectionRef (c_Spec c))) (om_Name object) clusterList)) }"

definition requestForClusterRef :: "string \<Rightarrow> string \<Rightarrow> NamespacedName list" where
  "requestForClusterRef namespace name =
     (if name = [] then [] else [\<lparr>nn_Namespace = namespace, nn_Name = name\<rparr>])"

fun requestForChildCluster :: "api_object \<Rightarrow> NamespacedName list" where
  "requestForChildCluster (ObjControlPlane typed) =
     requestForClusterRef (om_Namespace (cp_Meta typed)) (lor_Name (cps_ClusterRef (cp_Spec typed)))"
| "requestForChildCluster (ObjWorkers typed) =
     requestForClusterRef (om_Namespace (w_Meta typed)) (lor_Name (ws_ClusterRef (w_Spec typed)))"
| "requestForChildCluster (ObjMachine typed) =
     requestForClusterRef (om_Namespace (m_Meta typed)) (lor_Name (mas_ClusterRef (m_Spec typed)))"
| "requestForChildCluster object = []"

fun requestForClusterConnection :: "api_object \<Rightarrow> NamespacedName list" where
  "requestForClusterConnection (ObjCluster cluster) =
     (if lor_Name (cs_ConnectionRef (c_Spec cluster)) = [] then []
      else [\<lparr>nn_Namespace = om_Namespace (c_Meta cluster), nn_Name = lor_Name (cs_ConnectionRef (c_Spec cluster))\<rparr>])"
| "requestForClusterConnection object = []"

section \<open>The contract of a list mapper\<close>

text \<open>
  A mapper lists one kind in the changed object's namespace and asks for the items that refer to
  the object.
\<close>

locale request_mapper =
  fixes requests :: "'x env \<Rightarrow> ObjectMeta \<Rightarrow> ('x, NamespacedName list) action"
    and api :: "'x env \<Rightarrow> ('x, 'o) kind_api"
    and kind :: api_kind
    and meta_of :: "'o \<Rightarrow> ObjectMeta"
    and ref_of :: "'o \<Rightarrow> string"
  assumes requests_eq: "requests E object = State_Monad.bind (k_list (api E) kind (om_Namespace object)) (\<lambda>items.
      State_Monad.return (case items of
          Inl err \<Rightarrow> []
        | Inr xs \<Rightarrow> sortRequests (requests_matching meta_of ref_of (om_Name object) xs)))"
begin

lemma requests_answer:
  assumes "fst (api_List (api E) (om_Namespace object) (ext w)) = Inr xs"
  shows "fst (run_state (requests E object) w) =
    sortRequests (requests_matching meta_of ref_of (om_Name object) xs)"
  using assms
  by (cases "api_List (api E) (om_Namespace object) (ext w)") (simp add: requests_eq k_list_def call_def)

lemma requests_exact:
  assumes "fst (api_List (api E) (om_Namespace object) (ext w)) = Inr xs"
  shows "sorted (map NamespacedName_String (fst (run_state (requests E object) w)))
    \<and> mset (fst (run_state (requests E object) w)) =
        image_mset (\<lambda>item. ObjectKeyFromMeta (meta_of item)) (mset (filter (\<lambda>item. ref_of item = om_Name object) xs))"
  unfolding requests_answer [OF assms]
  by (simp add: sortRequests_def requests_matching_def ObjectKeyFromMeta_def)

lemma requests_error:
  assumes "fst (api_List (api E) (om_Namespace object) (ext w)) = Inl err"
  shows "fst (run_state (requests E object) w) = []"
  using assms
  by (cases "api_List (api E) (om_Namespace object) (ext w)") (simp add: requests_eq k_list_def call_def)

end

interpretation control_plane_requests: request_mapper controlPlaneRequestsForCluster env_ControlPlanes KControlPlane
  cp_Meta "\<lambda>cp. lor_Name (cps_ClusterRef (cp_Spec cp))"
  by unfold_locales (simp add: controlPlaneRequestsForCluster_def)

interpretation workers_requests: request_mapper workersRequestsForCluster env_Workers KWorkers
  w_Meta "\<lambda>w. lor_Name (ws_ClusterRef (w_Spec w))"
  by unfold_locales (simp add: workersRequestsForCluster_def)

interpretation machine_requests: request_mapper machineRequestsForCluster env_Machines KMachine
  m_Meta "\<lambda>m. lor_Name (mas_ClusterRef (m_Spec m))"
  by unfold_locales (simp add: machineRequestsForCluster_def)

interpretation cluster_requests: request_mapper clustersForConnection env_Clusters KCluster
  c_Meta "\<lambda>c. lor_Name (cs_ConnectionRef (c_Spec c))"
  by unfold_locales (simp add: clustersForConnection_def)

section \<open>Properties\<close>

text \<open>
  Every resource a cluster's template is built from wakes that cluster, and only that
  cluster, when it changes: for template inputs of the cluster's own namespace the watch maps the
  control plane, each worker set and each machine to the cluster's key.
\<close>

theorem inputs_wake_cluster:
  assumes "inputs_of cluster inp" and "om_Name (c_Meta cluster) \<noteq> []"
    and "in_ControlPlane inp = Some cp"
    and "om_Namespace (cp_Meta cp) = om_Namespace (c_Meta cluster)"
    and "list_all (\<lambda>ws. om_Namespace (w_Meta ws) = om_Namespace (c_Meta cluster)) (in_Workers inp)"
    and "list_all (\<lambda>m. om_Namespace (m_Meta m) = om_Namespace (c_Meta cluster)) (in_Machines inp)"
  shows "list_all (\<lambda>obj. requestForChildCluster obj = [ObjectKeyFromMeta (c_Meta cluster)])
    (ObjControlPlane cp # map ObjWorkers (in_Workers inp) @ map ObjMachine (in_Machines inp))"
  using assms
  by (auto simp: inputs_of_def requestForClusterRef_def ObjectKeyFromMeta_def list_all_iff Let_def)

text \<open>
  The controllers' own writes wake nobody: an update event is filtered out when the
  new object is the old one with another status, other finalizers, labels, annotations or
  resource version, as long as generation and deletion stay as they are.
\<close>

theorem own_writes_filtered:
  "\<not> specOrDeletionChangedPredicate (UpdateEvent (Some m) (Some ((add_finalizer L m)\<lparr>om_ResourceVersion := v\<rparr>)))
   \<and> \<not> specOrDeletionChangedPredicate (UpdateEvent (Some m) (Some ((remove_finalizers L m)\<lparr>om_ResourceVersion := v\<rparr>)))
   \<and> \<not> specOrDeletionChangedPredicate
        (UpdateEvent (Some (w_Meta ws)) (Some ((w_Meta (accept_workers L ex now ws))\<lparr>om_ResourceVersion := v\<rparr>)))
   \<and> \<not> specOrDeletionChangedPredicate
        (UpdateEvent (Some (m_Meta mc)) (Some ((m_Meta (accept_machine L ex now mc))\<lparr>om_ResourceVersion := v\<rparr>)))
   \<and> \<not> specOrDeletionChangedPredicate
        (UpdateEvent (Some (cp_Meta cp)) (Some ((cp_Meta (accept_control_plane L ex now cp))\<lparr>om_ResourceVersion := v\<rparr>)))
   \<and> (specOrDeletionChangedPredicate (UpdateEvent (Some m) (Some m')) \<longleftrightarrow>
        \<not> (om_Generation m = om_Generation m'
           \<and> Time_IsZero (om_DeletionTimestamp m) = Time_IsZero (om_DeletionTimestamp m')))"
  by (simp add: add_finalizer_def remove_finalizers_def accept_workers_def accept_machine_def
      accept_control_plane_def Let_def)

end
