(* ===== verification/Secret_Sync_Controller.thy ===== *)
theory Secret_Sync_Controller
  imports Secret_Sync_Client Child_Controllers Watches Finalizers
begin

text \<open>
  The OmniSecretSync controller (\<^verbatim>\<open>internal/controller/omnisecretsync_controller.go\<close>): it copies a
  Secret of the management cluster into a workload cluster, with the kubeconfig of another Secret,
  and removes the copy when the item goes away or names another target.

  The Go helpers return a result with a flag \<open>done\<close>, which is set exactly when the caller has to
  return at once; here such an early return is \<^const>\<open>Inl\<close> of the pair to return.
\<close>

definition secretSyncRetryInterval :: Duration where
  "secretSyncRetryInterval = Minute"

section \<open>The client\<close>

text \<open>The client of the reconciler, or the one of \<^verbatim>\<open>internal/secretsync\<close> when there is none.\<close>

definition secretSync_Sync ::
  "'x env \<Rightarrow> OmniSecretSync \<Rightarrow> Secret \<Rightarrow> string \<Rightarrow> string \<Rightarrow> ('x, goerror + SyncResult) action" where
  "secretSync_Sync E item source kubeconfig clusterName =
     (case env_SecretSync E of
        Some c \<Rightarrow> call (sc_Sync c item source kubeconfig clusterName) (EvSync item source kubeconfig clusterName)
      | None \<Rightarrow> do {
          r \<leftarrow> Client_Sync E item source kubeconfig clusterName;
          _ \<leftarrow> remark (EvSync item source kubeconfig clusterName r);
          State_Monad.return r })"

definition secretSync_Delete ::
  "'x env \<Rightarrow> OmniSecretSync \<Rightarrow> string \<Rightarrow> Target \<Rightarrow> ('x, goerror option) action" where
  "secretSync_Delete E item kubeconfig target =
     (case env_SecretSync E of
        Some c \<Rightarrow> call (sc_Delete c item kubeconfig target) (EvSyncDelete item kubeconfig target)
      | None \<Rightarrow> do {
          r \<leftarrow> Client_Delete E item kubeconfig target;
          _ \<leftarrow> remark (EvSyncDelete item kubeconfig target r);
          State_Monad.return r })"

section \<open>Validation of the spec\<close>

definition secretSyncSpecError :: "OmniSecretSync \<Rightarrow> goerror option" where
  "secretSyncSpecError item =
     (let spec = ss_Spec item; kref = sss_KubeconfigSecretRef spec; target = sss_TargetSecretRef spec in
      if TrimSpace (lor_Name (sss_ClusterRef spec)) = [] then Some (ErrorString ''clusterRef.name is required'')
      else if TrimSpace (skr_Name kref) = [] then Some (ErrorString ''kubeconfigSecretRef.name is required'')
      else if skr_Key kref \<noteq> [] \<and> TrimSpace (skr_Key kref) = []
      then Some (ErrorString ''kubeconfigSecretRef.key must not be blank'')
      else if TrimSpace (ssr_Name (sss_SourceSecretRef spec)) = []
      then Some (ErrorString ''sourceSecretRef.name is required'')
      else if TrimSpace (str_Name target) = [] then Some (ErrorString ''targetSecretRef.name is required'')
      else if TrimSpace (str_Namespace target) = [] then Some (ErrorString ''targetSecretRef.namespace is required'')
      else if sss_Type spec \<noteq> [] \<and> TrimSpace (sss_Type spec) = [] then Some (ErrorString ''type must not be blank'')
      else if sss_DeletionPolicy spec \<noteq> SecretSyncDeletionPolicyDelete
              \<and> sss_DeletionPolicy spec \<noteq> SecretSyncDeletionPolicyOrphan
      then Some (ErrorString ''deletionPolicy must be Delete or Orphan'')
      else None)"

section \<open>Status\<close>

record secretSyncStatusUpdate =
  su_acceptedKnown :: bool
  su_clusterExists :: bool
  su_result :: "SyncResult option"
  su_err :: "goerror option"
  su_reason :: string
  su_message :: string

definition secretSyncConditionReasonMessage ::
  "klib \<Rightarrow> OmniSecretSync \<Rightarrow> secretSyncStatusUpdate \<Rightarrow> string \<times> string" where
  "secretSyncConditionReasonMessage L item input =
     (if su_reason input \<noteq> [] then
        (su_reason input,
         (case su_err input of
            Some e \<Rightarrow> if su_message input = [] then Error e else su_message input
          | None \<Rightarrow> su_message input))
      else (case su_err input of
         Some e \<Rightarrow> (ReasonSyncFailed, Error e)
       | None \<Rightarrow>
           (case su_result input of
              None \<Rightarrow> (ReasonSyncFailed, ''Secret has not been synced'')
            | Some res \<Rightarrow>
                (ReasonSynced,
                 ''synced Secret '' @ Quote (lib_IsPrint L) (ssr_Name (sss_SourceSecretRef (ss_Spec item)))
                 @ '' to workload Secret '' @ Quote (lib_IsPrint L) (NamespacedName_String
                     \<lparr>nn_Namespace = tg_Namespace (sr_Target res), nn_Name = tg_Name (sr_Target res)\<rparr>)))))"

definition set_sync_condition :: "klib \<Rightarrow> Time \<Rightarrow> Condition \<Rightarrow> OmniSecretSyncStatus \<Rightarrow> OmniSecretSyncStatus" where
  "set_sync_condition L now c status =
     status\<lparr>sst_Common := (sst_Common status)\<lparr>csf_Conditions :=
        SetCondition L now (csf_Conditions (sst_Common status)) c\<rparr>\<rparr>"

definition sync_status_fields ::
  "secretSyncStatusUpdate \<Rightarrow> Time \<Rightarrow> OmniSecretSync \<Rightarrow> OmniSecretSyncStatus" where
  "sync_status_fields input now latest =
     (let s = ss_Status latest; spec = ss_Spec latest in
      s\<lparr>sst_Common := (sst_Common s)\<lparr>csf_ObservedGeneration := om_Generation (ss_Meta latest)\<rparr>,
        sst_ClusterRef := lor_Name (sss_ClusterRef spec),
        sst_KubeconfigSecretRef := skr_Name (sss_KubeconfigSecretRef spec),
        sst_KubeconfigSecretKey := KubeconfigSecretKey latest,
        sst_SourceSecretRef := ssr_Name (sss_SourceSecretRef spec),
        sst_TargetSecretRef := (case su_result input of
            Some res \<Rightarrow> tg_Name (sr_Target res) | None \<Rightarrow> str_Name (sss_TargetSecretRef spec)),
        sst_TargetNamespace := (case su_result input of
            Some res \<Rightarrow> tg_Namespace (sr_Target res) | None \<Rightarrow> str_Namespace (sss_TargetSecretRef spec)),
        sst_SecretType := (case su_result input of
            Some res \<Rightarrow> sr_Type res
          | None \<Rightarrow> if sss_Type spec \<noteq> [] then sss_Type spec else sst_SecretType s),
        sst_SecretHash := (case su_result input of Some res \<Rightarrow> sr_Hash res | None \<Rightarrow> sst_SecretHash s),
        sst_LastAttemptTime :=
          (if su_result input \<noteq> None \<or> su_err input \<noteq> None \<or> su_reason input \<noteq> [] then Some now
           else sst_LastAttemptTime s),
        sst_LastSyncTime :=
          (if su_err input = None \<and> su_result input \<noteq> None then Some now else sst_LastSyncTime s),
        sst_LastError :=
          (if su_err input = None \<and> su_result input \<noteq> None then []
           else (case su_err input of
                   Some e \<Rightarrow> Error e
                 | None \<Rightarrow> if su_message input \<noteq> [] then su_message input else sst_LastError s))\<rparr>)"

definition sync_status ::
  "klib \<Rightarrow> secretSyncStatusUpdate \<Rightarrow> Time \<Rightarrow> OmniSecretSync \<Rightarrow> OmniSecretSync" where
  "sync_status L input now latest =
     (let g = om_Generation (ss_Meta latest);
          s1 = sync_status_fields input now latest;
          s2 = (if su_acceptedKnown input
                then set_sync_condition L now
                  (acceptedCondition L g (lor_Name (sss_ClusterRef (ss_Spec latest))) (su_clusterExists input)) s1
                else s1);
          (reason, message) = secretSyncConditionReasonMessage L (latest\<lparr>ss_Status := s2\<rparr>) input;
          st = (if su_err input = None \<and> su_result input \<noteq> None then ConditionTrue else ConditionFalse)
      in latest\<lparr>ss_Status :=
           set_sync_condition L now (NewCondition ConditionReady st g reason message)
             (set_sync_condition L now (NewCondition ConditionSynced st g reason message) s2)\<rparr>)"

definition updateSecretSyncStatus ::
  "'x env \<Rightarrow> OmniSecretSync \<Rightarrow> secretSyncStatusUpdate \<Rightarrow> ('x, goerror option) action" where
  "updateSecretSyncStatus E item input =
     write_status E (env_SecretSyncs E) KSecretSync ObjSecretSync True
       (sync_status (env_Lib E) input) (ObjectKeyFromMeta (ss_Meta item))"

text \<open>The update for a failure, given its reason, error and message.\<close>

definition sync_failure :: "bool \<Rightarrow> bool \<Rightarrow> string \<Rightarrow> goerror option \<Rightarrow> string \<Rightarrow> secretSyncStatusUpdate" where
  "sync_failure known exists reason err message =
     \<lparr>su_acceptedKnown = known, su_clusterExists = exists, su_result = None, su_err = err,
      su_reason = reason, su_message = message\<rparr>"

section \<open>Handlers\<close>

definition SecretSync_ensureFinalizer :: "'x env \<Rightarrow> OmniSecretSync \<Rightarrow> ('x, early + unit) action" where
  "SecretSync_ensureFinalizer E item =
     (if lib_ContainsFinalizer (env_Lib E) (om_Finalizers (ss_Meta item)) Finalizer
      then State_Monad.return (Inr ())
      else do {
        err \<leftarrow> k_update (env_SecretSyncs E) ObjSecretSync
          (item\<lparr>ss_Meta := add_finalizer (env_Lib E) (ss_Meta item)\<rparr>);
        State_Monad.return (case err of Some e \<Rightarrow> Inl (no_requeue, Some e) | None \<Rightarrow> Inl (requeue_now, None)) })"

definition sync_release_attempt :: "'x env \<Rightarrow> NamespacedName \<Rightarrow> ('x, goerror option) action" where
  "sync_release_attempt E key = do {
     got \<leftarrow> k_get (env_SecretSyncs E) KSecretSync key;
     (case got of
        Inl err \<Rightarrow> State_Monad.return (if IsNotFound err then None else Some err)
      | Inr latest \<Rightarrow>
          k_update (env_SecretSyncs E) ObjSecretSync
            (latest\<lparr>ss_Meta := strip_finalizer (env_Lib E) (ss_Meta latest)\<rparr>)) }"

definition SecretSync_removeFinalizer :: "'x env \<Rightarrow> OmniSecretSync \<Rightarrow> ('x, goerror option) action" where
  "SecretSync_removeFinalizer E item =
     env_Retry E (sync_release_attempt E (ObjectKeyFromMeta (ss_Meta item)))"

interpretation secret_sync_claim: claimed_kind SecretSync_ensureFinalizer env_SecretSyncs ObjSecretSync ss_Meta
  "\<lambda>m. ss_Meta_update (\<lambda>_. m)"
  by unfold_locales (simp_all add: SecretSync_ensureFinalizer_def)

interpretation secret_sync_release: released_kind SecretSync_removeFinalizer sync_release_attempt env_SecretSyncs
  KSecretSync ObjSecretSync ss_Meta "\<lambda>L x. x\<lparr>ss_Meta := strip_finalizer L (ss_Meta x)\<rparr>"
  by unfold_locales (simp_all add: SecretSync_removeFinalizer_def sync_release_attempt_def)

text \<open>Report a missing or unusable dependency and end the run, to be repeated after an interval.\<close>

definition sync_wait :: "'x env \<Rightarrow> OmniSecretSync \<Rightarrow> secretSyncStatusUpdate \<Rightarrow> ('x, early + 'a) action" where
  "sync_wait E item input = do {
     statusErr \<leftarrow> updateSecretSyncStatus E item input;
     State_Monad.return (Inl (requeue_after secretSyncRetryInterval, statusErr)) }"

definition syncCluster :: "'x env \<Rightarrow> OmniSecretSync \<Rightarrow> ('x, early + OmniCluster) action" where
  "syncCluster E item =
     (let name = lor_Name (sss_ClusterRef (ss_Spec item)) in do {
      got \<leftarrow> k_get (env_Clusters E) KCluster \<lparr>nn_Namespace = om_Namespace (ss_Meta item), nn_Name = name\<rparr>;
      (case got of
         Inr cluster \<Rightarrow> State_Monad.return (Inr cluster)
       | Inl err \<Rightarrow>
           if IsNotFound err then
             sync_wait E item (sync_failure True False ReasonMissingCluster None
               (''OmniCluster '' @ Quote (lib_IsPrint (env_Lib E)) name @ '' does not exist''))
           else State_Monad.return (Inl (no_requeue, Some err))) })"

definition sourceSecret :: "'x env \<Rightarrow> OmniSecretSync \<Rightarrow> ('x, early + Secret) action" where
  "sourceSecret E item =
     (let key = \<lparr>nn_Namespace = om_Namespace (ss_Meta item), nn_Name = ssr_Name (sss_SourceSecretRef (ss_Spec item))\<rparr> in do {
      got \<leftarrow> get_secret E key;
      (case got of
         Inr secret \<Rightarrow> State_Monad.return (Inr secret)
       | Inl err \<Rightarrow>
           if IsNotFound err then
             sync_wait E item (sync_failure True True ReasonMissingSecret None
               (''source Secret '' @ Quote (lib_IsPrint (env_Lib E)) (NamespacedName_String key) @ '' does not exist''))
           else State_Monad.return (Inl (no_requeue, Some err))) })"

definition syncKubeconfig :: "'x env \<Rightarrow> OmniSecretSync \<Rightarrow> ('x, early + string) action" where
  "syncKubeconfig E item =
     (let key = \<lparr>nn_Namespace = om_Namespace (ss_Meta item), nn_Name = skr_Name (sss_KubeconfigSecretRef (ss_Spec item))\<rparr>;
          q = Quote (lib_IsPrint (env_Lib E)); secretKey = KubeconfigSecretKey item in do {
      got \<leftarrow> get_secret E key;
      (case got of
         Inl err \<Rightarrow>
           if IsNotFound err then
             sync_wait E item (sync_failure True True ReasonMissingSecret None
               (''kubeconfig Secret '' @ q (NamespacedName_String key) @ '' does not exist''))
           else State_Monad.return (Inl (no_requeue, Some err))
       | Inr secret \<Rightarrow>
           (let kubeconfig = data_index (sec_Data secret) secretKey in
            if kubeconfig = [] then
              sync_wait E item (sync_failure True True ReasonMissingSecret
                (Some (ErrorString (''kubeconfig Secret '' @ q (NamespacedName_String key)
                  @ '' does not contain key '' @ q secretKey))) [])
            else (case cc_Load (env_Clientcmd E) kubeconfig of
                Inl err \<Rightarrow>
                  sync_wait E item (sync_failure True True ReasonValidationFailed
                    (Some (WrapError (''kubeconfig Secret '' @ q (NamespacedName_String key) @ '' key '' @ q secretKey
                       @ '' is invalid: '' @ Error err) err)) [])
              | Inr loaded \<Rightarrow> State_Monad.return (Inr kubeconfig)))) })"

text \<open>The target recorded in the status, when there is one.\<close>

definition recorded_target :: "OmniSecretSync \<Rightarrow> Target option" where
  "recorded_target item =
     (if sst_TargetSecretRef (ss_Status item) \<noteq> [] \<and> sst_TargetNamespace (ss_Status item) \<noteq> []
      then Some \<lparr>tg_Namespace = sst_TargetNamespace (ss_Status item), tg_Name = sst_TargetSecretRef (ss_Status item)\<rparr>
      else None)"

definition deletePreviousSyncTarget ::
  "'x env \<Rightarrow> OmniSecretSync \<Rightarrow> string \<Rightarrow> ('x, goerror option) action" where
  "deletePreviousSyncTarget E item kubeconfig =
     (if sss_DeletionPolicy (ss_Spec item) \<noteq> SecretSyncDeletionPolicyDelete then State_Monad.return None
      else (case recorded_target item of
         None \<Rightarrow> State_Monad.return None
       | Some previous \<Rightarrow>
           if previous = TargetForItem item then State_Monad.return None
           else secretSync_Delete E item kubeconfig previous))"

definition SecretSync_reconcileDelete :: "'x env \<Rightarrow> OmniSecretSync \<Rightarrow> ('x, early) action" where
  "SecretSync_reconcileDelete E item =
     (let release = (do { err \<leftarrow> SecretSync_removeFinalizer E item; State_Monad.return (no_requeue, err) }) in
      if \<not> lib_ContainsFinalizer (env_Lib E) (om_Finalizers (ss_Meta item)) Finalizer
      then State_Monad.return (no_requeue, None)
      else if sss_DeletionPolicy (ss_Spec item) = SecretSyncDeletionPolicyOrphan then release
      else do {
        kubeconfigOr \<leftarrow> syncKubeconfig E item;
        (case kubeconfigOr of
           Inl out \<Rightarrow> State_Monad.return out
         | Inr kubeconfig \<Rightarrow> do {
             deleteErr \<leftarrow> secretSync_Delete E item kubeconfig
               (case recorded_target item of Some target \<Rightarrow> target | None \<Rightarrow> TargetForItem item);
             (case deleteErr of
                Some e \<Rightarrow> report_and_requeue
                  (updateSecretSyncStatus E item (sync_failure True True ReasonDeleteFailed (Some e) []))
                  secretSyncRetryInterval (Some e)
              | None \<Rightarrow> release) }) })"

definition sync_now ::
  "'x env \<Rightarrow> OmniSecretSync \<Rightarrow> Secret \<Rightarrow> string \<Rightarrow> string \<Rightarrow> ('x, early) action" where
  "sync_now E item source kubeconfig clusterName = do {
     synced \<leftarrow> secretSync_Sync E item source kubeconfig clusterName;
     statusErr \<leftarrow> updateSecretSyncStatus E item
       \<lparr>su_acceptedKnown = True, su_clusterExists = True,
        su_result = (case synced of Inl e \<Rightarrow> None | Inr res \<Rightarrow> Some res),
        su_err = (case synced of Inl e \<Rightarrow> Some e | Inr res \<Rightarrow> None), su_reason = [], su_message = []\<rparr>;
     State_Monad.return (case statusErr of
         Some e \<Rightarrow> (no_requeue, Some e)
       | None \<Rightarrow> (case synced of
           Inl e \<Rightarrow> (requeue_after secretSyncRetryInterval, Some e)
         | Inr res \<Rightarrow> (no_requeue, None))) }"

definition sync_with ::
  "'x env \<Rightarrow> OmniSecretSync \<Rightarrow> Secret \<Rightarrow> string \<Rightarrow> string \<Rightarrow> ('x, early) action" where
  "sync_with E item source kubeconfig clusterName = do {
     deleteErr \<leftarrow> deletePreviousSyncTarget E item kubeconfig;
     (case deleteErr of
        Some e \<Rightarrow> report_and_requeue
          (updateSecretSyncStatus E item (sync_failure True True ReasonDeleteFailed (Some e) []))
          secretSyncRetryInterval (Some e)
      | None \<Rightarrow> sync_now E item source kubeconfig clusterName) }"

text \<open>What a run does with the item it has read.\<close>

definition reconcile_secret_sync :: "'x env \<Rightarrow> OmniSecretSync \<Rightarrow> ('x, early) action" where
  "reconcile_secret_sync E item =
     (if \<not> Time_IsZero (om_DeletionTimestamp (ss_Meta item)) then SecretSync_reconcileDelete E item
      else do {
        claimed \<leftarrow> SecretSync_ensureFinalizer E item;
        (case claimed of
           Inl out \<Rightarrow> State_Monad.return out
         | Inr _ \<Rightarrow>
             (case secretSyncSpecError item of
                Some err \<Rightarrow> do {
                  statusErr \<leftarrow> updateSecretSyncStatus E item
                    (sync_failure False False ReasonValidationFailed (Some err) []);
                  State_Monad.return (no_requeue, statusErr) }
              | None \<Rightarrow> do {
                  clusterOr \<leftarrow> syncCluster E item;
                  (case clusterOr of
                     Inl out \<Rightarrow> State_Monad.return out
                   | Inr cluster \<Rightarrow> do {
                       sourceOr \<leftarrow> sourceSecret E item;
                       (case sourceOr of
                          Inl out \<Rightarrow> State_Monad.return out
                        | Inr source \<Rightarrow> do {
                            kubeconfigOr \<leftarrow> syncKubeconfig E item;
                            (case kubeconfigOr of
                               Inl out \<Rightarrow> State_Monad.return out
                             | Inr kubeconfig \<Rightarrow>
                                 sync_with E item source kubeconfig (ClusterName cluster)) }) }) })) })"

definition SecretSync_Reconcile :: "'x env \<Rightarrow> NamespacedName \<Rightarrow> ('x, early) action" where
  "SecretSync_Reconcile E req = do {
     got \<leftarrow> k_get (env_SecretSyncs E) KSecretSync req;
     (case got of
        Inl err \<Rightarrow> State_Monad.return (if IsNotFound err then (no_requeue, None) else (no_requeue, Some err))
      | Inr item \<Rightarrow> reconcile_secret_sync E item) }"

section \<open>Watches\<close>

definition secretSyncRequestsForCluster :: "'x env \<Rightarrow> ObjectMeta \<Rightarrow> ('x, NamespacedName list) action" where
  "secretSyncRequestsForCluster E object = do {
     items \<leftarrow> k_list (env_SecretSyncs E) KSecretSync (om_Namespace object);
     State_Monad.return (case items of
         Inl err \<Rightarrow> []
       | Inr xs \<Rightarrow> sortRequests
           (requests_matching ss_Meta (\<lambda>x. lor_Name (sss_ClusterRef (ss_Spec x))) (om_Name object) xs)) }"

definition secretSyncRequestsForSecret :: "'x env \<Rightarrow> ObjectMeta \<Rightarrow> ('x, NamespacedName list) action" where
  "secretSyncRequestsForSecret E object = do {
     items \<leftarrow> k_list (env_SecretSyncs E) KSecretSync (om_Namespace object);
     State_Monad.return (case items of
         Inl err \<Rightarrow> []
       | Inr xs \<Rightarrow> sortRequests (map (\<lambda>x. ObjectKeyFromMeta (ss_Meta x))
           (filter (\<lambda>x. ssr_Name (sss_SourceSecretRef (ss_Spec x)) = om_Name object
                        \<or> skr_Name (sss_KubeconfigSecretRef (ss_Spec x)) = om_Name object) xs))) }"

interpretation secret_sync_requests: request_mapper secretSyncRequestsForCluster env_SecretSyncs KSecretSync
  ss_Meta "\<lambda>x. lor_Name (sss_ClusterRef (ss_Spec x))"
  by unfold_locales (simp add: secretSyncRequestsForCluster_def)

end
