(* ===== verification/Server_Answers.thy ===== *)
theory Server_Answers
  imports Operator_Env
begin

text \<open>
  What holds of every version of an object that the API server answers with holds of the objects a
  handler works on: the metadata and the kind of an object of any kind, and the rule by which a
  fact about answers enters a statement about every event of a run.
\<close>

fun object_meta :: "api_object \<Rightarrow> ObjectMeta" where
  "object_meta (ObjCluster x) = c_Meta x"
| "object_meta (ObjConnection x) = on_Meta x"
| "object_meta (ObjControlPlane x) = cp_Meta x"
| "object_meta (ObjWorkers x) = w_Meta x"
| "object_meta (ObjMachine x) = m_Meta x"
| "object_meta (ObjKubeconfigExport x) = ke_Meta x"
| "object_meta (ObjSecretSync x) = ss_Meta x"
| "object_meta (ObjHelmRelease x) = hr_Meta x"
| "object_meta (ObjSecret x) = sec_Meta x"

fun kind_of :: "api_object \<Rightarrow> api_kind" where
  "kind_of (ObjCluster x) = KCluster"
| "kind_of (ObjConnection x) = KConnection"
| "kind_of (ObjControlPlane x) = KControlPlane"
| "kind_of (ObjWorkers x) = KWorkers"
| "kind_of (ObjMachine x) = KMachine"
| "kind_of (ObjKubeconfigExport x) = KKubeconfigExport"
| "kind_of (ObjSecretSync x) = KSecretSync"
| "kind_of (ObjHelmRelease x) = KHelmRelease"
| "kind_of (ObjSecret x) = KSecret"

text \<open>
  The answers of the environment: a value that a call can return, in whatever state the servers
  are, and an object that the API server can return under a key.
\<close>

definition answers :: "('x \<Rightarrow> (goerror + 'o) \<times> 'x) \<Rightarrow> 'o \<Rightarrow> bool" where
  "answers f o' \<longleftrightarrow> (\<exists>x. fst (f x) = Inr o')"

definition answered :: "('x, 'o) kind_api \<Rightarrow> NamespacedName \<Rightarrow> 'o \<Rightarrow> bool" where
  "answered A key o' \<longleftrightarrow> answers (api_Get A key) o'"

text \<open>A version of an item: the item itself, or an object that was returned under its name.\<close>

definition version_of :: "('x, 'o) kind_api \<Rightarrow> ('o \<Rightarrow> ObjectMeta) \<Rightarrow> 'o \<Rightarrow> 'o \<Rightarrow> bool" where
  "version_of A meta item v \<longleftrightarrow> v = item \<or> answered A (ObjectKeyFromMeta (meta item)) v"

text \<open>A step that knows where its answer comes from.\<close>

lemma emits_from:
  assumes "\<And>x. Q (fst (f x)) [ev (fst (f x))]"
  shows "emits (call f ev) Q"
  unfolding emits_def call_def using assms by (auto split: prod.splits) (metis fst_conv)

lemma emits_from_bind:
  "(\<And>x. emits (k (fst (f x))) (\<lambda>b t. Q b (ev (fst (f x)) # t))) \<Longrightarrow> emits (State_Monad.bind (call f ev) k) Q"
  by (rule emits_bind, rule emits_from) simp

lemma emits_answer_bind:
  assumes "\<And>err. emits (k (Inl err)) (\<lambda>b t. Q b (ev (Inl err) # t))"
    and "\<And>a. answers f a \<Longrightarrow> emits (k (Inr a)) (\<lambda>b t. Q b (ev (Inr a) # t))"
  shows "emits (State_Monad.bind (call f ev) k) Q"
proof (rule emits_from_bind)
  show "emits (k (fst (f x))) (\<lambda>b t. Q b (ev (fst (f x)) # t))" for x
    using assms by (cases "fst (f x)") (auto simp: answers_def)
qed

lemma emits_observed_bind:
  assumes "\<And>x. emits (k (fst (f x))) Q"
  shows "emits (State_Monad.bind (observe f) k) Q"
proof (rule emits_bind)
  have "emits (observe f) (\<lambda>r t. (\<exists>x. r = fst (f x)) \<and> t = [])"
    unfolding emits_def observe_def by (auto split: prod.splits) (metis fst_conv)
  then show "emits (observe f) (\<lambda>a t. emits (k a) (\<lambda>b t'. Q b (t @ t')))"
    by (rule emits_mono) (use assms in auto)
qed

lemma every_answer:
  assumes "\<And>r. P (ev r)" and "\<And>err. every P (g err)" and "\<And>a. answers f a \<Longrightarrow> every P (h a)"
  shows "every P (State_Monad.bind (call f ev) (\<lambda>got. case got of Inl err \<Rightarrow> g err | Inr a \<Rightarrow> h a))"
  unfolding every_def
  by (rule emits_answer_bind) (use assms in \<open>auto simp: every_def elim: emits_mono\<close>)

lemma every_get_at:
  assumes "\<And>r. P (EvGet kind key r)" and "\<And>err. every P (g err)"
    and "\<And>a. answered A key a \<Longrightarrow> every P (h a)"
  shows "every P (State_Monad.bind (k_get A kind key) (\<lambda>got. case got of Inl err \<Rightarrow> g err | Inr a \<Rightarrow> h a))"
  unfolding k_get_def by (rule every_answer) (simp_all add: assms answered_def)

text \<open>A status update writes an object that was read under the key, with another status.\<close>

lemma status_write_at:
  assumes "env_retry_ok E"
    and "\<And>r. P (EvGet kind key r)" and "\<And>now a r. answered A key a \<Longrightarrow> P (EvStatusUpdate (mk (mutate now a)) r)"
  shows "every P (write_status E A kind mk oc mutate key)"
  unfolding write_status_def status_attempt_def
  by (intro every_retry [OF assms(1)] every_get_at)
    (auto intro!: every_rules simp: k_status_update_def assms(2,3))

text \<open>Every object that a read of the kind answers with satisfies \<open>K\<close>.\<close>

definition answers_in :: "(api_object \<Rightarrow> bool) \<Rightarrow> ('o \<Rightarrow> api_object) \<Rightarrow> ('x, 'o) kind_api \<Rightarrow> bool" where
  "answers_in K mk A \<longleftrightarrow>
     (\<forall>key x. case fst (api_Get A key x) of Inl err \<Rightarrow> True | Inr obj \<Rightarrow> K (mk obj))"

text \<open>All eight kinds of the operator do.\<close>

definition server_answers :: "(api_object \<Rightarrow> bool) \<Rightarrow> 'x env \<Rightarrow> bool" where
  "server_answers K E \<longleftrightarrow>
     answers_in K ObjCluster (env_Clusters E) \<and> answers_in K ObjConnection (env_Connections E)
     \<and> answers_in K ObjControlPlane (env_ControlPlanes E) \<and> answers_in K ObjWorkers (env_Workers E)
     \<and> answers_in K ObjMachine (env_Machines E) \<and> answers_in K ObjKubeconfigExport (env_KubeconfigExports E)
     \<and> answers_in K ObjSecretSync (env_SecretSyncs E) \<and> answers_in K ObjHelmRelease (env_HelmReleases E)"

lemma server_answersD:
  assumes "server_answers K E"
  shows "answers_in K ObjCluster (env_Clusters E)" "answers_in K ObjConnection (env_Connections E)"
    "answers_in K ObjControlPlane (env_ControlPlanes E)" "answers_in K ObjWorkers (env_Workers E)"
    "answers_in K ObjMachine (env_Machines E)" "answers_in K ObjKubeconfigExport (env_KubeconfigExports E)"
    "answers_in K ObjSecretSync (env_SecretSyncs E)" "answers_in K ObjHelmRelease (env_HelmReleases E)"
  using assms by (simp_all add: server_answers_def)

text \<open>Answers of a kind of which every object satisfies \<open>K\<close>.\<close>

lemma answered_in: "answers_in K mk A \<Longrightarrow> answered A key a \<Longrightarrow> K (mk a)"
  unfolding answers_in_def answered_def answers_def by (metis sum.case(2))

lemma every_get:
  assumes "answers_in K mk A" and "\<And>r. P (EvGet kind key r)"
    and "\<And>err. every P (f err)" and "\<And>x. K (mk x) \<Longrightarrow> every P (g x)"
  shows "every P (State_Monad.bind (k_get A kind key) (\<lambda>got. case got of Inl err \<Rightarrow> f err | Inr x \<Rightarrow> g x))"
  by (rule every_get_at) (simp_all add: assms(2-4) answered_in [OF assms(1)])

lemma status_write_every:
  assumes "env_retry_ok E" and "answers_in K mk A"
    and "\<And>key r. P (EvGet kind key r)" and "\<And>now x r. K (mk x) \<Longrightarrow> P (EvStatusUpdate (mk (mutate now x)) r)"
  shows "every P (write_status E A kind mk oc mutate key)"
  by (rule status_write_at [OF assms(1), where A = A]) (simp_all add: assms(3,4) answered_in [OF assms(2)])

end
