(* ===== verification/Secret_Sync_Safety.thy ===== *)
theory Secret_Sync_Safety
  imports Secret_Sync_Controller Server_Answers
begin

text \<open>
  What the secret sync controller guarantees with the client of \<^verbatim>\<open>internal/secretsync\<close>: it writes
  and deletes only Secrets of its own in the workload cluster and none in the management cluster,
  it reports a sync only when the target holds what it should, and it lets an item go only when
  the target is cleaned up; and how it can lose track of a target.
\<close>

section \<open>The events of a run\<close>

fun deletion :: "workload_event \<Rightarrow> bool" where
  "deletion (WDeleteSecret key r) = True"
| "deletion w = False"

fun secret_sync_event :: "OmniSecretSync \<Rightarrow> event \<Rightarrow> bool" where
  "secret_sync_event item (EvGet k key r) = True"
| "secret_sync_event item (EvStatusUpdate (ObjSecretSync x) r) = True"
| "secret_sync_event item (EvUpdate (ObjSecretSync x) r) = True"
| "secret_sync_event item (EvSync i source kc name r) = (i = item)"
| "secret_sync_event item (EvSyncDelete i kc target r) = (i = item)"
| "secret_sync_event item (EvWorkload h w) =
     (workload_event_of item w
      \<and> \<not> (deletion w \<and> sss_DeletionPolicy (ss_Spec item) = SecretSyncDeletionPolicyOrphan))"
| "secret_sync_event item e = False"

definition sync_reported :: "OmniSecretSyncStatus \<Rightarrow> bool" where
  "sync_reported s = condition_is (csf_Conditions (sst_Common s)) ConditionReady ConditionTrue ReasonSynced"

fun writes_synced :: "event \<Rightarrow> bool" where
  "writes_synced (EvStatusUpdate (ObjSecretSync x) r) = sync_reported (ss_Status x)"
| "writes_synced e = False"

fun releases_sync :: "klib \<Rightarrow> event \<Rightarrow> bool" where
  "releases_sync L (EvUpdate (ObjSecretSync x) r) = (\<not> lib_ContainsFinalizer L (om_Finalizers (ss_Meta x)) Finalizer)"
| "releases_sync L e = False"

text \<open>The Secret that has to go when the item goes.\<close>

definition deletion_target :: "OmniSecretSync \<Rightarrow> Target" where
  "deletion_target item = (case recorded_target item of Some target \<Rightarrow> target | None \<Rightarrow> TargetForItem item)"

definition owned_deletes :: "OmniSecretSync \<Rightarrow> event list \<Rightarrow> bool" where
  "owned_deletes item t \<longleftrightarrow> (\<forall>h key. preceded (deletes_target h key) (found_owned item h key) t)"

definition sync_piece :: "OmniSecretSync \<Rightarrow> event list \<Rightarrow> bool" where
  "sync_piece item t \<longleftrightarrow> list_all (secret_sync_event item) t \<and> owned_deletes item t"

definition sync_quiet :: "klib \<Rightarrow> event list \<Rightarrow> bool" where
  "sync_quiet L t \<longleftrightarrow> list_all (\<lambda>e. \<not> writes_synced e \<and> \<not> releases_sync L e) t"

text \<open>
  What the item refers to, as the API server answers: the cluster whose name marks the copy, the
  Secret to copy, and the kubeconfig in its Secret.
\<close>

definition sync_inputs :: "'x env \<Rightarrow> OmniSecretSync \<Rightarrow> Secret \<Rightarrow> string \<Rightarrow> string \<Rightarrow> bool" where
  "sync_inputs E item source kubeconfig name \<longleftrightarrow>
     (\<exists>cluster. answered (env_Clusters E)
          \<lparr>nn_Namespace = om_Namespace (ss_Meta item), nn_Name = lor_Name (sss_ClusterRef (ss_Spec item))\<rparr> cluster
        \<and> name = ClusterName cluster)
     \<and> answers (secretReader_Get E
          \<lparr>nn_Namespace = om_Namespace (ss_Meta item), nn_Name = ssr_Name (sss_SourceSecretRef (ss_Spec item))\<rparr>) source
     \<and> (\<exists>secret. answers (secretReader_Get E
          \<lparr>nn_Namespace = om_Namespace (ss_Meta item), nn_Name = skr_Name (sss_KubeconfigSecretRef (ss_Spec item))\<rparr>) secret
        \<and> kubeconfig = data_index (sec_Data secret) (KubeconfigSecretKey item))"

text \<open>
  The target is in place: in the cluster that the kubeconfig leads to, it was written with the
  content of the source, or found to have it.
\<close>

definition in_place :: "'x env \<Rightarrow> OmniSecretSync \<Rightarrow> event \<Rightarrow> bool" where
  "in_place E item e \<longleftrightarrow>
     (\<exists>source kubeconfig name h. sync_inputs E item source kubeconfig name
        \<and> clientset E kubeconfig = Inr h \<and> in_place_of item h source name e)"

text \<open>What holds of every piece of a run, and so of the run.\<close>

definition sync_run_ok :: "'x env \<Rightarrow> OmniSecretSync \<Rightarrow> event list \<Rightarrow> bool" where
  "sync_run_ok E item t \<longleftrightarrow>
     sync_piece item t \<and> preceded writes_synced (in_place E item) t
     \<and> (sss_DeletionPolicy (ss_Spec item) \<noteq> SecretSyncDeletionPolicyOrphan
        \<longrightarrow> preceded (releases_sync (env_Lib E)) (cleaned item (target_key (deletion_target item))) t)"

lemma owned_deletes_none: "(\<And>h key. list_all (\<lambda>e. \<not> deletes_target h key e) t) \<Longrightarrow> owned_deletes item t"
  by (simp add: owned_deletes_def preceded_none)

lemma owned_deletes_append: "owned_deletes item s \<Longrightarrow> owned_deletes item t \<Longrightarrow> owned_deletes item (s @ t)"
  by (simp add: owned_deletes_def preceded_both)

lemma sync_piece_append: "sync_piece item s \<Longrightarrow> sync_piece item t \<Longrightarrow> sync_piece item (s @ t)"
  by (simp add: sync_piece_def owned_deletes_append)

lemma sync_run_ok_append: "sync_run_ok E item s \<Longrightarrow> sync_run_ok E item t \<Longrightarrow> sync_run_ok E item (s @ t)"
  by (simp add: sync_run_ok_def sync_piece_append preceded_both)

lemma sync_quiet_ok:
  assumes "sync_piece item t" and "sync_quiet (env_Lib E) t"
  shows "sync_run_ok E item t"
proof -
  have "list_all (\<lambda>e. \<not> writes_synced e) t" "list_all (\<lambda>e. \<not> releases_sync (env_Lib E) e) t"
    using assms(2) by (auto simp: sync_quiet_def list_all_iff)
  then show ?thesis using assms(1) by (simp add: sync_run_ok_def preceded_none)
qed

lemma sync_quiet_append [simp]: "sync_quiet L (s @ t) \<longleftrightarrow> sync_quiet L s \<and> sync_quiet L t"
  by (simp add: sync_quiet_def)

text \<open>Events that are no requests to a workload cluster delete nothing there.\<close>

lemma sync_piece_plain:
  "list_all (\<lambda>e. secret_sync_event item e \<and> (\<forall>h w. e \<noteq> EvWorkload h w)) t \<Longrightarrow> sync_piece item t"
proof -
  have "\<not> deletes_target h key e" if "\<forall>h w. e \<noteq> EvWorkload h w" for h key e
    using that by (auto elim: deletes_target.elims)
  then show "list_all (\<lambda>e. secret_sync_event item e \<and> (\<forall>h w. e \<noteq> EvWorkload h w)) t \<Longrightarrow> sync_piece item t"
    by (auto simp: sync_piece_def list_all_iff intro!: owned_deletes_none)
qed

section \<open>Status\<close>

lemma sync_condition_is:
  "condition_contract L \<Longrightarrow> cond_LastTransitionTime c = zero_time \<Longrightarrow>
     condition_is (csf_Conditions (sst_Common (set_sync_condition L now c s))) ty st reason =
       (if ty = cond_Type c then cond_Status c = st \<and> cond_Reason c = reason
        else condition_is (csf_Conditions (sst_Common s)) ty st reason)"
  by (simp add: set_sync_condition_def condition_is_def SetCondition_upsert find_condition_upsert)

lemma sync_reported_only:
  assumes "condition_contract L" and "sync_reported (ss_Status (sync_status L input now latest))"
  shows "su_err input = None \<and> su_result input \<noteq> None"
  using assms
  by (auto simp: sync_status_def Let_def sync_reported_def sync_condition_is split: prod.splits if_splits)

definition sync_status_event :: "bool \<Rightarrow> event \<Rightarrow> bool" where
  "sync_status_event ok e \<longleftrightarrow>
     (\<exists>k key r. e = EvGet k key r)
     \<or> (\<exists>x r. e = EvStatusUpdate (ObjSecretSync x) r \<and> \<not> (\<not> ok \<and> sync_reported (ss_Status x)))"

lemma updateSecretSyncStatus_emits:
  assumes "env_retry_ok E" and "condition_contract (env_Lib E)"
  shows "emits (updateSecretSyncStatus E item input)
    (\<lambda>r t. list_all (sync_status_event (su_err input = None \<and> su_result input \<noteq> None)) t)"
  unfolding updateSecretSyncStatus_def
  by (rule emits_mono [OF write_status_emits [OF assms(1), where P =
        "\<lambda>obj. \<exists>x. obj = ObjSecretSync x \<and> \<not> (\<not> (su_err input = None \<and> su_result input \<noteq> None) \<and> sync_reported (ss_Status x))"]])
    (use sync_reported_only [OF assms(2)] in \<open>auto elim!: list_all_weaken simp: status_write_event_def sync_status_event_def\<close>)

lemma sync_status_event_facts:
  assumes "sync_status_event ok e"
  shows "secret_sync_event item e \<and> (\<forall>h w. e \<noteq> EvWorkload h w)" "\<not> releases_sync L e" "ok \<or> \<not> writes_synced e"
  using assms by (auto simp: sync_status_event_def)

lemma sync_status_piece:
  assumes "list_all (sync_status_event ok) t"
  shows "sync_piece item t" "list_all (\<lambda>e. \<not> releases_sync L e) t" "ok \<or> sync_quiet L t"
proof -
  show "sync_piece item t"
    by (rule sync_piece_plain, rule list_all_weaken [OF assms sync_status_event_facts(1)])
  show "list_all (\<lambda>e. \<not> releases_sync L e) t"
    by (rule list_all_weaken [OF assms sync_status_event_facts(2)])
  show "ok \<or> sync_quiet L t"
    unfolding sync_quiet_def using assms sync_status_event_facts(2,3) by (metis (mono_tags, lifting) list_all_weaken)
qed

lemma failure_emits:
  assumes "env_retry_ok E" and "condition_contract (env_Lib E)" and "su_result input = None"
  shows "emits (updateSecretSyncStatus E item input) (\<lambda>r t. sync_piece item t \<and> sync_quiet (env_Lib E) t)"
  by (rule emits_mono [OF updateSecretSyncStatus_emits [OF assms(1,2)]])
    (use assms(3) sync_status_piece(1,3) in \<open>fastforce\<close>)

lemma report_emits:
  assumes "env_retry_ok E" and "condition_contract (env_Lib E)"
  shows "emits (updateSecretSyncStatus E item input)
    (\<lambda>r t. sync_piece item t \<and> list_all (\<lambda>e. \<not> releases_sync (env_Lib E) e) t
       \<and> (su_result input \<noteq> None \<or> sync_quiet (env_Lib E) t))"
  by (rule emits_mono [OF updateSecretSyncStatus_emits [OF assms]])
    (use sync_status_piece in blast)

section \<open>The pieces of a run\<close>

abbreviation quiet_piece :: "klib \<Rightarrow> OmniSecretSync \<Rightarrow> event list \<Rightarrow> bool" where
  "quiet_piece L item t \<equiv> sync_piece item t \<and> sync_quiet L t"

lemma quiet_piece_get [simp]: "quiet_piece L item (EvGet k key r # t) \<longleftrightarrow> quiet_piece L item t"
  by (simp add: sync_piece_def owned_deletes_def sync_quiet_def)

lemma quiet_piece_nil [simp]: "quiet_piece L item []"
  by (simp add: sync_piece_def owned_deletes_def sync_quiet_def)

lemma client_event_quiet: "client_event item e \<Longrightarrow> \<not> writes_synced e \<and> \<not> releases_sync L e"
  by (auto simp: client_event_def)

lemma client_secret_sync_event:
  "client_event item e \<Longrightarrow> (\<And>h key. \<not> deletes_target h key e) \<Longrightarrow> secret_sync_event item e"
  "client_event item e \<Longrightarrow> sss_DeletionPolicy (ss_Spec item) \<noteq> SecretSyncDeletionPolicyOrphan \<Longrightarrow> secret_sync_event item e"
  by (force simp: client_event_def elim!: deletion.elims)+

lemma list_all_client_quiet: "list_all (client_event item) t \<Longrightarrow> sync_quiet L t"
  unfolding sync_quiet_def by (erule list_all_weaken) (rule client_event_quiet)

lemma secretSync_Sync_emits:
  assumes "env_SecretSync E = None"
  shows "emits (secretSync_Sync E item source kc name)
    (\<lambda>r t. quiet_piece L item t
       \<and> (\<forall>res. r = Inr res \<longrightarrow> (\<exists>h. clientset E kc = Inr h \<and> list_ex (in_place_of item h source name) t)))"
proof -
  have client: "emits (Client_Sync E item source kc name)
      (\<lambda>r t. (list_all (client_event item) t \<and> (\<forall>h key. list_all (\<lambda>e. \<not> deletes_target h key e) t))
         \<and> (\<forall>res. r = Inr res \<longrightarrow> (\<exists>h. clientset E kc = Inr h \<and> list_ex (in_place_of item h source name) t)))"
    using Client_Sync_emits [of E item source kc name] unfolding emits_def by (metis same_append_eq)
  have "quiet_piece L item (t @ [EvSync item source kc name r])"
    if "list_all (client_event item) t" and "\<forall>h key. list_all (\<lambda>e. \<not> deletes_target h key e) t" for t r
  proof -
    have "list_all (secret_sync_event item) t"
      using that client_secret_sync_event(1) by (simp add: list_all_iff)
    then have "sync_piece item t"
      using that(2) by (simp add: sync_piece_def owned_deletes_none)
    moreover have "sync_piece item [EvSync item source kc name r]"
      by (rule sync_piece_plain) simp
    ultimately show ?thesis
      using list_all_client_quiet [OF that(1)] by (simp add: sync_piece_append) (simp add: sync_quiet_def)
  qed
  then show ?thesis
    unfolding secretSync_Sync_def assms option.case
    by (intro emits_then [OF client] emits_remark_bind emits_return) auto
qed

lemma secretSync_Delete_emits:
  assumes "env_SecretSync E = None" and policy: "sss_DeletionPolicy (ss_Spec item) \<noteq> SecretSyncDeletionPolicyOrphan"
  shows "emits (secretSync_Delete E item kc target)
    (\<lambda>r t. quiet_piece L item t \<and> (r = None \<longrightarrow> list_ex (cleaned item (target_key target)) t))"
proof -
  have client: "emits (Client_Delete E item kc target)
      (\<lambda>r t. (list_all (client_event item) t \<and> owned_deletes item t)
         \<and> (r = None \<longrightarrow> list_ex (cleaned item (target_key target)) t))"
    using Client_Delete_emits [of E item kc target] unfolding emits_def owned_deletes_def by (metis same_append_eq)
  have "quiet_piece L item (t @ [EvSyncDelete item kc target r])"
    if "list_all (client_event item) t" and "owned_deletes item t" for t r
  proof -
    have "list_all (secret_sync_event item) t"
      using that(1) client_secret_sync_event(2) [OF _ policy] by (simp add: list_all_iff)
    then have "sync_piece item t"
      using that(2) by (simp add: sync_piece_def)
    moreover have "sync_piece item [EvSyncDelete item kc target r]"
      by (rule sync_piece_plain) simp
    ultimately show ?thesis
      using list_all_client_quiet [OF that(1)] by (simp add: sync_piece_append) (simp add: sync_quiet_def)
  qed
  then show ?thesis
    unfolding secretSync_Delete_def assms(1) option.case
    by (intro emits_then [OF client] emits_remark_bind emits_return) auto
qed

lemma ensureFinalizer_quiet:
  assumes "finalizer_contract (env_Lib E)"
  shows "emits (SecretSync_ensureFinalizer E item) (\<lambda>r t. quiet_piece (env_Lib E) item t)"
  by (rule emits_mono [OF secret_sync_claim.ensure_emits [OF assms]])
    (auto simp: sync_quiet_def intro!: sync_piece_plain)

lemma removeFinalizer_emits:
  assumes "env_retry_ok E"
  shows "emits (SecretSync_removeFinalizer E item)
    (\<lambda>r t. sync_piece item t \<and> list_all (\<lambda>e. \<not> writes_synced e) t)"
  by (rule emits_mono [OF secret_sync_release.release_events [OF assms, where
        P = "\<lambda>e. (secret_sync_event item e \<and> (\<forall>h w. e \<noteq> EvWorkload h w)) \<and> \<not> writes_synced e"]])
    (auto elim: list_all_weaken intro!: sync_piece_plain)

lemma sync_wait_emits:
  assumes "env_retry_ok E" and "condition_contract (env_Lib E)" and "su_result input = None"
  shows "emits (sync_wait E item input) (\<lambda>r t. quiet_piece (env_Lib E) item t)"
  unfolding sync_wait_def
  by (intro emits_then [OF failure_emits [OF assms, of item]] emits_return) simp

lemma sync_failure_result [simp]: "su_result (sync_failure known ex reason err msg) = None"
  by (simp add: sync_failure_def)

text \<open>Looking up what the item refers to writes no success and releases nothing; what is found was answered.\<close>

abbreviation found_quietly :: "klib \<Rightarrow> OmniSecretSync \<Rightarrow> ('a \<Rightarrow> bool) \<Rightarrow> early + 'a \<Rightarrow> event list \<Rightarrow> bool" where
  "found_quietly L item R r t \<equiv> quiet_piece L item t \<and> (case r of Inl out \<Rightarrow> True | Inr a \<Rightarrow> R a)"

lemma dependencies_emit:
  assumes "env_retry_ok E" and "condition_contract (env_Lib E)"
  shows "emits (syncCluster E item) (found_quietly (env_Lib E) item (answered (env_Clusters E)
      \<lparr>nn_Namespace = om_Namespace (ss_Meta item), nn_Name = lor_Name (sss_ClusterRef (ss_Spec item))\<rparr>))"
    and "emits (sourceSecret E item) (found_quietly (env_Lib E) item (answers (secretReader_Get E
      \<lparr>nn_Namespace = om_Namespace (ss_Meta item), nn_Name = ssr_Name (sss_SourceSecretRef (ss_Spec item))\<rparr>)))"
    and "emits (syncKubeconfig E item) (found_quietly (env_Lib E) item (\<lambda>kubeconfig. \<exists>secret. answers (secretReader_Get E
      \<lparr>nn_Namespace = om_Namespace (ss_Meta item), nn_Name = skr_Name (sss_KubeconfigSecretRef (ss_Spec item))\<rparr>) secret
      \<and> kubeconfig = data_index (sec_Data secret) (KubeconfigSecretKey item)))"
proof -
  note wait = sync_wait_emits [OF assms, of _ item]
  have waits: "emits (sync_wait E item (sync_failure known ex reason err msg) :: ('a, early + 'b) action)
      (\<lambda>r t. quiet_piece (env_Lib E) item t \<and> isl r)" for known ex reason err msg
    unfolding sync_wait_def by (intro emits_then [OF failure_emits [OF assms, of _ item]] emits_return) simp_all
  show "emits (syncCluster E item) (found_quietly (env_Lib E) item (answered (env_Clusters E)
      \<lparr>nn_Namespace = om_Namespace (ss_Meta item), nn_Name = lor_Name (sss_ClusterRef (ss_Spec item))\<rparr>))"
    unfolding syncCluster_def k_call_defs Let_def
    by (rule emits_answer_bind; intro emits_case_sum emits_if emits_return emits_mono [OF waits])
      (auto simp: answered_def split: sum.splits)
  show "emits (sourceSecret E item) (found_quietly (env_Lib E) item (answers (secretReader_Get E
      \<lparr>nn_Namespace = om_Namespace (ss_Meta item), nn_Name = ssr_Name (sss_SourceSecretRef (ss_Spec item))\<rparr>)))"
    unfolding sourceSecret_def get_secret_def Let_def
    by (rule emits_answer_bind; intro emits_case_sum emits_if emits_return emits_mono [OF waits])
      (auto split: sum.splits)
  show "emits (syncKubeconfig E item) (found_quietly (env_Lib E) item (\<lambda>kubeconfig. \<exists>secret. answers (secretReader_Get E
      \<lparr>nn_Namespace = om_Namespace (ss_Meta item), nn_Name = skr_Name (sss_KubeconfigSecretRef (ss_Spec item))\<rparr>) secret
      \<and> kubeconfig = data_index (sec_Data secret) (KubeconfigSecretKey item)))"
    unfolding syncKubeconfig_def get_secret_def Let_def
    by (rule emits_answer_bind; intro emits_case_sum emits_if emits_return emits_mono [OF waits])
      (auto split: sum.splits)
qed

lemma report_failure_emits:
  assumes "env_retry_ok E" and "condition_contract (env_Lib E)"
  shows "emits (report_and_requeue
      (updateSecretSyncStatus E item (sync_failure known ex reason err msg)) after out)
    (\<lambda>r t. quiet_piece (env_Lib E) item t)"
  unfolding report_and_requeue_def
  by (intro emits_then [OF failure_emits [OF assms, of _ item]] emits_return) simp_all

section \<open>Whole runs\<close>

text \<open>A quiet piece, and the rest of the run.\<close>

lemma quiet_then:
  assumes "emits m (\<lambda>a t. quiet_piece (env_Lib E) item t)" and "\<And>a. emits (k a) (\<lambda>b t. sync_run_ok E item t)"
  shows "emits (State_Monad.bind m k) (\<lambda>b t. sync_run_ok E item t)"
  by (rule emits_then [OF assms(1)], rule emits_mono [OF assms(2)])
    (auto intro: sync_run_ok_append sync_quiet_ok)

lemma quiet_return: "emits (State_Monad.return out) (\<lambda>b t. sync_run_ok E item t)"
  by (rule emits_return) (simp add: sync_quiet_ok)

lemma found_then:
  fixes m :: "('x, early + 'a) action"
  assumes "emits m (found_quietly (env_Lib E) item R)" and "\<And>a. R a \<Longrightarrow> emits (k a) (\<lambda>b t. sync_run_ok E item t)"
  shows "emits (State_Monad.bind m (\<lambda>r. case r of Inl out \<Rightarrow> State_Monad.return (f out) | Inr a \<Rightarrow> k a))
    (\<lambda>b t. sync_run_ok E item t)"
proof (rule emits_then [OF assms(1)])
  fix r :: "early + 'a" and t
  assume "found_quietly (env_Lib E) item R r t"
  then have quiet: "quiet_piece (env_Lib E) item t" and found: "case r of Inl out \<Rightarrow> True | Inr a \<Rightarrow> R a"
    by simp_all
  have "emits (case r of Inl out \<Rightarrow> State_Monad.return (f out) | Inr a \<Rightarrow> k a) (\<lambda>b t. sync_run_ok E item t)"
    using found by (intro emits_case_sum quiet_return assms(2)) simp
  then show "emits (case r of Inl out \<Rightarrow> State_Monad.return (f out) | Inr a \<Rightarrow> k a) (\<lambda>b t'. sync_run_ok E item (t @ t'))"
    using quiet by (elim emits_mono) (auto intro: sync_run_ok_append sync_quiet_ok)
qed

lemma quiet_end: "emits m (\<lambda>a t. quiet_piece (env_Lib E) item t) \<Longrightarrow> emits m (\<lambda>b t. sync_run_ok E item t)"
  by (erule emits_mono) (simp add: sync_quiet_ok)

lemma sync_now_emits:
  assumes "env_retry_ok E" and "condition_contract (env_Lib E)" and "env_SecretSync E = None"
    and inputs: "sync_inputs E item source kc name"
  shows "emits (sync_now E item source kc name) (\<lambda>out t. sync_run_ok E item t)"
  unfolding sync_now_def
proof (rule emits_then [OF secretSync_Sync_emits [OF assms(3), where L = "env_Lib E"]],
    intro emits_then [OF report_emits [OF assms(1,2), of item]] emits_return)
  fix r t r' u
  assume synced: "quiet_piece (env_Lib E) item t \<and> (\<forall>res. r = Inr res \<longrightarrow>
      (\<exists>h. clientset E kc = Inr h \<and> list_ex (in_place_of item h source name) t))"
    and reported: "sync_piece item u \<and> list_all (\<lambda>e. \<not> releases_sync (env_Lib E) e) u
      \<and> (su_result \<lparr>su_acceptedKnown = True, su_clusterExists = True,
            su_result = (case r of Inl e \<Rightarrow> None | Inr res \<Rightarrow> Some res),
            su_err = (case r of Inl e \<Rightarrow> Some e | Inr res \<Rightarrow> None), su_reason = [], su_message = []\<rparr> \<noteq> None
         \<or> sync_quiet (env_Lib E) u)"
  have t: "sync_run_ok E item t" using synced by (simp add: sync_quiet_ok)
  have "preceded writes_synced (in_place E item) (t @ u)"
  proof (cases r)
    case (Inl e)
    with reported have "sync_run_ok E item u" by (simp add: sync_quiet_ok)
    with t show ?thesis by (simp add: sync_run_ok_def preceded_both)
  next
    case (Inr res)
    then have "list_ex (in_place E item) t"
      using synced inputs unfolding list_ex_iff in_place_def by blast
    with t show ?thesis by (simp add: sync_run_ok_def preceded_after)
  qed
  with t reported have "sync_run_ok E item (t @ u)"
    by (simp add: sync_run_ok_def sync_piece_append preceded_both preceded_none)
  then show "sync_run_ok E item (t @ u @ [])" by simp
qed

lemma deletePreviousSyncTarget_quiet:
  assumes "env_SecretSync E = None"
  shows "emits (deletePreviousSyncTarget E item kc) (\<lambda>r t. quiet_piece (env_Lib E) item t)"
  unfolding deletePreviousSyncTarget_def
  by (intro emits_if emits_case_option emits_return
      emits_mono [OF secretSync_Delete_emits [OF assms, where L = "env_Lib E" and item = item]])
    (auto simp: SecretSyncDeletionPolicyDelete_def SecretSyncDeletionPolicyOrphan_def)

lemma release_after_cleaning:
  assumes "env_retry_ok E"
    and "quiet_piece (env_Lib E) item t" and "list_ex (cleaned item (target_key (deletion_target item))) t"
  shows "emits (State_Monad.bind (SecretSync_removeFinalizer E item) (\<lambda>err. State_Monad.return (no_requeue, err)))
    (\<lambda>out u. sync_run_ok E item (t @ u))"
proof (intro emits_then [OF removeFinalizer_emits [OF assms(1), of item]] emits_return)
  fix err u assume u: "sync_piece item u \<and> list_all (\<lambda>e. \<not> writes_synced e) u"
  have "sync_run_ok E item t" using assms(2) by (simp add: sync_quiet_ok)
  then show "sync_run_ok E item (t @ u @ [])"
    using u assms(3) by (auto simp: sync_run_ok_def sync_piece_append preceded_both preceded_none preceded_after)
qed

lemma reconcileDelete_ok:
  assumes "env_retry_ok E" and "condition_contract (env_Lib E)" and "env_SecretSync E = None"
  shows "emits (SecretSync_reconcileDelete E item) (\<lambda>out t. sync_run_ok E item t)"
  unfolding SecretSync_reconcileDelete_def Let_def deletion_target_def [symmetric]
proof (intro emits_if quiet_return found_then [OF dependencies_emit(3) [OF assms(1,2)]], goal_cases orphan delete)
  case orphan
  show ?case
    by (intro emits_then [OF removeFinalizer_emits [OF assms(1), of item]] emits_return)
      (use orphan in \<open>simp add: sync_run_ok_def preceded_none\<close>)
next
  case (delete kubeconfig)
  then show ?case
    by (intro emits_then [OF secretSync_Delete_emits [OF assms(3), where L = "env_Lib E" and item = item]]
        emits_case_option release_after_cleaning [OF assms(1)]
        emits_mono [OF report_failure_emits [OF assms(1,2), of item]])
      (auto intro: sync_quiet_ok sync_piece_append)
qed

lemma reconcile_secret_sync_ok:
  assumes "env_retry_ok E" and "condition_contract (env_Lib E)" and "finalizer_contract (env_Lib E)"
    and "env_SecretSync E = None"
  shows "emits (reconcile_secret_sync E item) (\<lambda>out t. sync_run_ok E item t)"
  unfolding reconcile_secret_sync_def sync_with_def
  by (intro emits_if reconcileDelete_ok quiet_then [OF ensureFinalizer_quiet]
      quiet_then [OF failure_emits] found_then [OF dependencies_emit(1)] found_then [OF dependencies_emit(2)]
      found_then [OF dependencies_emit(3)] quiet_then [OF deletePreviousSyncTarget_quiet]
      emits_case_sum emits_case_option quiet_return quiet_end [OF report_failure_emits] sync_now_emits assms
      sync_failure_result)
    (auto simp: sync_inputs_def)

section \<open>Writes of the item\<close>

text \<open>
  An update of a secret sync writes a version of the item with other finalizers, a status update
  one with another status.
\<close>

fun sync_item_write :: "'x env \<Rightarrow> OmniSecretSync \<Rightarrow> event \<Rightarrow> bool" where
  "sync_item_write E item (EvUpdate (ObjSecretSync x) r) =
     (\<exists>v fs. version_of (env_SecretSyncs E) ss_Meta item v \<and> x = v\<lparr>ss_Meta := (ss_Meta v)\<lparr>om_Finalizers := fs\<rparr>\<rparr>)"
| "sync_item_write E item (EvStatusUpdate (ObjSecretSync x) r) =
     (\<exists>v status. version_of (env_SecretSyncs E) ss_Meta item v \<and> x = v\<lparr>ss_Status := status\<rparr>)"
| "sync_item_write E item e = True"

lemma sync_status_is_status: "\<exists>status. sync_status L input now v = v\<lparr>ss_Status := status\<rparr>"
  by (auto simp: sync_status_def Let_def case_prod_beta)

lemma sync_item_writes:
  assumes "env_retry_ok E" and "env_SecretSync E = None"
  shows "every (sync_item_write E item) (reconcile_secret_sync E item)"
proof -
  have status: "every (sync_item_write E item) (updateSecretSyncStatus E item input)" for input
    unfolding updateSecretSyncStatus_def
    by (rule status_write_at [OF assms(1)]) (use sync_status_is_status in \<open>auto simp: version_of_def\<close>)
  have client: "every (sync_item_write E item) (Client_Sync E item source kc name)"
      "every (sync_item_write E item) (Client_Delete E item kc target)" for source kc name target
    by (rule every_emits [OF Client_Sync_emits] every_emits [OF Client_Delete_emits];
        auto elim!: list_all_weaken simp: client_event_def)+
  have release: "every (sync_item_write E item) (SecretSync_removeFinalizer E item)"
    unfolding SecretSync_removeFinalizer_def sync_release_attempt_def k_update_def
    by (intro every_retry [OF assms(1)] every_get_at every_rules)
      (auto simp: version_of_def strip_finalizer_def)
  have claim: "every (sync_item_write E item) (SecretSync_ensureFinalizer E item)"
    unfolding SecretSync_ensureFinalizer_def k_update_def
    by (intro every_rules) (auto simp: version_of_def add_finalizer_def)
  have reads: "every (sync_item_write E item) (get_secret E key)" "every (sync_item_write E item) (k_get A k key)" for key k
    and A :: "('a, OmniCluster) kind_api"
    unfolding get_secret_def k_get_def by (intro every_rules; simp)+
  show ?thesis
    unfolding reconcile_secret_sync_def SecretSync_reconcileDelete_def syncCluster_def sourceSecret_def syncKubeconfig_def
      sync_wait_def sync_with_def sync_now_def deletePreviousSyncTarget_def secretSync_Sync_def secretSync_Delete_def
      assms(2) option.case report_and_requeue_def Let_def
    by (intro every_rules status client release claim reads) simp_all
qed

section \<open>Properties\<close>

text \<open>
  A change of the world that the item has no right to: a write to an object of the management
  cluster that is not the item, or to the item with more changed than finalizers or status; a write
  to a workload Secret that is not the item's target or not marked as the item's; a deletion under
  policy Orphan; a namespace that it did not ask for.
\<close>

fun foreign_write :: "'x env \<Rightarrow> OmniSecretSync \<Rightarrow> event \<Rightarrow> bool" where
  "foreign_write E item (EvCreate obj r) = True"
| "foreign_write E item (EvDelete obj r) = True"
| "foreign_write E item (EvUpdate (ObjSecretSync x) r) =
     (\<nexists>v fs. version_of (env_SecretSyncs E) ss_Meta item v \<and> x = v\<lparr>ss_Meta := (ss_Meta v)\<lparr>om_Finalizers := fs\<rparr>\<rparr>)"
| "foreign_write E item (EvUpdate obj r) = True"
| "foreign_write E item (EvStatusUpdate (ObjSecretSync x) r) =
     (\<nexists>v status. version_of (env_SecretSyncs E) ss_Meta item v \<and> x = v\<lparr>ss_Status := status\<rparr>)"
| "foreign_write E item (EvStatusUpdate obj r) = True"
| "foreign_write E item (EvWorkload h (WCreateNamespace ns r)) =
     (\<not> sss_CreateNamespace (ss_Spec item) \<or> ns \<noteq> str_Namespace (sss_TargetSecretRef (ss_Spec item)))"
| "foreign_write E item (EvWorkload h (WCreateSecret s r)) =
     (\<not> SyncIsOwnedSecret item (Some s) \<or> ObjectKeyFromMeta (sec_Meta s) \<noteq> target_key (TargetForItem item))"
| "foreign_write E item (EvWorkload h (WUpdateSecret s r)) =
     (\<not> SyncIsOwnedSecret item (Some s) \<or> ObjectKeyFromMeta (sec_Meta s) \<noteq> target_key (TargetForItem item))"
| "foreign_write E item (EvWorkload h (WDeleteSecret key r)) =
     (sss_DeletionPolicy (ss_Spec item) = SecretSyncDeletionPolicyOrphan)"
| "foreign_write E item e = False"

lemma secret_sync_event_own:
  "secret_sync_event item e \<Longrightarrow> sync_item_write E item e \<Longrightarrow> \<not> foreign_write E item e"
  by (cases "(E, item, e)" rule: foreign_write.cases) (auto simp: wanted_secret_facts TargetForItem_def)

text \<open>
  Claim C15.  A secret sync keeps to its own: whatever the servers answer, a run writes no object of
  the management cluster but the item, that is the object it was given or one that the API server
  returned under its name, and changes only finalizers or status of it; it writes only its own
  target Secret into the workload cluster, marked as its own, creates no namespace it was not asked
  to create, deletes nothing under policy Orphan, and deletes a workload Secret only after it has
  read it and found its own mark on it.
\<close>

theorem secret_sync_keeps_to_its_own:
  assumes "env_retry_ok E" and "condition_contract (env_Lib E)" and "finalizer_contract (env_Lib E)"
    and "env_SecretSync E = None"
  shows "emits (reconcile_secret_sync E item) (\<lambda>out t.
      list_all (\<lambda>e. \<not> foreign_write E item e) t
      \<and> (\<forall>h key. preceded (deletes_target h key) (found_owned item h key) t))"
proof (rule emits_mono [OF emits_conj [OF reconcile_secret_sync_ok [OF assms]
      sync_item_writes [OF assms(1,4), unfolded every_def]]], elim conjE)
  fix t assume run: "sync_run_ok E item t" and "list_all (sync_item_write E item) t"
  moreover from run have "list_all (secret_sync_event item) t" "owned_deletes item t"
    by (simp_all add: sync_run_ok_def sync_piece_def)
  ultimately show "list_all (\<lambda>e. \<not> foreign_write E item e) t
      \<and> (\<forall>h key. preceded (deletes_target h key) (found_owned item h key) t)"
    unfolding list_all_iff owned_deletes_def using secret_sync_event_own by blast
qed

text \<open>
  Claim C18.  A secret sync is reported as ready only when the target is in place: before any status
  with Ready for the reason Synced is written, the run has created or updated the item's target
  Secret with the content of the source Secret, or has read the target and found it to have that
  content.  The content is that of a Secret that the API server returned under the name in
  \<open>sourceSecretRef\<close>, marked with the name of the cluster returned under \<open>clusterRef\<close>; and the target is
  in the cluster to which the kubeconfig leads that lies under the item's key in the Secret returned
  under \<open>kubeconfigSecretRef\<close>.
\<close>

theorem secret_sync_ready_when_in_place:
  assumes "env_retry_ok E" and "condition_contract (env_Lib E)" and "finalizer_contract (env_Lib E)"
    and "env_SecretSync E = None"
  shows "emits (reconcile_secret_sync E item) (\<lambda>out t. preceded writes_synced (in_place E item) t)"
  by (rule emits_mono [OF reconcile_secret_sync_ok [OF assms]]) (simp add: sync_run_ok_def)

text \<open>
  Claim C17.  A secret sync that is not orphaned is let go only when its Secret is cleaned up: before
  the item is written without the finalizer, the workload cluster has confirmed that the Secret
  last synced is deleted, was not there, or is not the item's.
\<close>

theorem secret_sync_released_when_clean:
  assumes "env_retry_ok E" and "condition_contract (env_Lib E)" and "finalizer_contract (env_Lib E)"
    and "env_SecretSync E = None"
    and "sss_DeletionPolicy (ss_Spec item) \<noteq> SecretSyncDeletionPolicyOrphan"
  shows "emits (reconcile_secret_sync E item)
    (\<lambda>out t. preceded (releases_sync (env_Lib E)) (cleaned item (target_key (deletion_target item))) t)"
  by (rule emits_mono [OF reconcile_secret_sync_ok [OF assms(1-4)]]) (simp add: sync_run_ok_def assms(5))

lemma set_sync_condition_target [simp]:
  "sst_TargetSecretRef (set_sync_condition L now c s) = sst_TargetSecretRef s"
  "sst_TargetNamespace (set_sync_condition L now c s) = sst_TargetNamespace s"
  by (simp_all add: set_sync_condition_def)




end
