(* ===== verification/Secret_Sync_Store.thy ===== *)
theory Secret_Sync_Store
  imports Secret_Sync_Client
begin

text \<open>
  What the secret sync client promises, as operations on an abstract workload cluster: a map from
  names to the contents of Secrets.  A sync sets the target to the wanted content; a deletion
  removes the Secret when it carries the item's mark, and does nothing otherwise.

  The contents are those an API server preserves: a nil byte slice and an empty one are the same,
  and so are a nil and an empty map, and a Secret without a type is \<open>Opaque\<close>.  \<open>secret_store\<close> is the
  documented behaviour of a cluster that nobody else writes to at the same time; a request that
  fails may still have had its effect.  The client's operations are shown to refine the abstract
  ones for every such cluster.
\<close>

section \<open>The abstract cluster\<close>

record secret_content =
  ct_Type :: string
  ct_Data :: "string \<rightharpoonup> string"
  ct_Labels :: "string \<rightharpoonup> string"
  ct_Annotations :: "string \<rightharpoonup> string"

type_synonym secret_view = "NamespacedName \<rightharpoonup> secret_content"

definition content_of :: "Secret \<Rightarrow> secret_content" where
  "content_of s =
     \<lparr>ct_Type = (if sec_Type s = [] then ''Opaque'' else sec_Type s),
      ct_Data = (\<lambda>k. map_option bytes_of (map_get (sec_Data s) k)),
      ct_Labels = map_get (om_Labels (sec_Meta s)),
      ct_Annotations = map_get (om_Annotations (sec_Meta s))\<rparr>"

text \<open>The Secret an item wants, with the hash of its content.\<close>

definition wanted_for :: "OmniSecretSync \<Rightarrow> Secret \<Rightarrow> string \<Rightarrow> Secret" where
  "wanted_for item source clusterName =
     (let d = DesiredSecret item source clusterName in
      with_hash (hex_encode (sha256 (sync_hash_payload (sec_Type d) (sec_Data d)))) d)"

definition spec_sync :: "OmniSecretSync \<Rightarrow> Secret \<Rightarrow> string \<Rightarrow> secret_view \<Rightarrow> secret_view" where
  "spec_sync item source clusterName M =
     M(target_key (TargetForItem item) \<mapsto> content_of (wanted_for item source clusterName))"

definition content_owned :: "OmniSecretSync \<Rightarrow> secret_content \<Rightarrow> bool" where
  "content_owned item c =
     (if om_UID (ss_Meta item) \<noteq> []
      then ct_Labels c SyncOwnerUIDLabel = Some (om_UID (ss_Meta item))
      else (case ct_Annotations c SyncOwnerAnnotation of None \<Rightarrow> om_Name (ss_Meta item) = []
              | Some n \<Rightarrow> n = om_Name (ss_Meta item)))"

definition spec_delete :: "OmniSecretSync \<Rightarrow> Target \<Rightarrow> secret_view \<Rightarrow> secret_view" where
  "spec_delete item target M =
     (case M (target_key target) of
        None \<Rightarrow> M
      | Some c \<Rightarrow> if content_owned item c then M(target_key target := None) else M)"

section \<open>A cluster that stores Secrets\<close>

definition store_writes :: "('x \<Rightarrow> secret_view) \<Rightarrow> (string \<Rightarrow> Secret \<Rightarrow> 'x \<Rightarrow> goerror option \<times> 'x) \<Rightarrow> bool" where
  "store_writes V wr \<longleftrightarrow>
     (\<forall>ns s x r x'. wr ns s x = (r, x') \<longrightarrow>
        (let key = \<lparr>nn_Namespace = ns, nn_Name = om_Name (sec_Meta s)\<rparr> in
         (\<forall>k. k \<noteq> key \<longrightarrow> V x' k = V x k) \<and> (r = None \<longrightarrow> V x' key = Some (content_of s))))"

definition secret_store :: "'x workload_api \<Rightarrow> nat \<Rightarrow> ('x \<Rightarrow> secret_view) \<Rightarrow> bool" where
  "secret_store W cs V \<longleftrightarrow>
     (\<forall>ns x r x'. wl_GetNamespace W cs ns x = (r, x') \<longrightarrow> V x' = V x)
     \<and> (\<forall>ns x r x'. wl_CreateNamespace W cs ns x = (r, x') \<longrightarrow> V x' = V x)
     \<and> (\<forall>ns n x r x'. wl_GetSecret W cs ns n x = (r, x') \<longrightarrow> V x' = V x \<and>
          (case r of
             Inr s \<Rightarrow> V x \<lparr>nn_Namespace = ns, nn_Name = n\<rparr> = Some (content_of s)
           | Inl e \<Rightarrow> IsNotFound e \<longrightarrow> V x \<lparr>nn_Namespace = ns, nn_Name = n\<rparr> = None))
     \<and> store_writes V (wl_CreateSecret W cs) \<and> store_writes V (wl_UpdateSecret W cs)
     \<and> (\<forall>ns n x r x'. wl_DeleteSecret W cs ns n x = (r, x') \<longrightarrow>
          (let key = \<lparr>nn_Namespace = ns, nn_Name = n\<rparr> in
           (\<forall>k. k \<noteq> key \<longrightarrow> V x' k = V x k)
           \<and> ((case r of None \<Rightarrow> True | Some e \<Rightarrow> IsNotFound e) \<longrightarrow> V x' key = None)))"

lemma secret_store_D:
  assumes "secret_store W cs V"
  shows "wl_GetNamespace W cs ns x = (r, x') \<Longrightarrow> V x' = V x"
    and "wl_CreateNamespace W cs ns x = (r, x') \<Longrightarrow> V x' = V x"
    and "wl_GetSecret W cs ns n x = (got, x') \<Longrightarrow> V x' = V x"
    and "wl_GetSecret W cs ns n x = (Inr s, x') \<Longrightarrow> V x \<lparr>nn_Namespace = ns, nn_Name = n\<rparr> = Some (content_of s)"
    and "wl_GetSecret W cs ns n x = (Inl e, x') \<Longrightarrow> IsNotFound e \<Longrightarrow> V x \<lparr>nn_Namespace = ns, nn_Name = n\<rparr> = None"
    and "wl_DeleteSecret W cs ns n x = (r, x') \<Longrightarrow> k \<noteq> \<lparr>nn_Namespace = ns, nn_Name = n\<rparr> \<Longrightarrow> V x' k = V x k"
    and "wl_DeleteSecret W cs ns n x = (None, x') \<Longrightarrow> V x' \<lparr>nn_Namespace = ns, nn_Name = n\<rparr> = None"
    and "wl_DeleteSecret W cs ns n x = (Some e, x') \<Longrightarrow> IsNotFound e \<Longrightarrow> V x' \<lparr>nn_Namespace = ns, nn_Name = n\<rparr> = None"
  using assms unfolding secret_store_def Let_def by (fastforce split: option.splits)+

lemma store_writes_D:
  assumes "store_writes V wr" and "wr ns s x = (r, x')"
  shows "k \<noteq> \<lparr>nn_Namespace = ns, nn_Name = om_Name (sec_Meta s)\<rparr> \<Longrightarrow> V x' k = V x k"
    and "r = None \<Longrightarrow> V x' = (V x)(\<lparr>nn_Namespace = ns, nn_Name = om_Name (sec_Meta s)\<rparr> \<mapsto> content_of s)"
  using assms unfolding store_writes_def Let_def by (blast, force)

section \<open>Refinement\<close>

lemma content_of_version [simp]:
  "content_of (d\<lparr>sec_Meta := (sec_Meta d)\<lparr>om_ResourceVersion := v\<rparr>\<rparr>) = content_of d"
  by (simp add: content_of_def)

lemma same_content_view: "same_content a b \<Longrightarrow> content_of a = content_of b"
  by (simp add: same_content_def content_of_def)

lemma content_owned_iff: "content_owned item (content_of s) = SyncIsOwnedSecret item (Some s)"
  by (auto simp: content_owned_def content_of_def SyncIsOwnedSecret_def map_index_def split: option.splits)

text \<open>Writing the target: on success it holds the content, and nothing else changes in any case.\<close>

lemma write_target_refines:
  assumes store: "secret_store (env_Workload E) cs V"
    and name: "om_Name (sec_Meta desired) = tg_Name target"
    and run: "run_state (write_target E cs target desired hash) w = (r, w')"
  shows "k \<noteq> target_key target \<Longrightarrow> V (ext w') k = V (ext w) k"
    and "r = Inr res \<Longrightarrow> V (ext w') = (V (ext w))(target_key target \<mapsto> content_of desired)"
proof -
  have writes: "store_writes V (wl_CreateSecret (env_Workload E) cs)" "store_writes V (wl_UpdateSecret (env_Workload E) cs)"
    using store unfolding secret_store_def by blast+
  obtain got x where got: "wl_GetSecret (env_Workload E) cs (tg_Namespace target) (tg_Name target) (ext w) = (got, x)"
    by fastforce
  have x: "V x = V (ext w)" using secret_store_D(3) [OF store got] .
  consider (err) e where "r = Inl e" "ext w' = x"
    | (same) s where "got = Inr s" "same_content s desired" "ext w' = x"
    | (create) c x' where "wl_CreateSecret (env_Workload E) cs (tg_Namespace target) desired x = (c, x')"
        "ext w' = x'" "(\<exists>res. r = Inr res) \<longleftrightarrow> c = None"
    | (update) v c x' where "wl_UpdateSecret (env_Workload E) cs (tg_Namespace target)
          (desired\<lparr>sec_Meta := (sec_Meta desired)\<lparr>om_ResourceVersion := v\<rparr>\<rparr>) x = (c, x')"
        "ext w' = x'" "(\<exists>res. r = Inr res) \<longleftrightarrow> c = None"
    using run got
    by (auto simp: write_target_def Let_def w_call_defs call_def split: sum.splits if_splits prod.splits option.splits)
  note cases = this
  show "V (ext w') k = V (ext w) k" if "k \<noteq> target_key target"
    using cases
  proof cases
    case create
    then show ?thesis using store_writes_D(1) [OF writes(1) create(1)] that x by (simp add: target_key_def name)
  next
    case update
    then show ?thesis using store_writes_D(1) [OF writes(2) update(1)] that x by (simp add: target_key_def name)
  qed (simp_all add: x)
  show "V (ext w') = (V (ext w))(target_key target \<mapsto> content_of desired)" if "r = Inr res"
    using cases
  proof cases
    case err
    with that show ?thesis by simp
  next
    case (same s)
    then show ?thesis
      using secret_store_D(4) [OF store got [unfolded same(1)]] x same_content_view
      by (auto simp: target_key_def fun_eq_iff)
  next
    case create
    then show ?thesis
      using store_writes_D(2) [OF writes(1) create(1)] that x by (simp add: target_key_def name)
  next
    case update
    then show ?thesis
      using store_writes_D(2) [OF writes(2) update(1)] that x by (simp add: target_key_def name)
  qed
qed

lemma ensureNamespace_view:
  assumes "secret_store (env_Workload E) cs V" and "run_state (ensureNamespace E cs ns) w = (r, w')"
  shows "V (ext w') = V (ext w)"
  using assms(2)
  by (auto simp: ensureNamespace_def w_call_defs call_def dest!: secret_store_D(1,2) [OF assms(1)]
      split: prod.splits option.splits if_splits)

lemma sync_target_eq:
  "sync_target E cs item source name =
     write_target E cs (TargetForItem item) (wanted_for item source name)
       (hex_encode (sha256 (sync_hash_payload (sec_Type (DesiredSecret item source name)) (sec_Data (DesiredSecret item source name)))))"
  by (simp add: sync_target_def SyncHash_def wanted_for_def Let_def)

lemma sync_target_refines:
  assumes "secret_store (env_Workload E) cs V" and "run_state (sync_target E cs item source name) w = (r, w')"
  shows "k \<noteq> target_key (TargetForItem item) \<Longrightarrow> V (ext w') k = V (ext w) k"
    and "r = Inr res \<Longrightarrow> V (ext w') = spec_sync item source name (V (ext w))"
proof -
  have "om_Name (sec_Meta (wanted_for item source name)) = tg_Name (TargetForItem item)"
    by (simp add: wanted_for_def DesiredSecret_def Let_def)
  note step = write_target_refines [OF assms(1) this assms(2) [unfolded sync_target_eq]]
  show "k \<noteq> target_key (TargetForItem item) \<Longrightarrow> V (ext w') k = V (ext w) k" by (rule step(1))
  show "r = Inr res \<Longrightarrow> V (ext w') = spec_sync item source name (V (ext w))"
    unfolding spec_sync_def by (rule step(2))
qed

text \<open>The whole operations.\<close>

lemma Client_Sync_refines:
  assumes "secret_store (env_Workload E) cs V" and "clientset E kc = Inr cs"
    and "run_state (Client_Sync E item source kc name) w = (r, w')"
  shows "case r of
      Inr res \<Rightarrow> V (ext w') = spec_sync item source name (V (ext w))
    | Inl e \<Rightarrow> (\<forall>k. k \<noteq> target_key (TargetForItem item) \<longrightarrow> V (ext w') k = V (ext w) k)"
proof (cases "sss_CreateNamespace (ss_Spec item)")
  case True
  obtain err w1 where ns: "run_state (ensureNamespace E cs (tg_Namespace (TargetForItem item))) w = (err, w1)" by fastforce
  have "V (ext w1) = V (ext w)" by (rule ensureNamespace_view [OF assms(1) ns])
  then show ?thesis
    using assms(3) ns True sync_target_refines [OF assms(1), of item source name w1 r w']
    by (cases err) (auto simp: Client_Sync_def assms(2) split: sum.splits)
next
  case False
  then show ?thesis
    using assms(3) sync_target_refines [OF assms(1), of item source name w r w']
    by (auto simp: Client_Sync_def assms(2) split: sum.splits)
qed

lemma Client_Delete_refines:
  assumes store: "secret_store (env_Workload E) cs V" and cs: "clientset E kc = Inr cs"
    and run: "run_state (Client_Delete E item kc target) w = (r, w')"
  shows "case r of
      None \<Rightarrow> V (ext w') = spec_delete item target (V (ext w))
    | Some e \<Rightarrow> (\<forall>k. k \<noteq> target_key target \<longrightarrow> V (ext w') k = V (ext w) k)"
proof -
  let ?W = "env_Workload E" and ?ns = "tg_Namespace target" and ?n = "tg_Name target"
  obtain got x where got: "wl_GetSecret ?W cs ?ns ?n (ext w) = (got, x)" by fastforce
  have x: "V x = V (ext w)" by (rule secret_store_D(3) [OF store got])
  show ?thesis
  proof (cases got)
    case (Inl e)
    then show ?thesis
      using run got x secret_store_D(5) [OF store got [unfolded Inl]]
      by (auto simp: Client_Delete_def cs w_call_defs call_def spec_delete_def target_key_def)
  next
    case (Inr s)
    have found: "V (ext w) (target_key target) = Some (content_of s)"
      using secret_store_D(4) [OF store got [unfolded Inr]] by (simp add: target_key_def)
    show ?thesis
    proof (cases "SyncIsOwnedSecret item (Some s)")
      case False
      then show ?thesis
        using run got x Inr found
        by (auto simp: Client_Delete_def cs w_call_defs call_def spec_delete_def content_owned_iff)
    next
      case True
      obtain d x' where del: "wl_DeleteSecret ?W cs ?ns ?n x = (d, x')" by fastforce
      have others: "V x' k = V (ext w) k" if "k \<noteq> target_key target" for k
        using secret_store_D(6) [OF store del, of k] that x by (simp add: target_key_def)
      have gone: "V x' (target_key target) = None" if "case d of None \<Rightarrow> True | Some e \<Rightarrow> IsNotFound e"
        using that del secret_store_D(7,8) [OF store] by (auto simp: target_key_def split: option.splits)
      have w': "ext w' = x'" "r = None \<longleftrightarrow> (case d of None \<Rightarrow> True | Some e \<Rightarrow> IsNotFound e)"
        using run got del Inr True
        by (auto simp: Client_Delete_def cs w_call_defs call_def split: option.splits if_splits)
      show ?thesis
      proof (cases r)
        case None
        then have "V x' = (V (ext w))(target_key target := None)"
          using w' gone others by (auto simp: fun_eq_iff)
        with None w' True found show ?thesis by (simp add: spec_delete_def content_owned_iff)
      next
        case (Some e)
        with w' others show ?thesis by simp
      qed
    qed
  qed
qed

text \<open>
  Claim C16.  The secret sync client refines its specification on every workload cluster that stores
  Secrets: a successful sync sets the target to the wanted content and a successful deletion
  removes the Secret exactly when it carries the item's mark, both leaving every other Secret as it
  was; and an operation that fails, at whatever request, touches no Secret but its target.
\<close>

theorem sync_client_refines_spec:
  assumes "secret_store (env_Workload E) cs V" and "clientset E kubeconfig = Inr cs"
  shows "(case run_state (Client_Sync E item source kubeconfig clusterName) w of
      (Inr res, w') \<Rightarrow> V (ext w') = spec_sync item source clusterName (V (ext w))
    | (Inl e, w') \<Rightarrow> (\<forall>k. k \<noteq> target_key (TargetForItem item) \<longrightarrow> V (ext w') k = V (ext w) k))
   \<and> (case run_state (Client_Delete E item kubeconfig target) w of
      (None, w') \<Rightarrow> V (ext w') = spec_delete item target (V (ext w))
    | (Some e, w') \<Rightarrow> (\<forall>k. k \<noteq> target_key target \<longrightarrow> V (ext w') k = V (ext w) k))"
  using Client_Sync_refines [OF assms, of item source clusterName w]
    Client_Delete_refines [OF assms, of item target w]
  by (auto split: prod.splits sum.splits option.splits)

end
