(* ===== verification/Helm_Client.thy ===== *)
theory Helm_Client
  imports Operator_Env
begin

text \<open>
  The Helm client of the operator (\<^verbatim>\<open>internal/helmrelease/client.go\<close>, \<^verbatim>\<open>restclient_getter.go\<close> and
  \<^verbatim>\<open>internal/helmchart/renderer.go\<close>): it prepares Helm's settings, finds the chart in a working
  directory of its own, and installs, upgrades or uninstalls the release.  Helm's SDK and the
  operating system are parameters; their calls are events.

  \<^verbatim>\<open>CacheDir\<close> is the field of the Go structs \<^verbatim>\<open>Client\<close> and \<^verbatim>\<open>Renderer\<close>.  A deferred call is made on
  every way out of the code below it, in the reverse order of the \<^verbatim>\<open>defer\<close> statements.
\<close>

section \<open>REST client getter\<close>

definition newRESTClientGetter :: "'x clientcmd \<Rightarrow> string \<Rightarrow> goerror + restClientGetter" where
  "newRESTClientGetter cc kubeconfig =
     (case cc_NewClientConfigFromBytes cc kubeconfig of
        Inl err \<Rightarrow> Inl (WrapError (''load workload kubeconfig: '' @ Error err) err)
      | Inr config \<Rightarrow> Inr \<lparr>rg_config = config\<rparr>)"

definition ToRESTConfig :: "'x clientcmd \<Rightarrow> restClientGetter \<Rightarrow> goerror + nat" where
  "ToRESTConfig cc g =
     (case cc_ClientConfig cc (rg_config g) of
        Inl err \<Rightarrow> Inl (WrapError (''build workload REST config: '' @ Error err) err)
      | Inr config \<Rightarrow> Inr (cc_AddUserAgent cc config ''omni-cluster-operator-helm-release''))"

definition ToDiscoveryClient :: "'x clientcmd \<Rightarrow> restClientGetter \<Rightarrow> goerror + nat" where
  "ToDiscoveryClient cc g =
     (case ToRESTConfig cc g of
        Inl err \<Rightarrow> Inl err
      | Inr config \<Rightarrow>
          (case cc_NewDiscoveryClientForConfig cc config of
             Inl err \<Rightarrow> Inl (WrapError (''create workload discovery client: '' @ Error err) err)
           | Inr client \<Rightarrow> Inr (cc_NewMemCacheClient cc client)))"

definition ToRESTMapper :: "'x clientcmd \<Rightarrow> restClientGetter \<Rightarrow> goerror + nat" where
  "ToRESTMapper cc g =
     (case ToDiscoveryClient cc g of
        Inl err \<Rightarrow> Inl err
      | Inr client \<Rightarrow> Inr (cc_NewDeferredDiscoveryRESTMapper cc client))"

definition ToRawKubeConfigLoader :: "restClientGetter \<Rightarrow> nat" where
  "ToRawKubeConfigLoader g = rg_config g"

section \<open>Settings\<close>

definition os_mkdir_all :: "'x env \<Rightarrow> string \<Rightarrow> ('x, goerror option) action" where
  "os_mkdir_all E p = call (os_MkdirAll (env_Os E) p) (\<lambda>r. EvProcess (PMkdirAll p r))"

definition os_chdir :: "'x env \<Rightarrow> string \<Rightarrow> ('x, goerror option) action" where
  "os_chdir E p = call (os_Chdir (env_Os E) p) (\<lambda>r. EvProcess (PChdir p r))"

definition cache_error :: "klib \<Rightarrow> string \<Rightarrow> string \<Rightarrow> goerror \<Rightarrow> goerror" where
  "cache_error L what cacheDir err =
     WrapError (''create Helm '' @ what @ '' directory '' @ Quote (lib_IsPrint L) cacheDir @ '': '' @ Error err) err"

definition helm_settings :: "'x env \<Rightarrow> string \<Rightarrow> ('x, goerror + EnvSettings) action" where
  "helm_settings E cacheDir =
     (let cacheHome = path_Join [cacheDir, ''cache'']; configHome = path_Join [cacheDir, ''config''] in do {
      err1 \<leftarrow> os_mkdir_all E (path_Join [cacheHome, ''content'']);
      (case err1 of
         Some e \<Rightarrow> State_Monad.return (Inl (cache_error (env_Lib E) ''cache'' cacheDir e))
       | None \<Rightarrow> do {
           err2 \<leftarrow> os_mkdir_all E (path_Join [cacheHome, ''repository'']);
           (case err2 of
              Some e \<Rightarrow> State_Monad.return (Inl (cache_error (env_Lib E) ''repository cache'' cacheDir e))
            | None \<Rightarrow> do {
                err3 \<leftarrow> os_mkdir_all E (path_Join [configHome, ''registry'']);
                (case err3 of
                   Some e \<Rightarrow> State_Monad.return (Inl (cache_error (env_Lib E) ''config'' cacheDir e))
                 | None \<Rightarrow> do {
                     settings \<leftarrow> observe (hs_cli_New (env_HelmSdk E));
                     State_Monad.return (Inr (settings
                       \<lparr>es_RepositoryCache := path_Join [cacheHome, ''repository''],
                        es_ContentCache := path_Join [cacheHome, ''content''],
                        es_RepositoryConfig := path_Join [configHome, ''repositories.yaml''],
                        es_RegistryConfig := path_Join [configHome, ''registry'', ''config.json'']\<rparr>)) }) }) }) })"

definition Settings :: "'x env \<Rightarrow> string \<Rightarrow> ('x, goerror + EnvSettings) action" where
  "Settings E CacheDir =
     (if CacheDir = [] then do {
        tmp \<leftarrow> observe (os_TempDir (env_Os E));
        helm_settings E (path_Join [tmp, ''omni-cluster-operator'', ''helm'']) }
      else helm_settings E CacheDir)"

definition actionConfig ::
  "'x env \<Rightarrow> string \<Rightarrow> OmniHelmRelease \<Rightarrow> string \<Rightarrow> ('x, goerror + HelmConfiguration \<times> EnvSettings) action" where
  "actionConfig E CacheDir item kubeconfig =
     (case newRESTClientGetter (env_Clientcmd E) kubeconfig of
        Inl err \<Rightarrow> State_Monad.return (Inl err)
      | Inr getter \<Rightarrow> do {
          settingsOr \<leftarrow> Settings E CacheDir;
          (case settingsOr of
             Inl err \<Rightarrow> State_Monad.return (Inl err)
           | Inr settings \<Rightarrow> do {
               initialised \<leftarrow> observe (hs_Init (env_HelmSdk E) getter (ReleaseNamespace item) ''secrets'');
               (case initialised of
                  Inl err \<Rightarrow> State_Monad.return (Inl (WrapError (''initialize Helm action configuration: '' @ Error err) err))
                | Inr cfg \<Rightarrow> do {
                    registry \<leftarrow> observe (hs_NewRegistryClient (env_HelmSdk E) (es_Debug settings) (es_RegistryConfig settings));
                    State_Monad.return (case registry of
                        Inl err \<Rightarrow> Inl (WrapError (''initialize Helm registry client: '' @ Error err) err)
                      | Inr registryClient \<Rightarrow> Inr (\<lparr>hc_Handle = cfg, hc_RegistryClient = registryClient\<rparr>, settings)) }) }) })"

section \<open>Finding the chart\<close>

definition in_directory ::
  "'x env \<Rightarrow> string \<Rightarrow> string \<Rightarrow> ('x, goerror + 'a) action \<Rightarrow> ('x, goerror + 'a) action" where
  "in_directory E parent dir fn = do {
     got \<leftarrow> call (os_Getwd (env_Os E)) (\<lambda>r. EvProcess (PGetwd r));
     (case got of
        Inl err \<Rightarrow> State_Monad.return (Inl (WrapError (''read current working directory: '' @ Error err) err))
      | Inr wd \<Rightarrow> do {
          switched \<leftarrow> os_chdir E dir;
          (case switched of
             Some err \<Rightarrow> State_Monad.return (Inl (WrapError
               (''switch to isolated working directory '' @ Quote (lib_IsPrint (env_Lib E)) dir @ '': '' @ Error err) err))
           | None \<Rightarrow> do {
               r \<leftarrow> fn;
               _ \<leftarrow> os_chdir E wd;
               State_Monad.return (case r of
                   Inr a \<Rightarrow> Inr a
                 | Inl err \<Rightarrow>
                     (let relDir = (case path_Rel parent dir of Some rel \<Rightarrow> rel | None \<Rightarrow> dir) in
                      Inl (WrapError (''run action in isolated working directory ''
                        @ Quote (lib_IsPrint (env_Lib E)) relDir @ '': '' @ Error err) err))) }) }) }"

definition isolated_below ::
  "'x env \<Rightarrow> string \<Rightarrow> ('x, goerror + 'a) action \<Rightarrow> ('x, goerror + 'a) action" where
  "isolated_below E parent fn = do {
     made \<leftarrow> call (os_MkdirTemp (env_Os E) parent ''helm-oci-cwd-*'')
       (\<lambda>r. EvProcess (PMkdirTemp parent ''helm-oci-cwd-*'' r));
     (case made of
        Inl err \<Rightarrow> State_Monad.return (Inl (WrapError (''create isolated working directory: '' @ Error err) err))
      | Inr dir \<Rightarrow> do {
          r \<leftarrow> in_directory E parent dir fn;
          _ \<leftarrow> call (os_RemoveAll (env_Os E) dir) (\<lambda>r. EvProcess (PRemoveAll dir r));
          State_Monad.return r }) }"

definition withIsolatedWorkingDirectory ::
  "'x env \<Rightarrow> string \<Rightarrow> ('x, goerror + 'a) action \<Rightarrow> ('x, goerror + 'a) action" where
  "withIsolatedWorkingDirectory E cacheDir fn = do {
     parent \<leftarrow> (if cacheDir = [] then observe (os_TempDir (env_Os E)) else State_Monad.return cacheDir);
     isolated_below E parent fn }"

definition chart_options :: "OmniHelmRelease \<Rightarrow> ChartOptions" where
  "chart_options item =
     \<lparr>co_RepoURL = snd (ChartLocator item), co_Version = hcs_Version (hrs_Chart (hr_Spec item)),
      co_ReleaseName = ReleaseName item, co_Namespace = ReleaseNamespace item\<rparr>"

definition loadChart ::
  "'x env \<Rightarrow> string \<Rightarrow> OmniHelmRelease \<Rightarrow> HelmConfiguration \<Rightarrow> EnvSettings \<Rightarrow> ('x, goerror + nat) action" where
  "loadChart E CacheDir item cfg settings =
     (let chartRef = fst (ChartLocator item); repoURL = snd (ChartLocator item);
          version = hcs_Version (hrs_Chart (hr_Spec item)); opts = chart_options item in do {
      _ \<leftarrow> remark (EvProcess PLock);
      located \<leftarrow> withIsolatedWorkingDirectory E CacheDir
        (call (hs_LocateChart (env_HelmSdk E) cfg opts chartRef settings)
           (\<lambda>r. EvHelm (HLocateChart opts chartRef settings r)));
      _ \<leftarrow> remark (EvProcess PUnlock);
      (case located of
         Inl err \<Rightarrow> State_Monad.return (Inl (WrapError
           (''locate Helm chart '' @ chartRef @ '' '' @ version
            @ (if repoURL = [] then [] else '' from '' @ repoURL) @ '': '' @ Error err) err))
       | Inr chartPath \<Rightarrow> do {
           ctxErr \<leftarrow> observe (os_CtxErr (env_Os E));
           (case ctxErr of
              Some err \<Rightarrow> State_Monad.return (Inl err)
            | None \<Rightarrow> do {
                loaded \<leftarrow> call (hs_Load (env_HelmSdk E) chartPath) (\<lambda>r. EvHelm (HLoad chartPath r));
                State_Monad.return (case loaded of
                    Inl err \<Rightarrow> Inl (WrapError (''load Helm chart '' @ Quote (lib_IsPrint (env_Lib E)) chartPath
                                              @ '': '' @ Error err) err)
                  | Inr chart \<Rightarrow> Inr chart) }) }) })"

section \<open>Actions\<close>

definition waitStrategy :: "OmniHelmRelease \<Rightarrow> WaitStrategy" where
  "waitStrategy item = (if hrs_Wait (hr_Spec item) then StatusWatcherStrategy else HookOnlyStrategy)"

definition resultFromRelease :: "string \<Rightarrow> OmniHelmRelease \<Rightarrow> Release option \<Rightarrow> HelmResult" where
  "resultFromRelease actionName item release =
     (let result = \<lparr>he_Action = actionName, he_ReleaseName = ReleaseName item, he_Namespace = ReleaseNamespace item,
                    he_Chart = hcs_Chart (hrs_Chart (hr_Spec item)),
                    he_ChartVersion = hcs_Version (hrs_Chart (hr_Spec item)), he_Revision = 0,
                    he_Status = StatusUnknown\<rparr> in
      case release of
        None \<Rightarrow> result
      | Some (Inl err) \<Rightarrow> result
      | Some (Inr accessor) \<Rightarrow>
          result\<lparr>he_ReleaseName := ri_Name accessor, he_Namespace := ri_Namespace accessor,
                 he_Revision := ri_Version accessor, he_Status := ri_Status accessor\<rparr>)"

definition install_options :: "OmniHelmRelease \<Rightarrow> InstallOptions" where
  "install_options item =
     \<lparr>io_ReleaseName = ReleaseName item, io_Namespace = ReleaseNamespace item,
      io_CreateNamespace = hrs_CreateNamespace (hr_Spec item), io_DisableHooks = hrs_DisableHooks (hr_Spec item),
      io_SkipCRDs = hrs_SkipCRDs (hr_Spec item), io_WaitStrategy = waitStrategy item,
      io_WaitForJobs = hrs_WaitForJobs (hr_Spec item), io_Timeout = Timeout item,
      io_RollbackOnFailure = hrs_Atomic (hr_Spec item)\<rparr>"

definition upgrade_options :: "OmniHelmRelease \<Rightarrow> UpgradeOptions" where
  "upgrade_options item =
     \<lparr>uo_Namespace = ReleaseNamespace item, uo_DisableHooks = hrs_DisableHooks (hr_Spec item),
      uo_SkipCRDs = hrs_SkipCRDs (hr_Spec item), uo_WaitStrategy = waitStrategy item,
      uo_WaitForJobs = hrs_WaitForJobs (hr_Spec item), uo_Timeout = Timeout item,
      uo_RollbackOnFailure = hrs_Atomic (hr_Spec item), uo_CleanupOnFail = hrs_Atomic (hr_Spec item),
      uo_MaxHistory = hrs_MaxHistory (hr_Spec item)\<rparr>"

definition uninstall_options :: "OmniHelmRelease \<Rightarrow> UninstallOptions" where
  "uninstall_options item =
     \<lparr>no_DisableHooks = hrs_DisableHooks (hr_Spec item), no_IgnoreNotFound = True, no_Timeout = Timeout item,
      no_WaitStrategy = waitStrategy item\<rparr>"

definition helm_install ::
  "'x env \<Rightarrow> OmniHelmRelease \<Rightarrow> HelmConfiguration \<Rightarrow> nat \<Rightarrow> helm_values \<Rightarrow> ('x, HelmResult option \<times> goerror option) action" where
  "helm_install E item cfg chart values = do {
     (release, err) \<leftarrow> call (hs_Install (env_HelmSdk E) cfg (install_options item) chart values)
       (\<lambda>r. EvHelm (HInstall cfg (install_options item) chart values r));
     State_Monad.return (Some (resultFromRelease ActionInstall item release), err) }"

definition helm_upgrade ::
  "'x env \<Rightarrow> OmniHelmRelease \<Rightarrow> HelmConfiguration \<Rightarrow> nat \<Rightarrow> helm_values \<Rightarrow> ('x, HelmResult option \<times> goerror option) action" where
  "helm_upgrade E item cfg chart values = do {
     (release, err) \<leftarrow> call (hs_Upgrade (env_HelmSdk E) cfg (upgrade_options item) (ReleaseName item) chart values)
       (\<lambda>r. EvHelm (HUpgrade cfg (upgrade_options item) (ReleaseName item) chart values r));
     State_Monad.return (Some (resultFromRelease ActionUpgrade item release), err) }"

text \<open>The error \<open>driver.ErrReleaseNotFound\<close> of Helm.\<close>

definition ErrReleaseNotFound :: string where
  "ErrReleaseNotFound = ''release: not found''"

definition HelmClient_Reconcile ::
  "'x env \<Rightarrow> string \<Rightarrow> OmniHelmRelease \<Rightarrow> string \<Rightarrow> ('x, HelmResult option \<times> goerror option) action" where
  "HelmClient_Reconcile E CacheDir item kubeconfig =
     (case Values (env_Tmpl E) item of
        Inl err \<Rightarrow> State_Monad.return (None, Some err)
      | Inr values \<Rightarrow> do {
          configured \<leftarrow> actionConfig E CacheDir item kubeconfig;
          (case configured of
             Inl err \<Rightarrow> State_Monad.return (None, Some err)
           | Inr (cfg, settings) \<Rightarrow> do {
               chartOr \<leftarrow> loadChart E CacheDir item cfg settings;
               (case chartOr of
                  Inl err \<Rightarrow> State_Monad.return (None, Some err)
                | Inr chart \<Rightarrow> do {
                    last \<leftarrow> call (hs_Last (env_HelmSdk E) cfg (ReleaseName item))
                      (\<lambda>r. EvHelm (HLast cfg (ReleaseName item) r));
                    (case last of
                       None \<Rightarrow> helm_upgrade E item cfg chart values
                     | Some err \<Rightarrow>
                         if errors_Is err ErrReleaseNotFound then helm_install E item cfg chart values
                         else State_Monad.return (None, Some (WrapError (''read Helm release history for ''
                           @ Quote (lib_IsPrint (env_Lib E)) (ReleaseName item) @ '': '' @ Error err) err))) }) }) })"

definition HelmClient_Uninstall ::
  "'x env \<Rightarrow> string \<Rightarrow> OmniHelmRelease \<Rightarrow> string \<Rightarrow> ('x, HelmResult option \<times> goerror option) action" where
  "HelmClient_Uninstall E CacheDir item kubeconfig = do {
     configured \<leftarrow> actionConfig E CacheDir item kubeconfig;
     (case configured of
        Inl err \<Rightarrow> State_Monad.return (None, Some err)
      | Inr (cfg, settings) \<Rightarrow> do {
          (response, err) \<leftarrow> call (hs_Uninstall (env_HelmSdk E) cfg (uninstall_options item) (ReleaseName item))
            (\<lambda>r. EvHelm (HUninstall cfg (uninstall_options item) (ReleaseName item) r));
          (let result = \<lparr>he_Action = ActionUninstall, he_ReleaseName = ReleaseName item,
                 he_Namespace = ReleaseNamespace item, he_Chart = hcs_Chart (hrs_Chart (hr_Spec item)),
                 he_ChartVersion = hcs_Version (hrs_Chart (hr_Spec item)), he_Revision = 0,
                 he_Status = StatusUninstalled\<rparr> in
           State_Monad.return (case response of
               None \<Rightarrow> (Some result, err)
             | Some (Inl accessorErr) \<Rightarrow>
                 (Some result, Some (WrapError (''read uninstalled Helm release: '' @ Error accessorErr) accessorErr))
             | Some (Inr accessor) \<Rightarrow>
                 (Some (result\<lparr>he_Revision := ri_Version accessor, he_Status := ri_Status accessor\<rparr>), err))) }) }"

end
