(* ===== verification/Helm_Controller.thy ===== *)
theory Helm_Controller
  imports Helm_Client Child_Controllers Watches Finalizers
begin

text \<open>
  The OmniHelmRelease controller (\<^verbatim>\<open>internal/controller/omnihelmrelease_controller.go\<close>): it installs
  or upgrades a Helm release in a workload cluster with the kubeconfig of a Secret, and uninstalls
  it before it lets the item go.

  As in the other controllers, a helper that ends the run returns \<^const>\<open>Inl\<close> of the pair to return.
\<close>

definition helmReleaseRetryInterval :: Duration where
  "helmReleaseRetryInterval = Minute"

section \<open>The client\<close>

text \<open>
  The client of the reconciler, or the one of \<^verbatim>\<open>internal/helmrelease\<close>, with its zero \<^verbatim>\<open>CacheDir\<close>,
  when there is none.
\<close>

definition helm_Reconcile ::
  "'x env \<Rightarrow> OmniHelmRelease \<Rightarrow> string \<Rightarrow> ('x, HelmResult option \<times> goerror option) action" where
  "helm_Reconcile E item kubeconfig =
     (case env_Helm E of
        Some c \<Rightarrow> call (hl_Reconcile c item kubeconfig) (EvHelmReconcile item kubeconfig)
      | None \<Rightarrow> do {
          r \<leftarrow> HelmClient_Reconcile E [] item kubeconfig;
          _ \<leftarrow> remark (EvHelmReconcile item kubeconfig r);
          State_Monad.return r })"

definition helm_Uninstall ::
  "'x env \<Rightarrow> OmniHelmRelease \<Rightarrow> string \<Rightarrow> ('x, HelmResult option \<times> goerror option) action" where
  "helm_Uninstall E item kubeconfig =
     (case env_Helm E of
        Some c \<Rightarrow> call (hl_Uninstall c item kubeconfig) (EvHelmUninstall item kubeconfig)
      | None \<Rightarrow> do {
          r \<leftarrow> HelmClient_Uninstall E [] item kubeconfig;
          _ \<leftarrow> remark (EvHelmUninstall item kubeconfig r);
          State_Monad.return r })"

section \<open>Validation of the spec\<close>

definition helmReleaseSpecError :: "tmpl_lib \<Rightarrow> OmniHelmRelease \<Rightarrow> goerror option" where
  "helmReleaseSpecError T item =
     (let spec = hr_Spec item; kref = hrs_KubeconfigSecretRef spec; chart = hrs_Chart spec in
      if TrimSpace (lor_Name (hrs_ClusterRef spec)) = [] then Some (ErrorString ''clusterRef.name is required'')
      else if TrimSpace (hkr_Name kref) = [] then Some (ErrorString ''kubeconfigSecretRef.name is required'')
      else if hkr_Key kref \<noteq> [] \<and> TrimSpace (hkr_Key kref) = []
      then Some (ErrorString ''kubeconfigSecretRef.key must not be blank'')
      else if TrimSpace (ReleaseName item) = [] then Some (ErrorString ''releaseName is required'')
      else if TrimSpace (ReleaseNamespace item) = [] then Some (ErrorString ''namespace is required'')
      else if TrimSpace (hcs_Repository chart) = [] then Some (ErrorString ''chart.repository is required'')
      else if TrimSpace (hcs_Chart chart) = [] then Some (ErrorString ''chart.chart is required'')
      else if TrimSpace (hcs_Version chart) = [] then Some (ErrorString ''chart.version is required'')
      else if (case hrs_Timeout spec of None \<Rightarrow> False | Some d \<Rightarrow> d \<le> 0)
      then Some (ErrorString ''timeout must be greater than zero'')
      else if hrs_MaxHistory spec < 0 then Some (ErrorString ''maxHistory must not be negative'')
      else if DeletionPolicy item \<noteq> HelmReleaseDeletionPolicyUninstall
              \<and> DeletionPolicy item \<noteq> HelmReleaseDeletionPolicyOrphan
      then Some (ErrorString ''deletionPolicy must be Uninstall or Orphan'')
      else (case Values T item of Inl err \<Rightarrow> Some err | Inr _ \<Rightarrow> None))"

section \<open>Status\<close>

record helmReleaseStatusUpdate =
  hu_acceptedKnown :: bool
  hu_clusterExists :: bool
  hu_result :: "HelmResult option"
  hu_err :: "goerror option"
  hu_reason :: string
  hu_message :: string

definition helmReleaseConditionReasonMessage ::
  "klib \<Rightarrow> OmniHelmRelease \<Rightarrow> helmReleaseStatusUpdate \<Rightarrow> string \<times> string" where
  "helmReleaseConditionReasonMessage L item input =
     (let q = Quote (lib_IsPrint L) in
      if hu_reason input \<noteq> [] then (hu_reason input, hu_message input)
      else (case hu_err input of
         Some e \<Rightarrow>
           (ReasonReconcileFailed,
            (case hu_result input of
               Some res \<Rightarrow>
                 if he_Action res \<noteq> []
                 then ''Helm '' @ ToLower (lib_ToLower L) (he_Action res) @ '' failed for release '' @ q (ReleaseName item)
                      @ '': '' @ Error e
                 else Error e
             | None \<Rightarrow> Error e))
       | None \<Rightarrow>
           (case hu_result input of
              None \<Rightarrow> (ReasonReconcileFailed, ''Helm release has not been reconciled'')
            | Some res \<Rightarrow>
                if he_Action res = ActionInstall
                then (ReasonHelmInstalled, ''installed Helm release '' @ q (he_ReleaseName res) @ '' revision '' @ Itoa (he_Revision res))
                else if he_Action res = ActionUpgrade
                then (ReasonHelmUpgraded, ''upgraded Helm release '' @ q (he_ReleaseName res) @ '' to revision '' @ Itoa (he_Revision res))
                else if he_Action res = ActionUninstall
                then (ReasonHelmUninstalled, ''uninstalled Helm release '' @ q (he_ReleaseName res))
                else (ReasonReconcileFailed, ''reconciled Helm release '' @ q (he_ReleaseName res)))))"

definition set_helm_condition :: "klib \<Rightarrow> Time \<Rightarrow> Condition \<Rightarrow> OmniHelmReleaseStatus \<Rightarrow> OmniHelmReleaseStatus" where
  "set_helm_condition L now c status =
     status\<lparr>hst_Common := (hst_Common status)\<lparr>csf_Conditions :=
        SetCondition L now (csf_Conditions (hst_Common status)) c\<rparr>\<rparr>"

definition helm_status_fields ::
  "helmReleaseStatusUpdate \<Rightarrow> Time \<Rightarrow> OmniHelmRelease \<Rightarrow> OmniHelmReleaseStatus" where
  "helm_status_fields input now latest =
     (let s = hr_Status latest; spec = hr_Spec latest;
          s1 = s\<lparr>hst_Common := (hst_Common s)\<lparr>csf_ObservedGeneration := om_Generation (hr_Meta latest)\<rparr>,
            hst_ClusterRef := lor_Name (hrs_ClusterRef spec),
            hst_KubeconfigSecretRef := hkr_Name (hrs_KubeconfigSecretRef spec),
            hst_KubeconfigSecretKey := HelmKubeconfigSecretKey latest,
            hst_ReleaseName := ReleaseName latest,
            hst_Namespace := ReleaseNamespace latest,
            hst_Chart := hcs_Chart (hrs_Chart spec),
            hst_ChartVersion := hcs_Version (hrs_Chart spec)\<rparr>;
          s2 = (case hu_result input of
              None \<Rightarrow> s1
            | Some res \<Rightarrow> s1\<lparr>hst_LastAction := he_Action res, hst_ReleaseName := he_ReleaseName res,
                hst_Namespace := he_Namespace res, hst_Chart := he_Chart res, hst_ChartVersion := he_ChartVersion res,
                hst_ReleaseRevision := he_Revision res, hst_ReleaseStatus := he_Status res\<rparr>);
          s3 = (if hu_result input \<noteq> None \<or> hu_err input \<noteq> None \<or> hu_reason input \<noteq> []
                then s2\<lparr>hst_LastAttemptTime := Some now\<rparr> else s2)
      in if hu_err input = None \<and> hu_result input \<noteq> None
         then s3\<lparr>hst_LastSuccessTime := Some now, hst_LastError := []\<rparr>
         else (case hu_err input of
                 Some e \<Rightarrow> s3\<lparr>hst_LastError := Error e\<rparr>
               | None \<Rightarrow> if hu_message input \<noteq> [] then s3\<lparr>hst_LastError := hu_message input\<rparr> else s3))"

definition helm_ready :: "helmReleaseStatusUpdate \<Rightarrow> ConditionStatus" where
  "helm_ready input =
     (case (hu_err input, hu_result input) of
        (None, Some res) \<Rightarrow>
          if he_Action res = ActionUninstall then ConditionFalse
          else if he_Status res = StatusDeployed then ConditionTrue else ConditionFalse
      | _ \<Rightarrow> ConditionFalse)"

definition helm_status ::
  "klib \<Rightarrow> helmReleaseStatusUpdate \<Rightarrow> Time \<Rightarrow> OmniHelmRelease \<Rightarrow> OmniHelmRelease" where
  "helm_status L input now latest =
     (let g = om_Generation (hr_Meta latest);
          s1 = helm_status_fields input now latest;
          s2 = (if hu_acceptedKnown input
                then set_helm_condition L now
                  (acceptedCondition L g (lor_Name (hrs_ClusterRef (hr_Spec latest))) (hu_clusterExists input)) s1
                else s1);
          (reason, message) = helmReleaseConditionReasonMessage L (latest\<lparr>hr_Status := s2\<rparr>) input
      in latest\<lparr>hr_Status :=
           set_helm_condition L now (NewCondition ConditionReady (helm_ready input) g reason message)
             (set_helm_condition L now (NewCondition ConditionReleased (helm_ready input) g reason message) s2)\<rparr>)"

definition updateHelmReleaseStatus ::
  "'x env \<Rightarrow> OmniHelmRelease \<Rightarrow> helmReleaseStatusUpdate \<Rightarrow> ('x, goerror option) action" where
  "updateHelmReleaseStatus E item input =
     write_status E (env_HelmReleases E) KHelmRelease ObjHelmRelease True
       (helm_status (env_Lib E) input) (ObjectKeyFromMeta (hr_Meta item))"

text \<open>The updates for a failure before Helm is called and for the outcome of a call.\<close>

definition helm_failure :: "bool \<Rightarrow> bool \<Rightarrow> string \<Rightarrow> goerror option \<Rightarrow> string \<Rightarrow> helmReleaseStatusUpdate" where
  "helm_failure known exists reason err message =
     \<lparr>hu_acceptedKnown = known, hu_clusterExists = exists, hu_result = None, hu_err = err,
      hu_reason = reason, hu_message = message\<rparr>"

definition helm_outcome :: "HelmResult option \<times> goerror option \<Rightarrow> helmReleaseStatusUpdate" where
  "helm_outcome r =
     \<lparr>hu_acceptedKnown = True, hu_clusterExists = True, hu_result = fst r, hu_err = snd r,
      hu_reason = [], hu_message = []\<rparr>"

section \<open>Handlers\<close>

definition HelmRelease_ensureFinalizer :: "'x env \<Rightarrow> OmniHelmRelease \<Rightarrow> ('x, early + unit) action" where
  "HelmRelease_ensureFinalizer E item =
     (if lib_ContainsFinalizer (env_Lib E) (om_Finalizers (hr_Meta item)) Finalizer
      then State_Monad.return (Inr ())
      else do {
        err \<leftarrow> k_update (env_HelmReleases E) ObjHelmRelease
          (item\<lparr>hr_Meta := add_finalizer (env_Lib E) (hr_Meta item)\<rparr>);
        State_Monad.return (case err of Some e \<Rightarrow> Inl (no_requeue, Some e) | None \<Rightarrow> Inl (requeue_now, None)) })"

definition helm_release_attempt :: "'x env \<Rightarrow> NamespacedName \<Rightarrow> ('x, goerror option) action" where
  "helm_release_attempt E key = do {
     got \<leftarrow> k_get (env_HelmReleases E) KHelmRelease key;
     (case got of
        Inl err \<Rightarrow> State_Monad.return (if IsNotFound err then None else Some err)
      | Inr latest \<Rightarrow>
          k_update (env_HelmReleases E) ObjHelmRelease
            (latest\<lparr>hr_Meta := strip_finalizer (env_Lib E) (hr_Meta latest)\<rparr>)) }"

definition HelmRelease_removeFinalizer :: "'x env \<Rightarrow> OmniHelmRelease \<Rightarrow> ('x, goerror option) action" where
  "HelmRelease_removeFinalizer E item =
     env_Retry E (helm_release_attempt E (ObjectKeyFromMeta (hr_Meta item)))"

interpretation helm_claim: claimed_kind HelmRelease_ensureFinalizer env_HelmReleases ObjHelmRelease hr_Meta
  "\<lambda>m. hr_Meta_update (\<lambda>_. m)"
  by unfold_locales (simp_all add: HelmRelease_ensureFinalizer_def)

interpretation helm_release: released_kind HelmRelease_removeFinalizer helm_release_attempt env_HelmReleases
  KHelmRelease ObjHelmRelease hr_Meta "\<lambda>L x. x\<lparr>hr_Meta := strip_finalizer L (hr_Meta x)\<rparr>"
  by unfold_locales (simp_all add: HelmRelease_removeFinalizer_def helm_release_attempt_def)

definition helm_wait :: "'x env \<Rightarrow> OmniHelmRelease \<Rightarrow> helmReleaseStatusUpdate \<Rightarrow> ('x, early) action" where
  "helm_wait E item input = do {
     statusErr \<leftarrow> updateHelmReleaseStatus E item input;
     State_Monad.return (requeue_after helmReleaseRetryInterval, statusErr) }"

definition helmKubeconfig :: "'x env \<Rightarrow> OmniHelmRelease \<Rightarrow> ('x, early + string) action" where
  "helmKubeconfig E item =
     (let key = \<lparr>nn_Namespace = om_Namespace (hr_Meta item), nn_Name = hkr_Name (hrs_KubeconfigSecretRef (hr_Spec item))\<rparr>;
          q = Quote (lib_IsPrint (env_Lib E)); secretKey = HelmKubeconfigSecretKey item;
          wait = (\<lambda>input. do { out \<leftarrow> helm_wait E item input; State_Monad.return (Inl out) }) in do {
      got \<leftarrow> get_secret E key;
      (case got of
         Inl err \<Rightarrow>
           if IsNotFound err then
             wait (helm_failure True True ReasonMissingSecret None
               (''kubeconfig Secret '' @ q (NamespacedName_String key) @ '' does not exist''))
           else State_Monad.return (Inl (no_requeue, Some err))
       | Inr secret \<Rightarrow>
           (let kubeconfig = data_index (sec_Data secret) secretKey in
            if kubeconfig = [] then
              (let err = ErrorString (''kubeconfig Secret '' @ q (NamespacedName_String key)
                           @ '' does not contain key '' @ q secretKey) in
               wait (helm_failure True True ReasonMissingSecret (Some err) (Error err)))
            else (case cc_Load (env_Clientcmd E) kubeconfig of
                Inl err \<Rightarrow>
                  (let loadErr = WrapError (''kubeconfig Secret '' @ q (NamespacedName_String key) @ '' key '' @ q secretKey
                         @ '' is invalid: '' @ Error err) err in
                   wait (helm_failure True True ReasonValidationFailed (Some loadErr) (Error loadErr)))
              | Inr loaded \<Rightarrow> State_Monad.return (Inr kubeconfig)))) })"

definition HelmRelease_reconcileDelete :: "'x env \<Rightarrow> OmniHelmRelease \<Rightarrow> ('x, early) action" where
  "HelmRelease_reconcileDelete E item =
     (let release = (do { err \<leftarrow> HelmRelease_removeFinalizer E item; State_Monad.return (no_requeue, err) }) in
      if \<not> lib_ContainsFinalizer (env_Lib E) (om_Finalizers (hr_Meta item)) Finalizer
      then State_Monad.return (no_requeue, None)
      else if DeletionPolicy item = HelmReleaseDeletionPolicyOrphan then release
      else do {
        kubeconfigOr \<leftarrow> helmKubeconfig E item;
        (case kubeconfigOr of
           Inl out \<Rightarrow> State_Monad.return out
         | Inr kubeconfig \<Rightarrow> do {
             r \<leftarrow> helm_Uninstall E item kubeconfig;
             statusErr \<leftarrow> updateHelmReleaseStatus E item (helm_outcome r);
             (case statusErr of
                Some e \<Rightarrow> State_Monad.return (no_requeue, Some e)
              | None \<Rightarrow>
                  (case snd r of
                     Some e \<Rightarrow> State_Monad.return (no_requeue, Some e)
                   | None \<Rightarrow> release)) }) })"

definition helm_now :: "'x env \<Rightarrow> OmniHelmRelease \<Rightarrow> string \<Rightarrow> ('x, early) action" where
  "helm_now E item kubeconfig = do {
     r \<leftarrow> helm_Reconcile E item kubeconfig;
     statusErr \<leftarrow> updateHelmReleaseStatus E item (helm_outcome r);
     State_Monad.return (case statusErr of Some e \<Rightarrow> (no_requeue, Some e) | None \<Rightarrow> (no_requeue, snd r)) }"

text \<open>What a run does with the item it has read.\<close>

definition reconcile_helm_release :: "'x env \<Rightarrow> OmniHelmRelease \<Rightarrow> ('x, early) action" where
  "reconcile_helm_release E item =
     (if \<not> Time_IsZero (om_DeletionTimestamp (hr_Meta item)) then HelmRelease_reconcileDelete E item
      else do {
        claimed \<leftarrow> HelmRelease_ensureFinalizer E item;
        (case claimed of
           Inl out \<Rightarrow> State_Monad.return out
         | Inr _ \<Rightarrow>
             (case helmReleaseSpecError (env_Tmpl E) item of
                Some err \<Rightarrow> do {
                  statusErr \<leftarrow> updateHelmReleaseStatus E item
                    (helm_failure False False ReasonValidationFailed (Some err) (Error err));
                  State_Monad.return (no_requeue, statusErr) }
              | None \<Rightarrow> do {
                  found \<leftarrow> clusterExists E (om_Namespace (hr_Meta item)) (lor_Name (hrs_ClusterRef (hr_Spec item)));
                  (case found of
                     Inl err \<Rightarrow> State_Monad.return (no_requeue, Some err)
                   | Inr exists \<Rightarrow>
                       if \<not> exists then
                         helm_wait E item (helm_failure True False ReasonMissingCluster None
                           (''OmniCluster '' @ Quote (lib_IsPrint (env_Lib E)) (lor_Name (hrs_ClusterRef (hr_Spec item)))
                            @ '' does not exist''))
                       else do {
                         kubeconfigOr \<leftarrow> helmKubeconfig E item;
                         (case kubeconfigOr of
                            Inl out \<Rightarrow> State_Monad.return out
                          | Inr kubeconfig \<Rightarrow> helm_now E item kubeconfig) }) })) })"

definition HelmRelease_Reconcile :: "'x env \<Rightarrow> NamespacedName \<Rightarrow> ('x, early) action" where
  "HelmRelease_Reconcile E req = do {
     got \<leftarrow> k_get (env_HelmReleases E) KHelmRelease req;
     (case got of
        Inl err \<Rightarrow> State_Monad.return (if IsNotFound err then (no_requeue, None) else (no_requeue, Some err))
      | Inr item \<Rightarrow> reconcile_helm_release E item) }"

section \<open>Watches\<close>

definition helmReleaseRequestsForCluster :: "'x env \<Rightarrow> ObjectMeta \<Rightarrow> ('x, NamespacedName list) action" where
  "helmReleaseRequestsForCluster E object = do {
     items \<leftarrow> k_list (env_HelmReleases E) KHelmRelease (om_Namespace object);
     State_Monad.return (case items of
         Inl err \<Rightarrow> []
       | Inr releaseList \<Rightarrow> sortRequests
           (requests_matching hr_Meta (\<lambda>x. lor_Name (hrs_ClusterRef (hr_Spec x))) (om_Name object) releaseList)) }"

definition helmReleaseRequestsForSecret :: "'x env \<Rightarrow> ObjectMeta \<Rightarrow> ('x, NamespacedName list) action" where
  "helmReleaseRequestsForSecret E object = do {
     items \<leftarrow> k_list (env_HelmReleases E) KHelmRelease (om_Namespace object);
     State_Monad.return (case items of
         Inl err \<Rightarrow> []
       | Inr releaseList \<Rightarrow> sortRequests
           (requests_matching hr_Meta (\<lambda>x. hkr_Name (hrs_KubeconfigSecretRef (hr_Spec x))) (om_Name object) releaseList)) }"

interpretation helm_cluster_requests: request_mapper helmReleaseRequestsForCluster env_HelmReleases KHelmRelease
  hr_Meta "\<lambda>x. lor_Name (hrs_ClusterRef (hr_Spec x))"
  by unfold_locales (simp add: helmReleaseRequestsForCluster_def)

interpretation helm_secret_requests: request_mapper helmReleaseRequestsForSecret env_HelmReleases KHelmRelease
  hr_Meta "\<lambda>x. hkr_Name (hrs_KubeconfigSecretRef (hr_Spec x))"
  by unfold_locales (simp add: helmReleaseRequestsForSecret_def)

end
