(* ===== verification/Helm_Client_Safety.thy ===== *)
theory Helm_Client_Safety
  imports Helm_Client
begin

text \<open>
  What the Helm client does: its directories stay below the cache directory, the chart is looked
  for in a directory of its own that is left and removed again on every path, under the lock; and
  what it asks Helm to do follows from the item and from the release's history.
\<close>

section \<open>Settings\<close>

text \<open>The directories of the settings, and those that are created for them.\<close>

definition settings_under :: "string \<Rightarrow> EnvSettings \<Rightarrow> bool" where
  "settings_under dir s \<longleftrightarrow>
     path_under dir (es_RepositoryCache s) \<and> path_under dir (es_ContentCache s)
     \<and> path_under dir (es_RepositoryConfig s) \<and> path_under dir (es_RegistryConfig s)"

fun creates_under :: "string \<Rightarrow> event \<Rightarrow> bool" where
  "creates_under dir (EvProcess (PMkdirAll p r)) = path_under dir p"
| "creates_under dir e = False"

lemma helm_names_plain:
  "plain ''cache''" "plain ''config''" "plain ''content''" "plain ''repository''" "plain ''registry''"
  "plain ''repositories.yaml''" "plain ''config.json''" "plain ''omni-cluster-operator''" "plain ''helm''"
  by (simp_all add: plain_def slash_def)

lemma helm_settings_emits:
  assumes "dir \<noteq> []"
  shows "emits (helm_settings E dir)
    (\<lambda>r t. list_all (creates_under dir) t \<and> (case r of Inl e \<Rightarrow> True | Inr s \<Rightarrow> settings_under dir s))"
proof -
  have home: "path_Join [dir, h] \<noteq> [] \<and> path_under dir (path_Join [dir, h])" if "plain h" for h
    using assms that path_Join_nonempty [of dir "[dir, h]"] by (simp add: path_under_Join)
  have under: "path_under dir (path_Join (path_Join [dir, h] # es))" if "plain h" "list_all plain es" for h es
    using home [OF that(1)] that(2) path_under_trans path_under_Join by blast
  show ?thesis
    unfolding helm_settings_def os_mkdir_all_def Let_def
    by (intro emits_rules) (auto simp: settings_under_def under helm_names_plain)
qed

text \<open>
  Helm works below its cache directory: the client creates no directory outside
  \<open>CacheDir\<close> (or the operator's directory below the temporary one when there is none), and the
  settings it gives Helm keep repositories, contents, repository list and registry credentials
  there.
\<close>

theorem helm_settings_below_cache:
  "emits (Settings E CacheDir) (\<lambda>r t. \<exists>dir tmp.
      dir = (if CacheDir = [] then path_Join [tmp, ''omni-cluster-operator'', ''helm''] else CacheDir)
      \<and> list_all (creates_under dir) t \<and> (case r of Inl e \<Rightarrow> True | Inr s \<Rightarrow> settings_under dir s))"
proof (cases "CacheDir = []")
  case True
  have "path_Join [tmp, ''omni-cluster-operator'', ''helm''] \<noteq> []" for tmp
    by (rule path_Join_nonempty [of "''helm''"]) simp_all
  then show ?thesis
    unfolding Settings_def using True
    by (auto intro!: emits_observe_bind emits_mono [OF helm_settings_emits])
next
  case False
  then show ?thesis
    unfolding Settings_def by (auto intro!: emits_mono [OF helm_settings_emits])
qed

section \<open>The working directory\<close>

text \<open>
  The events of a function run in a directory of its own.  \<open>F\<close> describes the events of the function
  itself.
\<close>

inductive isolated :: "(event list \<Rightarrow> bool) \<Rightarrow> event list \<Rightarrow> bool" for F where
  no_directory: "isolated F [EvProcess (PMkdirTemp parent pat (Inl e))]"
| no_getwd: "isolated F [EvProcess (PMkdirTemp parent pat (Inr dir)), EvProcess (PGetwd (Inl e)), EvProcess (PRemoveAll dir r)]"
| no_chdir: "isolated F [EvProcess (PMkdirTemp parent pat (Inr dir)), EvProcess (PGetwd (Inr wd)),
    EvProcess (PChdir dir (Some e)), EvProcess (PRemoveAll dir r)]"
| ran: "F u \<Longrightarrow> isolated F ([EvProcess (PMkdirTemp parent pat (Inr dir)), EvProcess (PGetwd (Inr wd)),
    EvProcess (PChdir dir None)] @ u @ [EvProcess (PChdir wd c), EvProcess (PRemoveAll dir r)])"

inductive_cases isolated_elim: "isolated F t"

lemma withIsolatedWorkingDirectory_emits:
  assumes "emits fn (\<lambda>r t. F t)"
  shows "emits (withIsolatedWorkingDirectory E cacheDir fn) (\<lambda>r t. isolated F t)"
proof -
  have inside: "emits (in_directory E parent dir fn) (\<lambda>r t.
      isolated F (EvProcess (PMkdirTemp p pat (Inr dir)) # t @ [EvProcess (PRemoveAll dir q)]))" for parent dir p pat q
    unfolding in_directory_def os_chdir_def
    by (intro emits_call_bind emits_case_sum emits_case_option emits_return emits_then [OF assms])
      (auto intro: no_getwd no_chdir ran [simplified])
  have inside_all: "emits (in_directory E parent dir fn) (\<lambda>r t.
      \<forall>q. isolated F (EvProcess (PMkdirTemp p pat (Inr dir)) # t @ [EvProcess (PRemoveAll dir q)]))" for parent dir p pat
    using inside [of parent dir p pat] unfolding emits_def by (metis same_append_eq)
  have "emits (isolated_below E parent fn) (\<lambda>r t. isolated F t)" for parent
    unfolding isolated_below_def
    by (intro emits_call_bind emits_case_sum emits_return emits_then [OF inside_all])
      (auto intro: no_directory)
  then show ?thesis
    unfolding withIsolatedWorkingDirectory_def
    by (cases "cacheDir = []") (auto intro!: emits_observe_bind)
qed

text \<open>The search for the chart, between the lock and its release, and what follows it.\<close>

definition located_chart :: "OmniHelmRelease \<Rightarrow> EnvSettings \<Rightarrow> event list \<Rightarrow> bool" where
  "located_chart item settings u \<longleftrightarrow>
     (\<exists>r. u = [EvHelm (HLocateChart (chart_options item) (fst (ChartLocator item)) settings r)])"

definition chart_loading :: "OmniHelmRelease \<Rightarrow> EnvSettings \<Rightarrow> event list \<Rightarrow> bool" where
  "chart_loading item settings t \<longleftrightarrow>
     (\<exists>u v. t = EvProcess PLock # u @ EvProcess PUnlock # v
        \<and> isolated (located_chart item settings) u \<and> (v = [] \<or> (\<exists>p r. v = [EvHelm (HLoad p r)])))"

lemma loadChart_emits:
  "emits (loadChart E CacheDir item cfg settings) (\<lambda>r t. chart_loading item settings t)"
proof -
  have locate: "emits (call (hs_LocateChart (env_HelmSdk E) cfg (chart_options item) (fst (ChartLocator item)) settings)
      (\<lambda>r. EvHelm (HLocateChart (chart_options item) (fst (ChartLocator item)) settings r)))
    (\<lambda>r t. located_chart item settings t)"
    by (rule emits_call) (auto simp: located_chart_def)
  have shape: "chart_loading item settings (EvProcess PLock # u @ EvProcess PUnlock # v)"
    if "isolated (located_chart item settings) u" "v = [] \<or> (\<exists>p r. v = [EvHelm (HLoad p r)])" for u v
    using that unfolding chart_loading_def by blast
  show ?thesis
    unfolding loadChart_def Let_def
    by (intro emits_remark_bind emits_then [OF withIsolatedWorkingDirectory_emits [OF locate]] emits_case_sum
        emits_observe_bind emits_case_option emits_call_bind emits_return)
      (auto intro: shape [of _ "[]", simplified] shape [of _ "[_]", simplified])
qed

text \<open>
  Claim C23.  A chart is looked for under the lock, in a working directory of its own: the process
  changes to the new directory only after it knows where it was, and on every way out, whether the
  search succeeds or not, it changes back there and then removes the directory, before it gives
  up the lock; nothing else happens in between.
\<close>

theorem chart_located_in_isolation:
  "emits (loadChart E CacheDir item cfg settings) (\<lambda>r t.
     \<exists>u v. t = EvProcess PLock # u @ EvProcess PUnlock # v
        \<and> isolated (located_chart item settings) u \<and> (v = [] \<or> (\<exists>p r. v = [EvHelm (HLoad p r)])))"
  using loadChart_emits unfolding chart_loading_def .

section \<open>Actions\<close>

text \<open>Preparing an action: everything before Helm is asked about the release.\<close>

fun helm_prep :: "event \<Rightarrow> bool" where
  "helm_prep (EvProcess p) = True"
| "helm_prep (EvHelm (HLocateChart opts ref st r)) = True"
| "helm_prep (EvHelm (HLoad p r)) = True"
| "helm_prep e = False"

fun helm_event_of :: "tmpl_lib \<Rightarrow> OmniHelmRelease \<Rightarrow> event \<Rightarrow> bool" where
  "helm_event_of T item (EvHelm (HLast cfg n r)) = (n = ReleaseName item)"
| "helm_event_of T item (EvHelm (HInstall cfg opts chart values r)) =
     (opts = install_options item \<and> Values T item = Inr values)"
| "helm_event_of T item (EvHelm (HUpgrade cfg opts n chart values r)) =
     (opts = upgrade_options item \<and> n = ReleaseName item \<and> Values T item = Inr values)"
| "helm_event_of T item (EvHelm (HUninstall cfg opts n r)) = (opts = uninstall_options item \<and> n = ReleaseName item)"
| "helm_event_of T item e = helm_prep e"

fun installs :: "event \<Rightarrow> bool" where
  "installs (EvHelm (HInstall cfg opts chart values r)) = True"
| "installs e = False"

fun upgrades :: "event \<Rightarrow> bool" where
  "upgrades (EvHelm (HUpgrade cfg opts n chart values r)) = True"
| "upgrades e = False"

fun uninstalls :: "event \<Rightarrow> bool" where
  "uninstalls (EvHelm (HUninstall cfg opts n r)) = True"
| "uninstalls e = False"

text \<open>The history has no release of the name, or it has one.\<close>

fun no_release :: "event \<Rightarrow> bool" where
  "no_release (EvHelm (HLast cfg n (Some e))) = errors_Is e ErrReleaseNotFound"
| "no_release e = False"

fun a_release :: "event \<Rightarrow> bool" where
  "a_release (EvHelm (HLast cfg n None)) = True"
| "a_release e = False"

text \<open>Helm says that the release is deployed, or that it is uninstalled.\<close>

fun says_deployed :: "event \<Rightarrow> bool" where
  "says_deployed (EvHelm (HInstall cfg opts chart values r)) = (\<exists>info. r = (Some (Inr info), None) \<and> ri_Status info = StatusDeployed)"
| "says_deployed (EvHelm (HUpgrade cfg opts n chart values r)) = (\<exists>info. r = (Some (Inr info), None) \<and> ri_Status info = StatusDeployed)"
| "says_deployed e = False"

fun says_uninstalled :: "OmniHelmRelease \<Rightarrow> event \<Rightarrow> bool" where
  "says_uninstalled item (EvHelm (HUninstall cfg opts n r)) = (n = ReleaseName item \<and> no_IgnoreNotFound opts \<and> snd r = None)"
| "says_uninstalled item e = False"

lemma helm_prep_facts:
  assumes "helm_prep e"
  shows "helm_event_of T item e" "\<not> installs e" "\<not> upgrades e" "\<not> uninstalls e"
  using assms by (auto elim: helm_prep.elims)

lemma isolated_prep: "isolated F t \<Longrightarrow> (\<And>u. F u \<Longrightarrow> list_all helm_prep u) \<Longrightarrow> list_all helm_prep t"
  by (induction rule: isolated.induct) auto

lemma chart_loading_prep: "chart_loading item settings t \<Longrightarrow> list_all helm_prep t"
  by (auto simp: chart_loading_def located_chart_def dest!: isolated_prep [where F = "located_chart item settings"])

lemma Settings_prep: "emits (Settings E CacheDir) (\<lambda>r t. list_all helm_prep t)"
  unfolding Settings_def helm_settings_def os_mkdir_all_def Let_def by (intro emits_rules) simp_all

lemma actionConfig_prep: "emits (actionConfig E CacheDir item kc) (\<lambda>r t. list_all helm_prep t)"
  unfolding actionConfig_def
  by (intro emits_case_sum emits_return emits_then [OF Settings_prep] emits_observe_bind) simp_all

lemma loadChart_prep: "emits (loadChart E CacheDir item cfg settings) (\<lambda>r t. list_all helm_prep t)"
  by (rule emits_mono [OF loadChart_emits]) (rule chart_loading_prep)

lemma resultFromRelease_deployed:
  "he_Status (resultFromRelease a item rel) = StatusDeployed \<Longrightarrow>
     \<exists>info. rel = Some (Inr info) \<and> ri_Status info = StatusDeployed"
  by (auto simp: resultFromRelease_def Let_def StatusDeployed_def StatusUnknown_def split: option.splits sum.splits)

lemma resultFromRelease_action [simp]: "he_Action (resultFromRelease a item rel) = a"
  by (simp add: resultFromRelease_def Let_def split: option.split sum.split)

text \<open>What a run of the client does, and what a good result means.\<close>

definition helm_reconciled :: "tmpl_lib \<Rightarrow> OmniHelmRelease \<Rightarrow> HelmResult option \<times> goerror option \<Rightarrow> event list \<Rightarrow> bool" where
  "helm_reconciled T item r t \<longleftrightarrow>
     list_all (helm_event_of T item) t \<and> list_all (\<lambda>e. \<not> uninstalls e) t
     \<and> preceded installs no_release t \<and> preceded upgrades a_release t
     \<and> (\<forall>res. r = (Some res, None) \<and> he_Status res = StatusDeployed \<longrightarrow> list_ex says_deployed t)
     \<and> (\<forall>res. fst r = Some res \<longrightarrow> he_Action res = ActionInstall \<or> he_Action res = ActionUpgrade)"

lemma helm_reconciled_prep:
  assumes "list_all helm_prep s" and "helm_reconciled T item r t"
  shows "helm_reconciled T item r (s @ t)"
proof -
  have "list_all (\<lambda>e. \<not> installs e) s" "list_all (\<lambda>e. \<not> upgrades e) s" "list_all (\<lambda>e. \<not> uninstalls e) s"
    "list_all (helm_event_of T item) s"
    using assms(1) helm_prep_facts by (auto elim!: list_all_weaken)
  with assms(2) show ?thesis
    by (auto simp: helm_reconciled_def preceded_append)
qed

lemma helm_reconciled_failed: "list_all helm_prep t \<Longrightarrow> helm_reconciled T item (None, Some e) t"
  using helm_reconciled_prep [of t T item "(None, Some e)" "[]"] by (simp add: helm_reconciled_def)

lemma helm_reconciled_asked:
  "helm_reconciled T item (None, Some e) [EvHelm (HLast cfg (ReleaseName item) r)]"
  by (simp add: helm_reconciled_def)

lemma HelmClient_Reconcile_emits:
  "emits (HelmClient_Reconcile E CacheDir item kc) (helm_reconciled (env_Tmpl E) item)"
  unfolding HelmClient_Reconcile_def
proof (intro emits_case_sum emits_return)
  fix err show "helm_reconciled (env_Tmpl E) item (None, Some err) []" by (simp add: helm_reconciled_failed)
next
  fix vals assume vals: "Values (env_Tmpl E) item = Inr vals"
  have act: "emits (helm_install E item cfg chart vals)
        (\<lambda>r t. helm_reconciled (env_Tmpl E) item r (EvHelm (HLast cfg (ReleaseName item) (Some err)) # t))"
      if "errors_Is err ErrReleaseNotFound" for cfg chart err
    unfolding helm_install_def
    by (intro emits_rules)
      (auto simp: helm_reconciled_def vals that dest!: resultFromRelease_deployed)
  have upg: "emits (helm_upgrade E item cfg chart vals)
        (\<lambda>r t. helm_reconciled (env_Tmpl E) item r (EvHelm (HLast cfg (ReleaseName item) None) # t))" for cfg chart
    unfolding helm_upgrade_def
    by (intro emits_rules)
      (auto simp: helm_reconciled_def vals dest!: resultFromRelease_deployed)
  have ask: "emits (State_Monad.bind
        (call (hs_Last (env_HelmSdk E) cfg (ReleaseName item)) (\<lambda>r. EvHelm (HLast cfg (ReleaseName item) r)))
        (\<lambda>last. case last of
           None \<Rightarrow> helm_upgrade E item cfg chart vals
         | Some err \<Rightarrow> if errors_Is err ErrReleaseNotFound then helm_install E item cfg chart vals
             else State_Monad.return (None, Some (WrapError (msg err) err))))
      (helm_reconciled (env_Tmpl E) item)" for cfg chart msg
    by (intro emits_call_bind emits_case_option emits_if emits_return)
      (simp_all add: upg act helm_reconciled_asked)
  show "emits (State_Monad.bind (actionConfig E CacheDir item kc) (\<lambda>configured. case configured of
        Inl err \<Rightarrow> State_Monad.return (None, Some err)
      | Inr (cfg, settings) \<Rightarrow> State_Monad.bind (loadChart E CacheDir item cfg settings) (\<lambda>chartOr. case chartOr of
          Inl err \<Rightarrow> State_Monad.return (None, Some err)
        | Inr chart \<Rightarrow> State_Monad.bind
            (call (hs_Last (env_HelmSdk E) cfg (ReleaseName item)) (\<lambda>r. EvHelm (HLast cfg (ReleaseName item) r)))
            (\<lambda>last. case last of
               None \<Rightarrow> helm_upgrade E item cfg chart vals
             | Some err \<Rightarrow> if errors_Is err ErrReleaseNotFound then helm_install E item cfg chart vals
                 else State_Monad.return (None, Some (WrapError (''read Helm release history for ''
                   @ Quote (lib_IsPrint (env_Lib E)) (ReleaseName item) @ '': '' @ Error err) err))))))
      (helm_reconciled (env_Tmpl E) item)"
    by (intro emits_then [OF actionConfig_prep] emits_then [OF loadChart_prep] emits_case_sum emits_case_prod emits_return
        emits_mono [OF ask])
      (auto intro!: helm_reconciled_prep helm_reconciled_failed)
qed

lemma HelmClient_Uninstall_emits:
  "emits (HelmClient_Uninstall E CacheDir item kc)
     (\<lambda>r t. list_all (helm_event_of T item) t \<and> list_all (\<lambda>e. \<not> installs e \<and> \<not> upgrades e) t
        \<and> (snd r = None \<longrightarrow> list_ex (says_uninstalled item) t)
        \<and> (\<forall>res. fst r = Some res \<longrightarrow> he_Action res = ActionUninstall))"
  unfolding HelmClient_Uninstall_def Let_def
  by (intro emits_then [OF actionConfig_prep] emits_case_sum emits_case_prod emits_rules)
    (auto simp: uninstall_options_def helm_prep_facts elim!: list_all_weaken split: option.splits sum.splits)

text \<open>
  Claim C21.  The client installs a release only when Helm has just said that it has none of the
  name, and upgrades it only when Helm has said that it has one; in both cases with the values of
  the spec, in the spec's namespace, never in the empty one, and with a positive timeout, which is
  the spec's or five minutes; and a result that says deployed comes from an action that Helm
  completed without an error as deployed.
\<close>

theorem helm_action_follows_history:
  "emits (HelmClient_Reconcile E CacheDir item kubeconfig) (\<lambda>r t.
     preceded installs no_release t \<and> preceded upgrades a_release t \<and> list_all (\<lambda>e. \<not> uninstalls e) t
     \<and> list_all (helm_event_of (env_Tmpl E) item) t
     \<and> io_Namespace (install_options item) = uo_Namespace (upgrade_options item) \<and> io_Namespace (install_options item) \<noteq> []
     \<and> 0 < io_Timeout (install_options item) \<and> uo_Timeout (upgrade_options item) = io_Timeout (install_options item)
     \<and> (case r of
           (Some res, None) \<Rightarrow> if he_Status res = StatusDeployed then list_ex says_deployed t else True
         | _ \<Rightarrow> True))"
  by (rule emits_mono [OF HelmClient_Reconcile_emits])
    (auto simp: helm_reconciled_def install_options_def upgrade_options_def Timeout_pos ReleaseNamespace_nonempty
      split: prod.splits option.splits)

end
