(* ===== verification/Helm_Safety.thy ===== *)
theory Helm_Safety
  imports Helm_Controller Helm_Client_Safety Server_Answers
begin

text \<open>
  What the Helm release controller guarantees with the client of \<^verbatim>\<open>internal/helmrelease\<close>: it asks
  Helm only about the release that the spec names, reports it as ready only when Helm has said
  that it is deployed, and lets the item go only when Helm has said that it is uninstalled.
\<close>

section \<open>The events of a run\<close>

definition helm_deleting :: "OmniHelmRelease \<Rightarrow> bool" where
  "helm_deleting item \<longleftrightarrow> \<not> Time_IsZero (om_DeletionTimestamp (hr_Meta item))"

definition helm_orphaned :: "OmniHelmRelease \<Rightarrow> bool" where
  "helm_orphaned item \<longleftrightarrow> DeletionPolicy item = HelmReleaseDeletionPolicyOrphan"

text \<open>
  What a run may do: read, write the item, and work with Helm on the release of the spec; it
  installs and upgrades only a live item and uninstalls only one that is deleted and not orphaned.
\<close>

fun helm_run_event :: "tmpl_lib \<Rightarrow> OmniHelmRelease \<Rightarrow> event \<Rightarrow> bool" where
  "helm_run_event T item (EvGet k key r) = True"
| "helm_run_event T item (EvStatusUpdate (ObjHelmRelease x) r) = True"
| "helm_run_event T item (EvUpdate (ObjHelmRelease x) r) = True"
| "helm_run_event T item (EvHelmReconcile i kc r) = (i = item)"
| "helm_run_event T item (EvHelmUninstall i kc r) = (i = item)"
| "helm_run_event T item e =
     (helm_event_of T item e
      \<and> (if helm_deleting item then \<not> installs e \<and> \<not> upgrades e else \<not> uninstalls e)
      \<and> \<not> (uninstalls e \<and> helm_orphaned item))"

definition helm_reported :: "OmniHelmReleaseStatus \<Rightarrow> bool" where
  "helm_reported s =
     (case find_condition (csf_Conditions (hst_Common s)) ConditionReady of
        None \<Rightarrow> False
      | Some c \<Rightarrow> cond_Status c = ConditionTrue)"

fun writes_deployed :: "event \<Rightarrow> bool" where
  "writes_deployed (EvStatusUpdate (ObjHelmRelease x) r) = helm_reported (hr_Status x)"
| "writes_deployed e = False"

fun releases_helm :: "klib \<Rightarrow> event \<Rightarrow> bool" where
  "releases_helm L (EvUpdate (ObjHelmRelease x) r) = (\<not> lib_ContainsFinalizer L (om_Finalizers (hr_Meta x)) Finalizer)"
| "releases_helm L e = False"

definition helm_quiet :: "'x env \<Rightarrow> OmniHelmRelease \<Rightarrow> event list \<Rightarrow> bool" where
  "helm_quiet E item t \<longleftrightarrow>
     list_all (\<lambda>e. helm_run_event (env_Tmpl E) item e \<and> \<not> writes_deployed e \<and> \<not> releases_helm (env_Lib E) e) t"

definition helm_run_ok :: "'x env \<Rightarrow> OmniHelmRelease \<Rightarrow> event list \<Rightarrow> bool" where
  "helm_run_ok E item t \<longleftrightarrow>
     list_all (helm_run_event (env_Tmpl E) item) t \<and> preceded writes_deployed says_deployed t
     \<and> (helm_orphaned item \<or> preceded (releases_helm (env_Lib E)) (says_uninstalled item) t)"

lemma helm_quiet_nil [simp]: "helm_quiet E item []"
  by (simp add: helm_quiet_def)

lemma helm_quiet_get [simp]: "helm_quiet E item (EvGet k key r # t) \<longleftrightarrow> helm_quiet E item t"
  by (simp add: helm_quiet_def)

lemma helm_quiet_append [simp]: "helm_quiet E item (s @ t) \<longleftrightarrow> helm_quiet E item s \<and> helm_quiet E item t"
  by (simp add: helm_quiet_def)

lemma helm_quiet_ok: "helm_quiet E item t \<Longrightarrow> helm_run_ok E item t"
  by (auto simp: helm_quiet_def helm_run_ok_def list_all_iff intro!: preceded_none)

lemma helm_run_ok_append: "helm_run_ok E item s \<Longrightarrow> helm_run_ok E item t \<Longrightarrow> helm_run_ok E item (s @ t)"
  by (auto simp: helm_run_ok_def preceded_both)

text \<open>A run that goes on without the event in question.\<close>

lemma preceded_rest: "preceded P Q s \<Longrightarrow> \<forall>e \<in> set u. \<not> P e \<Longrightarrow> preceded P Q (s @ u)"
  by (simp add: preceded_both preceded_none list_all_iff)

text \<open>The client's own events write nothing in the management cluster.\<close>

lemma helm_event_quiet:
  assumes "helm_event_of T item e"
  shows "\<not> writes_deployed e" "\<not> releases_helm L e"
    and "(if helm_deleting item then \<not> installs e \<and> \<not> upgrades e else \<not> uninstalls e)
      \<Longrightarrow> \<not> (uninstalls e \<and> helm_orphaned item) \<Longrightarrow> helm_run_event T item e"
  using assms by (cases e; auto)+

section \<open>Status\<close>

lemma set_helm_condition_reported:
  "condition_contract L \<Longrightarrow> cond_LastTransitionTime c = zero_time \<Longrightarrow>
     helm_reported (set_helm_condition L now c s) =
       (if cond_Type c = ConditionReady then cond_Status c = ConditionTrue else helm_reported s)"
  by (simp add: helm_reported_def set_helm_condition_def SetCondition_upsert find_condition_upsert)

text \<open>The update names a release that Helm has deployed.\<close>

definition deployed_outcome :: "helmReleaseStatusUpdate \<Rightarrow> bool" where
  "deployed_outcome input \<longleftrightarrow> hu_err input = None
     \<and> (\<exists>res. hu_result input = Some res \<and> he_Action res \<noteq> ActionUninstall \<and> he_Status res = StatusDeployed)"

lemma helm_ready_iff: "helm_ready input = ConditionTrue \<longleftrightarrow> deployed_outcome input"
  by (auto simp: helm_ready_def deployed_outcome_def split: option.splits)

lemma helm_status_reported:
  "condition_contract L \<Longrightarrow> helm_reported (hr_Status (helm_status L input now latest)) \<longleftrightarrow> deployed_outcome input"
  by (simp add: helm_status_def Let_def case_prod_beta set_helm_condition_reported helm_ready_iff)

lemma updateHelmReleaseStatus_emits:
  assumes "env_retry_ok E" and "condition_contract (env_Lib E)"
  shows "emits (updateHelmReleaseStatus E item input) (\<lambda>r t.
    list_all (\<lambda>e. helm_run_event T x e \<and> \<not> releases_helm L e \<and> (deployed_outcome input \<or> \<not> writes_deployed e)) t)"
  unfolding updateHelmReleaseStatus_def
  by (rule emits_mono [OF write_status_emits [OF assms(1), where P =
        "\<lambda>obj. \<exists>y. obj = ObjHelmRelease y \<and> (deployed_outcome input \<or> \<not> helm_reported (hr_Status y))"]])
    (auto elim!: list_all_weaken simp: status_write_event_def helm_status_reported [OF assms(2)])

lemma quiet_report:
  assumes "env_retry_ok E" and "condition_contract (env_Lib E)" and "\<not> deployed_outcome input"
  shows "emits (updateHelmReleaseStatus E item input) (\<lambda>r t. helm_quiet E item t)"
  by (rule emits_mono [OF updateHelmReleaseStatus_emits [OF assms(1,2), where T = "env_Tmpl E" and x = item and L = "env_Lib E"]])
    (use assms(3) in \<open>simp add: helm_quiet_def list_all_iff\<close>)

lemma failure_not_deployed [simp]: "\<not> deployed_outcome (helm_failure known ex reason err msg)"
  by (simp add: deployed_outcome_def helm_failure_def)

section \<open>The pieces of a run\<close>

lemma helm_ensureFinalizer_quiet:
  assumes "finalizer_contract (env_Lib E)"
  shows "emits (HelmRelease_ensureFinalizer E item) (\<lambda>r t. helm_quiet E item t)"
  unfolding helm_quiet_def by (rule helm_claim.ensure_events [OF assms]) simp

lemma helm_removeFinalizer_emits:
  assumes "env_retry_ok E"
  shows "emits (HelmRelease_removeFinalizer E item)
    (\<lambda>r t. list_all (\<lambda>e. helm_run_event T x e \<and> \<not> writes_deployed e) t)"
  by (rule helm_release.release_events [OF assms]) simp_all

lemma helm_wait_quiet:
  assumes "env_retry_ok E" and "condition_contract (env_Lib E)"
  shows "emits (helm_wait E item (helm_failure known ex reason err msg)) (\<lambda>r t. helm_quiet E item t)"
  unfolding helm_wait_def
  by (intro emits_then [OF quiet_report [OF assms failure_not_deployed]] emits_return) simp

lemma helmKubeconfig_quiet:
  assumes "env_retry_ok E" and "condition_contract (env_Lib E)"
  shows "emits (helmKubeconfig E item) (\<lambda>r t. helm_quiet E item t)"
  unfolding helmKubeconfig_def get_secret_def k_call_defs Let_def
  by (intro emits_call_bind emits_case_sum emits_if emits_return emits_then [OF helm_wait_quiet [OF assms]]; simp)

lemma clusterExists_quiet: "emits (clusterExists E ns name) (\<lambda>r t. helm_quiet E item t)"
  unfolding clusterExists_def k_call_defs by (intro emits_rules) simp_all

text \<open>A call of the client, with the note of its result.\<close>

lemma helm_Reconcile_emits:
  assumes "env_Helm E = None" and "\<not> helm_deleting item"
  shows "emits (helm_Reconcile E item kc)
    (\<lambda>r t. helm_quiet E item t \<and> (deployed_outcome (helm_outcome r) \<longrightarrow> list_ex says_deployed t))"
  unfolding helm_Reconcile_def assms(1) option.case
  by (intro emits_then [OF HelmClient_Reconcile_emits] emits_remark_bind emits_return)
    (use assms(2) in \<open>auto simp: helm_reconciled_def helm_quiet_def list_all_iff helm_event_quiet
        deployed_outcome_def helm_outcome_def\<close>)

lemma helm_Uninstall_emits:
  assumes "env_Helm E = None" and "helm_deleting item" and "\<not> helm_orphaned item"
  shows "emits (helm_Uninstall E item kc)
    (\<lambda>r t. helm_quiet E item t \<and> \<not> deployed_outcome (helm_outcome r)
       \<and> (snd r = None \<longrightarrow> list_ex (says_uninstalled item) t))"
  unfolding helm_Uninstall_def assms(1) option.case
  by (intro emits_then [OF HelmClient_Uninstall_emits [where T = "env_Tmpl E"]] emits_remark_bind emits_return)
    (use assms(2,3) in \<open>auto simp: helm_quiet_def list_all_iff helm_event_quiet deployed_outcome_def helm_outcome_def\<close>)

section \<open>Whole runs\<close>

lemma helm_quiet_then:
  assumes "emits m (\<lambda>a t. helm_quiet E item t)" and "\<And>a. emits (k a) (\<lambda>b t. helm_run_ok E item t)"
  shows "emits (State_Monad.bind m k) (\<lambda>b t. helm_run_ok E item t)"
  by (rule emits_then [OF assms(1)], rule emits_mono [OF assms(2)])
    (auto intro: helm_run_ok_append helm_quiet_ok)

lemma helm_quiet_end: "emits m (\<lambda>a t. helm_quiet E item t) \<Longrightarrow> emits m (\<lambda>b t. helm_run_ok E item t)"
  by (erule emits_mono) (rule helm_quiet_ok)

lemma helm_quiet_return: "emits (State_Monad.return out) (\<lambda>b t. helm_run_ok E item t)"
  by (rule emits_return) (simp add: helm_quiet_ok)

lemma helm_now_ok:
  assumes "env_retry_ok E" and "condition_contract (env_Lib E)" and "env_Helm E = None" and "\<not> helm_deleting item"
  shows "emits (helm_now E item kc) (\<lambda>out t. helm_run_ok E item t)"
  unfolding helm_now_def
proof (intro emits_then [OF helm_Reconcile_emits [OF assms(3,4)]]
    emits_then [OF updateHelmReleaseStatus_emits [OF assms(1,2), where T = "env_Tmpl E" and x = item and L = "env_Lib E"]] emits_return)
  fix r t u
  assume t: "helm_quiet E item t \<and> (deployed_outcome (helm_outcome r) \<longrightarrow> list_ex says_deployed t)"
    and u: "list_all (\<lambda>e. helm_run_event (env_Tmpl E) item e \<and> \<not> releases_helm (env_Lib E) e
        \<and> (deployed_outcome (helm_outcome r) \<or> \<not> writes_deployed e)) u"
  have ok: "helm_run_ok E item t" using t by (simp add: helm_quiet_ok)
  have "preceded writes_deployed says_deployed (t @ u)"
    using ok t u
    by (cases "deployed_outcome (helm_outcome r)")
      (auto simp: helm_run_ok_def list_all_iff intro: preceded_after preceded_rest)
  then show "helm_run_ok E item (t @ u @ [])"
    using ok u by (auto simp: helm_run_ok_def list_all_iff intro: preceded_rest)
qed

lemma helm_release_ok:
  assumes "env_retry_ok E" and "helm_quiet E item t" and "helm_orphaned item \<or> list_ex (says_uninstalled item) t"
  shows "emits (State_Monad.bind (HelmRelease_removeFinalizer E item) (\<lambda>err. State_Monad.return (no_requeue, err)))
    (\<lambda>out u. helm_run_ok E item (t @ u))"
  by (intro emits_then [OF helm_removeFinalizer_emits [OF assms(1), where T = "env_Tmpl E" and x = item]] emits_return)
    (use helm_quiet_ok [OF assms(2)] assms(3) in
      \<open>auto simp: helm_run_ok_def list_all_iff intro: preceded_after preceded_rest\<close>)

lemma helm_reconcileDelete_ok:
  assumes "env_retry_ok E" and "condition_contract (env_Lib E)" and "env_Helm E = None" and "helm_deleting item"
  shows "emits (HelmRelease_reconcileDelete E item) (\<lambda>out t. helm_run_ok E item t)"
  unfolding HelmRelease_reconcileDelete_def Let_def helm_orphaned_def [symmetric]
proof (intro emits_if helm_quiet_return helm_quiet_then [OF helmKubeconfig_quiet [OF assms(1,2)]] emits_case_sum,
    goal_cases orphan uninstall)
  case orphan
  then show ?case using helm_release_ok [OF assms(1), of item "[]"] by simp
next
  case (uninstall r kubeconfig)
  show ?case
  proof (intro emits_then [OF helm_Uninstall_emits [OF assms(3,4) uninstall(2)]] emits_then [OF quiet_report [OF assms(1,2)]]
      emits_case_option emits_return; (elim conjE)?)
    fix t u r' assume "helm_quiet E item t" "helm_quiet E item u" "snd r' = None" "snd r' = None \<longrightarrow> list_ex (says_uninstalled item) t"
    then show "emits (State_Monad.bind (HelmRelease_removeFinalizer E item) (\<lambda>err. State_Monad.return (no_requeue, err)))
      (\<lambda>b v. helm_run_ok E item (t @ u @ v))"
      using helm_release_ok [OF assms(1), of item "t @ u"] by simp
  qed (simp_all add: helm_quiet_ok)
qed

lemma reconcile_helm_release_ok:
  assumes "env_retry_ok E" and "condition_contract (env_Lib E)" and "finalizer_contract (env_Lib E)"
    and "env_Helm E = None"
  shows "emits (reconcile_helm_release E item) (\<lambda>out t. helm_run_ok E item t)"
  unfolding reconcile_helm_release_def
  by (intro emits_if helm_reconcileDelete_ok helm_quiet_then [OF helm_ensureFinalizer_quiet]
      helm_quiet_then [OF quiet_report] helm_quiet_then [OF clusterExists_quiet] helm_quiet_then [OF helmKubeconfig_quiet]
      emits_case_sum emits_case_option helm_quiet_return helm_quiet_end [OF helm_wait_quiet] helm_now_ok assms
      failure_not_deployed)
    (simp_all add: helm_deleting_def)

section \<open>Writes of the item\<close>

text \<open>
  An update of a Helm release writes a version of the item with other finalizers, a status update
  one with another status.
\<close>

fun helm_item_write :: "'x env \<Rightarrow> OmniHelmRelease \<Rightarrow> event \<Rightarrow> bool" where
  "helm_item_write E item (EvUpdate (ObjHelmRelease x) r) =
     (\<exists>v fs. version_of (env_HelmReleases E) hr_Meta item v \<and> x = v\<lparr>hr_Meta := (hr_Meta v)\<lparr>om_Finalizers := fs\<rparr>\<rparr>)"
| "helm_item_write E item (EvStatusUpdate (ObjHelmRelease x) r) =
     (\<exists>v status. version_of (env_HelmReleases E) hr_Meta item v \<and> x = v\<lparr>hr_Status := status\<rparr>)"
| "helm_item_write E item e = True"

lemma helm_status_is_status: "\<exists>status. helm_status L input now v = v\<lparr>hr_Status := status\<rparr>"
  by (auto simp: helm_status_def Let_def case_prod_beta)

lemma helm_item_writes:
  assumes "env_retry_ok E" and "env_Helm E = None"
  shows "every (helm_item_write E item) (reconcile_helm_release E item)"
proof -
  have status: "every (helm_item_write E item) (updateHelmReleaseStatus E item input)" for input
    unfolding updateHelmReleaseStatus_def
    by (rule status_write_at [OF assms(1)]) (use helm_status_is_status in \<open>auto simp: version_of_def\<close>)
  have event: "helm_event_of T x e \<Longrightarrow> helm_item_write E item e" for T x e by (cases e) auto
  have client: "every (helm_item_write E item) (HelmClient_Reconcile E dir x kc)"
      "every (helm_item_write E item) (HelmClient_Uninstall E dir x kc)" for dir x kc
    by (rule every_emits [OF HelmClient_Reconcile_emits] every_emits [OF HelmClient_Uninstall_emits [where T = "env_Tmpl E"]];
        auto elim!: list_all_weaken simp: helm_reconciled_def intro: event)+
  have release: "every (helm_item_write E item) (HelmRelease_removeFinalizer E item)"
    unfolding HelmRelease_removeFinalizer_def helm_release_attempt_def k_update_def
    by (intro every_retry [OF assms(1)] every_get_at every_rules) (auto simp: version_of_def strip_finalizer_def)
  have claim: "every (helm_item_write E item) (HelmRelease_ensureFinalizer E item)"
    unfolding HelmRelease_ensureFinalizer_def k_update_def
    by (intro every_rules) (auto simp: version_of_def add_finalizer_def)
  have reads: "every (helm_item_write E item) (get_secret E key)" "every (helm_item_write E item) (clusterExists E ns name)"
    for key ns name
    unfolding get_secret_def clusterExists_def k_get_def by (intro every_rules; simp)+
  show ?thesis
    unfolding reconcile_helm_release_def HelmRelease_reconcileDelete_def helmKubeconfig_def helm_wait_def helm_now_def
      helm_Reconcile_def helm_Uninstall_def assms(2) option.case Let_def
    by (intro every_rules status client release claim reads) simp_all
qed

section \<open>Properties\<close>

text \<open>
  Claim C20.  A Helm release is reported as ready only when it is deployed: before any status with
  a true Ready condition is written, an install or an upgrade of this run has come back from Helm
  without an error and with a release that is deployed.
\<close>

theorem helm_ready_when_deployed:
  assumes "env_retry_ok E" and "condition_contract (env_Lib E)" and "finalizer_contract (env_Lib E)"
    and "env_Helm E = None"
  shows "emits (reconcile_helm_release E item) (\<lambda>out t. preceded writes_deployed says_deployed t)"
  by (rule emits_mono [OF reconcile_helm_release_ok [OF assms]]) (simp add: helm_run_ok_def)

text \<open>
  Claim C19.  A Helm release that is not orphaned is let go only when it is uninstalled: before
  the item is written without the finalizer, Helm has confirmed the uninstallation of the release
  that the spec names, or that there is none of the name.
\<close>

theorem helm_released_when_uninstalled:
  assumes "env_retry_ok E" and "condition_contract (env_Lib E)" and "finalizer_contract (env_Lib E)"
    and "env_Helm E = None" and "DeletionPolicy item \<noteq> HelmReleaseDeletionPolicyOrphan"
  shows "emits (reconcile_helm_release E item)
    (\<lambda>out t. preceded (releases_helm (env_Lib E)) (says_uninstalled item) t)"
  by (rule emits_mono [OF reconcile_helm_release_ok [OF assms(1-4)]])
    (use assms(5) in \<open>simp add: helm_run_ok_def helm_orphaned_def\<close>)

text \<open>
  Claim C22.  A run works only on the release that the spec names: every question, install, upgrade
  and uninstall is about \<open>ReleaseName item\<close>, an item that is live is never uninstalled and one that
  is being deleted is never installed or upgraded, an orphaned release is not uninstalled.  A run
  writes no object of the management cluster but the item, that is the object it was given or one
  that the API server returned under its name, and changes only finalizers or status of it.  So a
  release that was installed under a name the spec no longer has is neither upgraded nor removed,
  not even on deletion.
\<close>

theorem helm_keeps_to_its_release:
  assumes "env_retry_ok E" and "condition_contract (env_Lib E)" and "finalizer_contract (env_Lib E)"
    and "env_Helm E = None"
  shows "emits (reconcile_helm_release E item)
    (\<lambda>out t. list_all (\<lambda>e. helm_run_event (env_Tmpl E) item e \<and> helm_item_write E item e) t)"
  by (rule emits_mono [OF emits_conj [OF reconcile_helm_release_ok [OF assms]
        helm_item_writes [OF assms(1,4), unfolded every_def]]])
    (auto simp: helm_run_ok_def list_all_iff)

end
