(* ===== verification/Kubeconfig_Export.thy ===== *)
theory Kubeconfig_Export
  imports Api_Types Go_Encoding
begin

text \<open>
  The package \<^verbatim>\<open>internal/kubeconfigexport\<close>: names, labels and annotations of an exported
  kubeconfig Secret, the hash of the settings it was generated from, and when it is to be
  rotated.  A nil Secret is \<^const>\<open>None\<close>.

  The lemmas say how rotation times compare and that the two time annotations can be read back.
\<close>

section \<open>Names\<close>

definition DefaultSecretKey :: string where "DefaultSecretKey = ''kubeconfig''"
definition ManagedByLabel :: string where "ManagedByLabel = ''app.kubernetes.io/managed-by''"
definition OwnerUIDLabel :: string where "OwnerUIDLabel = ''omni.texashpc.com/kubeconfig-export-uid''"
definition ClusterLabel :: string where "ClusterLabel = ''omni.texashpc.com/cluster''"
definition ManagedByValue :: string where "ManagedByValue = ''omni-cluster-operator''"
definition OwnerAnnotation :: string where "OwnerAnnotation = ''omni.texashpc.com/kubeconfig-export-name''"
definition OwnerNamespaceAnnotation :: string where
  "OwnerNamespaceAnnotation = ''omni.texashpc.com/kubeconfig-export-namespace''"
definition HashAnnotation :: string where "HashAnnotation = ''omni.texashpc.com/kubeconfig-hash''"
definition SpecHashAnnotation :: string where
  "SpecHashAnnotation = ''omni.texashpc.com/kubeconfig-export-spec-hash''"
definition ExpirationAnnotation :: string where
  "ExpirationAnnotation = ''omni.texashpc.com/kubeconfig-expiration-time''"
definition LastRotationAnnotation :: string where
  "LastRotationAnnotation = ''omni.texashpc.com/kubeconfig-last-rotation-time''"

lemmas export_name_defs =
  DefaultSecretKey_def ManagedByLabel_def OwnerUIDLabel_def ClusterLabel_def ManagedByValue_def
  OwnerAnnotation_def OwnerNamespaceAnnotation_def HashAnnotation_def SpecHashAnnotation_def
  ExpirationAnnotation_def LastRotationAnnotation_def

definition specHashVersion :: string where "specHashVersion = ''v1''"

definition TargetSecretKey :: "OmniKubeconfigExport \<Rightarrow> string" where
  "TargetSecretKey item =
     (if ktr_Key (kes_TargetSecretRef (ke_Spec item)) \<noteq> [] then ktr_Key (kes_TargetSecretRef (ke_Spec item))
      else DefaultSecretKey)"

definition TargetSecretNamespace :: "OmniKubeconfigExport \<Rightarrow> string" where
  "TargetSecretNamespace item =
     (if ktr_Namespace (kes_TargetSecretRef (ke_Spec item)) \<noteq> []
      then ktr_Namespace (kes_TargetSecretRef (ke_Spec item))
      else om_Namespace (ke_Meta item))"

section \<open>Hashes\<close>

definition Hash :: "string \<Rightarrow> string" where
  "Hash data = hex_encode (sha256 data)"

text \<open>
  The payload is marshalled from a struct of strings, for which \<^verbatim>\<open>json.Marshal\<close> has no error;
  the error result stays in the type, and the callers keep their branch for it.
\<close>

definition spec_hash_payload :: "OmniKubeconfigExport \<Rightarrow> string \<Rightarrow> string" where
  "spec_hash_payload item clusterName =
     json_object
       ([json_field ''version'' (json_string specHashVersion),
         json_field ''clusterName'' (json_string clusterName),
         json_field ''targetSecretKey'' (json_string (TargetSecretKey item))]
        @ (if kes_ContextNamespace (ke_Spec item) = [] then []
           else [json_field ''contextNamespace'' (json_string (kes_ContextNamespace (ke_Spec item)))])
        @ [json_field ''serviceAccountUser'' (json_string (ksa_User (kes_ServiceAccount (ke_Spec item)))),
           json_field ''serviceAccountGroups'' (json_strings (ksa_Groups (kes_ServiceAccount (ke_Spec item)))),
           json_field ''ttl'' (json_string (Duration_String (kes_TTL (ke_Spec item))))])"

definition SpecHash :: "OmniKubeconfigExport \<Rightarrow> string \<Rightarrow> goerror + string" where
  "SpecHash item clusterName = Inr (Hash (spec_hash_payload item clusterName))"

section \<open>Labels, annotations and ownership\<close>

definition SecretLabels :: "OmniKubeconfigExport \<Rightarrow> string \<Rightarrow> strmap" where
  "SecretLabels item clusterName =
     Some (fmap_of_list
       [(ManagedByLabel, ManagedByValue), (OwnerUIDLabel, om_UID (ke_Meta item)), (ClusterLabel, clusterName)])"

definition SecretAnnotations ::
  "OmniKubeconfigExport \<Rightarrow> string \<Rightarrow> string \<Rightarrow> Time \<Rightarrow> Time \<Rightarrow> strmap" where
  "SecretAnnotations item specHash kubeconfigHash expirationTime lastRotationTime =
     Some (fmap_of_list
       [(OwnerAnnotation, om_Name (ke_Meta item)),
        (OwnerNamespaceAnnotation, om_Namespace (ke_Meta item)),
        (SpecHashAnnotation, specHash),
        (HashAnnotation, kubeconfigHash),
        (ExpirationAnnotation, Format_RFC3339 expirationTime),
        (LastRotationAnnotation, Format_RFC3339 lastRotationTime)])"

definition IsOwnedSecret :: "OmniKubeconfigExport \<Rightarrow> Secret option \<Rightarrow> bool" where
  "IsOwnedSecret item secret =
     (case secret of
        None \<Rightarrow> False
      | Some s \<Rightarrow>
          if om_UID (ke_Meta item) \<noteq> []
          then map_index (om_Labels (sec_Meta s)) OwnerUIDLabel = om_UID (ke_Meta item)
          else map_index (om_Annotations (sec_Meta s)) OwnerAnnotation = om_Name (ke_Meta item))"

section \<open>Rotation\<close>

definition NextRotationTime :: "Time \<Rightarrow> Duration option \<Rightarrow> Time" where
  "NextRotationTime expiration renewBefore =
     (case renewBefore of
        None \<Rightarrow> expiration
      | Some d \<Rightarrow> if d \<le> 0 then expiration else Time_Add expiration (- d))"

definition RotationDue :: "Time \<Rightarrow> Time \<Rightarrow> Duration option \<Rightarrow> bool" where
  "RotationDue now expiration renewBefore =
     (let nextRotation = NextRotationTime expiration renewBefore in \<not> Time_Before now nextRotation)"

text \<open>The error of \<^verbatim>\<open>time.Parse\<close> is opaque: the callers only look whether there is one.\<close>

definition AnnotationTime :: "Secret option \<Rightarrow> string \<Rightarrow> goerror + Time option" where
  "AnnotationTime secret key =
     (case secret of
        None \<Rightarrow> Inr None
      | Some s \<Rightarrow>
          if om_Annotations (sec_Meta s) = None \<or> map_index (om_Annotations (sec_Meta s)) key = [] then Inr None
          else (case Parse_RFC3339 (map_index (om_Annotations (sec_Meta s)) key) of
                  None \<Rightarrow> Inl (ErrorString ''parsing time'')
                | Some parsed \<Rightarrow> Inr (Some parsed)))"

section \<open>Facts\<close>

lemma NextRotationTime_le: "t_ns (NextRotationTime expiration renewBefore) \<le> t_ns expiration"
  by (simp add: NextRotationTime_def Time_Add_def split: option.split)

lemma RotationDue_iff:
  "RotationDue now expiration renewBefore \<longleftrightarrow>
     t_ns expiration \<le> t_ns now + (case renewBefore of None \<Rightarrow> 0 | Some d \<Rightarrow> max 0 d)"
  by (auto simp: RotationDue_def NextRotationTime_def Time_Before_def Time_Add_def max_def split: option.splits)

lemma Format_RFC3339_nonempty [simp]: "Format_RFC3339 t \<noteq> []"
  by (simp add: Format_RFC3339_def Let_def split: prod.split)

lemma map_index_SecretAnnotations [simp]:
  "map_index (SecretAnnotations item sh kh et rt) OwnerAnnotation = om_Name (ke_Meta item)"
  "map_index (SecretAnnotations item sh kh et rt) OwnerNamespaceAnnotation = om_Namespace (ke_Meta item)"
  "map_index (SecretAnnotations item sh kh et rt) SpecHashAnnotation = sh"
  "map_index (SecretAnnotations item sh kh et rt) HashAnnotation = kh"
  "map_index (SecretAnnotations item sh kh et rt) ExpirationAnnotation = Format_RFC3339 et"
  "map_index (SecretAnnotations item sh kh et rt) LastRotationAnnotation = Format_RFC3339 rt"
  by (simp_all add: SecretAnnotations_def map_index_def fmlookup_of_list export_name_defs)

lemma map_index_SecretLabels [simp]:
  "map_index (SecretLabels item name) OwnerUIDLabel = om_UID (ke_Meta item)"
  "map_index (SecretLabels item name) ManagedByLabel = ManagedByValue"
  "map_index (SecretLabels item name) ClusterLabel = name"
  by (simp_all add: SecretLabels_def map_index_def fmlookup_of_list export_name_defs)

lemma AnnotationTime_written:
  assumes "map_index (om_Annotations (sec_Meta s)) key = Format_RFC3339 t" and "rfc3339_range t"
  shows "AnnotationTime (Some s) key =
    Inr (Some \<lparr>t_ns = unix_seconds t * 1000000000, t_loc = UTC, t_mono = False\<rparr>)"
  using assms
  by (cases "om_Annotations (sec_Meta s)")
    (simp_all add: AnnotationTime_def Parse_Format_RFC3339, simp add: map_index_def Format_RFC3339_nonempty [symmetric])

end
