(* ===== verification/Kubeconfig_Controller.thy ===== *)
theory Kubeconfig_Controller
  imports Omni_Api Kubeconfig_Export Child_Controllers Watches Finalizers
begin

text \<open>
  The OmniKubeconfigExport controller
  (\<^verbatim>\<open>internal/controller/omnikubeconfigexport_controller.go\<close>): it asks Omni for a kubeconfig of
  a workload cluster, writes it into a Secret with labels and annotations that identify its
  origin, keeps the Secret until rotation is due or the kubeconfig stops working, and removes the
  Secrets it owns when the export or its target goes away.

  The Go helpers return a result with a flag \<open>done\<close>, which is set exactly when the caller has to
  return at once; here such an early return is \<^const>\<open>Inl\<close> of the pair to return.
\<close>

section \<open>Helpers\<close>

definition mergeStringMaps :: "strmap \<Rightarrow> strmap \<Rightarrow> strmap" where
  "mergeStringMaps base overrides =
     (if map_len0 base \<and> map_len0 overrides then None
      else Some (map_copy (map_copy fmempty base) overrides))"

definition kubeconfigExportRetryInterval :: Duration where
  "kubeconfigExportRetryInterval = Minute"

definition errKubeconfigNotUsable :: string where
  "errKubeconfigNotUsable = ''kubeconfig is not usable''"

definition export_now :: "'x env \<Rightarrow> ('x, Time) action" where
  "export_now E = do {
     t \<leftarrow> observe (case env_Clock E of Some clock \<Rightarrow> clock | None \<Rightarrow> env_Now E);
     State_Monad.return (Time_UTC t) }"

definition not_usable :: "goerror \<Rightarrow> goerror" where
  "not_usable err = WrapError (errKubeconfigNotUsable @ '': '' @ Error err) (Sentinel errKubeconfigNotUsable)"

definition workloadKubeconfigValidator :: "'x env \<Rightarrow> string \<Rightarrow> 'x \<Rightarrow> goerror option \<times> 'x" where
  "workloadKubeconfigValidator E kubeconfig x =
     (case cc_RESTConfigFromKubeConfig (env_Clientcmd E) kubeconfig of
        Inl err \<Rightarrow> (Some (not_usable err), x)
      | Inr config \<Rightarrow>
          (case cc_NewForConfig (env_Clientcmd E) (cc_WithTimeout (env_Clientcmd E) config (10 * Second)) of
             Inl err \<Rightarrow> (Some (not_usable err), x)
           | Inr clientset \<Rightarrow> cc_ServerVersion (env_Clientcmd E) clientset x))"

definition kubeconfigValidator :: "'x env \<Rightarrow> string \<Rightarrow> 'x \<Rightarrow> goerror option \<times> 'x" where
  "kubeconfigValidator E =
     (case env_KubeconfigValidator E of Some v \<Rightarrow> v | None \<Rightarrow> workloadKubeconfigValidator E)"

definition kubeconfigValidationRequiresRotation :: "goerror option \<Rightarrow> bool" where
  "kubeconfigValidationRequiresRotation err =
     (case err of
        None \<Rightarrow> False
      | Some e \<Rightarrow> errors_Is e errKubeconfigNotUsable \<or> ReasonForError e = Some Forbidden
                  \<or> ReasonForError e = Some Unauthorized)"

definition requeueAfter :: "Time \<Rightarrow> Time option \<Rightarrow> Duration" where
  "requeueAfter now nextRotationTime =
     (case nextRotationTime of
        None \<Rightarrow> 0
      | Some t \<Rightarrow> (let delay = Time_Sub t now in if delay \<le> 0 then 0 else delay))"

section \<open>Validation of the spec\<close>

fun group_error :: "bool \<Rightarrow> string list \<Rightarrow> goerror option" where
  "group_error allow [] = None"
| "group_error allow (g # gs) =
     (if TrimSpace g = [] then Some (ErrorString ''serviceAccount.groups must not contain blank values'')
      else if TrimSpace g = KubeconfigClusterAdminGroup \<and> \<not> allow
      then Some (ErrorString ''system:masters requires serviceAccount.allowClusterAdmin: true'')
      else group_error allow gs)"

definition renew_error :: "Duration \<Rightarrow> Duration option \<Rightarrow> goerror option" where
  "renew_error ttl renewBefore =
     (case renewBefore of
        None \<Rightarrow> None
      | Some d \<Rightarrow>
          if d \<le> 0 then Some (ErrorString ''renewBefore must be greater than zero'')
          else if d \<ge> ttl then Some (ErrorString ''renewBefore must be less than ttl'')
          else None)"

definition kubeconfigExportSpecError :: "OmniKubeconfigExport \<Rightarrow> goerror option" where
  "kubeconfigExportSpecError item =
     (let spec = ke_Spec item; target = kes_TargetSecretRef spec; account = kes_ServiceAccount spec in
      if TrimSpace (lor_Name (kes_ClusterRef spec)) = [] then Some (ErrorString ''clusterRef.name is required'')
      else if TrimSpace (ktr_Name target) = [] then Some (ErrorString ''targetSecretRef.name is required'')
      else if ktr_Namespace target \<noteq> [] \<and> TrimSpace (ktr_Namespace target) = []
      then Some (ErrorString ''targetSecretRef.namespace is required when set'')
      else if TrimSpace (TargetSecretKey item) = [] then Some (ErrorString ''targetSecretRef.key is required'')
      else if TrimSpace (ksa_User account) = [] then Some (ErrorString ''serviceAccount.user is required'')
      else if ksa_Groups account = []
      then Some (ErrorString ''serviceAccount.groups requires at least one group'')
      else (case group_error (ksa_AllowClusterAdmin account) (ksa_Groups account) of
         Some e \<Rightarrow> Some e
       | None \<Rightarrow>
           if kes_TTL spec \<le> 0 then Some (ErrorString ''ttl must be greater than zero'')
           else (case renew_error (kes_TTL spec) (kes_RenewBefore spec) of
              Some e \<Rightarrow> Some e
            | None \<Rightarrow>
                if kes_DeletionPolicy spec \<noteq> KubeconfigExportDeletionPolicyDelete
                   \<and> kes_DeletionPolicy spec \<noteq> KubeconfigExportDeletionPolicyOrphan
                then Some (ErrorString ''deletionPolicy must be Delete or Orphan'')
                else None)))"

section \<open>Status\<close>

record kubeconfigExportStatusUpdate =
  ku_cluster :: "OmniCluster option"
  ku_connection :: "OmniConnection option"
  ku_clusterExists :: bool
  ku_acceptedKnown :: bool
  ku_exported :: bool
  ku_hash :: string
  ku_expirationTime :: "Time option"
  ku_lastRotationTime :: "Time option"
  ku_nextRotationTime :: "Time option"
  ku_exportErr :: "goerror option"
  ku_reason :: string
  ku_message :: string

definition status_update_zero :: kubeconfigExportStatusUpdate where
  "status_update_zero =
     \<lparr>ku_cluster = None, ku_connection = None, ku_clusterExists = False, ku_acceptedKnown = False,
      ku_exported = False, ku_hash = [], ku_expirationTime = None, ku_lastRotationTime = None,
      ku_nextRotationTime = None, ku_exportErr = None, ku_reason = [], ku_message = []\<rparr>"

definition set_export_condition ::
  "klib \<Rightarrow> Time \<Rightarrow> Condition \<Rightarrow> OmniKubeconfigExportStatus \<Rightarrow> OmniKubeconfigExportStatus" where
  "set_export_condition L now c status =
     status\<lparr>ket_Common := (ket_Common status)\<lparr>csf_Conditions :=
        SetCondition L now (csf_Conditions (ket_Common status)) c\<rparr>\<rparr>"

definition set_export_outcome ::
  "klib \<Rightarrow> Time \<Rightarrow> ConditionStatus \<Rightarrow> int \<Rightarrow> string \<Rightarrow> string
     \<Rightarrow> OmniKubeconfigExportStatus \<Rightarrow> OmniKubeconfigExportStatus" where
  "set_export_outcome L now st g reason message status =
     set_export_condition L now (NewCondition ConditionReady st g reason message)
       (set_export_condition L now (NewCondition ConditionExported st g reason message) status)"

definition export_status_fields ::
  "kubeconfigExportStatusUpdate \<Rightarrow> OmniKubeconfigExport \<Rightarrow> OmniKubeconfigExportStatus" where
  "export_status_fields input latest =
     (let s = ke_Status latest; spec = ke_Spec latest in
      s\<lparr>ket_Common := (ket_Common s)\<lparr>csf_ObservedGeneration := om_Generation (ke_Meta latest)\<rparr>,
        ket_ClusterRef := lor_Name (kes_ClusterRef spec),
        ket_TargetSecretRef := ktr_Name (kes_TargetSecretRef spec),
        ket_TargetSecretNamespace := TargetSecretNamespace latest,
        ket_TargetSecretKey := TargetSecretKey latest,
        ket_ServiceAccountUser := ksa_User (kes_ServiceAccount spec),
        ket_ServiceAccountGroups := ksa_Groups (kes_ServiceAccount spec),
        ket_ClusterName := (case ku_cluster input of Some c \<Rightarrow> ClusterName c | None \<Rightarrow> ket_ClusterName s),
        ket_Connection := (case ku_connection input of
            Some c \<Rightarrow> \<lparr>cnf_ConnectionRef = om_Name (on_Meta c), cnf_Endpoint = ons_Endpoint (on_Spec c)\<rparr>
          | None \<Rightarrow> ket_Connection s),
        ket_KubeconfigHash := ku_hash input,
        ket_ExpirationTime := ku_expirationTime input,
        ket_LastRotationTime := ku_lastRotationTime input,
        ket_NextRotationTime := ku_nextRotationTime input\<rparr>)"

definition export_status ::
  "klib \<Rightarrow> kubeconfigExportStatusUpdate \<Rightarrow> Time \<Rightarrow> OmniKubeconfigExport \<Rightarrow> OmniKubeconfigExport" where
  "export_status L input now latest =
     (let g = om_Generation (ke_Meta latest); spec = ke_Spec latest;
          name = lor_Name (kes_ClusterRef spec);
          s1 = export_status_fields input latest;
          s2 = (if ku_acceptedKnown input
                then set_export_condition L now (acceptedCondition L g name (ku_clusterExists input)) s1
                else s1);
          s3 = (if ku_exported input then
                  set_export_outcome L now ConditionTrue g ReasonExported
                    (''exported kubeconfig to Secret ''
                     @ Quote (lib_IsPrint L) (NamespacedName_String
                         \<lparr>nn_Namespace = TargetSecretNamespace latest, nn_Name = ktr_Name (kes_TargetSecretRef spec)\<rparr>)
                     @ '' key '' @ Quote (lib_IsPrint L) (TargetSecretKey latest)) s2
                else if ku_acceptedKnown input \<and> \<not> ku_clusterExists input then
                  set_export_outcome L now ConditionFalse g ReasonMissingCluster
                    (if ku_message input = [] then ''OmniCluster '' @ Quote (lib_IsPrint L) name @ '' does not exist''
                     else ku_message input) s2
                else
                  (let reason = (if ku_reason input = [] then ReasonExportFailed else ku_reason input);
                       m1 = (case (ku_message input, ku_exportErr input) of
                               ([], Some e) \<Rightarrow> Error e | (m, _) \<Rightarrow> m);
                       message = (if m1 = [] then ''kubeconfig export failed'' else m1)
                   in set_export_outcome L now ConditionFalse g reason message s2))
      in latest\<lparr>ke_Status := s3\<rparr>)"

definition updateKubeconfigExportStatus ::
  "'x env \<Rightarrow> OmniKubeconfigExport \<Rightarrow> kubeconfigExportStatusUpdate \<Rightarrow> ('x, goerror option) action" where
  "updateKubeconfigExportStatus E item input =
     write_status E (env_KubeconfigExports E) KKubeconfigExport ObjKubeconfigExport True
       (export_status (env_Lib E) input) (ObjectKeyFromMeta (ke_Meta item))"

section \<open>The target Secret\<close>

definition targetSecret_key :: "OmniKubeconfigExport \<Rightarrow> NamespacedName" where
  "targetSecret_key item =
     (if ket_TargetSecretRef (ke_Status item) \<noteq> [] \<and> ket_TargetSecretNamespace (ke_Status item) \<noteq> []
      then \<lparr>nn_Namespace = ket_TargetSecretNamespace (ke_Status item), nn_Name = ket_TargetSecretRef (ke_Status item)\<rparr>
      else \<lparr>nn_Namespace = TargetSecretNamespace item, nn_Name = ktr_Name (kes_TargetSecretRef (ke_Spec item))\<rparr>)"

definition targetSecret :: "'x env \<Rightarrow> OmniKubeconfigExport \<Rightarrow> ('x, goerror + Secret option) action" where
  "targetSecret E item = do {
     got \<leftarrow> get_secret E (targetSecret_key item);
     State_Monad.return (case got of
         Inr secret \<Rightarrow> Inr (Some secret)
       | Inl err \<Rightarrow> if IsNotFound err then Inr None else Inl err) }"

definition deletePreviousTargetSecret :: "'x env \<Rightarrow> OmniKubeconfigExport \<Rightarrow> ('x, goerror option) action" where
  "deletePreviousTargetSecret E item =
     (let currentNamespace = TargetSecretNamespace item;
          previousNamespace = (if ket_TargetSecretNamespace (ke_Status item) = [] then om_Namespace (ke_Meta item)
                               else ket_TargetSecretNamespace (ke_Status item));
          previousName = ket_TargetSecretRef (ke_Status item) in
      if kes_DeletionPolicy (ke_Spec item) \<noteq> KubeconfigExportDeletionPolicyDelete
         \<or> previousName = []
         \<or> (previousName = ktr_Name (kes_TargetSecretRef (ke_Spec item)) \<and> previousNamespace = currentNamespace)
      then State_Monad.return None
      else do {
        got \<leftarrow> get_secret E \<lparr>nn_Namespace = previousNamespace, nn_Name = previousName\<rparr>;
        (case got of
           Inl err \<Rightarrow> State_Monad.return (if IsNotFound err then None else Some err)
         | Inr secret \<Rightarrow>
             if \<not> IsOwnedSecret item (Some secret) then State_Monad.return None
             else k_delete (env_Secrets E) ObjSecret secret) })"

record currentKubeconfigState =
  ks_hash :: string
  ks_expirationTime :: "Time option"
  ks_lastRotationTime :: "Time option"
  ks_nextRotationTime :: "Time option"

definition currentKubeconfigSecretState ::
  "Secret \<Rightarrow> string \<Rightarrow> string \<Rightarrow> Time \<Rightarrow> Duration option \<Rightarrow> currentKubeconfigState option" where
  "currentKubeconfigSecretState secret targetKey specHash now renewBefore =
     (let data = data_index (sec_Data secret) targetKey; annotations = om_Annotations (sec_Meta secret) in
      if data = [] \<or> map_index annotations SpecHashAnnotation \<noteq> specHash then None
      else if map_index annotations HashAnnotation \<noteq> Hash data then None
      else (case AnnotationTime (Some secret) ExpirationAnnotation of
              Inl err \<Rightarrow> None
            | Inr None \<Rightarrow> None
            | Inr (Some expirationTime) \<Rightarrow>
                if RotationDue now expirationTime renewBefore then None
                else (case AnnotationTime (Some secret) LastRotationAnnotation of
                        Inl err \<Rightarrow> None
                      | Inr lastRotationTime \<Rightarrow>
                          Some \<lparr>ks_hash = Hash data, ks_expirationTime = Some expirationTime,
                                ks_lastRotationTime = lastRotationTime,
                                ks_nextRotationTime = Some (NextRotationTime expirationTime renewBefore)\<rparr>)))"

definition reusableCurrentKubeconfigSecretState ::
  "'x env \<Rightarrow> Secret \<Rightarrow> string \<Rightarrow> string \<Rightarrow> Time \<Rightarrow> Duration option \<Rightarrow> ('x, currentKubeconfigState option) action" where
  "reusableCurrentKubeconfigSecretState E secret targetKey specHash now renewBefore =
     (case currentKubeconfigSecretState secret targetKey specHash now renewBefore of
        None \<Rightarrow> State_Monad.return None
      | Some state \<Rightarrow> do {
          validationErr \<leftarrow> call (kubeconfigValidator E (data_index (sec_Data secret) targetKey))
            (EvValidateKubeconfig (data_index (sec_Data secret) targetKey));
          State_Monad.return
            (if kubeconfigValidationRequiresRotation validationErr then None else Some state) })"

section \<open>Handlers\<close>

definition Export_ensureFinalizer :: "'x env \<Rightarrow> OmniKubeconfigExport \<Rightarrow> ('x, early + unit) action" where
  "Export_ensureFinalizer E item =
     (if lib_ContainsFinalizer (env_Lib E) (om_Finalizers (ke_Meta item)) Finalizer
      then State_Monad.return (Inr ())
      else do {
        err \<leftarrow> k_update (env_KubeconfigExports E) ObjKubeconfigExport
          (item\<lparr>ke_Meta := add_finalizer (env_Lib E) (ke_Meta item)\<rparr>);
        State_Monad.return (case err of Some e \<Rightarrow> Inl (no_requeue, Some e) | None \<Rightarrow> Inl (requeue_now, None)) })"

interpretation export_claim: claimed_kind Export_ensureFinalizer env_KubeconfigExports ObjKubeconfigExport ke_Meta
  "\<lambda>m. ke_Meta_update (\<lambda>_. m)"
  by unfold_locales (simp_all add: Export_ensureFinalizer_def)

definition exportCluster :: "'x env \<Rightarrow> OmniKubeconfigExport \<Rightarrow> ('x, early + OmniCluster) action" where
  "exportCluster E item =
     (let name = lor_Name (kes_ClusterRef (ke_Spec item)) in do {
      got \<leftarrow> k_get (env_Clusters E) KCluster \<lparr>nn_Namespace = om_Namespace (ke_Meta item), nn_Name = name\<rparr>;
      (case got of
         Inr cluster \<Rightarrow> State_Monad.return (Inr cluster)
       | Inl err \<Rightarrow>
           if IsNotFound err then do {
             statusErr \<leftarrow> updateKubeconfigExportStatus E item
               (status_update_zero\<lparr>ku_clusterExists := False, ku_acceptedKnown := True,
                  ku_reason := ReasonMissingCluster,
                  ku_message := ''OmniCluster '' @ Quote (lib_IsPrint (env_Lib E)) name @ '' does not exist''\<rparr>);
             State_Monad.return (Inl (requeue_after kubeconfigExportRetryInterval, statusErr)) }
           else State_Monad.return (Inl (no_requeue, Some err))) })"

definition exportConnection ::
  "'x env \<Rightarrow> OmniKubeconfigExport \<Rightarrow> OmniCluster \<Rightarrow> ('x, early + OmniConnection) action" where
  "exportConnection E item cluster =
     (let name = lor_Name (cs_ConnectionRef (c_Spec cluster)) in do {
      got \<leftarrow> k_get (env_Connections E) KConnection \<lparr>nn_Namespace = om_Namespace (ke_Meta item), nn_Name = name\<rparr>;
      (case got of
         Inr connection \<Rightarrow> State_Monad.return (Inr connection)
       | Inl err \<Rightarrow> do {
           out \<leftarrow> report_and_requeue
             (updateKubeconfigExportStatus E item
               (status_update_zero\<lparr>ku_cluster := Some cluster, ku_clusterExists := True, ku_acceptedKnown := True,
                  ku_exportErr := Some err, ku_reason := ReasonMissingConnection,
                  ku_message := ''failed to get OmniConnection '' @ Quote (lib_IsPrint (env_Lib E)) name
                    @ '': '' @ Error err\<rparr>))
             kubeconfigExportRetryInterval None;
           State_Monad.return (Inl out) }) })"

text \<open>A failed export: the error is reported in the status and returned, with a retry interval.\<close>

definition export_failed ::
  "'x env \<Rightarrow> OmniKubeconfigExport \<Rightarrow> OmniCluster \<Rightarrow> OmniConnection \<Rightarrow> goerror \<Rightarrow> string \<Rightarrow> ('x, early + string) action" where
  "export_failed E item cluster connection err message = do {
     out \<leftarrow> report_and_requeue
       (updateKubeconfigExportStatus E item
         (status_update_zero\<lparr>ku_cluster := Some cluster, ku_connection := Some connection,
            ku_clusterExists := True, ku_acceptedKnown := True, ku_exportErr := Some err,
            ku_reason := ReasonExportFailed, ku_message := message\<rparr>))
       kubeconfigExportRetryInterval (Some err);
     State_Monad.return (Inl out) }"

definition with_context_namespace :: "klib \<Rightarrow> 'x clientcmd \<Rightarrow> string \<Rightarrow> KubeConfig \<Rightarrow> goerror + string" where
  "with_context_namespace L cc ns loaded =
     (let contextName = kc_CurrentContext loaded in
      case map_get (kc_Contexts loaded) contextName of
        None \<Rightarrow> Inl (ErrorString (''generated kubeconfig current context '' @ Quote (lib_IsPrint L) contextName
                                  @ '' was not found''))
      | Some kubeContext \<Rightarrow>
          (case cc_Write cc (loaded\<lparr>kc_Contexts :=
                   map_option (fmupd contextName (kubeContext\<lparr>kcx_Namespace := ns\<rparr>)) (kc_Contexts loaded)\<rparr>) of
             Inl err \<Rightarrow> Inl (WrapError (''write kubeconfig with context namespace: '' @ Error err) err)
           | Inr kubeconfig \<Rightarrow> Inr kubeconfig))"

definition generateKubeconfig ::
  "'x env \<Rightarrow> OmniKubeconfigExport \<Rightarrow> OmniCluster \<Rightarrow> OmniConnection \<Rightarrow> string \<Rightarrow> ('x, early + string) action" where
  "generateKubeconfig E item cluster connection clusterName =
     (let account = kes_ServiceAccount (ke_Spec item); ns = kes_ContextNamespace (ke_Spec item) in do {
      got \<leftarrow> omni_Kubeconfig E connection clusterName
        \<lparr>ko_TTL = kes_TTL (ke_Spec item), ko_User = ksa_User account, ko_Groups = ksa_Groups account\<rparr>;
      (case got of
         Inl err \<Rightarrow> export_failed E item cluster connection err (''failed to export kubeconfig: '' @ Error err)
       | Inr kubeconfig \<Rightarrow>
           (case cc_Load (env_Clientcmd E) kubeconfig of
              Inl err \<Rightarrow>
                (let exportErr = WrapError (''generated kubeconfig is invalid: '' @ Error err) err in
                 export_failed E item cluster connection exportErr (Error exportErr))
            | Inr loaded \<Rightarrow>
                if ns = [] then State_Monad.return (Inr kubeconfig)
                else (case with_context_namespace (env_Lib E) (env_Clientcmd E) ns loaded of
                        Inl exportErr \<Rightarrow> export_failed E item cluster connection exportErr (Error exportErr)
                      | Inr rewritten \<Rightarrow> State_Monad.return (Inr rewritten)))) })"

text \<open>The Secret that is written: the existing one or a new one, with the kubeconfig in it.\<close>

definition new_target_secret :: "OmniKubeconfigExport \<Rightarrow> Secret" where
  "new_target_secret item =
     \<lparr>sec_Meta = \<lparr>om_Name = ktr_Name (kes_TargetSecretRef (ke_Spec item)), om_Namespace = TargetSecretNamespace item,
                  om_UID = [], om_ResourceVersion = [], om_Generation = 0, om_DeletionTimestamp = None,
                  om_Finalizers = [], om_Labels = None, om_Annotations = None\<rparr>,
      sec_Type = ''Opaque'', sec_Data = None\<rparr>"

definition export_secret ::
  "OmniKubeconfigExport \<Rightarrow> Secret option \<Rightarrow> string \<Rightarrow> string \<Rightarrow> string \<Rightarrow> Time \<Rightarrow> Time \<Rightarrow> Secret" where
  "export_secret item existing clusterName specHash kubeconfig expirationTime rotationTime =
     (let targetKey = TargetSecretKey item;
          s = (case existing of Some s \<Rightarrow> s | None \<Rightarrow> new_target_secret item);
          m = (sec_Meta s)
                \<lparr>om_Labels := mergeStringMaps (om_Labels (sec_Meta s)) (SecretLabels item clusterName),
                 om_Annotations := mergeStringMaps (om_Annotations (sec_Meta s))
                   (SecretAnnotations item specHash (Hash kubeconfig) expirationTime rotationTime)\<rparr>;
          s1 = s\<lparr>sec_Meta := m\<rparr>;
          data = (case sec_Data s of None \<Rightarrow> fmempty | Some d \<Rightarrow> d);
          previousKey = ket_TargetSecretKey (ke_Status item);
          data1 = (if IsOwnedSecret item (Some s1)
                      \<and> ket_TargetSecretRef (ke_Status item) = ktr_Name (kes_TargetSecretRef (ke_Spec item))
                      \<and> previousKey \<noteq> [] \<and> previousKey \<noteq> targetKey
                   then fmdrop previousKey data else data)
      in s1\<lparr>sec_Data := Some (fmupd targetKey (Some kubeconfig) data1)\<rparr>)"

definition export_reused ::
  "'x env \<Rightarrow> OmniKubeconfigExport \<Rightarrow> OmniCluster \<Rightarrow> OmniConnection \<Rightarrow> Time \<Rightarrow> currentKubeconfigState
     \<Rightarrow> ('x, Result \<times> goerror option) action" where
  "export_reused E item cluster connection now state =
     report_and_requeue
       (updateKubeconfigExportStatus E item
         (status_update_zero\<lparr>ku_cluster := Some cluster, ku_connection := Some connection,
            ku_clusterExists := True, ku_acceptedKnown := True, ku_exported := True,
            ku_hash := ks_hash state, ku_expirationTime := ks_expirationTime state,
            ku_lastRotationTime := ks_lastRotationTime state, ku_nextRotationTime := ks_nextRotationTime state\<rparr>))
       (requeueAfter now (ks_nextRotationTime state)) None"

definition export_generated ::
  "'x env \<Rightarrow> OmniKubeconfigExport \<Rightarrow> OmniCluster \<Rightarrow> OmniConnection \<Rightarrow> string \<Rightarrow> Time \<Rightarrow> Secret option \<Rightarrow> string
     \<Rightarrow> ('x, Result \<times> goerror option) action" where
  "export_generated E item cluster connection specHash now existing kubeconfig =
     (let rotationTime = now;
          expirationTime = Time_Add now (kes_TTL (ke_Spec item));
          nextRotationTime = NextRotationTime expirationTime (kes_RenewBefore (ke_Spec item));
          secret = export_secret item existing (ClusterName cluster) specHash kubeconfig expirationTime rotationTime
      in do {
        err \<leftarrow> (if existing \<noteq> None then k_update (env_Secrets E) ObjSecret secret
               else k_create (env_Secrets E) ObjSecret secret);
        (case err of
           Some e \<Rightarrow> State_Monad.return (no_requeue, Some e)
         | None \<Rightarrow>
             report_and_requeue
               (updateKubeconfigExportStatus E item
                 (status_update_zero\<lparr>ku_cluster := Some cluster, ku_connection := Some connection,
                    ku_clusterExists := True, ku_acceptedKnown := True, ku_exported := True,
                    ku_hash := Hash kubeconfig, ku_expirationTime := Some expirationTime,
                    ku_lastRotationTime := Some rotationTime, ku_nextRotationTime := Some nextRotationTime\<rparr>))
               (requeueAfter now (Some nextRotationTime)) None) })"

definition export_target ::
  "'x env \<Rightarrow> OmniKubeconfigExport \<Rightarrow> OmniCluster \<Rightarrow> OmniConnection \<Rightarrow> string \<Rightarrow> ('x, Result \<times> goerror option) action" where
  "export_target E item cluster connection specHash = do {
     now \<leftarrow> export_now E;
     deleteErr \<leftarrow> deletePreviousTargetSecret E item;
     (case deleteErr of
        Some e \<Rightarrow> State_Monad.return (no_requeue, Some e)
      | None \<Rightarrow> do {
          target \<leftarrow> targetSecret E item;
          (case target of
             Inl e \<Rightarrow> State_Monad.return (no_requeue, Some e)
           | Inr existing \<Rightarrow> do {
               reusable \<leftarrow> (case existing of
                   None \<Rightarrow> State_Monad.return None
                 | Some secret \<Rightarrow> reusableCurrentKubeconfigSecretState E secret (TargetSecretKey item) specHash now
                     (kes_RenewBefore (ke_Spec item)));
               (case reusable of
                  Some state \<Rightarrow> export_reused E item cluster connection now state
                | None \<Rightarrow> do {
                    generated \<leftarrow> generateKubeconfig E item cluster connection (ClusterName cluster);
                    (case generated of
                       Inl early \<Rightarrow> State_Monad.return early
                     | Inr kubeconfig \<Rightarrow>
                         export_generated E item cluster connection specHash now existing kubeconfig) }) }) }) }"

definition Export_reconcileDelete :: "'x env \<Rightarrow> OmniKubeconfigExport \<Rightarrow> ('x, Result \<times> goerror option) action" where
  "Export_reconcileDelete E item =
     (let L = env_Lib E;
          release = (do {
            err \<leftarrow> k_update (env_KubeconfigExports E) ObjKubeconfigExport
              (item\<lparr>ke_Meta := (ke_Meta item)\<lparr>om_Finalizers :=
                 lib_RemoveFinalizer L (om_Finalizers (ke_Meta item)) Finalizer\<rparr>\<rparr>);
            State_Monad.return (no_requeue, err) }) in
      if \<not> lib_ContainsFinalizer L (om_Finalizers (ke_Meta item)) Finalizer then State_Monad.return (no_requeue, None)
      else if kes_DeletionPolicy (ke_Spec item) = KubeconfigExportDeletionPolicyDelete
              \<and> ktr_Name (kes_TargetSecretRef (ke_Spec item)) \<noteq> []
      then do {
        target \<leftarrow> targetSecret E item;
        (case target of
           Inl e \<Rightarrow> State_Monad.return (no_requeue, Some e)
         | Inr None \<Rightarrow> release
         | Inr (Some secret) \<Rightarrow>
             if IsOwnedSecret item (Some secret) then do {
               err \<leftarrow> k_delete (env_Secrets E) ObjSecret secret;
               (case err of
                  None \<Rightarrow> release
                | Some e \<Rightarrow> if IsNotFound e then release else State_Monad.return (no_requeue, Some e)) }
             else release) }
      else release)"

text \<open>What a run does with the item it has read.\<close>

definition reconcile_export :: "'x env \<Rightarrow> OmniKubeconfigExport \<Rightarrow> ('x, Result \<times> goerror option) action" where
  "reconcile_export E item =
     (if \<not> Time_IsZero (om_DeletionTimestamp (ke_Meta item)) then Export_reconcileDelete E item
      else do {
        claimed \<leftarrow> Export_ensureFinalizer E item;
        (case claimed of
           Inl early \<Rightarrow> State_Monad.return early
         | Inr _ \<Rightarrow>
             (case kubeconfigExportSpecError item of
                Some err \<Rightarrow> do {
                  statusErr \<leftarrow> updateKubeconfigExportStatus E item
                    (status_update_zero\<lparr>ku_exportErr := Some err, ku_reason := ReasonValidationFailed,
                       ku_message := Error err\<rparr>);
                  State_Monad.return (no_requeue, statusErr) }
              | None \<Rightarrow> do {
                  clusterOr \<leftarrow> exportCluster E item;
                  (case clusterOr of
                     Inl early \<Rightarrow> State_Monad.return early
                   | Inr cluster \<Rightarrow> do {
                       connectionOr \<leftarrow> exportConnection E item cluster;
                       (case connectionOr of
                          Inl early \<Rightarrow> State_Monad.return early
                        | Inr connection \<Rightarrow>
                            (case SpecHash item (ClusterName cluster) of
                               Inl err \<Rightarrow> State_Monad.return (no_requeue, Some err)
                             | Inr specHash \<Rightarrow> export_target E item cluster connection specHash)) }) })) })"

definition Export_Reconcile :: "'x env \<Rightarrow> NamespacedName \<Rightarrow> ('x, Result \<times> goerror option) action" where
  "Export_Reconcile E req = do {
     got \<leftarrow> k_get (env_KubeconfigExports E) KKubeconfigExport req;
     (case got of
        Inl err \<Rightarrow> State_Monad.return (if IsNotFound err then (no_requeue, None) else (no_requeue, Some err))
      | Inr item \<Rightarrow> reconcile_export E item) }"

section \<open>Watches\<close>

definition kubeconfigExportRequestsForCluster :: "'x env \<Rightarrow> ObjectMeta \<Rightarrow> ('x, NamespacedName list) action" where
  "kubeconfigExportRequestsForCluster E object = do {
     items \<leftarrow> k_list (env_KubeconfigExports E) KKubeconfigExport (om_Namespace object);
     State_Monad.return (case items of
         Inl err \<Rightarrow> []
       | Inr xs \<Rightarrow> requests_matching ke_Meta (\<lambda>x. lor_Name (kes_ClusterRef (ke_Spec x))) (om_Name object) xs) }"

definition kubeconfigExportRequestsForConnection :: "'x env \<Rightarrow> ObjectMeta \<Rightarrow> ('x, NamespacedName list) action" where
  "kubeconfigExportRequestsForConnection E object = do {
     clusters \<leftarrow> k_list (env_Clusters E) KCluster (om_Namespace object);
     (case clusters of
        Inl err \<Rightarrow> State_Monad.return []
      | Inr cs \<Rightarrow>
          (let clusterNames = map (\<lambda>c. om_Name (c_Meta c))
                 (filter (\<lambda>c. lor_Name (cs_ConnectionRef (c_Spec c)) = om_Name object) cs) in
           if clusterNames = [] then State_Monad.return []
           else do {
             items \<leftarrow> k_list (env_KubeconfigExports E) KKubeconfigExport (om_Namespace object);
             State_Monad.return (case items of
                 Inl err \<Rightarrow> []
               | Inr xs \<Rightarrow> map (\<lambda>x. ObjectKeyFromMeta (ke_Meta x))
                   (filter (\<lambda>x. lor_Name (kes_ClusterRef (ke_Spec x)) \<in> set clusterNames) xs)) })) }"

definition kubeconfigExportRequestsForSecret :: "ObjectMeta option \<Rightarrow> NamespacedName list" where
  "kubeconfigExportRequestsForSecret object =
     (case object of
        None \<Rightarrow> []
      | Some m \<Rightarrow>
          if om_Annotations m = None then []
          else (let ownerName = map_index (om_Annotations m) OwnerAnnotation;
                    ns = map_index (om_Annotations m) OwnerNamespaceAnnotation;
                    ownerNamespace = (if ns = [] then om_Namespace m else ns)
                in if ownerName = [] then []
                   else [\<lparr>nn_Namespace = ownerNamespace, nn_Name = ownerName\<rparr>]))"

end
