(* ===== verification/Kubeconfig_Safety.thy ===== *)
theory Kubeconfig_Safety
  imports Kubeconfig_Controller Server_Answers
begin

text \<open>
  What the kubeconfig export controller guarantees: the Secret it writes is its own and is
  recognised on later runs until rotation is due; it deletes only its own Secrets, and only under
  the deletion policy that says so; it asks Omni only for access that the spec allows; it reports
  an export only when the Secret is there; and it always comes back to rotate.
\<close>

section \<open>Merged maps\<close>

lemma map_index_merge:
  "map_index (mergeStringMaps base (Some f)) k =
     (case fmlookup f k of Some v \<Rightarrow> v | None \<Rightarrow> map_index base k)"
  by (auto simp: mergeStringMaps_def map_index_def map_len0_def map_copy_def map_get_def
      split: option.splits)

lemma map_index_merge_annotations [simp]:
  "map_index (mergeStringMaps base (SecretAnnotations item sh kh et rt)) OwnerAnnotation = om_Name (ke_Meta item)"
  "map_index (mergeStringMaps base (SecretAnnotations item sh kh et rt)) OwnerNamespaceAnnotation = om_Namespace (ke_Meta item)"
  "map_index (mergeStringMaps base (SecretAnnotations item sh kh et rt)) SpecHashAnnotation = sh"
  "map_index (mergeStringMaps base (SecretAnnotations item sh kh et rt)) HashAnnotation = kh"
  "map_index (mergeStringMaps base (SecretAnnotations item sh kh et rt)) ExpirationAnnotation = Format_RFC3339 et"
  "map_index (mergeStringMaps base (SecretAnnotations item sh kh et rt)) LastRotationAnnotation = Format_RFC3339 rt"
  "map_index (mergeStringMaps base (SecretLabels item name)) OwnerUIDLabel = om_UID (ke_Meta item)"
  by (simp_all add: SecretAnnotations_def SecretLabels_def map_index_merge fmlookup_of_list export_name_defs)

lemma merge_annotations_not_nil [simp]:
  "\<exists>m. mergeStringMaps base (SecretAnnotations item sh kh et rt) = Some m"
  by (simp add: mergeStringMaps_def SecretAnnotations_def map_len0_def)

section \<open>The written Secret\<close>

lemma export_secret_fields [simp]:
  "om_Annotations (sec_Meta (export_secret item ex name sh kc et rt)) =
     mergeStringMaps (om_Annotations (sec_Meta (case ex of Some s \<Rightarrow> s | None \<Rightarrow> new_target_secret item)))
       (SecretAnnotations item sh (Hash kc) et rt)"
  "om_Labels (sec_Meta (export_secret item ex name sh kc et rt)) =
     mergeStringMaps (om_Labels (sec_Meta (case ex of Some s \<Rightarrow> s | None \<Rightarrow> new_target_secret item)))
       (SecretLabels item name)"
  "om_Name (sec_Meta (export_secret item ex name sh kc et rt)) =
     om_Name (sec_Meta (case ex of Some s \<Rightarrow> s | None \<Rightarrow> new_target_secret item))"
  "om_Namespace (sec_Meta (export_secret item ex name sh kc et rt)) =
     om_Namespace (sec_Meta (case ex of Some s \<Rightarrow> s | None \<Rightarrow> new_target_secret item))"
  "data_index (sec_Data (export_secret item ex name sh kc et rt)) (TargetSecretKey item) = kc"
  by (simp_all add: export_secret_def Let_def data_index_def)

lemma export_secret_owned: "IsOwnedSecret item (Some (export_secret item ex name sh kc et rt))"
  by (simp add: IsOwnedSecret_def)

text \<open>
  Claim C13.  The Secret an export writes is recognised by every later run with the same settings
  as holding the current kubeconfig, with the hash of its contents and with the expiration and
  rotation times it was written with, to the second; it stops being so exactly when rotation is
  due.
\<close>

theorem written_secret_is_current:
  assumes "kubeconfig \<noteq> []" and "rfc3339_range expirationTime" and "rfc3339_range rotationTime"
  shows "currentKubeconfigSecretState
      (export_secret item existing clusterName specHash kubeconfig expirationTime rotationTime)
      (TargetSecretKey item) specHash later renewBefore =
    (let expiration = \<lparr>t_ns = unix_seconds expirationTime * 1000000000, t_loc = UTC, t_mono = False\<rparr> in
     if t_ns expiration \<le> t_ns later + (case renewBefore of None \<Rightarrow> 0 | Some d \<Rightarrow> max 0 d) then None
     else Some \<lparr>ks_hash = Hash kubeconfig, ks_expirationTime = Some expiration,
                ks_lastRotationTime = Some \<lparr>t_ns = unix_seconds rotationTime * 1000000000, t_loc = UTC, t_mono = False\<rparr>,
                ks_nextRotationTime = Some (NextRotationTime expiration renewBefore)\<rparr>)"
proof -
  let ?s = "export_secret item existing clusterName specHash kubeconfig expirationTime rotationTime"
  have "AnnotationTime (Some ?s) ExpirationAnnotation =
      Inr (Some \<lparr>t_ns = unix_seconds expirationTime * 1000000000, t_loc = UTC, t_mono = False\<rparr>)"
    and "AnnotationTime (Some ?s) LastRotationAnnotation =
      Inr (Some \<lparr>t_ns = unix_seconds rotationTime * 1000000000, t_loc = UTC, t_mono = False\<rparr>)"
    using assms by (auto intro!: AnnotationTime_written)
  then show ?thesis
    using assms(1) by (simp add: currentKubeconfigSecretState_def Let_def RotationDue_iff)
qed

text \<open>
  A Secret that an export writes belongs to it, whether the item has a UID or not, and
  a change of the Secret wakes the export that wrote it.
\<close>

theorem written_secret_is_owned:
  assumes "om_Name (ke_Meta item) \<noteq> []" and "om_Namespace (ke_Meta item) \<noteq> []"
  shows "IsOwnedSecret item (Some (export_secret item existing clusterName specHash kubeconfig et rt))
    \<and> kubeconfigExportRequestsForSecret
        (Some (sec_Meta (export_secret item existing clusterName specHash kubeconfig et rt)))
      = [ObjectKeyFromMeta (ke_Meta item)]"
  using assms export_secret_owned
  by (simp add: kubeconfigExportRequestsForSecret_def Let_def ObjectKeyFromMeta_def)

section \<open>The events of a run\<close>

text \<open>What a run may do for an item.\<close>

fun export_event :: "OmniKubeconfigExport \<Rightarrow> event \<Rightarrow> bool" where
  "export_event item (EvGet k key r) = True"
| "export_event item (EvValidateKubeconfig kc r) = True"
| "export_event item (EvStatusUpdate (ObjKubeconfigExport x) r) = True"
| "export_event item (EvUpdate (ObjKubeconfigExport x) r) = (ke_Spec x = ke_Spec item \<and> ke_Status x = ke_Status item)"
| "export_event item (EvKubeconfig c name opts r) =
     (kubeconfigExportSpecError item = None \<and>
      opts = \<lparr>ko_TTL = kes_TTL (ke_Spec item), ko_User = ksa_User (kes_ServiceAccount (ke_Spec item)),
              ko_Groups = ksa_Groups (kes_ServiceAccount (ke_Spec item))\<rparr>)"
| "export_event item (EvDelete (ObjSecret s) r) =
     (IsOwnedSecret item (Some s) \<and> kes_DeletionPolicy (ke_Spec item) = KubeconfigExportDeletionPolicyDelete)"
| "export_event item (EvCreate (ObjSecret s) r) =
     (IsOwnedSecret item (Some s) \<and> ObjectKeyFromMeta (sec_Meta s) =
        \<lparr>nn_Namespace = TargetSecretNamespace item, nn_Name = ktr_Name (kes_TargetSecretRef (ke_Spec item))\<rparr>)"
| "export_event item (EvUpdate (ObjSecret s) r) = IsOwnedSecret item (Some s)"
| "export_event item e = False"

definition export_written :: "OmniKubeconfigExportStatus \<Rightarrow> bool" where
  "export_written s = condition_is (csf_Conditions (ket_Common s)) ConditionReady ConditionTrue ReasonExported"

fun writes_exported :: "event \<Rightarrow> bool" where
  "writes_exported (EvStatusUpdate (ObjKubeconfigExport x) r) = export_written (ke_Status x)"
| "writes_exported e = False"

text \<open>
  What the item refers to, as the API server answers: its cluster, and the connection of that; the
  time of the run; and the kubeconfig that Omni issues for the user, the groups and the lifetime of
  the spec, with the context's namespace set when the spec names one.
\<close>

definition export_cluster :: "'x env \<Rightarrow> OmniKubeconfigExport \<Rightarrow> OmniCluster \<Rightarrow> bool" where
  "export_cluster E item cluster \<longleftrightarrow> answered (env_Clusters E)
     \<lparr>nn_Namespace = om_Namespace (ke_Meta item), nn_Name = lor_Name (kes_ClusterRef (ke_Spec item))\<rparr> cluster"

definition export_connection :: "'x env \<Rightarrow> OmniKubeconfigExport \<Rightarrow> OmniCluster \<Rightarrow> OmniConnection \<Rightarrow> bool" where
  "export_connection E item cluster connection \<longleftrightarrow> answered (env_Connections E)
     \<lparr>nn_Namespace = om_Namespace (ke_Meta item), nn_Name = lor_Name (cs_ConnectionRef (c_Spec cluster))\<rparr> connection"

definition reads_clock :: "'x env \<Rightarrow> Time \<Rightarrow> bool" where
  "reads_clock E now \<longleftrightarrow>
     (\<exists>x. now = Time_UTC (fst ((case env_Clock E of Some clock \<Rightarrow> clock | None \<Rightarrow> env_Now E) x)))"

definition issued_kubeconfig ::
  "'x env \<Rightarrow> OmniKubeconfigExport \<Rightarrow> OmniConnection \<Rightarrow> string \<Rightarrow> string \<Rightarrow> bool" where
  "issued_kubeconfig E item connection name kubeconfig \<longleftrightarrow>
     (\<exists>raw loaded. answers (oc_Kubeconfig (omniClient E) connection name
          \<lparr>ko_TTL = kes_TTL (ke_Spec item), ko_User = ksa_User (kes_ServiceAccount (ke_Spec item)),
           ko_Groups = ksa_Groups (kes_ServiceAccount (ke_Spec item))\<rparr>) raw
        \<and> cc_Load (env_Clientcmd E) raw = Inr loaded
        \<and> (if kes_ContextNamespace (ke_Spec item) = [] then kubeconfig = raw
           else with_context_namespace (env_Lib E) (env_Clientcmd E) (kes_ContextNamespace (ke_Spec item)) loaded
                  = Inr kubeconfig))"

text \<open>
  The Secret of a successful export: what was found, or a new Secret at the target of the spec, with
  such a kubeconfig under the item's key and the marks that belong to it; and a Secret found that
  holds a kubeconfig exported for the same settings and not due for rotation.
\<close>

definition exported_secret :: "'x env \<Rightarrow> OmniKubeconfigExport \<Rightarrow> Secret option \<Rightarrow> Secret \<Rightarrow> bool" where
  "exported_secret E item existing s \<longleftrightarrow>
     (\<exists>cluster connection sh kubeconfig now. export_cluster E item cluster
        \<and> export_connection E item cluster connection \<and> SpecHash item (ClusterName cluster) = Inr sh
        \<and> reads_clock E now \<and> issued_kubeconfig E item connection (ClusterName cluster) kubeconfig
        \<and> s = export_secret item existing (ClusterName cluster) sh kubeconfig
             (Time_Add now (kes_TTL (ke_Spec item))) now)"

definition current_secret :: "'x env \<Rightarrow> OmniKubeconfigExport \<Rightarrow> Secret \<Rightarrow> bool" where
  "current_secret E item s \<longleftrightarrow>
     (\<exists>cluster sh now. export_cluster E item cluster \<and> SpecHash item (ClusterName cluster) = Inr sh \<and> reads_clock E now
        \<and> currentKubeconfigSecretState s (TargetSecretKey item) sh now (kes_RenewBefore (ke_Spec item)) \<noteq> None)"

text \<open>
  The Secret is in place: there was none and it was just created, or the one found was just updated,
  or the one found is current and its kubeconfig was just checked.  The run looks for it under
  \<open>targetSecret_key item\<close>: where the status says the Secret is, or else where the spec wants it.
\<close>

definition found_secret :: "'x env \<Rightarrow> OmniKubeconfigExport \<Rightarrow> Secret \<Rightarrow> bool" where
  "found_secret E item s \<longleftrightarrow> answers (secretReader_Get E (targetSecret_key item)) s"

definition missing_secret :: "'x env \<Rightarrow> OmniKubeconfigExport \<Rightarrow> bool" where
  "missing_secret E item \<longleftrightarrow>
     (\<exists>x err. fst (secretReader_Get E (targetSecret_key item) x) = Inl err \<and> IsNotFound err)"

fun secret_in_place :: "'x env \<Rightarrow> OmniKubeconfigExport \<Rightarrow> event \<Rightarrow> bool" where
  "secret_in_place E item (EvCreate (ObjSecret s) r) =
     (r = None \<and> missing_secret E item \<and> exported_secret E item None s)"
| "secret_in_place E item (EvUpdate (ObjSecret s) r) =
     (r = None \<and> (\<exists>old. found_secret E item old \<and> exported_secret E item (Some old) s))"
| "secret_in_place E item (EvValidateKubeconfig kc r) =
     (\<not> kubeconfigValidationRequiresRotation r
      \<and> (\<exists>old. found_secret E item old \<and> current_secret E item old
           \<and> kc = data_index (sec_Data old) (TargetSecretKey item)))"
| "secret_in_place E item e = False"

fun export_status_event :: "bool \<Rightarrow> event \<Rightarrow> bool" where
  "export_status_event ok (EvGet k key r) = True"
| "export_status_event ok (EvStatusUpdate (ObjKubeconfigExport x) r) = (export_written (ke_Status x) = ok)"
| "export_status_event ok e = False"

lemma set_export_condition_is:
  "condition_contract L \<Longrightarrow> cond_LastTransitionTime c = zero_time \<Longrightarrow>
     condition_is (csf_Conditions (ket_Common (set_export_condition L now c s))) ty st reason =
       (if ty = cond_Type c then cond_Status c = st \<and> cond_Reason c = reason
        else condition_is (csf_Conditions (ket_Common s)) ty st reason)"
  by (simp add: set_export_condition_def condition_is_def SetCondition_upsert find_condition_upsert)

lemma export_written_outcome:
  "condition_contract L \<Longrightarrow>
     export_written (set_export_outcome L now st g reason msg s) = (st = ConditionTrue \<and> reason = ReasonExported)"
  by (simp add: export_written_def set_export_outcome_def set_export_condition_is)

lemma export_status_written:
  "condition_contract L \<Longrightarrow> export_written (ke_Status (export_status L input now latest)) = ku_exported input"
  by (simp add: export_status_def Let_def export_written_outcome)

lemma updateKubeconfigExportStatus_emits:
  assumes "env_retry_ok E" and "condition_contract (env_Lib E)"
  shows "emits (updateKubeconfigExportStatus E item input)
    (\<lambda>r t. list_all (export_status_event (ku_exported input)) t)"
  unfolding updateKubeconfigExportStatus_def
  by (rule emits_mono [OF write_status_emits
        [where P = "\<lambda>obj. \<exists>x. obj = ObjKubeconfigExport x \<and> export_written (ke_Status x) = ku_exported input"]])
    (use assms export_status_written in \<open>auto elim!: list_all_weaken simp: status_write_event_def\<close>)

lemma export_status_event_export: "export_status_event ok e \<Longrightarrow> export_event item e"
  and export_status_event_quiet: "export_status_event False e \<Longrightarrow> \<not> writes_exported e"
  by (auto elim: export_status_event.elims)

text \<open>
  A piece of a run: it does what the item permits, and, unless the Secret is already in place,
  does not report an export before it is.
\<close>

definition export_piece :: "'x env \<Rightarrow> OmniKubeconfigExport \<Rightarrow> event list \<Rightarrow> bool" where
  "export_piece E item t \<longleftrightarrow> list_all (export_event item) t \<and> preceded writes_exported (secret_in_place E item) t"

definition export_lead :: "OmniKubeconfigExport \<Rightarrow> event list \<Rightarrow> bool" where
  "export_lead item t \<longleftrightarrow> list_all (export_event item) t \<and> list_all (\<lambda>e. \<not> writes_exported e) t"

lemma export_lead_simps [simp]:
  "export_lead item []"
  "export_lead item (e # t) \<longleftrightarrow> export_event item e \<and> \<not> writes_exported e \<and> export_lead item t"
  "export_lead item (s @ t) \<longleftrightarrow> export_lead item s \<and> export_lead item t"
  by (auto simp: export_lead_def)

lemma export_lead_piece: "export_lead item t \<Longrightarrow> export_piece E item t"
  by (simp add: export_lead_def export_piece_def preceded_none)

lemma export_piece_append: "export_lead item s \<Longrightarrow> export_piece E item t \<Longrightarrow> export_piece E item (s @ t)"
  by (simp add: export_lead_def export_piece_def preceded_append)

lemma report_failed_emits:
  assumes "env_retry_ok E" and "condition_contract (env_Lib E)" and "\<not> ku_exported input"
  shows "emits (updateKubeconfigExportStatus E item input) (\<lambda>r t. export_lead item t)"
  using updateKubeconfigExportStatus_emits [OF assms(1,2), of item input] assms(3)
  by (auto elim!: emits_mono list_all_weaken simp: export_lead_def
      intro: export_status_event_export dest: export_status_event_quiet)

lemma report_exported_emits:
  assumes "env_retry_ok E" and "condition_contract (env_Lib E)"
  shows "emits (updateKubeconfigExportStatus E item input) (\<lambda>r t. list_all (export_event item) t)"
  by (rule emits_mono [OF updateKubeconfigExportStatus_emits [OF assms]])
    (auto elim!: list_all_weaken intro: export_status_event_export)

text \<open>A run that ends without an error comes back: the requeue delay is positive.\<close>

definition comes_back :: "Result \<times> goerror option \<Rightarrow> bool" where
  "comes_back out \<longleftrightarrow> snd out \<noteq> None \<or> res_Requeue (fst out) \<or> res_RequeueAfter (fst out) > 0"

lemma comes_back_simps [simp]:
  "comes_back (res, Some e)" "comes_back (requeue_now, err)"
  "comes_back (requeue_after d, err) \<longleftrightarrow> err \<noteq> None \<or> 0 < d"
  by (simp_all add: comes_back_def requeue_now_def requeue_after_def)

lemma retry_interval_pos [simp]: "0 < kubeconfigExportRetryInterval"
  by (simp add: kubeconfigExportRetryInterval_def Minute_def Second_def)

lemma report_and_requeue_comes_back:
  assumes "emits w (\<lambda>r t. P t)" and "err \<noteq> None \<or> 0 < after"
  shows "emits (report_and_requeue w after err) (\<lambda>out t. P t \<and> comes_back out)"
  unfolding report_and_requeue_def
  by (rule emits_then [OF assms(1)], rule emits_return) (use assms(2) in \<open>auto split: option.splits\<close>)

abbreviation lead_or_back :: "OmniKubeconfigExport \<Rightarrow> ('a \<Rightarrow> bool) \<Rightarrow> early + 'a \<Rightarrow> event list \<Rightarrow> bool" where
  "lead_or_back item R r t \<equiv> export_lead item t \<and> (case r of Inl out \<Rightarrow> comes_back out | Inr a \<Rightarrow> R a)"

lemma export_failed_emits:
  assumes "env_retry_ok E" and "condition_contract (env_Lib E)"
  shows "emits (export_failed E item cluster connection err msg) (lead_or_back item R)"
  unfolding export_failed_def
  by (intro emits_then [OF report_and_requeue_comes_back [OF report_failed_emits [OF assms, of _ item]]] emits_return)
    (simp_all add: status_update_zero_def)

lemma Export_ensureFinalizer_emits: "emits (Export_ensureFinalizer E item) (lead_or_back item (\<lambda>_. True))"
  unfolding Export_ensureFinalizer_def k_call_defs
  by (intro emits_rules) (auto split: option.splits)

lemma exportCluster_emits:
  assumes "env_retry_ok E" and "condition_contract (env_Lib E)"
  shows "emits (exportCluster E item) (lead_or_back item (export_cluster E item))"
  unfolding exportCluster_def Let_def k_call_defs
  by (rule emits_answer_bind;
      intro emits_case_sum emits_if emits_then [OF report_failed_emits [OF assms, of _ item]] emits_return)
    (auto simp: status_update_zero_def export_cluster_def answered_def)

lemma exportConnection_emits:
  assumes "env_retry_ok E" and "condition_contract (env_Lib E)"
  shows "emits (exportConnection E item cluster) (lead_or_back item (export_connection E item cluster))"
  unfolding exportConnection_def Let_def k_call_defs
  by (rule emits_answer_bind; intro emits_case_sum
      emits_then [OF report_and_requeue_comes_back [OF report_failed_emits [OF assms, of _ item]]] emits_return)
    (auto simp: status_update_zero_def export_connection_def answered_def)

lemma generateKubeconfig_emits:
  assumes "env_retry_ok E" and "condition_contract (env_Lib E)" and "kubeconfigExportSpecError item = None"
  shows "emits (generateKubeconfig E item cluster connection name)
    (lead_or_back item (issued_kubeconfig E item connection name))"
  unfolding generateKubeconfig_def Let_def omni_Kubeconfig_def
  by (rule emits_answer_bind;
      intro emits_case_sum emits_if emits_return emits_mono [OF export_failed_emits [OF assms(1,2)]])
    (auto simp: assms(3) issued_kubeconfig_def)

lemma deletePreviousTargetSecret_emits:
  "emits (deletePreviousTargetSecret E item) (\<lambda>r t. export_lead item t)"
  unfolding deletePreviousTargetSecret_def Let_def get_secret_def k_call_defs
  by (intro emits_rules) auto

definition found_or_none :: "'x env \<Rightarrow> OmniKubeconfigExport \<Rightarrow> Secret option \<Rightarrow> bool" where
  "found_or_none E item existing \<longleftrightarrow> (case existing of None \<Rightarrow> missing_secret E item | Some s \<Rightarrow> found_secret E item s)"

lemma targetSecret_emits:
  "emits (targetSecret E item) (\<lambda>r t. export_lead item t \<and> (case r of Inl err \<Rightarrow> True | Inr found \<Rightarrow> found_or_none E item found))"
  unfolding targetSecret_def get_secret_def
  by (rule emits_from_bind, rule emits_return)
    (auto simp: found_or_none_def found_secret_def missing_secret_def answers_def split: sum.splits)

lemma reusable_emits:
  "emits (reusableCurrentKubeconfigSecretState E secret key sh now rb)
     (\<lambda>r t. export_lead item t \<and> (case r of
        None \<Rightarrow> True
      | Some state \<Rightarrow> currentKubeconfigSecretState secret key sh now rb = Some state
          \<and> (\<exists>v. \<not> kubeconfigValidationRequiresRotation v
               \<and> t = [EvValidateKubeconfig (data_index (sec_Data secret) key) v])))"
  unfolding reusableCurrentKubeconfigSecretState_def
  by (intro emits_rules) auto

section \<open>Delays\<close>

lemma requeueAfter_pos: "0 < requeueAfter now (Some t) \<longleftrightarrow> t_ns now < t_ns t"
  by (auto simp: requeueAfter_def Time_Sub_def Let_def maxDuration_def minDuration_def)

lemma renew_error_None:
  "renew_error ttl rb = None \<longleftrightarrow> (case rb of None \<Rightarrow> True | Some d \<Rightarrow> 0 < d \<and> d < ttl)"
  by (auto simp: renew_error_def split: option.splits)

lemma group_error_None:
  "group_error allow gs = None \<longleftrightarrow>
     list_all (\<lambda>g. \<not> blank g \<and> (TrimSpace g = KubeconfigClusterAdminGroup \<longrightarrow> allow)) gs"
  by (induction gs) (auto simp: blank_def)

lemma spec_ok_next_rotation:
  assumes "kubeconfigExportSpecError item = None"
  shows "t_ns now < t_ns (NextRotationTime (Time_Add now (kes_TTL (ke_Spec item))) (kes_RenewBefore (ke_Spec item)))"
  using assms
  by (auto simp: kubeconfigExportSpecError_def Let_def renew_error_None NextRotationTime_def Time_Add_def
      split: if_splits option.splits)

lemma current_next_rotation:
  assumes "currentKubeconfigSecretState secret key sh now rb = Some state"
  shows "0 < requeueAfter now (ks_nextRotationTime state)"
  using assms
  by (auto simp: currentKubeconfigSecretState_def Let_def RotationDue_def Time_Before_def requeueAfter_pos
      split: if_splits sum.splits option.splits)

section \<open>Whole runs\<close>

lemma export_reused_emits:
  assumes "env_retry_ok E" and "condition_contract (env_Lib E)"
    and "0 < requeueAfter now (ks_nextRotationTime state)"
  shows "emits (export_reused E item cluster connection now state)
    (\<lambda>out t. list_all (export_event item) t \<and> comes_back out)"
  unfolding export_reused_def
  by (rule report_and_requeue_comes_back [OF report_exported_emits [OF assms(1,2)]]) (simp add: assms(3))

lemma export_generated_emits:
  assumes "env_retry_ok E" and "condition_contract (env_Lib E)" and "kubeconfigExportSpecError item = None"
    and "export_cluster E item cluster" and "export_connection E item cluster connection"
    and "SpecHash item (ClusterName cluster) = Inr sh" and "reads_clock E now" and "found_or_none E item existing"
    and "issued_kubeconfig E item connection (ClusterName cluster) kc"
  shows "emits (export_generated E item cluster connection sh now existing kc)
    (\<lambda>out t. export_piece E item t \<and> comes_back out)"
proof -
  let ?s = "export_secret item existing (ClusterName cluster) sh kc (Time_Add now (kes_TTL (ke_Spec item))) now"
  have content: "exported_secret E item existing ?s"
    unfolding exported_secret_def using assms(4-7,9) by blast
  show ?thesis
    unfolding export_generated_def Let_def k_call_defs
  proof (rule emits_bind, intro emits_if emits_call, goal_cases update create)
    case (update err)
    then have "secret_in_place E item (EvUpdate (ObjSecret ?s) None)"
      using content assms(8) by (auto simp: found_or_none_def)
    then show ?case
      by (intro emits_case_option emits_return
          emits_mono [OF report_and_requeue_comes_back [OF report_exported_emits [OF assms(1,2), of item]]])
        (auto simp: export_piece_def export_secret_owned requeueAfter_pos spec_ok_next_rotation [OF assms(3)])
  next
    case (create err)
    then have "secret_in_place E item (EvCreate (ObjSecret ?s) None)"
      using content assms(8) by (simp add: found_or_none_def)
    then show ?case
      by (intro emits_case_option emits_return
          emits_mono [OF report_and_requeue_comes_back [OF report_exported_emits [OF assms(1,2), of item]]])
        (use create in \<open>auto simp: export_piece_def export_secret_owned requeueAfter_pos
           spec_ok_next_rotation [OF assms(3)] new_target_secret_def ObjectKeyFromMeta_def\<close>)
  qed
qed

text \<open>A leading piece that does not decide anything, and the rest of the run.\<close>

lemma lead_then:
  assumes "emits m (\<lambda>a t. export_lead item t \<and> R a)"
    and "\<And>a. R a \<Longrightarrow> emits (k a) (\<lambda>out t. export_piece E item t \<and> comes_back out)"
  shows "emits (State_Monad.bind m k) (\<lambda>out t. export_piece E item t \<and> comes_back out)"
  by (rule emits_then [OF assms(1)], elim conjE, rule emits_mono [OF assms(2)])
    (auto intro: export_piece_append)

lemma lead_then_any:
  assumes "emits m (\<lambda>a t. export_lead item t)"
    and "\<And>a. emits (k a) (\<lambda>out t. export_piece E item t \<and> comes_back out)"
  shows "emits (State_Monad.bind m k) (\<lambda>out t. export_piece E item t \<and> comes_back out)"
  by (rule lead_then [where R = "\<lambda>_. True"]) (use assms in simp_all)

lemma lead_or_back_then:
  assumes "emits m (lead_or_back item R)"
    and "\<And>a. R a \<Longrightarrow> emits (k a) (\<lambda>out t. export_piece E item t \<and> comes_back out)"
  shows "emits (State_Monad.bind m (\<lambda>r. case r of Inl out \<Rightarrow> State_Monad.return out | Inr a \<Rightarrow> k a))
    (\<lambda>out t. export_piece E item t \<and> comes_back out)"
  by (rule lead_then [OF assms(1)], intro emits_case_sum emits_return assms(2))
    (simp_all add: export_lead_piece)

lemma return_error_piece: "emits (State_Monad.return (res, Some e)) (\<lambda>out t. export_piece E item t \<and> comes_back out)"
  by (rule emits_return) (simp add: export_lead_piece)

lemma export_now_emits: "emits (export_now E) (\<lambda>now t. export_lead item t \<and> reads_clock E now)"
  unfolding export_now_def by (rule emits_observed_bind, rule emits_return) (auto simp: reads_clock_def)

lemma export_target_emits:
  assumes "env_retry_ok E" and "condition_contract (env_Lib E)" and "kubeconfigExportSpecError item = None"
    and "export_cluster E item cluster" and "export_connection E item cluster connection"
    and "SpecHash item (ClusterName cluster) = Inr sh"
  shows "emits (export_target E item cluster connection sh) (\<lambda>out t. export_piece E item t \<and> comes_back out)"
  unfolding export_target_def
proof (intro lead_then [OF export_now_emits] lead_then_any [OF deletePreviousTargetSecret_emits]
    lead_then [OF targetSecret_emits] emits_case_option emits_case_sum return_error_piece, simp)
  fix now existing assume now: "reads_clock E now" and found: "found_or_none E item existing"
  have generate: "emits
      (State_Monad.bind (generateKubeconfig E item cluster connection (ClusterName cluster))
        (\<lambda>generated. case generated of Inl early \<Rightarrow> State_Monad.return early
          | Inr kc \<Rightarrow> export_generated E item cluster connection sh now existing kc))
      (\<lambda>out t. export_piece E item t \<and> comes_back out)"
    by (intro lead_or_back_then [OF generateKubeconfig_emits [OF assms(1-3)]] export_generated_emits assms now found)
  let ?rest = "\<lambda>reusable. case reusable of
          None \<Rightarrow> State_Monad.bind (generateKubeconfig E item cluster connection (ClusterName cluster))
            (\<lambda>generated. case generated of Inl early \<Rightarrow> State_Monad.return early
              | Inr kc \<Rightarrow> export_generated E item cluster connection sh now existing kc)
        | Some state \<Rightarrow> export_reused E item cluster connection now state"
  show "emits (State_Monad.bind
        (case existing of None \<Rightarrow> State_Monad.return None
         | Some secret \<Rightarrow> reusableCurrentKubeconfigSecretState E secret (TargetSecretKey item) sh now
             (kes_RenewBefore (ke_Spec item))) ?rest)
      (\<lambda>out t. export_piece E item t \<and> comes_back out)"
  proof (cases existing)
    case None
    show ?thesis using generate unfolding None by simp
  next
    case (Some secret)
    have "emits (State_Monad.bind (reusableCurrentKubeconfigSecretState E secret (TargetSecretKey item) sh now
             (kes_RenewBefore (ke_Spec item))) ?rest)
      (\<lambda>out t. export_piece E item t \<and> comes_back out)"
    proof (rule emits_then [OF reusable_emits [of _ _ _ _ _ _ item]], elim conjE, intro emits_case_option, goal_cases again reuse)
      case (again r t)
      then show ?case by (auto intro!: emits_mono [OF generate] intro: export_piece_append)
    next
      case (reuse r t state)
      then obtain v where current: "currentKubeconfigSecretState secret (TargetSecretKey item) sh now
          (kes_RenewBefore (ke_Spec item)) = Some state"
        and v: "\<not> kubeconfigValidationRequiresRotation v"
          "t = [EvValidateKubeconfig (data_index (sec_Data secret) (TargetSecretKey item)) v]" by auto
      have "current_secret E item secret" "found_secret E item secret"
        using current assms(4,6) now found Some unfolding current_secret_def found_or_none_def by auto
      then have "secret_in_place E item (EvValidateKubeconfig (data_index (sec_Data secret) (TargetSecretKey item)) v)"
        using v(1) by auto
      then show ?case
        using current_next_rotation [OF current]
        by (auto intro!: emits_mono [OF export_reused_emits [OF assms(1,2)]] simp: export_piece_def v(2))
    qed
    with Some show ?thesis by simp
  qed
qed

lemma Export_reconcileDelete_emits:
  "emits (Export_reconcileDelete E item) (\<lambda>out t. export_lead item t)"
  unfolding Export_reconcileDelete_def Let_def k_call_defs
  by (intro emits_then [OF targetSecret_emits [of _ item]] emits_rules) auto

lemma reconcile_live_export_emits:
  assumes "env_retry_ok E" and "condition_contract (env_Lib E)"
    and "Time_IsZero (om_DeletionTimestamp (ke_Meta item))" and "kubeconfigExportSpecError item = None"
  shows "emits (reconcile_export E item) (\<lambda>out t. export_piece E item t \<and> comes_back out)"
proof -
  have "emits (case SpecHash item (ClusterName cluster) of
        Inl err \<Rightarrow> State_Monad.return (no_requeue, Some err)
      | Inr specHash \<Rightarrow> export_target E item cluster connection specHash)
    (\<lambda>out t. export_piece E item t \<and> comes_back out)"
    if "export_cluster E item cluster" and "export_connection E item cluster connection" for cluster connection
    by (intro emits_case_sum return_error_piece export_target_emits assms that)
  then show ?thesis
    using assms(3,4)
    by (simp add: reconcile_export_def)
      (intro lead_or_back_then [OF Export_ensureFinalizer_emits] lead_or_back_then [OF exportCluster_emits [OF assms(1,2)]]
        lead_or_back_then [OF exportConnection_emits [OF assms(1,2)]])
qed

lemma reconcile_invalid_export_emits:
  assumes "env_retry_ok E" and "condition_contract (env_Lib E)"
    and "Time_IsZero (om_DeletionTimestamp (ke_Meta item))" and "kubeconfigExportSpecError item = Some err"
  shows "emits (reconcile_export E item) (\<lambda>out t. export_lead item t)"
  using assms(3,4)
  by (simp add: reconcile_export_def)
    (intro emits_then [OF Export_ensureFinalizer_emits] emits_case_sum emits_return
      emits_then [OF report_failed_emits [OF assms(1,2), of _ item]]; simp add: status_update_zero_def)

lemma reconcile_export_emits:
  assumes "env_retry_ok E" and "condition_contract (env_Lib E)"
  shows "emits (reconcile_export E item) (\<lambda>out t. export_piece E item t)"
proof (cases "Time_IsZero (om_DeletionTimestamp (ke_Meta item))")
  case True
  then show ?thesis
    using reconcile_live_export_emits [OF assms True] reconcile_invalid_export_emits [OF assms True]
    by (cases "kubeconfigExportSpecError item") (auto elim!: emits_mono intro: export_lead_piece)
next
  case False
  then show ?thesis
    using Export_reconcileDelete_emits [of E item]
    by (auto simp: reconcile_export_def elim!: emits_mono intro: export_lead_piece)
qed

section \<open>Properties of the controller\<close>

text \<open>
  Claim C11.  Whatever happens in a run for an item, the controller deletes only Secrets that the
  item owns, and only when its deletion policy is Delete; it creates a Secret only at the target of
  the spec; and every Secret it creates or updates is then owned by the item.
\<close>

definition deletes_or_writes_foreign :: "OmniKubeconfigExport \<Rightarrow> event \<Rightarrow> bool" where
  "deletes_or_writes_foreign item e \<longleftrightarrow>
     (case e of
        EvDelete obj r \<Rightarrow>
          kes_DeletionPolicy (ke_Spec item) \<noteq> KubeconfigExportDeletionPolicyDelete
          \<or> (case obj of ObjSecret s \<Rightarrow> \<not> IsOwnedSecret item (Some s) | _ \<Rightarrow> True)
      | EvCreate obj r \<Rightarrow>
          (case obj of ObjSecret s \<Rightarrow> \<not> IsOwnedSecret item (Some s) \<or> ObjectKeyFromMeta (sec_Meta s) \<noteq>
             \<lparr>nn_Namespace = TargetSecretNamespace item, nn_Name = ktr_Name (kes_TargetSecretRef (ke_Spec item))\<rparr>
           | _ \<Rightarrow> True)
      | EvUpdate obj r \<Rightarrow>
          (case obj of
             ObjSecret s \<Rightarrow> \<not> IsOwnedSecret item (Some s)
           | ObjKubeconfigExport x \<Rightarrow> ke_Spec x \<noteq> ke_Spec item
           | _ \<Rightarrow> True)
      | _ \<Rightarrow> False)"

theorem export_touches_only_own:
  assumes "env_retry_ok E" and "condition_contract (env_Lib E)"
  shows "emits (reconcile_export E item) (\<lambda>out t. list_all (\<lambda>e. \<not> deletes_or_writes_foreign item e) t)"
proof (rule emits_mono [OF reconcile_export_emits [OF assms]])
  fix t assume "export_piece E item t"
  then have "list_all (export_event item) t" by (simp add: export_piece_def)
  then show "list_all (\<lambda>e. \<not> deletes_or_writes_foreign item e) t"
    by (rule list_all_weaken) (auto simp: deletes_or_writes_foreign_def elim: export_event.elims)
qed

text \<open>
  Claim C9.  A run asks Omni only for the access that the spec describes: with the spec's
  lifetime, which is positive, user and groups, none of them blank, and never for membership of
  \<open>system:masters\<close>, however it is padded with spaces, unless the spec allows a cluster administrator.
\<close>

definition asks_for_allowed_access :: "OmniKubeconfigExport \<Rightarrow> event \<Rightarrow> bool" where
  "asks_for_allowed_access item e \<longleftrightarrow>
     (case e of
        EvKubeconfig c name opts r \<Rightarrow>
          0 < ko_TTL opts \<and> ko_TTL opts = kes_TTL (ke_Spec item)
          \<and> ko_User opts = ksa_User (kes_ServiceAccount (ke_Spec item)) \<and> \<not> blank (ko_User opts)
          \<and> ko_Groups opts = ksa_Groups (kes_ServiceAccount (ke_Spec item)) \<and> ko_Groups opts \<noteq> []
          \<and> list_all (\<lambda>g. \<not> blank g \<and> (TrimSpace g = KubeconfigClusterAdminGroup
               \<longrightarrow> ksa_AllowClusterAdmin (kes_ServiceAccount (ke_Spec item)))) (ko_Groups opts)
      | _ \<Rightarrow> True)"

lemma spec_ok_access:
  assumes "kubeconfigExportSpecError item = None"
  shows "0 < kes_TTL (ke_Spec item)" and "\<not> blank (ksa_User (kes_ServiceAccount (ke_Spec item)))"
    and "ksa_Groups (kes_ServiceAccount (ke_Spec item)) \<noteq> []"
    and "list_all (\<lambda>g. \<not> blank g \<and> (TrimSpace g = KubeconfigClusterAdminGroup
      \<longrightarrow> ksa_AllowClusterAdmin (kes_ServiceAccount (ke_Spec item)))) (ksa_Groups (kes_ServiceAccount (ke_Spec item)))"
  using assms
  by (auto simp: kubeconfigExportSpecError_def Let_def blank_def group_error_None [unfolded blank_def]
      split: if_splits option.splits)

theorem export_asks_for_allowed_access:
  assumes "env_retry_ok E" and "condition_contract (env_Lib E)"
  shows "emits (reconcile_export E item) (\<lambda>out t. list_all (asks_for_allowed_access item) t)"
proof (rule emits_mono [OF reconcile_export_emits [OF assms]])
  fix t assume "export_piece E item t"
  then have "list_all (export_event item) t" by (simp add: export_piece_def)
  then show "list_all (asks_for_allowed_access item) t"
    by (rule list_all_weaken)
      (auto simp: asks_for_allowed_access_def spec_ok_access elim!: export_event.elims)
qed

text \<open>
  Claim C12.  A run reports an export as done only after the Secret it looked for is in place.  That
  Secret is the one whose name and namespace the status records, or, when the status records none,
  the one that the spec names.  When there was none, a new Secret at the target of the spec was
  created without an error; when it was found, it was updated without an error; and what was
  written holds, under the item's key, the kubeconfig that Omni issued for the cluster with the
  spec's lifetime, user and groups, with the hashes, the expiration and the rotation time that
  belong to it.  Or the Secret was found to hold a kubeconfig for these settings that is not due for
  rotation, and that very kubeconfig was checked and not rejected: the check found it usable, or
  failed for another reason than the kubeconfig or the access it gives.
\<close>

theorem export_ready_after_secret:
  assumes "env_retry_ok E" and "condition_contract (env_Lib E)"
  shows "emits (reconcile_export E item) (\<lambda>out t. preceded writes_exported (secret_in_place E item) t)"
  by (rule emits_mono [OF reconcile_export_emits [OF assms]]) (simp add: export_piece_def)

text \<open>
  Claim C14.  Rotation is never forgotten: a run for an item with a valid spec that is not being
  deleted ends with an error, an immediate requeue, or a requeue after a positive delay.
\<close>

theorem export_comes_back:
  assumes "env_retry_ok E" and "condition_contract (env_Lib E)"
    and "Time_IsZero (om_DeletionTimestamp (ke_Meta item))" and "kubeconfigExportSpecError item = None"
  shows "emits (reconcile_export E item)
    (\<lambda>out t. snd out \<noteq> None \<or> res_Requeue (fst out) \<or> res_RequeueAfter (fst out) > 0)"
  by (rule emits_mono [OF reconcile_live_export_emits [OF assms]]) (simp add: comes_back_def)

section \<open>A changed target\<close>

fun writes_secret :: "event \<Rightarrow> NamespacedName option" where
  "writes_secret (EvCreate (ObjSecret s) r) = Some (ObjectKeyFromMeta (sec_Meta s))"
| "writes_secret (EvUpdate (ObjSecret s) r) = Some (ObjectKeyFromMeta (sec_Meta s))"
| "writes_secret e = None"

definition only_writes :: "NamespacedName \<Rightarrow> event list \<Rightarrow> bool" where
  "only_writes key t \<longleftrightarrow> list_all (\<lambda>e. writes_secret e = None \<or> writes_secret e = Some key) t"

lemma only_writes_simps [simp]:
  "only_writes key []"
  "only_writes key (e # t) \<longleftrightarrow> (writes_secret e = None \<or> writes_secret e = Some key) \<and> only_writes key t"
  "only_writes key (s @ t) \<longleftrightarrow> only_writes key s \<and> only_writes key t"
  by (auto simp: only_writes_def)

lemma status_only_writes:
  assumes "env_retry_ok E" and "condition_contract (env_Lib E)"
  shows "emits (updateKubeconfigExportStatus E item input) (\<lambda>r t. only_writes key t)"
  unfolding only_writes_def
  by (rule emits_mono [OF updateKubeconfigExportStatus_emits [OF assms]], elim list_all_weaken)
    (auto elim: export_status_event.elims)

lemma report_only_writes:
  assumes "env_retry_ok E" and "condition_contract (env_Lib E)"
  shows "emits (report_and_requeue (updateKubeconfigExportStatus E item input) d err) (\<lambda>out t. only_writes key t)"
  unfolding report_and_requeue_def
  by (intro emits_then [OF status_only_writes [OF assms]] emits_return) simp

lemma generateKubeconfig_only_writes:
  assumes "env_retry_ok E" and "condition_contract (env_Lib E)"
  shows "emits (generateKubeconfig E item cluster connection name) (\<lambda>r t. only_writes key t)"
proof -
  have "emits (export_failed E item cluster connection err msg) (\<lambda>r t. only_writes key t)" for err msg
    unfolding export_failed_def by (intro emits_then [OF report_only_writes [OF assms]] emits_return) simp
  then show ?thesis
    unfolding generateKubeconfig_def Let_def omni_Kubeconfig_def
    by (intro emits_call_bind emits_case_sum emits_if emits_return) simp_all
qed

lemma export_generated_only_writes:
  assumes "env_retry_ok E" and "condition_contract (env_Lib E)"
  shows "emits (export_generated E item cluster connection sh now (Some old) kc)
    (\<lambda>out t. only_writes (ObjectKeyFromMeta (sec_Meta old)) t)"
  unfolding export_generated_def Let_def k_call_defs
  by (simp, intro emits_call_bind emits_case_option emits_return
      emits_mono [OF report_only_writes [OF assms, of _ _ _ _ "ObjectKeyFromMeta (sec_Meta old)"]])
    (simp_all add: ObjectKeyFromMeta_def)

text \<open>
  Claim C39.  Pointing an export with deletion policy Orphan at another Secret does not move it in
  the run that sees the change: when the Secret recorded in the status is found, that run creates
  or updates no other Secret, although every status the controller writes names the Secret of the
  spec.
\<close>

theorem retarget_orphan_keeps_old_secret:
  assumes "env_retry_ok E" and "condition_contract (env_Lib E)"
    and "kes_DeletionPolicy (ke_Spec item) = KubeconfigExportDeletionPolicyOrphan"
    and "ket_TargetSecretRef (ke_Status item) \<noteq> []" and "ket_TargetSecretNamespace (ke_Status item) \<noteq> []"
    and "\<And>x. fst (secretReader_Get E \<lparr>nn_Namespace = ket_TargetSecretNamespace (ke_Status item),
                nn_Name = ket_TargetSecretRef (ke_Status item)\<rparr> x) = Inr old"
  shows "emits (export_target E item cluster connection sh) (\<lambda>out t. only_writes (ObjectKeyFromMeta (sec_Meta old)) t)
    \<and> ket_TargetSecretRef (ke_Status (export_status L input now latest)) = ktr_Name (kes_TargetSecretRef (ke_Spec latest))"
proof
  let ?old = "ObjectKeyFromMeta (sec_Meta old)"
  have key: "targetSecret_key item = \<lparr>nn_Namespace = ket_TargetSecretNamespace (ke_Status item),
                nn_Name = ket_TargetSecretRef (ke_Status item)\<rparr>"
    using assms(4,5) by (simp add: targetSecret_key_def)
  have "deletePreviousTargetSecret E item = State_Monad.return None"
    using assms(3)
    by (simp add: deletePreviousTargetSecret_def Let_def KubeconfigExportDeletionPolicyDelete_def
        KubeconfigExportDeletionPolicyOrphan_def)
  moreover have target: "emits (targetSecret E item) (\<lambda>r t. r = Inr (Some old) \<and> only_writes ?old t)"
    unfolding targetSecret_def get_secret_def key
    by (rule emits_known_bind [OF assms(6)], rule emits_return) simp
  moreover have reuse: "emits (reusableCurrentKubeconfigSecretState E old key' sh now rb) (\<lambda>r t. only_writes ?old t)" for key' now rb
    unfolding reusableCurrentKubeconfigSecretState_def by (intro emits_rules) simp_all
  moreover have now: "emits (export_now E) (\<lambda>r t. t = [])"
    unfolding export_now_def by (intro emits_rules) simp
  ultimately show "emits (export_target E item cluster connection sh) (\<lambda>out t. only_writes ?old t)"
    unfolding export_target_def export_reused_def
    by (simp, intro emits_then [OF now])
      (auto intro!: emits_then [OF target] emits_then [OF reuse] emits_case_option emits_case_sum emits_return
        emits_mono [OF report_only_writes [OF assms(1,2), of _ _ _ _ ?old]]
        emits_then [OF generateKubeconfig_only_writes [OF assms(1,2), of _ _ _ _ ?old]]
        emits_mono [OF export_generated_only_writes [OF assms(1,2)]])
  show "ket_TargetSecretRef (ke_Status (export_status L input now latest)) = ktr_Name (kes_TargetSecretRef (ke_Spec latest))"
    by (simp add: export_status_def export_status_fields_def set_export_outcome_def set_export_condition_def Let_def)
qed

end
