(* ===== verification/Webhooks.thy ===== *)
theory Webhooks
  imports Kubeconfig_Safety
begin

text \<open>
  The admission webhooks (\<^verbatim>\<open>internal/webhook/v1alpha1\<close>): what is checked before a resource is
  stored.  \<^verbatim>\<open>uuid.Parse\<close>, \<^verbatim>\<open>errors.NewInvalid\<close> and \<^verbatim>\<open>url.Parse\<close> (the scheme and the host it finds) are
  library functions and parameters; the values that field errors quote are kept.

  The three methods of each validator have one shape, stated as the locale \<open>admission_validator\<close>
  and its extensions.  The properties relate admission to what the controllers and the template do with an admitted
  resource.
\<close>

section \<open>Field errors\<close>

text \<open>A \<open>field.Path\<close>: the names and indices from the root.\<close>

datatype path_element = Child string | Index int

type_synonym path = "path_element list"

datatype bad_value =
    BadString string | BadInt int | BadStrings "string list" | BadPolicy ClusterDeletePolicy
  | BadPatch Patch | BadManifest KubernetesManifest | BadJSON "string option"

datatype field_error =
    Required path string
  | Invalid path bad_value string
  | Duplicate path string
  | Forbidden_field path string
  | NotSupported path string "string list"

record admission_lib =
  al_uuid_Parse :: "string \<Rightarrow> goerror option"
  al_NewInvalid :: "string \<Rightarrow> string \<Rightarrow> field_error list \<Rightarrow> goerror"
  al_url_Parse :: "string \<Rightarrow> goerror + string \<times> string"

definition invalid :: "admission_lib \<Rightarrow> string \<Rightarrow> string \<Rightarrow> field_error list \<Rightarrow> goerror option" where
  "invalid V kind name allErrs = (if allErrs = [] then None else Some (al_NewInvalid V kind name allErrs))"

lemma invalid_None [simp]: "invalid V kind name errs = None \<longleftrightarrow> errs = []"
  by (simp add: invalid_def)

section \<open>Shared checks\<close>

definition sources_of_patch :: "Patch \<Rightarrow> int" where
  "sources_of_patch patch =
     (if pa_File patch \<noteq> [] then 1 else 0)
     + (case pa_Inline patch of None \<Rightarrow> 0 | Some raw \<Rightarrow> if length raw > 0 then 1 else 0)"

fun validatePatches_from :: "path \<Rightarrow> int \<Rightarrow> Patch list \<Rightarrow> field_error list" where
  "validatePatches_from path i [] = []"
| "validatePatches_from path i (patch # patches) =
     (let itemPath = path @ [Index i]; sourceCount = sources_of_patch patch in
      (if sourceCount = 0 then [Required itemPath ''patch requires exactly one of file or inline'']
       else if sourceCount = 1 then []
       else [Invalid itemPath (BadPatch patch) ''patch must not set both file and inline'']))
     @ validatePatches_from path (i + 1) patches"

definition validatePatches :: "path \<Rightarrow> Patch list \<Rightarrow> field_error list" where
  "validatePatches path patches = validatePatches_from path 0 patches"

definition sources_of_manifest :: "KubernetesManifest \<Rightarrow> int" where
  "sources_of_manifest manifest =
     (if km_File manifest \<noteq> [] then 1 else 0) + (if length (km_Inline manifest) > 0 then 1 else 0)"

fun validateManifests_from :: "path \<Rightarrow> int \<Rightarrow> KubernetesManifest list \<Rightarrow> field_error list" where
  "validateManifests_from path i [] = []"
| "validateManifests_from path i (manifest # manifests) =
     (let itemPath = path @ [Index i]; sourceCount = sources_of_manifest manifest in
      (if sourceCount = 0 then [Required itemPath ''manifest requires exactly one of file or inline'']
       else if sourceCount = 1 then []
       else [Invalid itemPath (BadManifest manifest) ''manifest must not set both file and inline'']))
     @ validateManifests_from path (i + 1) manifests"

definition validateManifests :: "path \<Rightarrow> KubernetesManifest list \<Rightarrow> field_error list" where
  "validateManifests path manifests = validateManifests_from path 0 manifests"

text \<open>The strings \<open>unlimited\<close>, \<open>infinity\<close> and the infinity sign in UTF-8.\<close>

definition unlimited_sizes :: "string list" where
  "unlimited_sizes = [''unlimited'', ''infinity'', bytes [226, 136, 158]]"

definition validateMachineClass :: "path \<Rightarrow> MachineClass option \<Rightarrow> field_error list" where
  "validateMachineClass path machineClass =
     (case machineClass of
        None \<Rightarrow> []
      | Some m \<Rightarrow>
          (case ios_Type (mc_Size m) of
             IntType \<Rightarrow>
               if ios_IntVal (mc_Size m) \<le> 0
               then [Invalid (path @ [Child ''size'']) (BadInt (ios_IntVal (mc_Size m)))
                       ''machineClass size must be greater than zero'']
               else []
           | StringType \<Rightarrow>
               if ios_StrVal (mc_Size m) \<notin> set unlimited_sizes
               then [NotSupported (path @ [Child ''size'']) (ios_StrVal (mc_Size m)) unlimited_sizes]
               else []))"

fun validateMachineIDs_from ::
  "admission_lib \<Rightarrow> path \<Rightarrow> (string \<rightharpoonup> int) \<Rightarrow> int \<Rightarrow> string list \<Rightarrow> field_error list" where
  "validateMachineIDs_from V path seen i [] = []"
| "validateMachineIDs_from V path seen i (ident # ids) =
     (let itemPath = path @ [Index i] in
      (if al_uuid_Parse V ident \<noteq> None then [Invalid itemPath (BadString ident) ''machine ID must be a UUID''] else [])
      @ (case seen ident of
           Some previous \<Rightarrow> [Duplicate itemPath ident, Duplicate (path @ [Index previous]) ident]
         | None \<Rightarrow> [])
      @ validateMachineIDs_from V path (seen(ident \<mapsto> i)) (i + 1) ids)"

definition validateMachineIDs :: "admission_lib \<Rightarrow> path \<Rightarrow> string list \<Rightarrow> field_error list" where
  "validateMachineIDs V path ids = validateMachineIDs_from V path Map.empty 0 ids"

definition validateMachineSet :: "admission_lib \<Rightarrow> path \<Rightarrow> MachineSetSpecFields \<Rightarrow> field_error list" where
  "validateMachineSet V specPath spec =
     validateMachineClass (specPath @ [Child ''machineClass'']) (ms_MachineClass spec)
     @ validateMachineIDs V (specPath @ [Child ''machines'']) (ms_Machines spec)
     @ validatePatches (specPath @ [Child ''patches'']) (ms_Patches spec)
     @ (if ms_MachineClass spec \<noteq> None \<and> length (ms_KernelArgs spec) > 0
        then [Invalid (specPath @ [Child ''kernelArgs'']) (BadStrings (ms_KernelArgs spec))
                ''kernelArgs are supported only for static machine sets'']
        else [])"

section \<open>Validation of each kind\<close>

definition specPath :: path where "specPath = [Child ''spec'']"

definition validateCluster :: "OmniCluster \<Rightarrow> field_error list" where
  "validateCluster cluster =
     (let spec = c_Spec cluster; policy = cs_DeletePolicy spec in
      (if cdp_Orphan policy \<and> cdp_DestroyMachines policy
       then [Invalid (specPath @ [Child ''deletePolicy'']) (BadPolicy policy)
               ''orphan and destroyMachines cannot both be true''] else [])
      @ (if cs_SyncInterval spec < 0
         then [Invalid (specPath @ [Child ''syncInterval'']) (BadString (Duration_String (cs_SyncInterval spec)))
                 ''syncInterval must not be negative''] else [])
      @ validatePatches (specPath @ [Child ''patches'']) (cs_Patches spec)
      @ validateManifests (specPath @ [Child ''kubernetes'', Child ''manifests'']) (ks_Manifests (cs_Kubernetes spec)))"

definition clusterWarnings :: "OmniCluster \<Rightarrow> string list" where
  "clusterWarnings cluster =
     (if cs_KernelArgs (c_Spec cluster) = [] then []
      else [''cluster-level kernelArgs are valid only when every machine set uses static machines instead of machineClass''])"

definition validateControlPlane :: "admission_lib \<Rightarrow> OmniControlPlane \<Rightarrow> field_error list" where
  "validateControlPlane V controlPlane = validateMachineSet V specPath (cps_MachineSet (cp_Spec controlPlane))"

definition validateWorkers :: "admission_lib \<Rightarrow> OmniWorkers \<Rightarrow> field_error list" where
  "validateWorkers V workers =
     validateMachineSet V specPath (ws_MachineSet (w_Spec workers))
     @ (if ws_WorkerSetName (w_Spec workers) = ''control-planes''
        then [Invalid (specPath @ [Child ''workerSetName'']) (BadString (ws_WorkerSetName (w_Spec workers)))
                ''workerSetName is reserved by Omni''] else [])"

definition validateMachine :: "admission_lib \<Rightarrow> OmniMachine \<Rightarrow> field_error list" where
  "validateMachine V machine =
     (let ident = (if mas_MachineID (m_Spec machine) = [] then om_Name (m_Meta machine) else mas_MachineID (m_Spec machine)) in
      (if al_uuid_Parse V ident \<noteq> None
       then [Invalid (specPath @ [Child ''machineID'']) (BadString ident)
               ''machineID must be a UUID; set spec.machineID when metadata.name is not the Omni machine ID''] else [])
      @ validatePatches (specPath @ [Child ''patches'']) (mas_Patches (m_Spec machine)))"

definition groupsPath :: path where
  "groupsPath = specPath @ [Child ''serviceAccount'', Child ''groups'']"

fun validateGroups :: "bool \<Rightarrow> (string \<rightharpoonup> int) \<Rightarrow> int \<Rightarrow> string list \<Rightarrow> field_error list" where
  "validateGroups allow seenGroups i [] = []"
| "validateGroups allow seenGroups i (g # gs) =
     (let itemPath = groupsPath @ [Index i]; group = TrimSpace g in
      if group = []
      then Required itemPath ''service account group must not be blank'' # validateGroups allow seenGroups (i + 1) gs
      else
        (case seenGroups group of
           Some previous \<Rightarrow> [Duplicate itemPath group, Duplicate (groupsPath @ [Index previous]) group]
         | None \<Rightarrow> [])
        @ (if group = KubeconfigClusterAdminGroup \<and> \<not> allow
           then [Forbidden_field itemPath ''system:masters requires serviceAccount.allowClusterAdmin: true''] else [])
        @ validateGroups allow (seenGroups(group \<mapsto> i)) (i + 1) gs)"

definition validateRenewBefore :: "Duration \<Rightarrow> Duration option \<Rightarrow> field_error list" where
  "validateRenewBefore ttl renewBefore =
     (case renewBefore of
        None \<Rightarrow> []
      | Some d \<Rightarrow>
          if d \<le> 0
          then [Invalid (specPath @ [Child ''renewBefore'']) (BadString (Duration_String d))
                  ''renewBefore must be greater than zero'']
          else if ttl > 0 \<and> d \<ge> ttl
          then [Invalid (specPath @ [Child ''renewBefore'']) (BadString (Duration_String d))
                  ''renewBefore must be less than ttl'']
          else [])"

definition validateDeletionPolicy :: "string \<Rightarrow> field_error list" where
  "validateDeletionPolicy policy =
     (if policy = KubeconfigExportDeletionPolicyDelete \<or> policy = KubeconfigExportDeletionPolicyOrphan then []
      else if policy = [] then [Required (specPath @ [Child ''deletionPolicy'']) ''deletionPolicy is required'']
      else [NotSupported (specPath @ [Child ''deletionPolicy'']) policy
              [KubeconfigExportDeletionPolicyDelete, KubeconfigExportDeletionPolicyOrphan]])"

definition require :: "bool \<Rightarrow> string list \<Rightarrow> string \<Rightarrow> field_error list" where
  "require ok names detail = (if ok then [] else [Required (specPath @ map Child names) detail])"

definition validateKubeconfigExport :: "OmniKubeconfigExport \<Rightarrow> field_error list" where
  "validateKubeconfigExport item =
     (let spec = ke_Spec item; target = kes_TargetSecretRef spec; account = kes_ServiceAccount spec in
      require (TrimSpace (lor_Name (kes_ClusterRef spec)) \<noteq> []) [''clusterRef'', ''name''] ''clusterRef.name is required''
      @ require (TrimSpace (ktr_Name target) \<noteq> []) [''targetSecretRef'', ''name''] ''target Secret name is required''
      @ require (ktr_Namespace target = [] \<or> TrimSpace (ktr_Namespace target) \<noteq> []) [''targetSecretRef'', ''namespace'']
          ''target Secret namespace must not be blank''
      @ require (kes_ContextNamespace spec = [] \<or> TrimSpace (kes_ContextNamespace spec) \<noteq> []) [''contextNamespace'']
          ''context namespace must not be blank''
      @ require (ktr_Key target = [] \<or> TrimSpace (ktr_Key target) \<noteq> []) [''targetSecretRef'', ''key'']
          ''target Secret key must not be blank''
      @ require (TrimSpace (ksa_User account) \<noteq> []) [''serviceAccount'', ''user''] ''service account user is required''
      @ require (ksa_Groups account \<noteq> []) [''serviceAccount'', ''groups''] ''at least one service account group is required''
      @ validateGroups (ksa_AllowClusterAdmin account) Map.empty 0 (ksa_Groups account)
      @ (if kes_TTL spec \<le> 0
         then [Invalid (specPath @ [Child ''ttl'']) (BadString (Duration_String (kes_TTL spec))) ''ttl must be greater than zero'']
         else [])
      @ validateRenewBefore (kes_TTL spec) (kes_RenewBefore spec)
      @ validateDeletionPolicy (kes_DeletionPolicy spec))"

definition kubeconfigExportWarnings :: "OmniKubeconfigExport \<Rightarrow> string list" where
  "kubeconfigExportWarnings item =
     (let account = kes_ServiceAccount (ke_Spec item) in
      if \<not> ksa_AllowClusterAdmin account then []
      else if list_ex (\<lambda>group. TrimSpace group = KubeconfigClusterAdminGroup) (ksa_Groups account)
      then [''system:masters exports a cluster-admin kubeconfig into the management cluster'']
      else [])"

definition validateConnection :: "OmniConnection \<Rightarrow> field_error list" where
  "validateConnection connection =
     (let ref = auth_ServiceAccountSecretRef (ons_Auth (on_Spec connection)) in
      require (TrimSpace (sks_Name ref) \<noteq> []) [''auth'', ''serviceAccountSecretRef'', ''name'']
        ''service account Secret name is required''
      @ require (TrimSpace (sks_Key ref) \<noteq> []) [''auth'', ''serviceAccountSecretRef'', ''key'']
          ''service account Secret key is required'')"

definition connectionWarnings :: "OmniConnection \<Rightarrow> string list" where
  "connectionWarnings connection =
     (if \<not> ons_InsecureSkipTLSVerify (on_Spec connection) then []
      else [''insecureSkipTLSVerify disables Omni endpoint TLS certificate verification''])"

section \<open>The validators\<close>

text \<open>Each method returns the warnings and the error.\<close>

definition Cluster_ValidateCreate :: "admission_lib \<Rightarrow> OmniCluster \<Rightarrow> string list \<times> goerror option" where
  "Cluster_ValidateCreate V obj = (clusterWarnings obj, invalid V ''OmniCluster'' (om_Name (c_Meta obj)) (validateCluster obj))"

definition Cluster_ValidateUpdate :: "admission_lib \<Rightarrow> OmniCluster \<Rightarrow> OmniCluster \<Rightarrow> string list \<times> goerror option" where
  "Cluster_ValidateUpdate V oldObj newObj = (clusterWarnings newObj, invalid V ''OmniCluster'' (om_Name (c_Meta newObj)) (validateCluster newObj))"

definition Cluster_ValidateDelete :: "admission_lib \<Rightarrow> OmniCluster \<Rightarrow> string list \<times> goerror option" where
  "Cluster_ValidateDelete V obj = ([], None)"

definition Connection_ValidateCreate :: "admission_lib \<Rightarrow> OmniConnection \<Rightarrow> string list \<times> goerror option" where
  "Connection_ValidateCreate V obj = (connectionWarnings obj, invalid V ''OmniConnection'' (om_Name (on_Meta obj)) (validateConnection obj))"

definition Connection_ValidateUpdate :: "admission_lib \<Rightarrow> OmniConnection \<Rightarrow> OmniConnection \<Rightarrow> string list \<times> goerror option" where
  "Connection_ValidateUpdate V oldObj newObj = (connectionWarnings newObj, invalid V ''OmniConnection'' (om_Name (on_Meta newObj)) (validateConnection newObj))"

definition Connection_ValidateDelete :: "admission_lib \<Rightarrow> OmniConnection \<Rightarrow> string list \<times> goerror option" where
  "Connection_ValidateDelete V obj = ([], None)"

definition ControlPlane_ValidateCreate :: "admission_lib \<Rightarrow> OmniControlPlane \<Rightarrow> string list \<times> goerror option" where
  "ControlPlane_ValidateCreate V obj = ([], invalid V ''OmniControlPlane'' (om_Name (cp_Meta obj)) (validateControlPlane V obj))"

definition ControlPlane_ValidateUpdate :: "admission_lib \<Rightarrow> OmniControlPlane \<Rightarrow> OmniControlPlane \<Rightarrow> string list \<times> goerror option" where
  "ControlPlane_ValidateUpdate V oldObj newObj = ([], invalid V ''OmniControlPlane'' (om_Name (cp_Meta newObj)) (validateControlPlane V newObj))"

definition ControlPlane_ValidateDelete :: "admission_lib \<Rightarrow> OmniControlPlane \<Rightarrow> string list \<times> goerror option" where
  "ControlPlane_ValidateDelete V obj = ([], None)"

definition Workers_ValidateCreate :: "admission_lib \<Rightarrow> OmniWorkers \<Rightarrow> string list \<times> goerror option" where
  "Workers_ValidateCreate V obj = ([], invalid V ''OmniWorkers'' (om_Name (w_Meta obj)) (validateWorkers V obj))"

definition Workers_ValidateUpdate :: "admission_lib \<Rightarrow> OmniWorkers \<Rightarrow> OmniWorkers \<Rightarrow> string list \<times> goerror option" where
  "Workers_ValidateUpdate V oldObj newObj = ([], invalid V ''OmniWorkers'' (om_Name (w_Meta newObj)) (validateWorkers V newObj))"

definition Workers_ValidateDelete :: "admission_lib \<Rightarrow> OmniWorkers \<Rightarrow> string list \<times> goerror option" where
  "Workers_ValidateDelete V obj = ([], None)"

definition Machine_ValidateCreate :: "admission_lib \<Rightarrow> OmniMachine \<Rightarrow> string list \<times> goerror option" where
  "Machine_ValidateCreate V obj = ([], invalid V ''OmniMachine'' (om_Name (m_Meta obj)) (validateMachine V obj))"

definition Machine_ValidateUpdate :: "admission_lib \<Rightarrow> OmniMachine \<Rightarrow> OmniMachine \<Rightarrow> string list \<times> goerror option" where
  "Machine_ValidateUpdate V oldObj newObj = ([], invalid V ''OmniMachine'' (om_Name (m_Meta newObj)) (validateMachine V newObj))"

definition Machine_ValidateDelete :: "admission_lib \<Rightarrow> OmniMachine \<Rightarrow> string list \<times> goerror option" where
  "Machine_ValidateDelete V obj = ([], None)"

definition KubeconfigExport_ValidateCreate :: "admission_lib \<Rightarrow> OmniKubeconfigExport \<Rightarrow> string list \<times> goerror option" where
  "KubeconfigExport_ValidateCreate V obj = (kubeconfigExportWarnings obj, invalid V ''OmniKubeconfigExport'' (om_Name (ke_Meta obj)) (validateKubeconfigExport obj))"

definition KubeconfigExport_ValidateUpdate :: "admission_lib \<Rightarrow> OmniKubeconfigExport \<Rightarrow> OmniKubeconfigExport \<Rightarrow> string list \<times> goerror option" where
  "KubeconfigExport_ValidateUpdate V oldObj newObj = (kubeconfigExportWarnings newObj, invalid V ''OmniKubeconfigExport'' (om_Name (ke_Meta newObj)) (validateKubeconfigExport newObj))"

definition KubeconfigExport_ValidateDelete :: "admission_lib \<Rightarrow> OmniKubeconfigExport \<Rightarrow> string list \<times> goerror option" where
  "KubeconfigExport_ValidateDelete V obj = ([], None)"

text \<open>
  What every validator promises: creation is judged by the checks of the kind, an update that is
  admitted passes them as well, and a deletion is always admitted.
\<close>

locale admission_validator =
  fixes validate :: "admission_lib \<Rightarrow> 'o \<Rightarrow> field_error list"
    and create :: "admission_lib \<Rightarrow> 'o \<Rightarrow> string list \<times> goerror option"
    and upd :: "admission_lib \<Rightarrow> 'o \<Rightarrow> 'o \<Rightarrow> string list \<times> goerror option"
    and del :: "admission_lib \<Rightarrow> 'o \<Rightarrow> string list \<times> goerror option"
  assumes create_checks: "snd (create V obj) = None \<longleftrightarrow> validate V obj = []"
    and upd_checks: "snd (upd V old new) = None \<Longrightarrow> validate V new = []"
    and del_admits: "del V obj = ([], None)"
begin

definition admitted :: "admission_lib \<Rightarrow> 'o \<Rightarrow> 'o list \<Rightarrow> bool" where
  "admitted V obj newer \<longleftrightarrow> snd (create V obj) = None \<and>
     (\<forall>i < length newer. snd (upd V ((obj # newer) ! i) (newer ! i)) = None)"

text \<open>Every version of a resource that was created and updated under the webhook passes the checks.\<close>

lemma admitted_versions: "admitted V obj newer \<Longrightarrow> x \<in> set (obj # newer) \<Longrightarrow> validate V x = []"
  by (auto simp: admitted_def create_checks in_set_conv_nth dest: upd_checks)

lemma deletion_never_blocked: "snd (del V x) = None"
  by (simp add: del_admits)

end

text \<open>Most validators judge an update by the new object alone.\<close>

locale custom_validator = admission_validator +
  assumes upd_is_create: "upd V old new = create V new"
begin

lemma update_iff: "snd (upd V old new) = None \<longleftrightarrow> validate V new = []"
  by (simp add: upd_is_create create_checks)

end

text \<open>A validator that also keeps a part of the object as it was created.\<close>

locale pinning_validator = admission_validator validate create upd del
  for validate :: "admission_lib \<Rightarrow> 'o \<Rightarrow> field_error list"
    and create :: "admission_lib \<Rightarrow> 'o \<Rightarrow> string list \<times> goerror option"
    and upd :: "admission_lib \<Rightarrow> 'o \<Rightarrow> 'o \<Rightarrow> string list \<times> goerror option"
    and del :: "admission_lib \<Rightarrow> 'o \<Rightarrow> string list \<times> goerror option" +
  fixes pinned :: "'o \<Rightarrow> 'p"
  assumes upd_pins: "snd (upd V old new) = None \<Longrightarrow> pinned new = pinned old"
begin

lemma admitted_pinned:
  assumes "admitted V obj newer" and "x \<in> set (obj # newer)"
  shows "pinned x = pinned obj"
proof -
  have "pinned ((obj # newer) ! i) = pinned obj" if "i < length (obj # newer)" for i
    using that
  proof (induction i)
    case (Suc i)
    then have "snd (upd V ((obj # newer) ! i) (newer ! i)) = None"
      using assms(1) by (simp add: admitted_def)
    with upd_pins Suc show ?case by simp
  qed simp
  with assms(2) show ?thesis by (metis in_set_conv_nth)
qed

end

interpretation cluster_webhook: custom_validator "\<lambda>V. validateCluster"
  Cluster_ValidateCreate Cluster_ValidateUpdate Cluster_ValidateDelete
  by unfold_locales
    (simp_all add: Cluster_ValidateCreate_def Cluster_ValidateUpdate_def Cluster_ValidateDelete_def)

interpretation connection_webhook: custom_validator "\<lambda>V. validateConnection"
  Connection_ValidateCreate Connection_ValidateUpdate Connection_ValidateDelete
  by unfold_locales
    (simp_all add: Connection_ValidateCreate_def Connection_ValidateUpdate_def Connection_ValidateDelete_def)

interpretation control_plane_webhook: custom_validator validateControlPlane
  ControlPlane_ValidateCreate ControlPlane_ValidateUpdate ControlPlane_ValidateDelete
  by unfold_locales
    (simp_all add: ControlPlane_ValidateCreate_def ControlPlane_ValidateUpdate_def ControlPlane_ValidateDelete_def)

interpretation workers_webhook: custom_validator validateWorkers
  Workers_ValidateCreate Workers_ValidateUpdate Workers_ValidateDelete
  by unfold_locales
    (simp_all add: Workers_ValidateCreate_def Workers_ValidateUpdate_def Workers_ValidateDelete_def)

interpretation machine_webhook: custom_validator validateMachine
  Machine_ValidateCreate Machine_ValidateUpdate Machine_ValidateDelete
  by unfold_locales
    (simp_all add: Machine_ValidateCreate_def Machine_ValidateUpdate_def Machine_ValidateDelete_def)

interpretation export_webhook: custom_validator "\<lambda>V. validateKubeconfigExport"
  KubeconfigExport_ValidateCreate KubeconfigExport_ValidateUpdate KubeconfigExport_ValidateDelete
  by unfold_locales
    (simp_all add: KubeconfigExport_ValidateCreate_def KubeconfigExport_ValidateUpdate_def KubeconfigExport_ValidateDelete_def)

section \<open>What the checks mean\<close>

lemma validatePatches_nil: "validatePatches p ps = [] \<longleftrightarrow> list_all (\<lambda>x. sources_of_patch x = 1) ps"
proof -
  have "validatePatches_from p i ps = [] \<longleftrightarrow> list_all (\<lambda>x. sources_of_patch x = 1) ps" for i
    by (induction ps arbitrary: i) (auto simp: Let_def)
  then show ?thesis by (simp add: validatePatches_def)
qed

lemma one_source_of_patch:
  "sources_of_patch p = 1 \<Longrightarrow> pa_Inline p \<noteq> Some [] \<Longrightarrow> (pa_File p \<noteq> []) = (pa_Inline p = None)"
  by (cases "pa_Inline p") (auto simp: sources_of_patch_def split: if_splits)

lemma validateManifests_nil: "validateManifests p ms = [] \<longleftrightarrow> list_all (\<lambda>x. sources_of_manifest x = 1) ms"
proof -
  have "validateManifests_from p i ms = [] \<longleftrightarrow> list_all (\<lambda>x. sources_of_manifest x = 1) ms" for i
    by (induction ms arbitrary: i) (auto simp: Let_def)
  then show ?thesis by (simp add: validateManifests_def)
qed

lemma validateMachineIDs_nil:
  "validateMachineIDs V p ids = [] \<longleftrightarrow> list_all (\<lambda>x. al_uuid_Parse V x = None) ids \<and> distinct ids"
proof -
  have "validateMachineIDs_from V p seen i ids = [] \<longleftrightarrow>
      list_all (\<lambda>x. al_uuid_Parse V x = None) ids \<and> distinct ids \<and> list_all (\<lambda>x. seen x = None) ids" for seen i
    by (induction ids arbitrary: seen i) (auto simp: Let_def list_all_iff split: option.splits if_splits)
  then show ?thesis by (simp add: validateMachineIDs_def list_all_iff)
qed

lemma validateGroups_nil:
  "validateGroups allow seen i gs = [] \<longleftrightarrow>
     group_error allow gs = None \<and> distinct (map TrimSpace gs) \<and> list_all (\<lambda>g. seen (TrimSpace g) = None) gs"
  by (induction gs arbitrary: seen i)
    (auto simp: Let_def list_all_iff image_iff split: option.splits if_splits)

lemma require_nil [simp]: "require ok names detail = [] \<longleftrightarrow> ok"
  by (simp add: require_def)

lemma validateDeletionPolicy_nil:
  "validateDeletionPolicy p = [] \<longleftrightarrow>
     p = KubeconfigExportDeletionPolicyDelete \<or> p = KubeconfigExportDeletionPolicyOrphan"
  by (simp add: validateDeletionPolicy_def)

lemma validateRenewBefore_nil:
  "0 < ttl \<Longrightarrow> validateRenewBefore ttl rb = [] \<longleftrightarrow> renew_error ttl rb = None"
  by (auto simp: validateRenewBefore_def renew_error_def split: option.splits)

lemma default_key_not_blank: "TrimSpace DefaultSecretKey \<noteq> []"
  by code_simp

lemma spec_error_None_iff:
  "kubeconfigExportSpecError item = None \<longleftrightarrow>
     (let spec = ke_Spec item; target = kes_TargetSecretRef spec; account = kes_ServiceAccount spec in
      TrimSpace (lor_Name (kes_ClusterRef spec)) \<noteq> [] \<and> TrimSpace (ktr_Name target) \<noteq> []
      \<and> (ktr_Namespace target = [] \<or> TrimSpace (ktr_Namespace target) \<noteq> [])
      \<and> (ktr_Key target = [] \<or> TrimSpace (ktr_Key target) \<noteq> [])
      \<and> TrimSpace (ksa_User account) \<noteq> [] \<and> ksa_Groups account \<noteq> []
      \<and> group_error (ksa_AllowClusterAdmin account) (ksa_Groups account) = None
      \<and> 0 < kes_TTL spec \<and> renew_error (kes_TTL spec) (kes_RenewBefore spec) = None
      \<and> validateDeletionPolicy (kes_DeletionPolicy spec) = [])"
  using default_key_not_blank
  by (auto simp: kubeconfigExportSpecError_def Let_def TargetSecretKey_def validateDeletionPolicy_nil
      split: option.splits)

lemma validateKubeconfigExport_nil:
  "validateKubeconfigExport item = [] \<longleftrightarrow>
     kubeconfigExportSpecError item = None
     \<and> distinct (map TrimSpace (ksa_Groups (kes_ServiceAccount (ke_Spec item))))
     \<and> blank (kes_ContextNamespace (ke_Spec item)) = (kes_ContextNamespace (ke_Spec item) = [])"
  unfolding spec_error_None_iff validateKubeconfigExport_def Let_def
  by (cases "0 < kes_TTL (ke_Spec item)")
    (auto simp: validateGroups_nil validateRenewBefore_nil blank_def list_all_iff)

lemma validateMachineSet_nil:
  "validateMachineSet V p spec = [] \<longleftrightarrow>
     validateMachineClass (p @ [Child ''machineClass'']) (ms_MachineClass spec) = []
     \<and> list_all (\<lambda>x. al_uuid_Parse V x = None) (ms_Machines spec) \<and> distinct (ms_Machines spec)
     \<and> list_all (\<lambda>x. sources_of_patch x = 1) (ms_Patches spec)
     \<and> (ms_MachineClass spec = None \<or> ms_KernelArgs spec = [])"
  by (auto simp: validateMachineSet_def validateMachineIDs_nil validatePatches_nil)

section \<open>Properties\<close>

text \<open>
  Claim C34.  The webhook and the controller agree on kubeconfig exports: the webhook accepts an
  item exactly when the controller finds no error in its spec, its groups are distinct up to
  surrounding space, and its context namespace is empty or not blank.
\<close>

theorem export_admission_iff:
  "validateKubeconfigExport item = [] \<longleftrightarrow>
     kubeconfigExportSpecError item = None
     \<and> distinct (map TrimSpace (ksa_Groups (kes_ServiceAccount (ke_Spec item))))
     \<and> blank (kes_ContextNamespace (ke_Spec item)) = (kes_ContextNamespace (ke_Spec item) = [])"
  by (rule validateKubeconfigExport_nil)

text \<open>
  Under the webhook the controller never meets an invalid spec: whatever sequence of
  updates an item goes through, each stored version that was admitted has no spec error.
\<close>

theorem admitted_exports_valid:
  assumes "snd (KubeconfigExport_ValidateCreate V obj) = None"
    and "\<And>i. i < length newer \<Longrightarrow> snd (KubeconfigExport_ValidateUpdate V ((obj # newer) ! i) (newer ! i)) = None"
    and "x \<in> set (obj # newer)"
  shows "kubeconfigExportSpecError x = None"
proof -
  have "export_webhook.admitted V obj newer"
    using assms(1,2) by (simp add: export_webhook.admitted_def)
  then have "validateKubeconfigExport x = []"
    using export_webhook.admitted_versions assms(3) by blast
  then show ?thesis by (simp add: validateKubeconfigExport_nil)
qed

text \<open>
  A cluster that the webhook accepts renders cleanly: each of its patches and
  manifests reaches the template with exactly one source, a file or inline content (given that
  inline patches are not empty), its delete policy is not contradictory, and its sync interval
  is the one it asks for unless it asks for none.
\<close>

theorem admitted_cluster_renders:
  assumes "validateCluster cluster = []" and "Some [] \<notin> pa_Inline ` set (cs_Patches (c_Spec cluster))"
  shows "list_all (\<lambda>d. (pd_File d \<noteq> []) = (pd_Inline d = None)) (cd_Patches (renderCluster T cluster name))
    \<and> list_all (\<lambda>d. (md_File d \<noteq> []) = (md_Inline d = None)) (kd_Manifest (cd_Kubernetes (renderCluster T cluster name)))
    \<and> \<not> (cdp_Orphan (cs_DeletePolicy (c_Spec cluster)) \<and> cdp_DestroyMachines (cs_DeletePolicy (c_Spec cluster)))
    \<and> syncInterval cluster = (if cs_SyncInterval (c_Spec cluster) = 0 then 5 * Minute else cs_SyncInterval (c_Spec cluster))"
proof -
  let ?spec = "c_Spec cluster"
  have patches: "list_all (\<lambda>x. sources_of_patch x = 1) (cs_Patches ?spec)"
    and manifests: "list_all (\<lambda>x. sources_of_manifest x = 1) (ks_Manifests (cs_Kubernetes ?spec))"
    and rest: "\<not> (cdp_Orphan (cs_DeletePolicy ?spec) \<and> cdp_DestroyMachines (cs_DeletePolicy ?spec))"
      "0 \<le> cs_SyncInterval ?spec"
    using assms(1)
    by (auto simp: validateCluster_def Let_def validatePatches_nil validateManifests_nil split: if_splits)
  have "list_all (\<lambda>d. (pd_File d \<noteq> []) = (pd_Inline d = None)) (renderPatches T (cs_Patches ?spec))"
    using patches assms(2)
    by (auto simp: renderPatches_def list_all_iff notin_image_iff dest: one_source_of_patch)
  moreover have "list_all (\<lambda>d. (md_File d \<noteq> []) = (md_Inline d = None)) (renderManifests T (ks_Manifests (cs_Kubernetes ?spec)))"
    by (auto simp: renderManifests_def renderManifestInline_def list_all_iff)
  ultimately show ?thesis
    using rest by (simp add: renderCluster_def Let_def syncInterval_def)
qed

text \<open>
  Worker sets are accepted exactly when the size of their machine class is positive
  or unlimited, their machine IDs are distinct UUIDs, each patch has one source, kernel arguments
  are given only to static sets, and the spec does not name the reserved set.
\<close>

theorem workers_admission_iff:
  "validateWorkers V ws = [] \<longleftrightarrow>
     (let spec = ws_MachineSet (w_Spec ws) in
      (case ms_MachineClass spec of
         None \<Rightarrow> True
       | Some m \<Rightarrow> (case ios_Type (mc_Size m) of
           IntType \<Rightarrow> 0 < ios_IntVal (mc_Size m)
         | StringType \<Rightarrow> ios_StrVal (mc_Size m) \<in> set unlimited_sizes))
      \<and> list_all (\<lambda>x. al_uuid_Parse V x = None) (ms_Machines spec) \<and> distinct (ms_Machines spec)
      \<and> list_all (\<lambda>x. sources_of_patch x = 1) (ms_Patches spec)
      \<and> (ms_MachineClass spec = None \<or> ms_KernelArgs spec = [])
      \<and> ws_WorkerSetName (w_Spec ws) \<noteq> reserved_worker_set)"
  by (auto simp: validateWorkers_def validateMachineSet_nil validateMachineClass_def Let_def
      reserved_worker_set_def split: option.splits IntOrStringType.splits)

text \<open>
  Claim C40.  The webhook does not keep the reserved name out altogether: a worker set without
  \<open>workerSetName\<close> whose resource is called \<open>control-planes\<close> is accepted when the rest of it is valid, and
  no cluster that it belongs to can be rendered any more.
\<close>

theorem reserved_name_slips_through:
  assumes "validateMachineSet V specPath (ws_MachineSet (w_Spec ws)) = []"
    and "ws_WorkerSetName (w_Spec ws) = []" and "om_Name (w_Meta ws) = ''control-planes''"
    and "ws \<in> set (in_Workers inp)"
  shows "validateWorkers V ws = [] \<and> (\<nexists>res. Render T inp = Inr res)"
proof -
  have "workerSetName ws = ''control-planes''"
    using assms(2,3) by (simp add: workerSetName_def)
  then have "''control-planes'' \<in> workerSetName ` set (in_Workers inp)"
    using assms(4) by (metis imageI)
  then show ?thesis
    using assms(1,2) by (auto simp: validateWorkers_def Render_ok)
qed

end
