(* ===== verification/Workload_Webhooks.thy ===== *)
theory Workload_Webhooks
  imports Webhooks Secret_Sync_Controller Helm_Controller
begin

text \<open>
  The admission webhooks of the two kinds that reach into workload clusters
  (\<^verbatim>\<open>omnisecretsync_webhook.go\<close>, \<^verbatim>\<open>omnihelmrelease_webhook.go\<close> and their checks in \<^verbatim>\<open>validation.go\<close>).
  A secret sync may not change the kubeconfig it was created with, which its locale states as a
  pinned part; what the webhooks admit is related to what the controllers accept.
\<close>

section \<open>Secret syncs\<close>

definition validateSyncPolicy :: "string \<Rightarrow> field_error list" where
  "validateSyncPolicy policy =
     (if policy = SecretSyncDeletionPolicyDelete \<or> policy = SecretSyncDeletionPolicyOrphan then []
      else if policy = [] then [Required (specPath @ [Child ''deletionPolicy'']) ''deletionPolicy is required'']
      else [NotSupported (specPath @ [Child ''deletionPolicy'']) policy
              [SecretSyncDeletionPolicyDelete, SecretSyncDeletionPolicyOrphan]])"

definition validateSecretSync :: "OmniSecretSync \<Rightarrow> field_error list" where
  "validateSecretSync item =
     (let spec = ss_Spec item; kref = sss_KubeconfigSecretRef spec; target = sss_TargetSecretRef spec in
      require (TrimSpace (lor_Name (sss_ClusterRef spec)) \<noteq> []) [''clusterRef'', ''name''] ''clusterRef.name is required''
      @ require (TrimSpace (skr_Name kref) \<noteq> []) [''kubeconfigSecretRef'', ''name''] ''kubeconfig Secret name is required''
      @ require (skr_Key kref = [] \<or> TrimSpace (skr_Key kref) \<noteq> []) [''kubeconfigSecretRef'', ''key'']
          ''kubeconfig Secret key must not be blank''
      @ require (TrimSpace (ssr_Name (sss_SourceSecretRef spec)) \<noteq> []) [''sourceSecretRef'', ''name'']
          ''source Secret name is required''
      @ require (TrimSpace (str_Name target) \<noteq> []) [''targetSecretRef'', ''name''] ''target Secret name is required''
      @ require (TrimSpace (str_Namespace target) \<noteq> []) [''targetSecretRef'', ''namespace'']
          ''target Secret namespace is required''
      @ (if sss_Type spec \<noteq> [] \<and> TrimSpace (sss_Type spec) = []
         then [Invalid (specPath @ [Child ''type'']) (BadString (sss_Type spec)) ''type must not be blank''] else [])
      @ validateSyncPolicy (sss_DeletionPolicy spec))"

definition secretSyncWarnings :: "OmniSecretSync \<Rightarrow> string list" where
  "secretSyncWarnings item =
     (if skr_Name (sss_KubeconfigSecretRef (ss_Spec item)) = [] then []
      else [''OmniSecretSync uses a workload-cluster kubeconfig Secret and writes Secret data directly to that cluster''])"

definition SecretSync_ValidateCreate :: "admission_lib \<Rightarrow> OmniSecretSync \<Rightarrow> string list \<times> goerror option" where
  "SecretSync_ValidateCreate V obj =
     (secretSyncWarnings obj, invalid V ''OmniSecretSync'' (om_Name (ss_Meta obj)) (validateSecretSync obj))"

definition SecretSync_ValidateUpdate ::
  "admission_lib \<Rightarrow> OmniSecretSync \<Rightarrow> OmniSecretSync \<Rightarrow> string list \<times> goerror option" where
  "SecretSync_ValidateUpdate V oldObj newObj =
     (let old = sss_KubeconfigSecretRef (ss_Spec oldObj); new = sss_KubeconfigSecretRef (ss_Spec newObj);
          allErrs = validateSecretSync newObj
            @ (if skr_Name old \<noteq> skr_Name new
               then [Forbidden_field (specPath @ [Child ''kubeconfigSecretRef'', Child ''name''])
                       ''kubeconfigSecretRef.name is immutable''] else [])
            @ (if skr_Key old \<noteq> skr_Key new
               then [Forbidden_field (specPath @ [Child ''kubeconfigSecretRef'', Child ''key''])
                       ''kubeconfigSecretRef.key is immutable''] else [])
      in (secretSyncWarnings newObj, invalid V ''OmniSecretSync'' (om_Name (ss_Meta newObj)) allErrs))"

definition SecretSync_ValidateDelete :: "admission_lib \<Rightarrow> OmniSecretSync \<Rightarrow> string list \<times> goerror option" where
  "SecretSync_ValidateDelete V obj = ([], None)"

text \<open>The Secret, with its key, that a sync takes the kubeconfig from.\<close>

definition sync_destination :: "OmniSecretSync \<Rightarrow> string \<times> string" where
  "sync_destination item =
     (skr_Name (sss_KubeconfigSecretRef (ss_Spec item)), skr_Key (sss_KubeconfigSecretRef (ss_Spec item)))"

interpretation secret_sync_webhook: pinning_validator "\<lambda>V. validateSecretSync"
  SecretSync_ValidateCreate SecretSync_ValidateUpdate SecretSync_ValidateDelete sync_destination
  by unfold_locales
    (simp_all add: SecretSync_ValidateCreate_def SecretSync_ValidateUpdate_def SecretSync_ValidateDelete_def
      sync_destination_def Let_def split: if_splits)

lemma validateSecretSync_nil: "validateSecretSync item = [] \<longleftrightarrow> secretSyncSpecError item = None"
  by (auto simp: validateSecretSync_def secretSyncSpecError_def validateSyncPolicy_def Let_def)

section \<open>Helm releases\<close>

definition isAbsoluteURL :: "admission_lib \<Rightarrow> string \<Rightarrow> bool" where
  "isAbsoluteURL V value' =
     (case al_url_Parse V value' of
        Inl err \<Rightarrow> False
      | Inr (scheme, host) \<Rightarrow> scheme \<noteq> [] \<and> host \<noteq> [])"

definition trimmed :: "string \<Rightarrow> string \<Rightarrow> string \<Rightarrow> field_error list" where
  "trimmed value' name detail =
     (if TrimSpace value' \<noteq> value' then [Invalid (specPath @ [Child name]) (BadString value') detail] else [])"

definition validateHelmPolicy :: "OmniHelmRelease \<Rightarrow> field_error list" where
  "validateHelmPolicy item =
     (if DeletionPolicy item = HelmReleaseDeletionPolicyUninstall \<or> DeletionPolicy item = HelmReleaseDeletionPolicyOrphan
      then []
      else [NotSupported (specPath @ [Child ''deletionPolicy'']) (hrs_DeletionPolicy (hr_Spec item))
              [HelmReleaseDeletionPolicyUninstall, HelmReleaseDeletionPolicyOrphan]])"

definition validateHelmRelease :: "admission_lib \<Rightarrow> tmpl_lib \<Rightarrow> OmniHelmRelease \<Rightarrow> field_error list" where
  "validateHelmRelease V T item =
     (let spec = hr_Spec item; kref = hrs_KubeconfigSecretRef spec; chart = hrs_Chart spec;
          chartPath = specPath @ [Child ''chart''] in
      require (TrimSpace (lor_Name (hrs_ClusterRef spec)) \<noteq> []) [''clusterRef'', ''name''] ''clusterRef.name is required''
      @ require (TrimSpace (hkr_Name kref) \<noteq> []) [''kubeconfigSecretRef'', ''name''] ''kubeconfig Secret name is required''
      @ require (hkr_Key kref = [] \<or> TrimSpace (hkr_Key kref) \<noteq> []) [''kubeconfigSecretRef'', ''key'']
          ''kubeconfig Secret key must not be blank''
      @ trimmed (hrs_ReleaseName spec) ''releaseName'' ''releaseName must not include leading or trailing whitespace''
      @ trimmed (hrs_Namespace spec) ''namespace'' ''namespace must not include leading or trailing whitespace''
      @ (if TrimSpace (hcs_Repository chart) = []
         then [Required (chartPath @ [Child ''repository'']) ''chart.repository is required'']
         else if \<not> isAbsoluteURL V (hcs_Repository chart)
         then [Invalid (chartPath @ [Child ''repository'']) (BadString (hcs_Repository chart))
                 ''chart.repository must be an absolute URL'']
         else [])
      @ require (TrimSpace (hcs_Chart chart) \<noteq> []) [''chart'', ''chart''] ''chart.chart is required''
      @ require (TrimSpace (hcs_Version chart) \<noteq> []) [''chart'', ''version''] ''chart.version is required''
      @ (case hrs_Timeout spec of
           None \<Rightarrow> []
         | Some d \<Rightarrow>
             if d \<le> 0
             then [Invalid (specPath @ [Child ''timeout'']) (BadString (Duration_String d)) ''timeout must be greater than zero'']
             else [])
      @ (if hrs_MaxHistory spec < 0
         then [Invalid (specPath @ [Child ''maxHistory'']) (BadInt (hrs_MaxHistory spec)) ''maxHistory must not be negative'']
         else [])
      @ validateHelmPolicy item
      @ (case Values T item of
           Inl err \<Rightarrow> [Invalid (chartPath @ [Child ''values'']) (BadJSON (hcs_Values chart)) (Error err)]
         | Inr _ \<Rightarrow> []))"

definition helmReleaseWarnings :: "OmniHelmRelease \<Rightarrow> string list" where
  "helmReleaseWarnings item =
     (if hkr_Name (hrs_KubeconfigSecretRef (hr_Spec item)) = [] then []
      else [''OmniHelmRelease uses a workload-cluster kubeconfig Secret and writes directly to that cluster''])"

definition HelmRelease_ValidateCreate ::
  "tmpl_lib \<Rightarrow> admission_lib \<Rightarrow> OmniHelmRelease \<Rightarrow> string list \<times> goerror option" where
  "HelmRelease_ValidateCreate T V obj =
     (helmReleaseWarnings obj, invalid V ''OmniHelmRelease'' (om_Name (hr_Meta obj)) (validateHelmRelease V T obj))"

definition HelmRelease_ValidateUpdate ::
  "tmpl_lib \<Rightarrow> admission_lib \<Rightarrow> OmniHelmRelease \<Rightarrow> OmniHelmRelease \<Rightarrow> string list \<times> goerror option" where
  "HelmRelease_ValidateUpdate T V oldObj newObj =
     (helmReleaseWarnings newObj, invalid V ''OmniHelmRelease'' (om_Name (hr_Meta newObj)) (validateHelmRelease V T newObj))"

definition HelmRelease_ValidateDelete :: "admission_lib \<Rightarrow> OmniHelmRelease \<Rightarrow> string list \<times> goerror option" where
  "HelmRelease_ValidateDelete V obj = ([], None)"

interpretation helm_webhook: custom_validator "\<lambda>V. validateHelmRelease V T"
  "HelmRelease_ValidateCreate T" "HelmRelease_ValidateUpdate T" HelmRelease_ValidateDelete for T
  by unfold_locales
    (simp_all add: HelmRelease_ValidateCreate_def HelmRelease_ValidateUpdate_def HelmRelease_ValidateDelete_def)

lemma trimmed_nil [simp]: "trimmed s name detail = [] \<longleftrightarrow> TrimSpace s = s"
  by (simp add: trimmed_def)

lemma default_namespace_not_blank: "TrimSpace DefaultNamespace \<noteq> []"
  by code_simp

text \<open>What the webhook asks for beyond the controller.\<close>

definition helm_extra_checks :: "admission_lib \<Rightarrow> OmniHelmRelease \<Rightarrow> bool" where
  "helm_extra_checks V item \<longleftrightarrow>
     TrimSpace (hrs_ReleaseName (hr_Spec item)) = hrs_ReleaseName (hr_Spec item)
     \<and> TrimSpace (hrs_Namespace (hr_Spec item)) = hrs_Namespace (hr_Spec item)
     \<and> isAbsoluteURL V (hcs_Repository (hrs_Chart (hr_Spec item)))"

text \<open>A chain of checks finds nothing when each of them finds nothing.\<close>

lemma check_chain: "(if b then Some e else rest) = None \<longleftrightarrow> \<not> b \<and> rest = None"
  by simp

lemma last_check: "(case v of Inl err \<Rightarrow> Some err | Inr x \<Rightarrow> None) = None \<longleftrightarrow> \<not> isl v"
  by (cases v) simp_all

lemma error_list: "(if b then [e] else []) = [] \<longleftrightarrow> \<not> b"
  by simp

lemma values_list: "(case v of Inl err \<Rightarrow> [f err] | Inr x \<Rightarrow> []) = [] \<longleftrightarrow> \<not> isl v"
  by (cases v) simp_all

lemma timeout_list:
  "(case t of None \<Rightarrow> [] | Some d \<Rightarrow> if d \<le> 0 then [f d] else []) = [] \<longleftrightarrow>
     \<not> (case t of None \<Rightarrow> False | Some d \<Rightarrow> d \<le> (0::int))"
  by (cases t) simp_all

lemma repository_list:
  "(if b then [e] else if \<not> a then [e'] else []) = [] \<longleftrightarrow> \<not> b \<and> a"
  by simp

lemma helm_policy_nil:
  "validateHelmPolicy item = [] \<longleftrightarrow>
     \<not> (DeletionPolicy item \<noteq> HelmReleaseDeletionPolicyUninstall \<and> DeletionPolicy item \<noteq> HelmReleaseDeletionPolicyOrphan)"
  by (simp add: validateHelmPolicy_def)

lemma validateHelmRelease_nil:
  assumes "TrimSpace (om_Name (hr_Meta item)) \<noteq> []"
  shows "validateHelmRelease V T item = [] \<longleftrightarrow> helmReleaseSpecError T item = None \<and> helm_extra_checks V item"
proof -
  have release: "TrimSpace (hrs_ReleaseName (hr_Spec item)) = hrs_ReleaseName (hr_Spec item)
      \<Longrightarrow> TrimSpace (ReleaseName item) \<noteq> []"
    using assms by (auto simp: ReleaseName_def)
  have namespace: "TrimSpace (hrs_Namespace (hr_Spec item)) = hrs_Namespace (hr_Spec item)
      \<Longrightarrow> TrimSpace (ReleaseNamespace item) \<noteq> []"
    using default_namespace_not_blank by (auto simp: ReleaseNamespace_def)
  show ?thesis
    unfolding validateHelmRelease_def helmReleaseSpecError_def helm_extra_checks_def Let_def
      append_is_Nil_conv require_nil trimmed_nil repository_list error_list values_list timeout_list helm_policy_nil
      check_chain last_check
    by (intro iffI conjI; elim conjE; simp add: release namespace)
qed

section \<open>Properties\<close>

text \<open>
  Claim C25.  Under the webhook a secret sync keeps its destination: whatever sequence of admitted
  updates an item goes through, every version names the kubeconfig Secret and key of the first
  one, and the controller finds no error in its spec.
\<close>

theorem admitted_syncs_keep_destination:
  assumes "snd (SecretSync_ValidateCreate V obj) = None"
    and "\<And>i. i < length newer \<Longrightarrow> snd (SecretSync_ValidateUpdate V ((obj # newer) ! i) (newer ! i)) = None"
    and "x \<in> set (obj # newer)"
  shows "sync_destination x = sync_destination obj \<and> secretSyncSpecError x = None"
proof -
  have admitted: "secret_sync_webhook.admitted V obj newer"
    using assms(1,2) by (simp add: secret_sync_webhook.admitted_def)
  have "sync_destination x = sync_destination obj"
    by (rule secret_sync_webhook.admitted_pinned [OF admitted assms(3)])
  moreover have "validateSecretSync x = []"
    by (rule secret_sync_webhook.admitted_versions [OF admitted assms(3)])
  ultimately show ?thesis by (simp add: validateSecretSync_nil)
qed

text \<open>
  For Helm releases the webhook asks for more than the controller: for an item with a
  name that is not blank it finds no error exactly when the controller finds none, the release
  name and namespace have no surrounding space, and the repository is an absolute URL.
\<close>

theorem helm_admission_iff:
  assumes "TrimSpace (om_Name (hr_Meta item)) \<noteq> []"
  shows "snd (HelmRelease_ValidateCreate T V item) = None \<longleftrightarrow>
    helmReleaseSpecError T item = None \<and> helm_extra_checks V item"
  using validateHelmRelease_nil [OF assms] by (simp add: HelmRelease_ValidateCreate_def)

end
