(* ===== verification/Demo_Env.thy ===== *)
theory Demo_Env
  imports Omni_Credentials Connection_Controller Secret_Sync_Safety Secret_Sync_Store Helm_Safety Workload_Webhooks
begin

text \<open>
  A concrete environment, in which the contracts of the libraries hold: a bounded retry loop,
  finalizers as a list, conditions by \<^const>\<open>upsert_condition\<close>, an API server that answers from a
  fixed set of objects, and an Omni client, a Helm library and a process whose operations succeed.
  Two workload clusters are given: one that always answers with the same Secret, and one that
  stores what is written to it.  The properties that have hypotheses are applied to this
  environment at the end of the development.
\<close>

section \<open>Libraries\<close>

primrec retry_steps :: "nat \<Rightarrow> (event, 'x, goerror option) act \<Rightarrow> (event, 'x, goerror option) act" where
  "retry_steps 0 fn = fn"
| "retry_steps (Suc n) fn = do {
     r \<leftarrow> fn;
     (case r of
        None \<Rightarrow> State_Monad.return None
      | Some e \<Rightarrow> if IsConflict e then retry_steps n fn else State_Monad.return (Some e)) }"

definition demo_klib :: klib where
  "demo_klib =
     \<lparr>lib_ContainsFinalizer = (\<lambda>fs f. List.member fs f),
      lib_AddFinalizer = (\<lambda>fs f. if List.member fs f then fs else fs @ [f]),
      lib_RemoveFinalizer = (\<lambda>fs f. filter (\<lambda>g. g \<noteq> f) fs),
      lib_SetStatusCondition = upsert_condition,
      lib_IsPrint = (\<lambda>r. 32 \<le> r \<and> r < 127),
      lib_ToLower = (\<lambda>r. r)\<rparr>"

definition demo_tmpl :: tmpl_lib where
  "demo_tmpl =
     \<lparr>tl_Unmarshal = (\<lambda>s. Inr (AnyString s)), tl_Encode = (\<lambda>earlier d. None),
      tl_Close = (\<lambda>ds. Inr ''kind: Cluster''), tl_IsPrint = (\<lambda>r. 32 \<le> r \<and> r < 127)\<rparr>"

definition demo_admission :: admission_lib where
  "demo_admission =
     \<lparr>al_uuid_Parse = (\<lambda>s. if length s = 36 then None else Some (ErrorString ''invalid UUID length'')),
      al_NewInvalid = (\<lambda>kind name errs. ErrorString (kind @ '' is invalid'')),
      al_url_Parse = (\<lambda>s. if prefix ''https://'' s then Inr (''https'', drop 8 s) else Inr ([], []))\<rparr>"

lemma demo_finalizer_contract: "finalizer_contract demo_klib"
  by (auto simp: finalizer_contract_def demo_klib_def)

lemma demo_condition_contract: "condition_contract demo_klib"
  by (simp add: condition_contract_def demo_klib_def)

lemma retry_steps_contract: "retry_contract (\<lambda>e. IsConflict e) (retry_steps n)"
  unfolding retry_contract_def
proof (intro allI)
  fix fn :: "(event, 'x, goerror option) act" and w
  show "retried (\<lambda>e. IsConflict e) fn w (fst (run_state (retry_steps n fn) w)) (snd (run_state (retry_steps n fn) w))"
  proof (induction n arbitrary: w)
    case 0
    obtain r w' where run: "run_state fn w = (r, w')" by fastforce
    show ?case
    proof (cases "\<exists>e. r = Some e \<and> IsConflict e")
      case True
      with run show ?thesis by (auto intro: retried.gave_up)
    next
      case False
      with run show ?thesis by (auto intro: retried.finished)
    qed
  next
    case (Suc n)
    obtain r w' where run: "run_state fn w = (r, w')" by fastforce
    show ?case
    proof (cases "\<exists>e. r = Some e \<and> IsConflict e")
      case True
      with run Suc [of w'] show ?thesis
        by (auto intro: retried.again [where x = "ext w'"])
    next
      case False
      with run show ?thesis by (auto intro: retried.finished split: option.splits)
    qed
  qed
qed

section \<open>Objects\<close>

definition demo_meta :: "string \<Rightarrow> string list \<Rightarrow> ObjectMeta" where
  "demo_meta name finalizers =
     \<lparr>om_Name = name, om_Namespace = ''omni'', om_UID = ''u1'', om_ResourceVersion = ''1'', om_Generation = 3,
      om_DeletionTimestamp = None, om_Finalizers = finalizers, om_Labels = None, om_Annotations = None\<rparr>"

definition no_common :: CommonStatusFields where
  "no_common = \<lparr>csf_ObservedGeneration = 0, csf_Conditions = []\<rparr>"

definition no_connection :: ConnectionStatusFields where
  "no_connection = \<lparr>cnf_ConnectionRef = [], cnf_Endpoint = []\<rparr>"

definition no_descriptors :: Descriptors where
  "no_descriptors = \<lparr>d_Labels = None, d_Annotations = None\<rparr>"

definition demo_cluster :: OmniCluster where
  "demo_cluster =
     \<lparr>c_Meta = demo_meta ''edge'' [Finalizer],
      c_Spec = \<lparr>cs_Descriptors = no_descriptors, cs_ConnectionRef = \<lparr>lor_Name = ''main''\<rparr>, cs_ClusterName = [],
        cs_Kubernetes = \<lparr>ks_Version = ''1.33.0'', ks_Manifests = []\<rparr>, cs_Talos = \<lparr>ts_Version = ''1.10.0''\<rparr>,
        cs_Features = None, cs_Patches = [], cs_SystemExtensions = [], cs_KernelArgs = [], cs_TemplateRoot = [],
        cs_DeletePolicy = \<lparr>cdp_Orphan = False, cdp_DestroyMachines = True\<rparr>, cs_SyncInterval = 0, cs_Suspend = False\<rparr>,
      c_Status = \<lparr>cst_Common = no_common, cst_Connection = no_connection,
        cst_Sync = \<lparr>ssf_ClusterName = [], ssf_TemplateHash = [], ssf_LastAttemptTime = None, ssf_LastSyncTime = None,
          ssf_LastSyncOutput = [], ssf_LastStatusOutput = []\<rparr>,
        cst_ControlPlaneRef = [], cst_WorkersRefs = [], cst_MachineRefs = []\<rparr>\<rparr>"

definition demo_connection :: OmniConnection where
  "demo_connection =
     \<lparr>on_Meta = demo_meta ''main'' [Finalizer],
      on_Spec = \<lparr>ons_Endpoint = ''https://omni'', ons_Auth = \<lparr>auth_ServiceAccountSecretRef = \<lparr>sks_Name = ''sa'', sks_Key = ''key''\<rparr>\<rparr>,
        ons_InsecureSkipTLSVerify = False\<rparr>,
      on_Status = \<lparr>ost_Common = no_common, ost_Connection = no_connection, ost_LastCheckTime = None\<rparr>\<rparr>"

definition demo_machine_set :: MachineSetSpecFields where
  "demo_machine_set =
     \<lparr>ms_Descriptors = no_descriptors, ms_Machines = [], ms_MachineClass = None, ms_Patches = [],
      ms_SystemExtensions = [], ms_KernelArgs = []\<rparr>"

definition demo_control_plane :: OmniControlPlane where
  "demo_control_plane =
     \<lparr>cp_Meta = demo_meta ''cp'' [],
      cp_Spec = \<lparr>cps_MachineSet = demo_machine_set, cps_ClusterRef = \<lparr>lor_Name = ''edge''\<rparr>, cps_BootstrapSpec = None\<rparr>,
      cp_Status = \<lparr>cpt_Common = no_common, cpt_ClusterRef = []\<rparr>\<rparr>"

definition demo_workers :: "string \<Rightarrow> OmniWorkers" where
  "demo_workers name =
     \<lparr>w_Meta = demo_meta name [],
      w_Spec = \<lparr>ws_MachineSet = demo_machine_set, ws_ClusterRef = \<lparr>lor_Name = ''edge''\<rparr>, ws_WorkerSetName = [],
        ws_UpdateStrategy = None, ws_UpgradeStrategy = None, ws_DeleteStrategy = None\<rparr>,
      w_Status = \<lparr>wst_Common = no_common, wst_ClusterRef = [], wst_WorkerSetName = []\<rparr>\<rparr>"

definition demo_machine :: OmniMachine where
  "demo_machine =
     \<lparr>m_Meta = demo_meta ''m1'' [],
      m_Spec = \<lparr>mas_Descriptors = no_descriptors, mas_ClusterRef = \<lparr>lor_Name = ''edge''\<rparr>, mas_MachineID = [],
        mas_Locked = False, mas_Install = None, mas_Patches = [], mas_SystemExtensions = [], mas_KernelArgs = []\<rparr>,
      m_Status = \<lparr>mast_Common = no_common, mast_ClusterRef = [], mast_MachineID = []\<rparr>\<rparr>"

definition demo_time :: Time where
  "demo_time = \<lparr>t_ns = 1750000000 * 1000000000, t_loc = UTC, t_mono = True\<rparr>"

definition demo_export :: OmniKubeconfigExport where
  "demo_export =
     \<lparr>ke_Meta = demo_meta ''access'' [Finalizer],
      ke_Spec = \<lparr>kes_ClusterRef = \<lparr>lor_Name = ''edge''\<rparr>,
        kes_TargetSecretRef = \<lparr>ktr_Name = ''new'', ktr_Namespace = [], ktr_Key = []\<rparr>,
        kes_ServiceAccount = \<lparr>ksa_User = ''ci'', ksa_Groups = [''deployers''], ksa_AllowClusterAdmin = False\<rparr>,
        kes_ContextNamespace = [], kes_TTL = 86400 * Second, kes_RenewBefore = Some (3600 * Second),
        kes_DeletionPolicy = KubeconfigExportDeletionPolicyOrphan\<rparr>,
      ke_Status = \<lparr>ket_Common = no_common, ket_Connection = no_connection, ket_ClusterRef = [], ket_ClusterName = [],
        ket_TargetSecretRef = ''old'', ket_TargetSecretNamespace = ''omni'', ket_TargetSecretKey = [],
        ket_ServiceAccountUser = [], ket_ServiceAccountGroups = [], ket_KubeconfigHash = [], ket_ExpirationTime = None,
        ket_NextRotationTime = None, ket_LastRotationTime = None\<rparr>\<rparr>"

definition demo_sync :: OmniSecretSync where
  "demo_sync =
     \<lparr>ss_Meta = demo_meta ''pull'' [Finalizer],
      ss_Spec = \<lparr>sss_ClusterRef = \<lparr>lor_Name = ''edge''\<rparr>,
        sss_KubeconfigSecretRef = \<lparr>skr_Name = ''access'', skr_Key = ''key''\<rparr>,
        sss_SourceSecretRef = \<lparr>ssr_Name = ''old''\<rparr>,
        sss_TargetSecretRef = \<lparr>str_Name = ''registry'', str_Namespace = ''flux-system''\<rparr>,
        sss_Type = [], sss_Labels = None, sss_Annotations = None, sss_CreateNamespace = True,
        sss_DeletionPolicy = SecretSyncDeletionPolicyDelete\<rparr>,
      ss_Status = \<lparr>sst_Common = no_common, sst_ClusterRef = [], sst_KubeconfigSecretRef = [], sst_KubeconfigSecretKey = [],
        sst_SourceSecretRef = [], sst_TargetSecretRef = ''pull-secret'', sst_TargetNamespace = ''flux-system'',
        sst_SecretType = [], sst_SecretHash = [], sst_LastAttemptTime = None, sst_LastSyncTime = None,
        sst_LastError = []\<rparr>\<rparr>"

text \<open>A Secret of the workload cluster that the item wrote.\<close>

definition demo_target :: "string \<Rightarrow> Secret" where
  "demo_target name =
     \<lparr>sec_Meta = (demo_meta name [])\<lparr>om_Namespace := ''flux-system'', om_Labels := SyncSecretLabels demo_sync ''edge''\<rparr>,
      sec_Type = ''Opaque'', sec_Data = None\<rparr>"

definition demo_release :: OmniHelmRelease where
  "demo_release =
     \<lparr>hr_Meta = demo_meta ''ingress'' [Finalizer],
      hr_Spec = \<lparr>hrs_ClusterRef = \<lparr>lor_Name = ''edge''\<rparr>,
        hrs_KubeconfigSecretRef = \<lparr>hkr_Name = ''access'', hkr_Key = ''key''\<rparr>,
        hrs_ReleaseName = [], hrs_Namespace = ''web'',
        hrs_Chart = \<lparr>hcs_Repository = ''https://charts'', hcs_Chart = ''nginx'', hcs_Version = ''1.0.0'', hcs_Values = None\<rparr>,
        hrs_CreateNamespace = True, hrs_Wait = True, hrs_WaitForJobs = False, hrs_Timeout = None, hrs_Atomic = False,
        hrs_DisableHooks = False, hrs_SkipCRDs = False, hrs_MaxHistory = 3, hrs_DeletionPolicy = []\<rparr>,
      hr_Status = \<lparr>hst_Common = no_common, hst_ClusterRef = [], hst_KubeconfigSecretRef = [], hst_KubeconfigSecretKey = [],
        hst_ReleaseName = [], hst_Namespace = [], hst_Chart = [], hst_ChartVersion = [], hst_ReleaseRevision = 0,
        hst_ReleaseStatus = [], hst_LastAction = [], hst_LastAttemptTime = None, hst_LastSuccessTime = None,
        hst_LastError = []\<rparr>\<rparr>"

definition demo_secret :: Secret where
  "demo_secret =
     \<lparr>sec_Meta = demo_meta ''old'' [], sec_Type = ''Opaque'',
      sec_Data = Some (fmap_of_list [(''key'', Some (base64_encode ''secret''))])\<rparr>"

section \<open>Servers\<close>

text \<open>Every read answers with the given object, every list with the given objects, every write succeeds.\<close>

definition fixed_api :: "'o \<Rightarrow> 'o list \<Rightarrow> ('x, 'o) kind_api" where
  "fixed_api obj items =
     \<lparr>api_Get = (\<lambda>key x. (Inr obj, x)), api_List = (\<lambda>ns x. (Inr items, x)), api_Create = (\<lambda>o' x. (None, x)),
      api_Update = (\<lambda>o' x. (None, x)), api_StatusUpdate = (\<lambda>o' x. (None, x)), api_Delete = (\<lambda>o' x. (None, x))\<rparr>"

definition demo_omni :: "'x omni_client" where
  "demo_omni =
     \<lparr>oc_Ping = (\<lambda>c x. ((''ok'', None), x)), oc_SyncTemplate = (\<lambda>c b r opts x. ((''synced'', None), x)),
      oc_DeleteCluster = (\<lambda>c n opts x. ((''deleted'', None), x)), oc_StatusCluster = (\<lambda>c n x. ((''healthy'', None), x)),
      oc_Kubeconfig = (\<lambda>c n opts x. (Inr ''apiVersion: v1'', x))\<rparr>"

definition demo_sdk :: "'x omni_sdk" where
  "demo_sdk =
     \<lparr>sdk_New = (\<lambda>ep key tls x. (Inr 0, x)), sdk_Close = (\<lambda>h x. ((), x)), sdk_Endpoint = (\<lambda>h. ''https://omni''),
      sdk_ListClusters = (\<lambda>h x. (None, x)), sdk_SyncTemplate = (\<lambda>h b d r x. (([], None), x)),
      sdk_DeleteCluster = (\<lambda>h n d x. (([], None), x)), sdk_StatusCluster = (\<lambda>h n x. (([], None), x)),
      sdk_Kubeconfig = (\<lambda>h n opts x. (Inr ''apiVersion: v1'', x)), sdk_ValidateTemplate = (\<lambda>b r x. (None, x))\<rparr>"

definition demo_clientcmd :: "'x clientcmd" where
  "demo_clientcmd =
     \<lparr>cc_Load = (\<lambda>s. Inr \<lparr>kc_CurrentContext = ''edge'', kc_Contexts = None, kc_Rest = s\<rparr>), cc_Write = (\<lambda>c. Inr (kc_Rest c)),
      cc_RESTConfigFromKubeConfig = (\<lambda>s. Inr 0), cc_AddUserAgent = (\<lambda>h agent. h),
      cc_WithTimeout = (\<lambda>h d. h), cc_NewForConfig = (\<lambda>h. Inr 0),
      cc_NewClientConfigFromBytes = (\<lambda>s. Inr 0), cc_ClientConfig = (\<lambda>h. Inr 0),
      cc_NewDiscoveryClientForConfig = (\<lambda>h. Inr 0), cc_NewMemCacheClient = (\<lambda>h. h),
      cc_NewDeferredDiscoveryRESTMapper = (\<lambda>h. h), cc_ServerVersion = (\<lambda>h x. (None, x))\<rparr>"

definition demo_workload :: "'x workload_api" where
  "demo_workload =
     \<lparr>wl_GetNamespace = (\<lambda>h ns x. (None, x)), wl_CreateNamespace = (\<lambda>h ns x. (None, x)),
      wl_GetSecret = (\<lambda>h ns name x. (Inr (demo_target name), x)), wl_CreateSecret = (\<lambda>h ns s x. (None, x)),
      wl_UpdateSecret = (\<lambda>h ns s x. (None, x)), wl_DeleteSecret = (\<lambda>h ns name x. (None, x))\<rparr>"

text \<open>A workload cluster that is a map from names to Secrets.\<close>

type_synonym secret_map = "NamespacedName \<rightharpoonup> Secret"

definition store_workload :: "secret_map workload_api" where
  "store_workload =
     \<lparr>wl_GetNamespace = (\<lambda>h ns x. (None, x)), wl_CreateNamespace = (\<lambda>h ns x. (None, x)),
      wl_GetSecret = (\<lambda>h ns name x.
        (case x \<lparr>nn_Namespace = ns, nn_Name = name\<rparr> of
           None \<Rightarrow> Inl (StatusError NotFound ''not found'')
         | Some s \<Rightarrow> Inr s, x)),
      wl_CreateSecret = (\<lambda>h ns s x. (None, x(\<lparr>nn_Namespace = ns, nn_Name = om_Name (sec_Meta s)\<rparr> \<mapsto> s))),
      wl_UpdateSecret = (\<lambda>h ns s x. (None, x(\<lparr>nn_Namespace = ns, nn_Name = om_Name (sec_Meta s)\<rparr> \<mapsto> s))),
      wl_DeleteSecret = (\<lambda>h ns name x. (None, x(\<lparr>nn_Namespace = ns, nn_Name = name\<rparr> := None)))\<rparr>"

definition demo_release_info :: ReleaseInfo where
  "demo_release_info = \<lparr>ri_Name = ''ingress'', ri_Namespace = ''web'', ri_Version = 1, ri_Status = StatusDeployed\<rparr>"

definition demo_helm_sdk :: "'x helm_sdk" where
  "demo_helm_sdk =
     \<lparr>hs_cli_New = (\<lambda>x. (\<lparr>es_Debug = False, es_RepositoryCache = [], es_ContentCache = [], es_RepositoryConfig = [],
        es_RegistryConfig = [], es_Rest = []\<rparr>, x)),
      hs_Init = (\<lambda>g ns driver x. (Inr 0, x)), hs_NewRegistryClient = (\<lambda>d cfg x. (Inr 0, x)),
      hs_LocateChart = (\<lambda>cfg opts ref st x. (Inr ''/tmp/nginx.tgz'', x)), hs_Load = (\<lambda>p x. (Inr 0, x)),
      hs_Last = (\<lambda>cfg n x. (Some (Sentinel ErrReleaseNotFound), x)),
      hs_Install = (\<lambda>cfg opts c v x. ((Some (Inr demo_release_info), None), x)),
      hs_Upgrade = (\<lambda>cfg opts n c v x. ((Some (Inr demo_release_info), None), x)),
      hs_Uninstall = (\<lambda>cfg opts n x. ((None, None), x))\<rparr>"

definition demo_os :: "'x os_api" where
  "demo_os =
     \<lparr>os_TempDir = (\<lambda>x. (''/tmp'', x)), os_MkdirAll = (\<lambda>p x. (None, x)),
      os_MkdirTemp = (\<lambda>d pat x. (Inr ''/tmp/work'', x)), os_Getwd = (\<lambda>x. (Inr ''/'', x)), os_Chdir = (\<lambda>d x. (None, x)),
      os_RemoveAll = (\<lambda>d x. (None, x)), os_CtxErr = (\<lambda>x. (None, x))\<rparr>"

definition demo_env_over :: "'x workload_api \<Rightarrow> OmniCluster \<Rightarrow> 'x env" where
  "demo_env_over W cluster =
     \<lparr>env_Lib = demo_klib, env_Tmpl = demo_tmpl, env_Retry = retry_steps 4, env_Now = (\<lambda>x. (demo_time, x)),
      env_Clusters = fixed_api cluster [cluster],
      env_Connections = fixed_api demo_connection [demo_connection],
      env_ControlPlanes = fixed_api (accept_control_plane demo_klib True demo_time demo_control_plane) [demo_control_plane],
      env_Workers = fixed_api (accept_workers demo_klib True demo_time (demo_workers ''w1'')) [demo_workers ''w1''],
      env_Machines = fixed_api (accept_machine demo_klib True demo_time demo_machine) [demo_machine],
      env_KubeconfigExports = fixed_api demo_export [demo_export],
      env_SecretSyncs = fixed_api demo_sync [demo_sync],
      env_HelmReleases = fixed_api demo_release [demo_release],
      env_Secrets = fixed_api demo_secret [demo_secret],
      env_SecretReader = None, env_Omni = Some demo_omni, env_Sdk = demo_sdk,
      env_OpenRoot = (\<lambda>p x. (Inr 0, x)), env_CloseRoot = (\<lambda>h x. ((), x)), env_Clock = None,
      env_KubeconfigValidator = None, env_Clientcmd = demo_clientcmd,
      env_SecretSync = None, env_Workload = W, env_Helm = None, env_HelmSdk = demo_helm_sdk, env_Os = demo_os\<rparr>"

abbreviation demo_env :: "OmniCluster \<Rightarrow> unit env" where
  "demo_env \<equiv> demo_env_over demo_workload"

lemma demo_contracts [simp]: "env_retry_ok (demo_env_over W cluster)" "condition_contract demo_klib" "finalizer_contract demo_klib"
  by (simp_all add: demo_env_over_def retry_steps_contract demo_condition_contract demo_finalizer_contract)

lemma demo_clients [simp]:
  "env_Lib (demo_env_over W cluster) = demo_klib"
  "env_SecretSync (demo_env_over W cluster) = None" "env_Helm (demo_env_over W cluster) = None"
  "env_Workload (demo_env_over W cluster) = W"
  by (simp_all add: demo_env_over_def)

text \<open>The map meets both descriptions of a workload cluster.\<close>

definition store_view :: "secret_map \<Rightarrow> secret_view" where
  "store_view x = (\<lambda>k. map_option content_of (x k))"

lemma store_workload_store: "secret_store store_workload cs store_view"
  by (auto simp: secret_store_def store_workload_def store_view_def store_writes_def Let_def split: option.splits)

lemma store_workload_keeps: "keeps_secrets store_workload cs ns name"
  by (auto simp: keeps_secrets_def reads_content_def store_workload_def same_content_def split: option.splits)

definition demo_world :: "(event, unit) world" where
  "demo_world = \<lparr>ext = (), trace = []\<rparr>"

definition demo_key :: NamespacedName where
  "demo_key = \<lparr>nn_Namespace = ''omni'', nn_Name = ''edge''\<rparr>"

section \<open>The template of the cluster\<close>

definition demo_inputs :: "OmniWorkers list \<Rightarrow> Inputs" where
  "demo_inputs ws =
     \<lparr>in_Cluster = Some demo_cluster, in_ControlPlane = Some demo_control_plane, in_Workers = ws,
      in_Machines = [demo_machine]\<rparr>"

lemma demo_worker_names:
  "workerSetName (demo_workers ''w1'') = ''w1''" "workerSetName (demo_workers ''w2'') = ''w2''"
  by (simp_all add: workerSetName_def demo_workers_def demo_meta_def)

definition demo_rendered :: Rendered where
  "demo_rendered =
     \<lparr>re_ClusterName = ''edge'', re_Template = ''kind: Cluster'',
      re_TemplateHash = hex_encode (sha256 ''kind: Cluster''), re_ControlPlaneRef = ''cp'',
      re_WorkersRefs = [''w1''], re_MachineRefs = [''m1'']\<rparr>"

lemma demo_render: "Render demo_tmpl (demo_inputs [demo_workers ''w1'']) = Inr demo_rendered"
  by (simp add: Render_ok demo_inputs_def demo_rendered_def demo_worker_names demo_tmpl_def template_docs_def
      demo_cluster_def demo_control_plane_def demo_workers_def demo_machine_def demo_meta_def ClusterName_def workerSetName_def)

end
