(* ===== verification/Witnesses.thy ===== *)
theory Witnesses
  imports Demo_Env
begin

text \<open>
  The properties that have hypotheses, each applied at a concrete input of the environment of
  \<^theory_text>\<open>Demo_Env\<close> in which the hypotheses hold.
\<close>

section \<open>The cluster controller\<close>

definition deleting_cluster :: OmniCluster where
  "deleting_cluster = demo_cluster\<lparr>c_Meta := (c_Meta demo_cluster)\<lparr>om_DeletionTimestamp := Some demo_time\<rparr>\<rparr>"

definition suspended_cluster :: OmniCluster where
  "suspended_cluster = demo_cluster\<lparr>c_Spec := (c_Spec demo_cluster)\<lparr>cs_Suspend := True\<rparr>\<rparr>"

text \<open>The run that deletes the cluster in Omni and then releases it has four events.\<close>

lemma deleting_run:
  "length (trace (snd (run_state (Cluster_Reconcile (demo_env deleting_cluster) demo_key) demo_world))) = 4"
  by code_simp

theorem release_after_delete_witness:
  "length (trace (snd (run_state (Cluster_Reconcile (demo_env deleting_cluster) demo_key) demo_world))) = 4
   \<and> env_retry_ok (demo_env deleting_cluster) \<and> condition_contract (env_Lib (demo_env deleting_cluster))
   \<and> finalizer_contract (env_Lib (demo_env deleting_cluster))
   \<and> emits (Cluster_Reconcile (demo_env deleting_cluster) demo_key)
       (\<lambda>out t. \<forall>c. preceded (releases_cluster (env_Lib (demo_env deleting_cluster)) c) (deleted_in_omni c) t)"
  using release_after_delete [of "demo_env deleting_cluster" demo_key] deleting_run by simp

theorem ready_after_sync_witness:
  "env_retry_ok (demo_env demo_cluster) \<and> condition_contract (env_Lib (demo_env demo_cluster))
   \<and> emits (Cluster_Reconcile (demo_env demo_cluster) demo_key)
       (\<lambda>out t. preceded writes_ready status_read t \<and> preceded status_asked sync_succeeded t)"
  using ready_after_sync [of "demo_env demo_cluster" demo_key] by simp

theorem sync_sends_rendered_witness:
  "env_retry_ok (demo_env demo_cluster) \<and> condition_contract (env_Lib (demo_env demo_cluster))
   \<and> emits (Cluster_Reconcile (demo_env demo_cluster) demo_key)
       (\<lambda>out t. list_all (\<lambda>e. sync_sent e \<longrightarrow> sends_rendered (demo_env demo_cluster) e) t)"
  using sync_sends_rendered [of "demo_env demo_cluster" demo_key] by simp

theorem suspended_no_remote_witness:
  "cs_Suspend (c_Spec suspended_cluster)
   \<and> emits (reconcile_live (demo_env suspended_cluster) suspended_cluster)
       (\<lambda>out t. list_all (\<lambda>e. \<not> omni_event e \<and> \<not> writes_ready e) t)"
  using suspended_no_remote [of "demo_env suspended_cluster" suspended_cluster]
  by (simp add: suspended_cluster_def)

theorem live_cluster_requeued_witness:
  "env_retry_ok (demo_env demo_cluster)
   \<and> emits (reconcile_live (demo_env demo_cluster) demo_cluster)
       (\<lambda>out t. snd out \<noteq> None \<or> res_Requeue (fst out) \<or> res_RequeueAfter (fst out) > 0)"
  using live_cluster_requeued [of "demo_env demo_cluster" demo_cluster] by simp

theorem delete_reports_progress_witness:
  "env_retry_ok (demo_env deleting_cluster)
   \<and> emits (Cluster_reconcileDelete (demo_env deleting_cluster) deleting_cluster)
       (\<lambda>out t. snd out \<noteq> None \<or> \<not> has_finalizer (env_Lib (demo_env deleting_cluster)) (c_Meta deleting_cluster) \<or>
          (\<exists>s. t = s @ [EvUpdate (ObjCluster (deleting_cluster\<lparr>c_Meta :=
             remove_finalizers (env_Lib (demo_env deleting_cluster)) (c_Meta deleting_cluster)\<rparr>)) None]))"
  using delete_reports_progress [of "demo_env deleting_cluster" deleting_cluster] by simp

section \<open>The template\<close>

theorem Render_any_sort_witness:
  "render_sorted demo_tmpl demo_cluster demo_control_plane [demo_workers ''w1'', demo_workers ''w2''] [demo_machine]
     = Render demo_tmpl (demo_inputs [demo_workers ''w2'', demo_workers ''w1''])"
  using Render_any_sort [of "demo_inputs [demo_workers ''w2'', demo_workers ''w1'']" demo_cluster demo_control_plane
      "[demo_workers ''w1'', demo_workers ''w2'']" "[demo_machine]" demo_tmpl]
  by (auto simp: demo_inputs_def demo_worker_names)

theorem Render_order_independent_witness:
  "Render demo_tmpl (demo_inputs [demo_workers ''w1'', demo_workers ''w2''])
     = Render demo_tmpl (demo_inputs [demo_workers ''w2'', demo_workers ''w1''])"
  using Render_order_independent [of "demo_inputs [demo_workers ''w1'', demo_workers ''w2'']"
      "demo_inputs [demo_workers ''w2'', demo_workers ''w1'']" demo_tmpl]
  by (auto simp: demo_inputs_def demo_worker_names add_mset_commute)

theorem Render_refs_witness:
  "Render demo_tmpl (demo_inputs [demo_workers ''w1'']) = Inr demo_rendered
   \<and> mset (re_WorkersRefs demo_rendered) = {#''w1''#} \<and> length (re_TemplateHash demo_rendered) = 64"
proof -
  have "in_Cluster (demo_inputs [demo_workers ''w1'']) = Some demo_cluster" by (simp add: demo_inputs_def)
  then have "mset (re_WorkersRefs demo_rendered) =
      mset (map (\<lambda>w. om_Name (w_Meta w)) (in_Workers (demo_inputs [demo_workers ''w1''])))"
    and "length (re_TemplateHash demo_rendered) = 64"
    using Render_refs [OF demo_render] by blast+
  then show ?thesis
    using demo_render by (simp add: demo_inputs_def demo_workers_def demo_meta_def)
qed

section \<open>Child resources and watches\<close>

theorem child_decisions_witness:
  "env_retry_ok (demo_env demo_cluster) \<and> condition_contract (env_Lib (demo_env demo_cluster))
   \<and> emits (Workers_Reconcile (demo_env demo_cluster) demo_key) (\<lambda>out t. fst out = no_requeue \<and>
       preceded (\<lambda>e. \<exists>obj r. e = EvStatusUpdate (ObjWorkers obj) r
         \<and> \<not> child_rejected (wst_Common (w_Status obj))) cluster_found t \<and>
       preceded (\<lambda>e. \<exists>obj r. e = EvStatusUpdate (ObjWorkers obj) r
         \<and> \<not> child_accepted (wst_Common (w_Status obj))) cluster_missing t)"
  using child_decisions [of "demo_env demo_cluster" demo_key] by simp

theorem child_status_settles_witness:
  "trace (snd (run_state (updateWorkersStatus (demo_env demo_cluster) (demo_workers ''w1'') True) demo_world)) =
     [EvGet KWorkers \<lparr>nn_Namespace = ''omni'', nn_Name = ''w1''\<rparr> None]"
  using child_status_settles [of "demo_env demo_cluster" demo_control_plane demo_world True demo_time demo_control_plane
      "demo_workers ''w1''" "demo_workers ''w1''" demo_machine demo_machine]
  by (simp add: demo_env_over_def fixed_api_def demo_world_def demo_workers_def demo_meta_def ObjectKeyFromMeta_def
      retry_steps_contract demo_condition_contract)

theorem inputs_wake_cluster_witness:
  "list_all (\<lambda>obj. requestForChildCluster obj = [demo_key])
     [ObjControlPlane demo_control_plane, ObjWorkers (demo_workers ''w1''), ObjMachine demo_machine]"
  using inputs_wake_cluster [of demo_cluster "demo_inputs [demo_workers ''w1'']" demo_control_plane]
  by (simp add: inputs_of_def demo_inputs_def demo_cluster_def demo_control_plane_def demo_workers_def demo_machine_def
      demo_meta_def demo_key_def ObjectKeyFromMeta_def)

section \<open>Connections\<close>

theorem connection_ready_after_ping_witness:
  "env_retry_ok (demo_env demo_cluster) \<and> condition_contract (env_Lib (demo_env demo_cluster))
   \<and> emits (Connection_Reconcile (demo_env demo_cluster) \<lparr>nn_Namespace = ''omni'', nn_Name = ''main''\<rparr>) (\<lambda>out t.
       preceded (writes_connection (\<lambda>s. \<not> connection_stalled s)) ping_ok t
       \<and> list_all (\<lambda>e. \<not> writes_connection (\<lambda>s. connection_ready s = connection_stalled s) e) t)"
  using connection_ready_after_ping [of "demo_env demo_cluster" "\<lparr>nn_Namespace = ''omni'', nn_Name = ''main''\<rparr>"] by simp

theorem connection_kept_while_referenced_witness:
  "fst (fst (run_state (Connection_reconcileDelete (demo_env demo_cluster) demo_connection) demo_world))
     = requeue_after Minute"
  using connection_kept_while_referenced [of "demo_env demo_cluster" demo_connection demo_world "[demo_cluster]" demo_cluster
      "fst (run_state (Connection_reconcileDelete (demo_env demo_cluster) demo_connection) demo_world)"
      "snd (run_state (Connection_reconcileDelete (demo_env demo_cluster) demo_connection) demo_world)"]
  by (simp add: demo_connection_def demo_cluster_def demo_meta_def has_finalizer_def demo_klib_def
      fixed_api_def demo_env_over_def retry_steps_contract)

theorem encoded_key_accepted_witness:
  "fst (run_state (serviceAccountKey (demo_env demo_cluster) demo_connection) ()) = Inr (base64_encode ''secret'')"
  using encoded_key_accepted [of "demo_env demo_cluster" demo_connection "()" demo_secret "''secret''"]
  by (simp add: demo_env_over_def fixed_api_def secretReader_Get_def demo_connection_def demo_secret_def fmlookup_of_list)

definition keyless_env :: "unit env" where
  "keyless_env = (demo_env demo_cluster)\<lparr>env_SecretReader :=
     Some (\<lambda>key x. (Inl (StatusError NotFound ''not found''), x))\<rparr>"

definition keyless_error :: goerror where
  "keyless_error = WrapError (''MissingSecret \"sa\": not found'') (StatusError NotFound ''not found'')"

lemma keyless_run: "run_state (serviceAccountKey keyless_env demo_connection) () = (Inl keyless_error, ())"
  by code_simp

theorem no_key_no_call_witness:
  "run_state (SyncTemplate keyless_env demo_connection ''kind: Cluster'' [] \<lparr>so_DestroyMachines = False\<rparr>) ()
     = (([], Some keyless_error), ())"
  using no_key_no_call [OF keyless_run] by blast

section \<open>Kubeconfig exports\<close>

lemma demo_ranges: "rfc3339_range (Time_Add demo_time (86400 * Second))" "rfc3339_range demo_time"
  by code_simp+

theorem written_secret_is_current_witness:
  "currentKubeconfigSecretState
     (export_secret demo_export None ''edge'' ''h'' ''apiVersion: v1'' (Time_Add demo_time (86400 * Second)) demo_time)
     (TargetSecretKey demo_export) ''h'' (Time_Add demo_time Second) None \<noteq> None"
  using written_secret_is_current [of "''apiVersion: v1''" "Time_Add demo_time (86400 * Second)" demo_time demo_export None
      "''edge''" "''h''" "Time_Add demo_time Second" None]
  by (simp add: demo_ranges Let_def) (simp add: Time_Add_def demo_time_def unix_seconds_def Second_def)

theorem written_secret_is_owned_witness:
  "kubeconfigExportRequestsForSecret
     (Some (sec_Meta (export_secret demo_export None ''edge'' ''h'' ''apiVersion: v1'' demo_time demo_time)))
   = [\<lparr>nn_Namespace = ''omni'', nn_Name = ''access''\<rparr>]"
  using written_secret_is_owned [of demo_export None "''edge''" "''h''" "''apiVersion: v1''" demo_time demo_time]
  by (simp add: demo_export_def demo_meta_def ObjectKeyFromMeta_def)

lemma demo_export_ok:
  "kubeconfigExportSpecError demo_export = None" "Time_IsZero (om_DeletionTimestamp (ke_Meta demo_export))"
  by code_simp+

theorem export_touches_only_own_witness:
  "env_retry_ok (demo_env demo_cluster) \<and> condition_contract (env_Lib (demo_env demo_cluster))
   \<and> emits (reconcile_export (demo_env demo_cluster) demo_export)
       (\<lambda>out t. list_all (\<lambda>e. \<not> deletes_or_writes_foreign demo_export e) t)"
  using export_touches_only_own [of "demo_env demo_cluster" demo_export] by simp

theorem export_asks_for_allowed_access_witness:
  "env_retry_ok (demo_env demo_cluster) \<and> condition_contract (env_Lib (demo_env demo_cluster))
   \<and> emits (reconcile_export (demo_env demo_cluster) demo_export)
       (\<lambda>out t. list_all (asks_for_allowed_access demo_export) t)"
  using export_asks_for_allowed_access [of "demo_env demo_cluster" demo_export] by simp

theorem export_ready_after_secret_witness:
  "env_retry_ok (demo_env demo_cluster) \<and> condition_contract (env_Lib (demo_env demo_cluster))
   \<and> emits (reconcile_export (demo_env demo_cluster) demo_export)
       (\<lambda>out t. preceded writes_exported (secret_in_place (demo_env demo_cluster) demo_export) t)"
  using export_ready_after_secret [of "demo_env demo_cluster" demo_export] by simp

theorem export_comes_back_witness:
  "kubeconfigExportSpecError demo_export = None
   \<and> emits (reconcile_export (demo_env demo_cluster) demo_export)
       (\<lambda>out t. snd out \<noteq> None \<or> res_Requeue (fst out) \<or> res_RequeueAfter (fst out) > 0)"
  using export_comes_back [of "demo_env demo_cluster" demo_export] demo_export_ok by simp

theorem retarget_orphan_keeps_old_secret_witness:
  "ket_TargetSecretRef (ke_Status demo_export) = ''old'' \<and> ktr_Name (kes_TargetSecretRef (ke_Spec demo_export)) = ''new''
   \<and> emits (export_target (demo_env demo_cluster) demo_export demo_cluster demo_connection ''h'')
       (\<lambda>out t. only_writes \<lparr>nn_Namespace = ''omni'', nn_Name = ''old''\<rparr> t)
   \<and> ket_TargetSecretRef (ke_Status (export_status demo_klib status_update_zero demo_time demo_export)) = ''new''"
  using retarget_orphan_keeps_old_secret [of "demo_env demo_cluster" demo_export demo_secret demo_cluster demo_connection "''h''"
      demo_klib status_update_zero demo_time demo_export]
  by (simp add: demo_export_def demo_env_over_def fixed_api_def secretReader_Get_def demo_secret_def demo_meta_def
      ObjectKeyFromMeta_def retry_steps_contract demo_condition_contract)

section \<open>Admission\<close>

lemma demo_export_admitted:
  "snd (KubeconfigExport_ValidateCreate demo_admission demo_export) = None"
  "snd (KubeconfigExport_ValidateUpdate demo_admission demo_export demo_export) = None"
  by code_simp+

theorem admitted_exports_valid_witness: "kubeconfigExportSpecError demo_export = None"
  using admitted_exports_valid [of demo_admission demo_export "[demo_export]" demo_export] demo_export_admitted by simp

definition patched_cluster :: OmniCluster where
  "patched_cluster = demo_cluster\<lparr>c_Spec := (c_Spec demo_cluster)\<lparr>cs_Patches :=
     [\<lparr>pa_File = ''p.yaml'', pa_Name = [], pa_IDOverride = [], pa_Labels = None, pa_Annotations = None, pa_Inline = None\<rparr>]\<rparr>\<rparr>"

lemma patched_cluster_valid: "validateCluster patched_cluster = []"
  by code_simp

theorem admitted_cluster_renders_witness:
  "validateCluster patched_cluster = [] \<and> syncInterval patched_cluster = 5 * Minute
   \<and> list_all (\<lambda>d. (pd_File d \<noteq> []) = (pd_Inline d = None)) (cd_Patches (renderCluster demo_tmpl patched_cluster ''edge''))"
  using admitted_cluster_renders [OF patched_cluster_valid, of demo_tmpl "''edge''"] patched_cluster_valid
  by (simp add: patched_cluster_def demo_cluster_def)

theorem reserved_name_slips_through_witness:
  "validateWorkers demo_admission (demo_workers ''control-planes'') = []
   \<and> (\<nexists>res. Render demo_tmpl (demo_inputs [demo_workers ''control-planes'']) = Inr res)"
  using reserved_name_slips_through [of demo_admission "demo_workers ''control-planes''"
      "demo_inputs [demo_workers ''control-planes'']" demo_tmpl]
  by (simp add: demo_workers_def demo_inputs_def demo_meta_def demo_machine_set_def validateMachineSet_def
      validateMachineClass_def validateMachineIDs_def validatePatches_def)

end
