(* ===== verification/Workload_Witnesses.thy ===== *)
theory Workload_Witnesses
  imports Demo_Env
begin

text \<open>
  The properties of secret syncs and Helm releases that have hypotheses, each applied at a concrete
  input of the environment of \<^theory_text>\<open>Demo_Env\<close> in which the hypotheses hold.
\<close>

section \<open>Secret syncs\<close>

definition deleting_sync :: OmniSecretSync where
  "deleting_sync = demo_sync\<lparr>ss_Meta := (ss_Meta demo_sync)\<lparr>om_DeletionTimestamp := Some demo_time\<rparr>\<rparr>"

lemma deleting_sync_run:
  "length (trace (snd (run_state (reconcile_secret_sync (demo_env demo_cluster) deleting_sync) demo_world))) = 6"
  by code_simp

theorem secret_sync_keeps_to_its_own_witness:
  "length (trace (snd (run_state (reconcile_secret_sync (demo_env demo_cluster) deleting_sync) demo_world))) = 6
   \<and> emits (reconcile_secret_sync (demo_env demo_cluster) deleting_sync) (\<lambda>out t.
       list_all (\<lambda>e. \<not> foreign_write (demo_env demo_cluster) deleting_sync e) t
       \<and> (\<forall>h key. preceded (deletes_target h key) (found_owned deleting_sync h key) t))"
  using secret_sync_keeps_to_its_own [of "demo_env demo_cluster" deleting_sync] deleting_sync_run by simp

theorem secret_sync_ready_when_in_place_witness:
  "Time_IsZero (om_DeletionTimestamp (ss_Meta demo_sync)) \<and> secretSyncSpecError demo_sync = None
   \<and> emits (reconcile_secret_sync (demo_env demo_cluster) demo_sync)
       (\<lambda>out t. preceded writes_synced (in_place (demo_env demo_cluster) demo_sync) t)"
proof -
  have "Time_IsZero (om_DeletionTimestamp (ss_Meta demo_sync)) \<and> secretSyncSpecError demo_sync = None" by code_simp
  then show ?thesis
    using secret_sync_ready_when_in_place [of "demo_env demo_cluster" demo_sync] by simp
qed

lemma deleting_sync_policy: "sss_DeletionPolicy (ss_Spec deleting_sync) \<noteq> SecretSyncDeletionPolicyOrphan"
  by code_simp

lemma deleting_sync_target:
  "target_key (deletion_target deleting_sync) = \<lparr>nn_Namespace = ''flux-system'', nn_Name = ''pull-secret''\<rparr>"
  by code_simp

theorem secret_sync_released_when_clean_witness:
  "emits (reconcile_secret_sync (demo_env demo_cluster) deleting_sync) (\<lambda>out t.
     preceded (releases_sync (env_Lib (demo_env demo_cluster)))
       (cleaned deleting_sync \<lparr>nn_Namespace = ''flux-system'', nn_Name = ''pull-secret''\<rparr>) t)"
  using secret_sync_released_when_clean [of "demo_env demo_cluster" deleting_sync] deleting_sync_policy
  by (simp add: deleting_sync_target)


text \<open>A sync into a workload cluster that stores what it is given.\<close>

definition plain_sync :: OmniSecretSync where
  "plain_sync = demo_sync\<lparr>ss_Spec := (ss_Spec demo_sync)\<lparr>sss_CreateNamespace := False\<rparr>\<rparr>"

definition store_env :: "secret_map env" where
  "store_env = demo_env_over store_workload demo_cluster"

definition empty_world :: "(event, secret_map) world" where
  "empty_world = \<lparr>ext = Map.empty, trace = []\<rparr>"

lemma store_env_facts [simp]:
  "env_Workload store_env = store_workload" "clientset store_env kc = Inr 0" "\<not> sss_CreateNamespace (ss_Spec plain_sync)"
  by (simp_all add: store_env_def clientset_def demo_env_over_def demo_clientcmd_def plain_sync_def)

lemma plain_sync_runs:
  "\<exists>res w'. run_state (Client_Sync store_env plain_sync demo_secret ''apiVersion: v1'' ''edge'') empty_world = (Inr res, w')"
  by (simp add: Client_Sync_def sync_target_def SyncHash_def Let_def write_target_def w_call_defs call_def
      store_workload_def empty_world_def)

theorem second_sync_only_reads_witness:
  "\<exists>res w' s x.
     run_state (Client_Sync store_env plain_sync demo_secret ''apiVersion: v1'' ''edge'') empty_world = (Inr res, w')
     \<and> run_state (Client_Sync store_env plain_sync demo_secret ''apiVersion: v1'' ''edge'') w'
       = (Inr res, \<lparr>ext = x, trace = trace w' @ [EvWorkload 0 (WGetSecret (target_key (TargetForItem plain_sync)) (Inr s))]\<rparr>)"
  using plain_sync_runs second_sync_only_reads [of store_env 0 plain_sync "''apiVersion: v1''" demo_secret "''edge''" empty_world]
  by (auto simp: store_workload_keeps)

definition foreign_secret :: Secret where
  "foreign_secret = \<lparr>sec_Meta = (demo_meta ''registry'' [])\<lparr>om_Namespace := ''flux-system''\<rparr>, sec_Type = ''Opaque'', sec_Data = None\<rparr>"

definition foreign_world :: "(event, secret_map) world" where
  "foreign_world = \<lparr>ext = [target_key (TargetForItem plain_sync) \<mapsto> foreign_secret], trace = []\<rparr>"

lemma foreign_not_owned: "\<not> SyncIsOwnedSecret plain_sync (Some foreign_secret)"
  by code_simp

theorem sync_takes_over_foreign_witness:
  "\<exists>s r w'. trace (snd (run_state (Client_Sync store_env plain_sync demo_secret ''apiVersion: v1'' ''edge'') foreign_world)) =
     [EvWorkload 0 (WGetSecret (target_key (TargetForItem plain_sync)) (Inr foreign_secret)), EvWorkload 0 (WUpdateSecret s r)]
     \<and> SyncIsOwnedSecret plain_sync (Some s)"
proof -
  have "wl_GetSecret (env_Workload store_env) 0 (tg_Namespace (TargetForItem plain_sync)) (tg_Name (TargetForItem plain_sync))
      (ext foreign_world) = (Inr foreign_secret, ext foreign_world)"
    by (simp add: store_workload_def foreign_world_def target_key_def)
  then show ?thesis
    using sync_takes_over_foreign [of store_env "''apiVersion: v1''" 0 plain_sync foreign_world foreign_secret
        "ext foreign_world" demo_secret "''edge''"] foreign_not_owned
    by (auto simp: foreign_world_def)
qed

theorem sync_client_refines_spec_witness:
  "\<exists>res w'. run_state (Client_Sync store_env plain_sync demo_secret ''apiVersion: v1'' ''edge'') empty_world = (Inr res, w')
     \<and> store_view (ext w') = spec_sync plain_sync demo_secret ''edge'' Map.empty"
proof -
  obtain res w' where run: "run_state (Client_Sync store_env plain_sync demo_secret ''apiVersion: v1'' ''edge'') empty_world = (Inr res, w')"
    using plain_sync_runs by blast
  have "store_view (ext empty_world) = Map.empty" by (simp add: empty_world_def store_view_def)
  then show ?thesis
    using sync_client_refines_spec [where E = store_env and cs = 0 and V = store_view and kubeconfig = "''apiVersion: v1''"
        and item = plain_sync and source = demo_secret and clusterName = "''edge''" and w = empty_world] run
    by (simp add: store_workload_store)
qed

lemma demo_sync_admitted:
  "snd (SecretSync_ValidateCreate demo_admission demo_sync) = None"
  "snd (SecretSync_ValidateUpdate demo_admission demo_sync plain_sync) = None"
  by code_simp+

theorem admitted_syncs_keep_destination_witness:
  "sync_destination plain_sync = sync_destination demo_sync \<and> secretSyncSpecError plain_sync = None"
  using admitted_syncs_keep_destination [of demo_admission demo_sync "[plain_sync]" plain_sync] demo_sync_admitted by simp

section \<open>Helm releases\<close>

definition deleting_release :: OmniHelmRelease where
  "deleting_release = demo_release\<lparr>hr_Meta := (hr_Meta demo_release)\<lparr>om_DeletionTimestamp := Some demo_time\<rparr>\<rparr>"

text \<open>The runs that install the release and that uninstall it, to the last write.\<close>

lemma install_run:
  "list_ex writes_deployed (trace (snd (run_state (reconcile_helm_release (demo_env demo_cluster) demo_release) demo_world)))"
  by code_simp

lemma uninstall_run:
  "list_ex (releases_helm demo_klib)
     (trace (snd (run_state (reconcile_helm_release (demo_env demo_cluster) deleting_release) demo_world)))"
  by code_simp

theorem helm_ready_when_deployed_witness:
  "list_ex writes_deployed (trace (snd (run_state (reconcile_helm_release (demo_env demo_cluster) demo_release) demo_world)))
   \<and> emits (reconcile_helm_release (demo_env demo_cluster) demo_release) (\<lambda>out t. preceded writes_deployed says_deployed t)"
  using helm_ready_when_deployed [of "demo_env demo_cluster" demo_release] install_run by simp

lemma deleting_release_policy: "DeletionPolicy deleting_release \<noteq> HelmReleaseDeletionPolicyOrphan"
  by code_simp

theorem helm_released_when_uninstalled_witness:
  "list_ex (releases_helm demo_klib)
     (trace (snd (run_state (reconcile_helm_release (demo_env demo_cluster) deleting_release) demo_world)))
   \<and> emits (reconcile_helm_release (demo_env demo_cluster) deleting_release)
       (\<lambda>out t. preceded (releases_helm (env_Lib (demo_env demo_cluster))) (says_uninstalled deleting_release) t)"
  using helm_released_when_uninstalled [of "demo_env demo_cluster" deleting_release] uninstall_run deleting_release_policy
  by simp

theorem helm_keeps_to_its_release_witness:
  "emits (reconcile_helm_release (demo_env demo_cluster) deleting_release)
     (\<lambda>out t. list_all (\<lambda>e. helm_run_event (env_Tmpl (demo_env demo_cluster)) deleting_release e
        \<and> helm_item_write (demo_env demo_cluster) deleting_release e) t)"
  using helm_keeps_to_its_release [of "demo_env demo_cluster" deleting_release] by simp

lemma demo_release_admitted:
  "TrimSpace (om_Name (hr_Meta demo_release)) \<noteq> []" "snd (HelmRelease_ValidateCreate demo_tmpl demo_admission demo_release) = None"
  by code_simp+

theorem helm_admission_iff_witness:
  "helmReleaseSpecError demo_tmpl demo_release = None \<and> helm_extra_checks demo_admission demo_release"
  using helm_admission_iff [of demo_release demo_tmpl demo_admission] demo_release_admitted by simp

end
