(* ===== verification/Finalizer_System.thy ===== *)
theory Finalizer_System
  imports Finalizers "HOL-Library.Sublist"
begin

text \<open>
  A resource with a finalizer, its controller and everybody else, as one system.  The controller
  puts its finalizer on an item, then creates something outside the API server on its behalf, and
  takes the finalizer off again when that is cleaned up.  The system has what makes this hard:
  other actors change the item at any time, the controller reads it from a cache that lags behind
  (but never goes back), its writes succeed only when they are based on the stored version, and it
  may crash after any of its steps.

  The code enters as the event lists of its runs; the controllers are plugged in by their theories.
\<close>

section \<open>The system\<close>

record ('o, 'e) guarded =
  gu_Run :: "'o \<Rightarrow> 'e list \<Rightarrow> bool"
  gu_Written :: "'e \<Rightarrow> 'o option"
  gu_Failed :: "'e \<Rightarrow> bool"
  gu_Version :: "'o \<Rightarrow> string"
  gu_Protected :: "'o \<Rightarrow> bool"
  gu_Deleting :: "'o \<Rightarrow> bool"
  gu_Kept :: "'o \<Rightarrow> bool"
  gu_Acquires :: "'e \<Rightarrow> bool"
  gu_Cleans :: "'e \<Rightarrow> bool"

text \<open>
  The stored item, the versions that the cache may still show (oldest first, the stored one last),
  and whether there may be something outside on behalf of the item.
\<close>

record 'o sys =
  sy_Stored :: "'o option"
  sy_Seen :: "'o list"
  sy_External :: bool

definition sys_init :: "'o sys" where
  "sys_init = \<lparr>sy_Stored = None, sy_Seen = [], sy_External = False\<rparr>"

text \<open>A version is stored: it is one of those considered, and its version is new.\<close>

definition stores :: "('o, 'e) guarded \<Rightarrow> 'o sys \<Rightarrow> 'o \<Rightarrow> bool" where
  "stores G s x \<longleftrightarrow> gu_Kept G x \<and> gu_Version G x \<notin> gu_Version G ` set (sy_Seen s)"

definition store_version :: "'o \<Rightarrow> 'o sys \<Rightarrow> 'o sys" where
  "store_version x s = s\<lparr>sy_Stored := Some x, sy_Seen := sy_Seen s @ [x]\<rparr>"

text \<open>
  What the others do: create the item without the finalizer, change it in any way that leaves the
  finalizer alone (a deletion that has been asked for cannot be taken back), and remove it for good
  when the finalizer is not on it.
\<close>

inductive other_step :: "('o, 'e) guarded \<Rightarrow> 'o sys \<Rightarrow> 'o sys \<Rightarrow> bool" for G where
  created: "sy_Stored s = None \<Longrightarrow> stores G s x \<Longrightarrow> \<not> gu_Protected G x \<Longrightarrow> \<not> gu_Deleting G x
    \<Longrightarrow> other_step G s (store_version x s)"
| changed: "sy_Stored s = Some c \<Longrightarrow> stores G s x \<Longrightarrow> gu_Protected G x = gu_Protected G c
    \<Longrightarrow> (gu_Deleting G c \<Longrightarrow> gu_Deleting G x) \<Longrightarrow> other_step G s (store_version x s)"
| removed: "sy_Stored s = Some c \<Longrightarrow> \<not> gu_Protected G c \<Longrightarrow> other_step G s (s\<lparr>sy_Stored := None\<rparr>)"

text \<open>The effect of an event outside the API server.\<close>

definition outside :: "('o, 'e) guarded \<Rightarrow> 'e \<Rightarrow> bool \<Rightarrow> bool" where
  "outside G e b = (if gu_Acquires G e then True else if gu_Cleans G e then False else b)"

text \<open>
  What an event of the controller does.  A write takes effect when it is based on the stored
  version; it sets the finalizers, leaves the deletion mark as it is stored, and removes the item
  when it is marked and lost its finalizer.  A write that answers with an error may have taken
  effect all the same.
\<close>

inductive event_step :: "('o, 'e) guarded \<Rightarrow> 'o sys \<Rightarrow> 'e \<Rightarrow> 'o sys \<Rightarrow> bool" for G where
  no_write: "gu_Written G e = None \<or> gu_Failed G e
    \<Longrightarrow> event_step G s e (s\<lparr>sy_External := outside G e (sy_External s)\<rparr>)"
| wrote: "gu_Written G e = Some x \<Longrightarrow> sy_Stored s = Some c \<Longrightarrow> gu_Version G x = gu_Version G c
    \<Longrightarrow> stores G s x' \<Longrightarrow> gu_Protected G x' = gu_Protected G x \<Longrightarrow> gu_Deleting G x' = gu_Deleting G c
    \<Longrightarrow> event_step G s e (store_version x' (s\<lparr>sy_External := outside G e (sy_External s)\<rparr>))"
| gone: "gu_Written G e = Some x \<Longrightarrow> sy_Stored s = Some c \<Longrightarrow> gu_Version G x = gu_Version G c
    \<Longrightarrow> \<not> gu_Protected G x \<Longrightarrow> gu_Deleting G c
    \<Longrightarrow> event_step G s e (s\<lparr>sy_Stored := None, sy_External := outside G e (sy_External s)\<rparr>)"

text \<open>A run, or the part of it before a crash, with the steps of the others in between.\<close>

inductive run_steps :: "('o, 'e) guarded \<Rightarrow> 'o sys \<Rightarrow> 'e list \<Rightarrow> 'o sys \<Rightarrow> bool" for G s where
  at_start: "run_steps G s [] s"
| other: "run_steps G s t s' \<Longrightarrow> other_step G s' s'' \<Longrightarrow> run_steps G s t s''"
| event: "run_steps G s t s' \<Longrightarrow> event_step G s' e s'' \<Longrightarrow> run_steps G s (t @ [e]) s''"

text \<open>
  The runs come one after the other.  Each works on a version that the cache shows; from then on
  the cache shows nothing older.
\<close>

inductive reachable :: "('o, 'e) guarded \<Rightarrow> 'o sys \<Rightarrow> bool" for G where
  initially: "reachable G sys_init"
| by_others: "reachable G s \<Longrightarrow> other_step G s s' \<Longrightarrow> reachable G s'"
| by_run: "reachable G s \<Longrightarrow> k < length (sy_Seen s) \<Longrightarrow> gu_Run G (sy_Seen s ! k) t \<Longrightarrow> prefix u t
    \<Longrightarrow> run_steps G (s\<lparr>sy_Seen := drop k (sy_Seen s)\<rparr>) u s' \<Longrightarrow> reachable G s'"

text \<open>The events of the runs of a program, in whatever state of the world it starts.\<close>

definition runs_of :: "('e, 'x, 'a) act \<Rightarrow> 'e list \<Rightarrow> bool" where
  "runs_of m t \<longleftrightarrow> (\<exists>w out w'. run_state m w = (out, w') \<and> trace w' = trace w @ t)"

lemma runs_of_emits: "runs_of m t \<Longrightarrow> emits m Q \<Longrightarrow> \<exists>out. Q out t"
  unfolding runs_of_def by (metis emits_run same_append_eq)

lemma runs_of_every: "runs_of m t \<Longrightarrow> every P m \<Longrightarrow> list_all P t"
  unfolding every_def by (auto dest: runs_of_emits)

lemma runs_of_trace: "trace w = [] \<Longrightarrow> runs_of m (trace (snd (run_state m w)))"
  unfolding runs_of_def by (metis append_Nil prod.collapse)

section \<open>What the runs have to satisfy\<close>

text \<open>
  A steady run creates something outside only for a live item that has the finalizer, and writes
  only that item, with the finalizer.  A closing run is for an item that is being deleted; it
  creates nothing, and takes the finalizer off only after it has cleaned up.
\<close>

definition lets_go :: "('o, 'e) guarded \<Rightarrow> 'e \<Rightarrow> bool" where
  "lets_go G e \<longleftrightarrow> (case gu_Written G e of None \<Rightarrow> False | Some x \<Rightarrow> \<not> gu_Protected G x)"

definition steady_event :: "('o, 'e) guarded \<Rightarrow> 'o \<Rightarrow> 'e \<Rightarrow> bool" where
  "steady_event G item e \<longleftrightarrow>
     (gu_Acquires G e \<longrightarrow> gu_Protected G item \<and> \<not> gu_Deleting G item)
     \<and> (case gu_Written G e of None \<Rightarrow> True | Some x \<Rightarrow> gu_Protected G x \<and> gu_Version G x = gu_Version G item)"

definition closing_event :: "('o, 'e) guarded \<Rightarrow> 'e \<Rightarrow> bool" where
  "closing_event G e \<longleftrightarrow> \<not> gu_Acquires G e
     \<and> (case gu_Written G e of None \<Rightarrow> True | Some x \<Rightarrow> \<not> gu_Protected G x)"

definition stored_protected :: "('o, 'e) guarded \<Rightarrow> 'o sys \<Rightarrow> bool" where
  "stored_protected G s \<longleftrightarrow> (\<exists>c. sy_Stored s = Some c \<and> gu_Protected G c)"

text \<open>
  The versions in the cache: the stored one is the last, they are told apart by their versions,
  after one that is being deleted there is no live one with the finalizer, and while there is a
  live one with the finalizer the stored one has it.
\<close>

definition cache_ok :: "('o, 'e) guarded \<Rightarrow> 'o sys \<Rightarrow> bool" where
  "cache_ok G s \<longleftrightarrow>
     (\<forall>c. sy_Stored s = Some c \<longrightarrow> sy_Seen s \<noteq> [] \<and> last (sy_Seen s) = c)
     \<and> distinct (map (gu_Version G) (sy_Seen s)) \<and> (\<forall>x \<in> set (sy_Seen s). gu_Kept G x)
     \<and> sorted_wrt (\<lambda>x y. gu_Deleting G x \<longrightarrow> gu_Deleting G y \<or> \<not> gu_Protected G y) (sy_Seen s)
     \<and> (\<forall>x \<in> set (sy_Seen s). \<not> gu_Deleting G x \<and> gu_Protected G x \<longrightarrow> stored_protected G s)"

definition safe :: "('o, 'e) guarded \<Rightarrow> 'o sys \<Rightarrow> bool" where
  "safe G s \<longleftrightarrow> cache_ok G s \<and> (sy_External s \<longrightarrow> stored_protected G s)"

lemma sorted_wrt_snoc: "sorted_wrt P (xs @ [x]) \<longleftrightarrow> sorted_wrt P xs \<and> (\<forall>y \<in> set xs. P y x)"
  by (simp add: sorted_wrt_append)

lemma seen_before_stored:
  assumes "cache_ok G s" and "sy_Stored s = Some c" and "x \<in> set (sy_Seen s)" and "gu_Deleting G x"
  shows "gu_Deleting G c \<or> \<not> gu_Protected G c"
proof -
  have "sy_Seen s = butlast (sy_Seen s) @ [c]"
    using assms(1,2) unfolding cache_ok_def by (metis append_butlast_last_id)
  then have "x = c \<or> (x \<in> set (butlast (sy_Seen s)))"
    using assms(3) by (metis in_set_conv_decomp set_ConsD append_is_Nil_conv Un_iff set_append empty_iff list.set(1))
  moreover have "sorted_wrt (\<lambda>x y. gu_Deleting G x \<longrightarrow> gu_Deleting G y \<or> \<not> gu_Protected G y) (butlast (sy_Seen s) @ [c])"
    using assms(1) \<open>sy_Seen s = _\<close> unfolding cache_ok_def by metis
  ultimately show ?thesis
    using assms(4) by (auto simp: sorted_wrt_snoc)
qed

text \<open>Storing a version, and removing the item.\<close>

lemma cache_ok_store:
  assumes "cache_ok G s" and "stores G s x"
    and "\<And>y. y \<in> set (sy_Seen s) \<Longrightarrow> gu_Deleting G y \<Longrightarrow> gu_Deleting G x \<or> \<not> gu_Protected G x"
    and "\<And>y. y \<in> set (sy_Seen s) \<Longrightarrow> \<not> gu_Deleting G y \<Longrightarrow> gu_Protected G y \<Longrightarrow> gu_Protected G x"
  shows "cache_ok G (store_version x s)"
  using assms unfolding cache_ok_def store_version_def stores_def stored_protected_def
  by (auto simp: sorted_wrt_snoc)

lemma cache_ok_gone:
  assumes "cache_ok G s" and "\<And>y. y \<in> set (sy_Seen s) \<Longrightarrow> gu_Deleting G y \<or> \<not> gu_Protected G y"
  shows "cache_ok G (s\<lparr>sy_Stored := None\<rparr>)"
  using assms unfolding cache_ok_def by auto

lemma cache_ok_external [simp]: "cache_ok G (s\<lparr>sy_External := b\<rparr>) = cache_ok G s"
  by (simp add: cache_ok_def stored_protected_def)

lemma stored_protected_external [simp]:
  "stored_protected G (s\<lparr>sy_External := b\<rparr>) = stored_protected G s"
  by (simp add: stored_protected_def)

lemma stored_protected_store [simp]: "stored_protected G (store_version x s) = gu_Protected G x"
  by (simp add: stored_protected_def store_version_def)

lemma external_store [simp]: "sy_External (store_version x s) = sy_External s"
  by (simp add: store_version_def)

lemma cache_ok_drop:
  assumes "cache_ok G s" and "k < length (sy_Seen s)"
  shows "cache_ok G (s\<lparr>sy_Seen := drop k (sy_Seen s)\<rparr>)"
  using assms unfolding cache_ok_def stored_protected_def
  by (auto simp: drop_map [symmetric] sorted_wrt_drop dest: in_set_dropD)

lemma live_seen: "cache_ok G s \<Longrightarrow> y \<in> set (sy_Seen s) \<Longrightarrow> \<not> gu_Deleting G y \<Longrightarrow> gu_Protected G y \<Longrightarrow> stored_protected G s"
  unfolding cache_ok_def by blast

text \<open>The others keep the system safe, and only add to what the cache shows.\<close>

lemma other_seen:
  "other_step G s s' \<Longrightarrow> (\<exists>xs. sy_Seen s' = sy_Seen s @ xs) \<and> sy_External s' = sy_External s"
  by (induction rule: other_step.induct) (auto simp: store_version_def)

lemma other_safe:
  assumes "other_step G s s'" and "safe G s"
  shows "safe G s'"
  using assms
proof (induction rule: other_step.induct)
  case (created s x)
  have "\<not> stored_protected G s" using created.hyps(1) by (simp add: stored_protected_def)
  moreover from this have "cache_ok G (store_version x s)"
    using created live_seen [of G s] by (intro cache_ok_store) (auto simp: safe_def)
  ultimately show ?case using created.prems by (simp add: safe_def store_version_def)
next
  case (changed s c x)
  have stored: "stored_protected G s \<longleftrightarrow> gu_Protected G x"
    using changed.hyps(1,3) by (simp add: stored_protected_def)
  have "cache_ok G (store_version x s)"
  proof (rule cache_ok_store)
    fix y assume "y \<in> set (sy_Seen s)" and "gu_Deleting G y"
    then show "gu_Deleting G x \<or> \<not> gu_Protected G x"
      using seen_before_stored [of G s c y] changed by (auto simp: safe_def)
  qed (use changed.hyps changed.prems stored live_seen [of G s] in \<open>auto simp: safe_def\<close>)
  then show ?case
    using changed.prems stored by (simp add: safe_def store_version_def stored_protected_def)
next
  case (removed s c)
  then have no: "\<not> stored_protected G s" by (simp add: stored_protected_def)
  then have "cache_ok G (s\<lparr>sy_Stored := None\<rparr>)"
    using removed.prems live_seen [of G s] by (intro cache_ok_gone) (auto simp: safe_def)
  with no show ?case using removed.prems by (simp add: safe_def)
qed

text \<open>A steady run keeps the system safe: a write finds the version it read, with nothing after it.\<close>

definition at_head :: "'o \<Rightarrow> 'o sys \<Rightarrow> bool" where
  "at_head item s \<longleftrightarrow> (\<exists>rest. sy_Seen s = item # rest)"

lemma at_head_append: "at_head item s \<Longrightarrow> sy_Seen s' = sy_Seen s @ xs \<Longrightarrow> at_head item s'"
  by (auto simp: at_head_def)

lemma event_seen: "event_step G s e s' \<Longrightarrow> \<exists>xs. sy_Seen s' = sy_Seen s @ xs"
  by (induction rule: event_step.induct) (auto simp: store_version_def)

lemma head_is_stored:
  assumes "cache_ok G s" and "at_head item s" and "sy_Stored s = Some c" and "gu_Version G c = gu_Version G item"
  shows "c = item" and "sy_Seen s = [item]"
proof -
  obtain rest where rest: "sy_Seen s = item # rest" using assms(2) by (auto simp: at_head_def)
  have last: "last (sy_Seen s) = c"
    using assms(1,3) by (simp add: cache_ok_def)
  have "distinct (map (gu_Version G) (sy_Seen s))"
    using assms(1) by (simp add: cache_ok_def)
  then have fresh: "gu_Version G item \<notin> gu_Version G ` set rest" by (simp add: rest)
  have "rest = []"
  proof (rule ccontr)
    assume "rest \<noteq> []"
    then have "c \<in> set rest" using last rest last_in_set [of rest] by simp
    then have "gu_Version G item \<in> gu_Version G ` set rest"
      using assms(4) by (intro image_eqI [of _ _ c]) simp_all
    with fresh show False by simp
  qed
  with rest last show "c = item" "sy_Seen s = [item]" by simp_all
qed

lemma steady_safe:
  assumes "event_step G s e s'" and "steady_event G item e" and "safe G s" and "at_head item s"
  shows "safe G s'"
  using assms
proof (induction rule: event_step.induct)
  case (no_write e s)
  have "stored_protected G s" if "gu_Acquires G e"
  proof (rule live_seen)
    show "cache_ok G s" using no_write.prems by (simp add: safe_def)
    show "item \<in> set (sy_Seen s)" using no_write.prems by (auto simp: at_head_def)
    show "\<not> gu_Deleting G item" "gu_Protected G item" using no_write.prems that by (simp_all add: steady_event_def)
  qed
  moreover have "cache_ok G s" "sy_External s \<Longrightarrow> stored_protected G s"
    using no_write.prems(2) by (simp_all add: safe_def)
  ultimately show ?case by (simp add: safe_def outside_def)
next
  case (wrote e x s c x')
  have x: "gu_Protected G x" "gu_Version G x = gu_Version G item"
    using wrote.hyps(1) wrote.prems(1) by (simp_all add: steady_event_def)
  have ok: "cache_ok G s" using wrote.prems(2) by (simp add: safe_def)
  have "gu_Version G c = gu_Version G item" using wrote.hyps(3) x(2) by simp
  note head = head_is_stored [OF ok wrote.prems(3) wrote.hyps(2) this]
  have "cache_ok G (store_version x' (s\<lparr>sy_External := outside G e (sy_External s)\<rparr>))"
  proof (rule cache_ok_store)
    show "stores G (s\<lparr>sy_External := outside G e (sy_External s)\<rparr>) x'"
      using wrote.hyps(4) by (simp add: stores_def)
  qed (use ok head wrote.hyps(5,6) x(1) in simp_all)
  then show ?case using wrote.hyps(5) x(1) by (simp add: safe_def)
next
  case (gone e x s c)
  then show ?case by (simp add: steady_event_def)
qed

text \<open>A closing run: nothing is outside once it has cleaned up, and only then it lets the item go.\<close>

lemma closing_safe:
  assumes "event_step G s e s'" and "closing_event G e" and "lets_go G e \<Longrightarrow> \<not> sy_External s"
    and "safe G s" and "at_head item s" and "gu_Deleting G item"
  shows "safe G s'" and "\<not> sy_External s \<or> gu_Cleans G e \<Longrightarrow> \<not> sy_External s'"
  using assms
proof (induction rule: event_step.induct)
  case (no_write e s)
  {
    case 1
    have "cache_ok G s" "sy_External s \<Longrightarrow> stored_protected G s"
      using 1(3) by (simp_all add: safe_def)
    moreover have "\<not> gu_Acquires G e" using 1(1) by (simp add: closing_event_def)
    ultimately show ?case by (simp add: safe_def outside_def)
  next
    case 2
    then show ?case by (auto simp: outside_def closing_event_def)
  }
next
  case (wrote e x s c x')
  {
    case 1
    have x: "\<not> gu_Protected G x" and "\<not> gu_Acquires G e"
      using 1 wrote.hyps(1) by (simp_all add: closing_event_def)
    then have out: "\<not> outside G e (sy_External s)"
      using 1 wrote.hyps(1) by (simp add: lets_go_def outside_def)
    have "gu_Deleting G y \<or> \<not> gu_Protected G y" if "y \<in> set (sy_Seen s)" for y
      using that 1 by (auto simp: safe_def cache_ok_def at_head_def)
    then have "cache_ok G (store_version x' (s\<lparr>sy_External := outside G e (sy_External s)\<rparr>))"
      using 1(3) wrote.hyps(4,5) x by (intro cache_ok_store) (auto simp: safe_def stores_def)
    then show ?case using out by (simp add: safe_def)
  next
    case 2
    then show ?case by (auto simp: outside_def closing_event_def store_version_def)
  }
next
  case (gone e x s c)
  {
    case 1
    then have out: "\<not> outside G e (sy_External s)"
      using gone.hyps by (simp add: lets_go_def outside_def closing_event_def)
    have "gu_Deleting G y \<or> \<not> gu_Protected G y" if "y \<in> set (sy_Seen s)" for y
      using that 1 by (auto simp: safe_def cache_ok_def at_head_def)
    then have "cache_ok G (s\<lparr>sy_Stored := None\<rparr>)"
      using 1(3) by (intro cache_ok_gone) (auto simp: safe_def)
    then show ?case using out by (simp add: safe_def)
  next
    case 2
    then show ?case by (auto simp: outside_def closing_event_def)
  }
qed

lemma steady_run_safe:
  assumes "run_steps G s t s'" and "list_all (steady_event G item) t" and "safe G s" and "at_head item s"
  shows "safe G s' \<and> at_head item s'"
  using assms
proof (induction rule: run_steps.induct)
  case (other t s' s'')
  have before: "safe G s'" "at_head item s'" using other.IH other.prems by simp_all
  then have "at_head item s''"
    using other_seen [OF other.hyps(2)] at_head_append [OF before(2)] by auto
  with other_safe [OF other.hyps(2) before(1)] show ?case by simp
next
  case (event t s' e s'')
  have before: "safe G s'" "at_head item s'" "steady_event G item e" using event.IH event.prems by simp_all
  then have "at_head item s''"
    using event_seen [OF event.hyps(2)] at_head_append [OF before(2)] by auto
  with steady_safe [OF event.hyps(2) before(3,1,2)] show ?case by simp
qed simp

lemma preceded_snoc: "preceded P Q (t @ [e]) \<Longrightarrow> preceded P Q t \<and> (P e \<longrightarrow> list_ex Q t)"
  by (induction t) auto

lemma closing_run_safe:
  assumes "run_steps G s t s'" and "list_all (closing_event G) t" and "preceded (lets_go G) (gu_Cleans G) t"
    and "safe G s" and "at_head item s" and "gu_Deleting G item"
  shows "safe G s' \<and> at_head item s' \<and> (list_ex (gu_Cleans G) t \<longrightarrow> \<not> sy_External s')"
  using assms
proof (induction rule: run_steps.induct)
  case (other t s' s'')
  have before: "safe G s'" "at_head item s'" "list_ex (gu_Cleans G) t \<Longrightarrow> \<not> sy_External s'"
    using other.IH other.prems by simp_all
  with other_safe [OF other.hyps(2)] other_seen [OF other.hyps(2)] show ?case
    using at_head_append [OF before(2)] by auto
next
  case (event t s' e s'')
  have pre: "preceded (lets_go G) (gu_Cleans G) t" "lets_go G e \<Longrightarrow> list_ex (gu_Cleans G) t"
    using preceded_snoc [OF event.prems(2)] by blast+
  have before: "safe G s'" "at_head item s'" "list_ex (gu_Cleans G) t \<Longrightarrow> \<not> sy_External s'"
    using event.IH event.prems pre(1) by simp_all
  have "closing_event G e" using event.prems(1) by simp
  then have "safe G s''" "\<not> sy_External s' \<or> gu_Cleans G e \<Longrightarrow> \<not> sy_External s''"
    using closing_safe [OF event.hyps(2), of item] before pre(2) event.prems by blast+
  moreover have "at_head item s''"
    using event_seen [OF event.hyps(2)] at_head_append [OF before(2)] by blast
  ultimately show ?case using before(3) by auto
qed simp

lemma prefix_preceded: "prefix u t \<Longrightarrow> preceded P Q t \<Longrightarrow> preceded P Q u"
proof (induction t arbitrary: u)
  case (Cons x t)
  show ?case
  proof (cases u)
    case (Cons y v)
    then have "y = x" "prefix v t" using Cons.prems(1) by simp_all
    then show ?thesis using Cons Cons.prems(2) Cons.IH [of v] by auto
  qed simp
qed simp

lemma prefix_list_all: "prefix u t \<Longrightarrow> list_all P t \<Longrightarrow> list_all P u"
  by (auto simp: prefix_def)

text \<open>A family of such systems, one for each environment of the controller that keeps its contracts.\<close>

locale guarded_resource =
  fixes G :: "'k \<Rightarrow> ('o, 'e) guarded" and ok :: "'k \<Rightarrow> bool"
  assumes run_shape: "ok k \<Longrightarrow> gu_Run (G k) item t \<Longrightarrow> gu_Kept (G k) item \<Longrightarrow>
      list_all (steady_event (G k) item) t
      \<or> (gu_Deleting (G k) item \<and> list_all (closing_event (G k)) t \<and> preceded (lets_go (G k)) (gu_Cleans (G k)) t)"
begin

text \<open>
  Whatever happens, and whenever the controller crashes: while there may be something outside, the
  item is stored and has the finalizer; once the item is gone, nothing is left behind.
\<close>

lemma reachable_safe:
  assumes "ok k" and "reachable (G k) s"
  shows "safe (G k) s"
  using assms(2)
proof (induction rule: reachable.induct)
  case initially
  show ?case by (simp add: safe_def cache_ok_def sys_init_def)
next
  case (by_others s s')
  then show ?case using other_safe by blast
next
  case (by_run s n t u s')
  let ?s = "s\<lparr>sy_Seen := drop n (sy_Seen s)\<rparr>" and ?item = "sy_Seen s ! n"
  have "safe (G k) ?s"
    using by_run.IH cache_ok_drop [of "G k" s n] by_run.hyps(2) by (simp add: safe_def stored_protected_def)
  moreover have "at_head ?item ?s"
    using Cons_nth_drop_Suc [OF by_run.hyps(2)] by (simp add: at_head_def) metis
  ultimately have start: "safe (G k) ?s" "at_head ?item ?s" by blast+
  have "gu_Kept (G k) ?item"
    using by_run.IH by_run.hyps(2) by (simp add: safe_def cache_ok_def)
  with run_shape [OF assms(1) by_run.hyps(3)]
  consider "list_all (steady_event (G k) ?item) u"
    | "gu_Deleting (G k) ?item" "list_all (closing_event (G k)) u" "preceded (lets_go (G k)) (gu_Cleans (G k)) u"
    using by_run.hyps(4) prefix_list_all prefix_preceded by metis
  then show ?case
    using steady_run_safe [OF by_run.hyps(5)] closing_run_safe [OF by_run.hyps(5)] start by cases blast+
qed

lemma nothing_left_behind:
  assumes "ok k" and "reachable (G k) s"
  shows "case sy_Stored s of None \<Rightarrow> \<not> sy_External s | Some c \<Rightarrow> sy_External s \<longrightarrow> gu_Protected (G k) c"
  using reachable_safe [OF assms] by (cases "sy_Stored s") (simp_all add: safe_def stored_protected_def)

end

section \<open>Writes of the operator\<close>

text \<open>What all the controllers need of their environment.\<close>

definition env_ok :: "'x env \<Rightarrow> bool" where
  "env_ok E \<longleftrightarrow> env_retry_ok E \<and> condition_contract (env_Lib E) \<and> finalizer_contract (env_Lib E)"

fun write_failed :: "event \<Rightarrow> bool" where
  "write_failed (EvUpdate x r) = (r \<noteq> None)"
| "write_failed e = False"

text \<open>A run writes the item itself, not its status, only when it claims the item or lets it go.\<close>

fun object_write :: "event \<Rightarrow> bool" where
  "object_write (EvUpdate x r) = True"
| "object_write e = False"

fun status_work :: "event \<Rightarrow> bool" where
  "status_work (EvGet k key r) = True"
| "status_work (EvStatusUpdate x r) = True"
| "status_work e = False"

lemma status_every:
  assumes "env_retry_ok E" and "\<And>e. status_work e \<Longrightarrow> P e"
  shows "every P (write_status E A kind mk oc mutate key)"
proof (rule every_emits [OF write_status_emits [OF assms(1), where P = "\<lambda>x. True"]])
  fix t assume "list_all (status_write_event kind key (\<lambda>x. True)) t"
  then show "list_all P t"
    by (rule list_all_weaken) (auto simp: status_write_event_def intro!: assms(2))
qed simp

lemma status_no_object_write:
  assumes "env_retry_ok E"
  shows "every (\<lambda>e. \<not> object_write e) (write_status E A kind mk oc mutate key)"
  by (rule status_every [OF assms]) (auto elim: status_work.elims)

end
