(* ===== verification/Cluster_System.thy ===== *)
theory Cluster_System
  imports Finalizer_System Cluster_Controller
begin

text \<open>
  The OmniCluster controller in the system of \<open>Finalizer_System\<close>: what it creates outside is the
  cluster in Omni, under its Omni name.
\<close>

text \<open>What a run does with the cluster it has read.\<close>

definition cluster_handler :: "'x env \<Rightarrow> OmniCluster \<Rightarrow> ('x, Result \<times> goerror option) action" where
  "cluster_handler E cluster =
     (if \<not> Time_IsZero (om_DeletionTimestamp (c_Meta cluster)) then Cluster_reconcileDelete E cluster
      else reconcile_live E cluster)"

lemma Cluster_Reconcile_handler:
  "Cluster_Reconcile E req = do {
     got \<leftarrow> k_get (env_Clusters E) KCluster req;
     (case got of
        Inl err \<Rightarrow> State_Monad.return (if IsNotFound err then (no_requeue, None) else (no_requeue, Some err))
      | Inr cluster \<Rightarrow> cluster_handler E cluster) }"
  unfolding Cluster_Reconcile_def cluster_handler_def ..

fun cluster_written :: "event \<Rightarrow> OmniCluster option" where
  "cluster_written (EvUpdate (ObjCluster c) r) = Some c"
| "cluster_written e = None"

fun deleted_from_omni :: "string \<Rightarrow> event \<Rightarrow> bool" where
  "deleted_from_omni name (EvDeleteCluster connection n opts (out, err)) = (n = name \<and> err = None)"
| "deleted_from_omni name e = False"

text \<open>The calls that the run makes to Omni go to the given endpoint.\<close>

fun calls_endpoint :: "string \<Rightarrow> event \<Rightarrow> bool" where
  "calls_endpoint ep (EvSyncTemplate connection tmpl root opts answer) = (ons_Endpoint (on_Spec connection) = ep)"
| "calls_endpoint ep (EvDeleteCluster connection n opts answer) = (ons_Endpoint (on_Spec connection) = ep)"
| "calls_endpoint ep e = True"

text \<open>
  The clusters considered keep their name in Omni and are not orphaned on deletion, and their
  connections lead to the same Omni all the time.  Any template that was sent, whatever the answer,
  may have created the cluster; a delete that Omni has answered without an error has removed it.
\<close>

definition cluster_system :: "'x env \<Rightarrow> string \<Rightarrow> string \<Rightarrow> (OmniCluster, event) guarded" where
  "cluster_system E ep name =
     \<lparr>gu_Run = (\<lambda>cluster t. runs_of (cluster_handler E cluster) t \<and> list_all (calls_endpoint ep) t),
      gu_Written = cluster_written, gu_Failed = write_failed,
      gu_Version = (\<lambda>c. om_ResourceVersion (c_Meta c)),
      gu_Protected = (\<lambda>c. has_finalizer (env_Lib E) (c_Meta c)),
      gu_Deleting = (\<lambda>c. \<not> Time_IsZero (om_DeletionTimestamp (c_Meta c))),
      gu_Kept = (\<lambda>c. ClusterName c = name \<and> \<not> cdp_Orphan (cs_DeletePolicy (c_Spec c))),
      gu_Acquires = sync_sent, gu_Cleans = deleted_from_omni name\<rparr>"

lemma cluster_system_simps [simp]:
  "gu_Run (cluster_system E ep name) c t \<longleftrightarrow> runs_of (cluster_handler E c) t \<and> list_all (calls_endpoint ep) t"
  "gu_Written (cluster_system E ep name) = cluster_written"
  "gu_Failed (cluster_system E ep name) = write_failed"
  "gu_Version (cluster_system E ep name) c = om_ResourceVersion (c_Meta c)"
  "gu_Protected (cluster_system E ep name) c = has_finalizer (env_Lib E) (c_Meta c)"
  "gu_Deleting (cluster_system E ep name) c = (\<not> Time_IsZero (om_DeletionTimestamp (c_Meta c)))"
  "gu_Kept (cluster_system E ep name) c \<longleftrightarrow> ClusterName c = name \<and> \<not> cdp_Orphan (cs_DeletePolicy (c_Spec c))"
  "gu_Acquires (cluster_system E ep name) = sync_sent"
  "gu_Cleans (cluster_system E ep name) = deleted_from_omni name"
  by (simp_all add: cluster_system_def)

lemma quiet_writes_nothing:
  "cluster_quiet e \<Longrightarrow> cluster_written e = None" "cluster_status_write e \<Longrightarrow> cluster_written e = None"
  by (auto elim: cluster_quiet.elims cluster_status_write.elims)

lemma quiet_steady:
  "list_all cluster_quiet t \<Longrightarrow> list_all (steady_event (cluster_system E ep name) c) t"
  "list_all cluster_status_write t \<Longrightarrow> list_all (steady_event (cluster_system E ep name) c) t"
  "list_all cluster_quiet t \<Longrightarrow> list_all (closing_event (cluster_system E ep name)) t"
  "list_all cluster_quiet t \<Longrightarrow> list_all (\<lambda>e. \<not> lets_go (cluster_system E ep name) e) t"
  by (auto elim!: list_all_weaken simp: steady_event_def closing_event_def lets_go_def quiet_writes_nothing quiet_not_sent)

lemma live_run_steady:
  assumes "finalizer_contract (env_Lib E)" and "live_run E cluster t"
    and live: "Time_IsZero (om_DeletionTimestamp (c_Meta cluster))"
  shows "list_all (steady_event (cluster_system E ep name) cluster) t"
  using assms(2)
proof cases
  case claim
  then show ?thesis
    using add_finalizer_has [OF assms(1)]
    by (simp add: steady_event_def) (simp add: add_finalizer_def)
next
  case report
  then show ?thesis by (rule quiet_steady)
next
  case (sync pre inp rendered connection t')
  have "list_all (steady_event (cluster_system E ep name) cluster) t'"
    using \<open>sync_run _ _ _ t'\<close>
    by cases (use sync(6) live quiet_steady(1,2) in \<open>auto simp: steady_event_def cluster_system_def\<close>)
  with sync quiet_steady(1) show ?thesis by simp
qed

lemma delete_run_closing:
  assumes "finalizer_contract (env_Lib E)" and "delete_run E cluster t" and "gu_Kept (cluster_system E ep name) cluster"
  shows "list_all (closing_event (cluster_system E ep name)) t
    \<and> preceded (lets_go (cluster_system E ep name)) (deleted_from_omni name) t"
  using assms(2)
proof cases
  case quiet_delete
  then show ?thesis by (simp add: quiet_steady preceded_none)
next
  case orphan
  then show ?thesis using assms(3) by simp
next
  case (delete_error rest connection out e)
  then show ?thesis
    by (simp add: quiet_steady preceded_none) (simp add: closing_event_def lets_go_def)
next
  case (deleted connection out r)
  then show ?thesis
    using assms(3) remove_finalizers_has [OF assms(1)]
    by (simp add: closing_event_def lets_go_def)
qed

lemma cluster_run_shape:
  assumes ok: "env_ok E" and run: "runs_of (cluster_handler E cluster) t" and kept: "gu_Kept (cluster_system E ep name) cluster"
  shows "list_all (steady_event (cluster_system E ep name) cluster) t
    \<or> (\<not> Time_IsZero (om_DeletionTimestamp (c_Meta cluster)) \<and> list_all (closing_event (cluster_system E ep name)) t
       \<and> preceded (lets_go (cluster_system E ep name)) (deleted_from_omni name) t)"
proof -
  have contracts: "env_retry_ok E" "condition_contract (env_Lib E)" "finalizer_contract (env_Lib E)"
    using ok by (simp_all add: env_ok_def)
  show ?thesis
  proof (cases "Time_IsZero (om_DeletionTimestamp (c_Meta cluster))")
    case True
    then have "runs_of (reconcile_live E cluster) t" using run by (simp add: cluster_handler_def)
    then have "live_run E cluster t"
      using runs_of_emits reconcile_live_emits [OF contracts(1,2)] by blast
    then show ?thesis using live_run_steady [OF contracts(3) _ True] by blast
  next
    case False
    then have "runs_of (Cluster_reconcileDelete E cluster) t" using run by (simp add: cluster_handler_def)
    then have "delete_run E cluster t"
      using runs_of_emits Cluster_reconcileDelete_emits [OF contracts(1,2)] by blast
    then show ?thesis using delete_run_closing [OF contracts(3) _ kept] False by simp
  qed
qed

interpretation cluster_sys: guarded_resource "\<lambda>k. cluster_system (fst k) (fst (snd k)) (snd (snd k))" "\<lambda>k. env_ok (fst k)"
proof (unfold_locales, goal_cases)
  case (1 k item t)
  then show ?case using cluster_run_shape [of "fst k" item t "fst (snd k)" "snd (snd k)"] by simp
qed

text \<open>
  Claim C1.  A cluster in Omni is never left behind, as long as the OmniCluster keeps its Omni name
  and its wish to be deleted there (no orphan policy), all calls go to one Omni endpoint, and nobody
  but the controller puts on or takes off the operator's finalizers.  Under these conditions others
  may create the OmniCluster, change it in any other way and delete it, the controller may read it
  from a stale cache, its writes may conflict or be lost, and it may crash between any two steps:
  whenever something of that name may be in Omni through the controller, the OmniCluster is stored
  and carries one of the finalizers; and once the OmniCluster is gone, so is the cluster in Omni.
  The webhooks admit changes of the name, of the connection and of the delete policy; what such a
  change leaves behind is not covered.
\<close>

theorem omni_cluster_never_left_behind:
  assumes "env_ok E" and "reachable (cluster_system E ep name) s"
  shows "case sy_Stored s of
      None \<Rightarrow> \<not> sy_External s
    | Some c \<Rightarrow> if sy_External s then has_finalizer (env_Lib E) (c_Meta c) else True"
  using cluster_sys.nothing_left_behind [of "(E, ep, name)" s] assms by (simp split: option.splits)

end
