(* ===== verification/Helm_System.thy ===== *)
theory Helm_System
  imports Cluster_System Helm_Safety
begin

text \<open>
  The OmniHelmRelease controller in the system of \<open>Finalizer_System\<close>: what it creates outside is
  the Helm release in the workload cluster.
\<close>

section \<open>Writes of the item\<close>

lemma helm_event_no_write: "helm_event_of T item e \<Longrightarrow> \<not> object_write e"
  by (cases e) auto

lemma helm_client_no_write:
  "every (\<lambda>e. \<not> object_write e) (HelmClient_Reconcile E dir item kc)"
  "every (\<lambda>e. \<not> object_write e) (HelmClient_Uninstall E dir item kc)"
  by (rule every_emits [OF HelmClient_Reconcile_emits] every_emits [OF HelmClient_Uninstall_emits [where T = "env_Tmpl E"]];
      auto elim!: list_all_weaken simp: helm_reconciled_def helm_event_no_write)+

lemma helm_calls_no_write:
  assumes "env_Helm E = None"
  shows "every (\<lambda>e. \<not> object_write e) (helm_Reconcile E item kc)"
    and "every (\<lambda>e. \<not> object_write e) (helm_Uninstall E item kc)"
  unfolding helm_Reconcile_def helm_Uninstall_def assms option.case
  by (intro every_rules helm_client_no_write; simp)+

lemma helm_pieces_no_write:
  assumes "env_retry_ok E"
  shows "every (\<lambda>e. \<not> object_write e) (updateHelmReleaseStatus E item input)"
    and "every (\<lambda>e. \<not> object_write e) (helm_wait E item input)"
    and "every (\<lambda>e. \<not> object_write e) (helmKubeconfig E item)"
    and "every (\<lambda>e. \<not> object_write e) (clusterExists E ns name)"
  unfolding updateHelmReleaseStatus_def helm_wait_def helmKubeconfig_def get_secret_def clusterExists_def k_call_defs Let_def
  by (intro every_rules status_no_object_write assms; simp)+

lemma claimed_release_no_write:
  assumes "env_retry_ok E" and "env_Helm E = None"
    and "lib_ContainsFinalizer (env_Lib E) (om_Finalizers (hr_Meta item)) Finalizer"
    and "Time_IsZero (om_DeletionTimestamp (hr_Meta item))"
  shows "every (\<lambda>e. \<not> object_write e) (reconcile_helm_release E item)"
  unfolding reconcile_helm_release_def helm_claim.ensure_claimed [OF assms(3)] helm_now_def
  by (use assms(4) in \<open>simp\<close>) (intro every_rules helm_pieces_no_write helm_calls_no_write assms; simp)


section \<open>The system\<close>

fun helm_written :: "event \<Rightarrow> OmniHelmRelease option" where
  "helm_written (EvUpdate (ObjHelmRelease x) r) = Some x"
| "helm_written e = None"

lemma no_write_written: "\<not> object_write e \<Longrightarrow> helm_written e = None"
  by (cases e) auto

fun uninstalled_named :: "string \<Rightarrow> event \<Rightarrow> bool" where
  "uninstalled_named name (EvHelm (HUninstall cfg opts n r)) = (n = name \<and> no_IgnoreNotFound opts \<and> snd r = None)"
| "uninstalled_named name e = False"

lemma says_uninstalled_named: "says_uninstalled item = uninstalled_named (ReleaseName item)"
proof
  fix e show "says_uninstalled item e = uninstalled_named (ReleaseName item) e"
    by (cases "(item, e)" rule: says_uninstalled.cases) simp_all
qed

text \<open>Helm works on the release through one of the given configurations.\<close>

fun through_configs :: "nat set \<Rightarrow> event \<Rightarrow> bool" where
  "through_configs H (EvHelm (HInstall cfg opts chart values r)) = (hc_Handle cfg \<in> H)"
| "through_configs H (EvHelm (HUpgrade cfg opts n chart values r)) = (hc_Handle cfg \<in> H)"
| "through_configs H (EvHelm (HUninstall cfg opts n r)) = (hc_Handle cfg \<in> H)"
| "through_configs H e = True"

text \<open>
  The items considered keep the name and the namespace of their release, are not orphaned on
  deletion, and their kubeconfigs lead to the same workload cluster all the time, namely to the one
  of the configurations \<open>H\<close>.  Any install or upgrade, whatever the answer, may have left a release;
  an uninstallation of the name that Helm has answered without an error has removed it.
\<close>

definition helm_system :: "'x env \<Rightarrow> nat set \<Rightarrow> string \<Rightarrow> string \<Rightarrow> (OmniHelmRelease, event) guarded" where
  "helm_system E H ns name =
     \<lparr>gu_Run = (\<lambda>item t. runs_of (reconcile_helm_release E item) t \<and> list_all (through_configs H) t),
      gu_Written = helm_written, gu_Failed = write_failed,
      gu_Version = (\<lambda>x. om_ResourceVersion (hr_Meta x)),
      gu_Protected = (\<lambda>x. lib_ContainsFinalizer (env_Lib E) (om_Finalizers (hr_Meta x)) Finalizer),
      gu_Deleting = helm_deleting,
      gu_Kept = (\<lambda>x. ReleaseName x = name \<and> ReleaseNamespace x = ns \<and> \<not> helm_orphaned x),
      gu_Acquires = (\<lambda>e. installs e \<or> upgrades e), gu_Cleans = uninstalled_named name\<rparr>"

lemma helm_system_simps [simp]:
  "gu_Run (helm_system E H ns name) x t \<longleftrightarrow> runs_of (reconcile_helm_release E x) t \<and> list_all (through_configs H) t"
  "gu_Written (helm_system E H ns name) = helm_written"
  "gu_Failed (helm_system E H ns name) = write_failed"
  "gu_Version (helm_system E H ns name) x = om_ResourceVersion (hr_Meta x)"
  "gu_Protected (helm_system E H ns name) x = lib_ContainsFinalizer (env_Lib E) (om_Finalizers (hr_Meta x)) Finalizer"
  "gu_Deleting (helm_system E H ns name) = helm_deleting"
  "gu_Kept (helm_system E H ns name) x \<longleftrightarrow> ReleaseName x = name \<and> ReleaseNamespace x = ns \<and> \<not> helm_orphaned x"
  "gu_Acquires (helm_system E H ns name) e \<longleftrightarrow> installs e \<or> upgrades e"
  "gu_Cleans (helm_system E H ns name) = uninstalled_named name"
  by (simp_all add: helm_system_def)

definition helm_env_ok :: "'x env \<Rightarrow> bool" where
  "helm_env_ok E \<longleftrightarrow> env_ok E \<and> env_Helm E = None"

text \<open>The runs for a live item.\<close>

lemma live_release_steady:
  assumes ok: "helm_env_ok E" and live: "\<not> helm_deleting item" and run: "runs_of (reconcile_helm_release E item) t"
  shows "list_all (steady_event (helm_system E H ns name) item) t"
proof (cases "lib_ContainsFinalizer (env_Lib E) (om_Finalizers (hr_Meta item)) Finalizer")
  case True
  have "every (\<lambda>e. \<not> object_write e) (reconcile_helm_release E item)"
    by (rule claimed_release_no_write) (use ok True live in \<open>simp_all add: helm_env_ok_def env_ok_def helm_deleting_def\<close>)
  then have "list_all (\<lambda>e. \<not> object_write e) t" by (rule runs_of_every [OF run])
  then show ?thesis
    by (rule list_all_weaken) (simp add: steady_event_def no_write_written True live)
next
  case False
  have "emits (reconcile_helm_release E item)
      (\<lambda>out t. \<exists>err. t = [EvUpdate (ObjHelmRelease (item\<lparr>hr_Meta := add_finalizer (env_Lib E) (hr_Meta item)\<rparr>)) err])"
    unfolding reconcile_helm_release_def using live
    by (simp add: helm_deleting_def)
      (intro emits_then [OF helm_claim.ensure_unclaimed [OF False]], auto intro: emits_return split: sum.split)
  then obtain err where "t = [EvUpdate (ObjHelmRelease (item\<lparr>hr_Meta := add_finalizer (env_Lib E) (hr_Meta item)\<rparr>)) err]"
    using runs_of_emits [OF run] by blast
  then show ?thesis
    using ok by (simp add: steady_event_def helm_env_ok_def env_ok_def finalizer_contract_def add_finalizer_def)
qed

text \<open>The runs for an item that is being deleted.\<close>

definition lets_go_only :: "klib \<Rightarrow> event \<Rightarrow> bool" where
  "lets_go_only L e \<longleftrightarrow>
     (case helm_written e of None \<Rightarrow> True | Some x \<Rightarrow> \<not> lib_ContainsFinalizer L (om_Finalizers (hr_Meta x)) Finalizer)"

lemma no_write_lets_go_only: "every (\<lambda>e. \<not> object_write e) m \<Longrightarrow> every (lets_go_only L) m"
  by (erule every_mono) (simp add: lets_go_only_def no_write_written)

lemma deleting_release_writes:
  assumes ok: "helm_env_ok E"
  shows "every (lets_go_only (env_Lib E)) (HelmRelease_reconcileDelete E item)"
proof -
  have retry: "env_retry_ok E" and fin: "finalizer_contract (env_Lib E)" and helm: "env_Helm E = None"
    using ok by (simp_all add: helm_env_ok_def env_ok_def)
  have release: "every (lets_go_only (env_Lib E)) (HelmRelease_removeFinalizer E item)"
    unfolding every_def
    by (rule helm_release.release_events [OF retry]) (simp_all add: lets_go_only_def strip_finalizer_lacks [OF fin])
  show ?thesis
    unfolding HelmRelease_reconcileDelete_def Let_def
    by (intro every_rules no_write_lets_go_only [OF helm_pieces_no_write(1) [OF retry]]
        no_write_lets_go_only [OF helm_pieces_no_write(3) [OF retry]]
        no_write_lets_go_only [OF helm_calls_no_write(2) [OF helm]] release)
qed

lemma helm_run_creates_nothing: "helm_run_event T item e \<Longrightarrow> helm_deleting item \<Longrightarrow> \<not> installs e \<and> \<not> upgrades e"
  by (cases "(T, item, e)" rule: helm_run_event.cases) auto

lemma deleting_release_closing:
  assumes ok: "helm_env_ok E" and deleting: "helm_deleting item" and run: "runs_of (reconcile_helm_release E item) t"
    and kept: "gu_Kept (helm_system E H ns name) item"
  shows "list_all (closing_event (helm_system E H ns name)) t
    \<and> preceded (lets_go (helm_system E H ns name)) (uninstalled_named name) t"
proof -
  have "emits (reconcile_helm_release E item) (\<lambda>out t. helm_run_ok E item t)"
    by (rule reconcile_helm_release_ok) (use ok in \<open>simp_all add: helm_env_ok_def env_ok_def\<close>)
  then have run_ok: "helm_run_ok E item t" using runs_of_emits [OF run] by blast
  have "runs_of (HelmRelease_reconcileDelete E item) t"
    using run deleting by (simp add: reconcile_helm_release_def helm_deleting_def)
  then have "list_all (lets_go_only (env_Lib E)) t"
    by (rule runs_of_every) (rule deleting_release_writes [OF ok])
  then have "list_all (closing_event (helm_system E H ns name)) t"
    using run_ok helm_run_creates_nothing [OF _ deleting, where T = "env_Tmpl E"]
    by (auto simp: helm_run_ok_def list_all_iff closing_event_def lets_go_only_def split: option.splits)
  moreover have "lets_go (helm_system E H ns name) e = releases_helm (env_Lib E) e" for e
    by (cases "(env_Lib E, e)" rule: releases_helm.cases) (simp_all add: lets_go_def)
  then have "lets_go (helm_system E H ns name) = releases_helm (env_Lib E)" by blast
  then have "preceded (lets_go (helm_system E H ns name)) (uninstalled_named name) t"
    using run_ok kept by (simp add: helm_run_ok_def says_uninstalled_named)
  ultimately show ?thesis by blast
qed

interpretation helm_sys: guarded_resource
  "\<lambda>k. helm_system (fst k) (fst (snd k)) (fst (snd (snd k))) (snd (snd (snd k)))" "\<lambda>k. helm_env_ok (fst k)"
proof (unfold_locales, goal_cases)
  case (1 k item t)
  then show ?case
    using live_release_steady [of "fst k" item t] deleting_release_closing [of "fst k" item t]
    by (cases "helm_deleting item") simp_all
qed

text \<open>
  Claim C2.  A Helm release is never left behind in its workload cluster, as long as the item keeps
  the name and the namespace of its release and a deletion policy other than Orphan, its kubeconfigs
  lead to one workload cluster, and nobody but the controller puts on or takes off the finalizer.
  Under these conditions others may create the item, change it in any other way and delete it, the
  controller may work on a stale version of it, its writes may conflict or be lost, and it may crash
  between any two steps: whenever the release may be installed through the controller, the item is
  stored and carries the finalizer; and once the item is gone, so is the release.  A change of the
  name or the namespace of the release is admitted, and leaves the earlier release behind.
\<close>

theorem helm_release_never_left_behind:
  assumes "helm_env_ok E" and "reachable (helm_system E H ns name) s"
  shows "case sy_Stored s of
      None \<Rightarrow> \<not> sy_External s
    | Some x \<Rightarrow> if sy_External s then lib_ContainsFinalizer (env_Lib E) (om_Finalizers (hr_Meta x)) Finalizer else True"
  using helm_sys.nothing_left_behind [of "(E, H, ns, name)" s] assms by (simp split: option.splits)

end
