(* ===== verification/Secret_Sync_System.thy ===== *)
theory Secret_Sync_System
  imports Finalizer_System Secret_Sync_Safety
begin

text \<open>
  The OmniSecretSync controller in the system of \<open>Finalizer_System\<close>: what it creates outside is the
  Secret in the workload cluster.
\<close>

section \<open>Writes of the item\<close>

lemma client_event_no_write: "client_event item e \<Longrightarrow> \<not> object_write e"
  by (auto simp: client_event_def)

lemma sync_client_no_write:
  "every (\<lambda>e. \<not> object_write e) (Client_Sync E item source kc name)"
  "every (\<lambda>e. \<not> object_write e) (Client_Delete E item kc target)"
  by (rule every_emits [OF Client_Sync_emits] every_emits [OF Client_Delete_emits];
      auto elim!: list_all_weaken simp: client_event_no_write)+

lemma sync_calls_no_write:
  assumes "env_SecretSync E = None"
  shows "every (\<lambda>e. \<not> object_write e) (secretSync_Sync E item source kc name)"
    and "every (\<lambda>e. \<not> object_write e) (secretSync_Delete E item kc target)"
  unfolding secretSync_Sync_def secretSync_Delete_def assms option.case
  by (intro every_rules sync_client_no_write; simp)+

lemma sync_pieces_every:
  assumes "env_retry_ok E" and "\<And>e. status_work e \<Longrightarrow> P e"
  shows "every P (updateSecretSyncStatus E item input)"
    and "every P (syncCluster E item)"
    and "every P (sourceSecret E item)"
    and "every P (syncKubeconfig E item)"
  unfolding updateSecretSyncStatus_def syncCluster_def sourceSecret_def syncKubeconfig_def sync_wait_def
    get_secret_def k_call_defs Let_def
  by (intro every_rules status_every assms; simp)+

lemma status_work_no_write: "status_work e \<Longrightarrow> \<not> object_write e"
  by (auto elim: status_work.elims)

lemma claimed_sync_no_write:
  assumes "env_retry_ok E" and "env_SecretSync E = None"
    and "lib_ContainsFinalizer (env_Lib E) (om_Finalizers (ss_Meta item)) Finalizer"
    and "Time_IsZero (om_DeletionTimestamp (ss_Meta item))"
  shows "every (\<lambda>e. \<not> object_write e) (reconcile_secret_sync E item)"
  unfolding reconcile_secret_sync_def secret_sync_claim.ensure_claimed [OF assms(3)] sync_with_def sync_now_def
    deletePreviousSyncTarget_def report_and_requeue_def
  by (use assms(4) in \<open>simp\<close>) (intro every_rules sync_pieces_every status_work_no_write sync_calls_no_write assms; simp)

section \<open>The system\<close>

fun sync_written :: "event \<Rightarrow> OmniSecretSync option" where
  "sync_written (EvUpdate (ObjSecretSync x) r) = Some x"
| "sync_written e = None"

lemma no_write_sync_written: "\<not> object_write e \<Longrightarrow> sync_written e = None"
  by (cases e) auto

text \<open>The item writes its Secret through a clientset of the given ones.\<close>

fun through_clientsets :: "nat set \<Rightarrow> event \<Rightarrow> bool" where
  "through_clientsets H (EvWorkload h w) = (h \<in> H)"
| "through_clientsets H e = True"

fun puts_secret :: "event \<Rightarrow> bool" where
  "puts_secret (EvWorkload h (WCreateSecret s r)) = True"
| "puts_secret (EvWorkload h (WUpdateSecret s r)) = True"
| "puts_secret e = False"

text \<open>
  The items considered are those of one life of an OmniSecretSync: they keep the identity that marks
  its Secrets, their target and the policy to delete it, their status names no other target, and
  their kubeconfigs lead to the same workload cluster all the time, the one of the clientsets \<open>H\<close>.
  Any write of the Secret, whatever the answer, may have left one that is marked as the item's.
\<close>

definition sync_kept :: "OmniSecretSync \<Rightarrow> OmniSecretSync \<Rightarrow> bool" where
  "sync_kept first item \<longleftrightarrow>
     om_UID (ss_Meta item) = om_UID (ss_Meta first) \<and> om_Namespace (ss_Meta item) = om_Namespace (ss_Meta first)
     \<and> om_Name (ss_Meta item) = om_Name (ss_Meta first) \<and> TargetForItem item = TargetForItem first
     \<and> sss_DeletionPolicy (ss_Spec item) \<noteq> SecretSyncDeletionPolicyOrphan
     \<and> recorded_target item \<in> {None, Some (TargetForItem first)}"

definition secret_sync_system :: "'x env \<Rightarrow> nat set \<Rightarrow> OmniSecretSync \<Rightarrow> (OmniSecretSync, event) guarded" where
  "secret_sync_system E H first =
     \<lparr>gu_Run = (\<lambda>item t. runs_of (reconcile_secret_sync E item) t \<and> list_all (through_clientsets H) t),
      gu_Written = sync_written, gu_Failed = write_failed,
      gu_Version = (\<lambda>x. om_ResourceVersion (ss_Meta x)),
      gu_Protected = (\<lambda>x. lib_ContainsFinalizer (env_Lib E) (om_Finalizers (ss_Meta x)) Finalizer),
      gu_Deleting = (\<lambda>x. \<not> Time_IsZero (om_DeletionTimestamp (ss_Meta x))),
      gu_Kept = sync_kept first,
      gu_Acquires = puts_secret, gu_Cleans = cleaned first (target_key (TargetForItem first))\<rparr>"

lemma secret_sync_system_simps [simp]:
  "gu_Run (secret_sync_system E H first) x t \<longleftrightarrow> runs_of (reconcile_secret_sync E x) t \<and> list_all (through_clientsets H) t"
  "gu_Written (secret_sync_system E H first) = sync_written"
  "gu_Failed (secret_sync_system E H first) = write_failed"
  "gu_Version (secret_sync_system E H first) x = om_ResourceVersion (ss_Meta x)"
  "gu_Protected (secret_sync_system E H first) x = lib_ContainsFinalizer (env_Lib E) (om_Finalizers (ss_Meta x)) Finalizer"
  "gu_Deleting (secret_sync_system E H first) x = (\<not> Time_IsZero (om_DeletionTimestamp (ss_Meta x)))"
  "gu_Kept (secret_sync_system E H first) = sync_kept first"
  "gu_Acquires (secret_sync_system E H first) = puts_secret"
  "gu_Cleans (secret_sync_system E H first) = cleaned first (target_key (TargetForItem first))"
  by (simp_all add: secret_sync_system_def)

definition secret_sync_env_ok :: "'x env \<Rightarrow> bool" where
  "secret_sync_env_ok E \<longleftrightarrow> env_ok E \<and> env_SecretSync E = None"


lemma sync_kept_facts:
  assumes "sync_kept first item"
  shows "deletion_target item = TargetForItem first" "cleaned item = cleaned first"
    "sss_DeletionPolicy (ss_Spec item) \<noteq> SecretSyncDeletionPolicyOrphan"
proof -
  show "deletion_target item = TargetForItem first"
    using assms by (auto simp: sync_kept_def deletion_target_def)
  have same: "om_UID (ss_Meta item) = om_UID (ss_Meta first)" "om_Name (ss_Meta item) = om_Name (ss_Meta first)"
    using assms by (simp_all add: sync_kept_def)
  have owned: "SyncIsOwnedSecret item = SyncIsOwnedSecret first"
    by (rule ext) (simp only: SyncIsOwnedSecret_def same)
  have "cleaned item key e = cleaned first key e" for key e
    using owned by (cases "(first, key, e)" rule: cleaned.cases) (simp_all split: sum.split)
  then show "cleaned item = cleaned first" by blast
  show "sss_DeletionPolicy (ss_Spec item) \<noteq> SecretSyncDeletionPolicyOrphan"
    using assms by (simp add: sync_kept_def)
qed

text \<open>The runs for a live item.\<close>

lemma live_sync_steady:
  assumes ok: "secret_sync_env_ok E" and live: "Time_IsZero (om_DeletionTimestamp (ss_Meta item))"
    and run: "runs_of (reconcile_secret_sync E item) t"
  shows "list_all (steady_event (secret_sync_system E H first) item) t"
proof (cases "lib_ContainsFinalizer (env_Lib E) (om_Finalizers (ss_Meta item)) Finalizer")
  case True
  have "every (\<lambda>e. \<not> object_write e) (reconcile_secret_sync E item)"
    by (rule claimed_sync_no_write) (use ok True live in \<open>simp_all add: secret_sync_env_ok_def env_ok_def\<close>)
  then have "list_all (\<lambda>e. \<not> object_write e) t" by (rule runs_of_every [OF run])
  then show ?thesis
    by (rule list_all_weaken) (simp add: steady_event_def no_write_sync_written True live)
next
  case False
  have "emits (reconcile_secret_sync E item)
      (\<lambda>out t. \<exists>err. t = [EvUpdate (ObjSecretSync (item\<lparr>ss_Meta := add_finalizer (env_Lib E) (ss_Meta item)\<rparr>)) err])"
    unfolding reconcile_secret_sync_def using live
    by simp (intro emits_then [OF secret_sync_claim.ensure_unclaimed [OF False]], auto intro: emits_return split: sum.split)
  then obtain err where "t = [EvUpdate (ObjSecretSync (item\<lparr>ss_Meta := add_finalizer (env_Lib E) (ss_Meta item)\<rparr>)) err]"
    using runs_of_emits [OF run] by blast
  then show ?thesis
    using ok by (simp add: steady_event_def secret_sync_env_ok_def env_ok_def finalizer_contract_def add_finalizer_def)
qed

text \<open>The runs for an item that is being deleted: they put no Secret, and write the item only to let it go.\<close>

definition sync_closing :: "klib \<Rightarrow> event \<Rightarrow> bool" where
  "sync_closing L e \<longleftrightarrow> \<not> puts_secret e
     \<and> (case sync_written e of None \<Rightarrow> True | Some x \<Rightarrow> \<not> lib_ContainsFinalizer L (om_Finalizers (ss_Meta x)) Finalizer)"

lemma status_work_closing: "status_work e \<Longrightarrow> sync_closing L e"
  by (auto simp: sync_closing_def elim: status_work.elims)

lemma deleting_sync_closing:
  assumes "secret_sync_env_ok E"
  shows "every (sync_closing (env_Lib E)) (SecretSync_reconcileDelete E item)"
proof -
  have retry: "env_retry_ok E" and fin: "finalizer_contract (env_Lib E)" and client: "env_SecretSync E = None"
    using assms by (simp_all add: secret_sync_env_ok_def env_ok_def)
  have release: "every (sync_closing (env_Lib E)) (SecretSync_removeFinalizer E item)"
    unfolding every_def
    by (rule secret_sync_release.release_events [OF retry]) (simp_all add: sync_closing_def strip_finalizer_lacks [OF fin])
  have delete: "every (sync_closing (env_Lib E)) (secretSync_Delete E item kc target)" for kc target
    unfolding secretSync_Delete_def client option.case Client_Delete_def w_call_defs
    by (intro every_rules) (simp_all add: sync_closing_def)
  show ?thesis
    unfolding SecretSync_reconcileDelete_def Let_def report_and_requeue_def
    by (intro every_rules sync_pieces_every [OF retry] status_work_closing release delete)
qed

lemma deleting_sync_cleans:
  assumes ok: "secret_sync_env_ok E" and deleting: "\<not> Time_IsZero (om_DeletionTimestamp (ss_Meta item))"
    and run: "runs_of (reconcile_secret_sync E item) t" and kept: "sync_kept first item"
  shows "list_all (closing_event (secret_sync_system E H first)) t
    \<and> preceded (lets_go (secret_sync_system E H first)) (cleaned first (target_key (TargetForItem first))) t"
proof -
  have "emits (reconcile_secret_sync E item) (\<lambda>out t. sync_run_ok E item t)"
    by (rule reconcile_secret_sync_ok) (use ok in \<open>simp_all add: secret_sync_env_ok_def env_ok_def\<close>)
  then have run_ok: "sync_run_ok E item t" using runs_of_emits [OF run] by blast
  have "runs_of (SecretSync_reconcileDelete E item) t"
    using run deleting by (simp add: reconcile_secret_sync_def)
  then have "list_all (sync_closing (env_Lib E)) t"
    by (rule runs_of_every) (rule deleting_sync_closing [OF ok])
  then have "list_all (closing_event (secret_sync_system E H first)) t"
    by (rule list_all_weaken) (auto simp: closing_event_def sync_closing_def split: option.splits)
  moreover have "lets_go (secret_sync_system E H first) e = releases_sync (env_Lib E) e" for e
    by (cases "(env_Lib E, e)" rule: releases_sync.cases) (simp_all add: lets_go_def)
  then have "lets_go (secret_sync_system E H first) = releases_sync (env_Lib E)" by blast
  then have "preceded (lets_go (secret_sync_system E H first)) (cleaned first (target_key (TargetForItem first))) t"
    using run_ok sync_kept_facts [OF kept] by (simp add: sync_run_ok_def)
  ultimately show ?thesis by blast
qed

interpretation secret_sync_sys: guarded_resource
  "\<lambda>k. secret_sync_system (fst k) (fst (snd k)) (snd (snd k))" "\<lambda>k. secret_sync_env_ok (fst k)"
proof (unfold_locales, goal_cases)
  case (1 k item t)
  then show ?case
    using live_sync_steady [of "fst k" item t] deleting_sync_cleans [of "fst k" item t]
    by (cases "Time_IsZero (om_DeletionTimestamp (ss_Meta item))") simp_all
qed

text \<open>
  Claim C3.  A synchronised Secret is never left behind in its workload cluster, as long as the item
  keeps its UID and name, its target and a deletion policy other than Orphan, its status records no
  other target, its kubeconfigs lead to one workload cluster, and nobody but the controller puts on
  or takes off the finalizer.  Under these conditions others may create the item, change it in any
  other way and delete it, the controller may work on a stale version of it, its writes may conflict
  or be lost, and it may crash between any two steps: whenever a Secret marked as the item's may be
  at the target through the controller, the item is stored and carries the finalizer; and once the
  item is gone, so is the Secret.  A change of the target is admitted, and a failure at the wrong
  time then leaves the earlier Secret behind.
\<close>

theorem synced_secret_never_left_behind:
  assumes "secret_sync_env_ok E" and "reachable (secret_sync_system E H first) s"
  shows "case sy_Stored s of
      None \<Rightarrow> \<not> sy_External s
    | Some x \<Rightarrow> if sy_External s then lib_ContainsFinalizer (env_Lib E) (om_Finalizers (ss_Meta x)) Finalizer else True"
  using secret_sync_sys.nothing_left_behind [of "(E, H, first)" s] assms by (simp split: option.splits)

end
