(* ===== verification/Status_Conditions.thy ===== *)
theory Status_Conditions
  imports Cluster_Controller Connection_Controller Child_Controllers Kubeconfig_Safety Helm_System Secret_Sync_System Server_Answers
begin

text \<open>
  The conditions of every status keep to the API server's schema (\<^verbatim>\<open>config/crd/bases\<close>, generated from
  the types in \<^verbatim>\<open>api/v1alpha1\<close>) in all but one rule: they are a map by type, with types and reasons
  of the shapes and lengths it asks for and generations that are not negative.  The rule left out is
  the bound of 32768 characters on a message: no controller bounds its messages, and the API server
  refuses a status with a longer one.
\<close>

section \<open>The schema\<close>

definition ascii_letter :: "char \<Rightarrow> bool" where
  "ascii_letter c \<longleftrightarrow> (let n = of_char c :: nat in (65 \<le> n \<and> n \<le> 90) \<or> (97 \<le> n \<and> n \<le> 122))"

definition word_char :: "char \<Rightarrow> bool" where
  "word_char c \<longleftrightarrow> ascii_letter c \<or> (let n = of_char c :: nat in (48 \<le> n \<and> n \<le> 57) \<or> n = 95)"

text \<open>The pattern \<^verbatim>\<open>^[A-Za-z]([A-Za-z0-9_,:]*[A-Za-z0-9_])?$\<close>, of at most 1024 characters.\<close>

definition reason_ok :: "string \<Rightarrow> bool" where
  "reason_ok r \<longleftrightarrow> r \<noteq> [] \<and> length r \<le> 1024 \<and> ascii_letter (hd r) \<and> word_char (last r)
     \<and> list_all (\<lambda>c. word_char c \<or> c = CHR '','' \<or> c = CHR '':'') r"

text \<open>
  The pattern of a type is a name, after an optional prefix of DNS labels with dots between them and
  a slash behind:
  \<^verbatim>\<open>^([a-z0-9]([-a-z0-9]*[a-z0-9])?(\.[a-z0-9]([-a-z0-9]*[a-z0-9])?)*/)?(([A-Za-z0-9][-A-Za-z0-9_.]*)?[A-Za-z0-9])$\<close>.
\<close>

fun parts_at :: "char \<Rightarrow> string \<Rightarrow> string list" where
  "parts_at sep [] = [[]]"
| "parts_at sep (c # cs) = (if c = sep then [] # parts_at sep cs
     else (case parts_at sep cs of [] \<Rightarrow> [[c]] | p # ps \<Rightarrow> (c # p) # ps))"

definition lower_or_digit :: "char \<Rightarrow> bool" where
  "lower_or_digit c \<longleftrightarrow> (let n = of_char c :: nat in (97 \<le> n \<and> n \<le> 122) \<or> (48 \<le> n \<and> n \<le> 57))"

definition letter_or_digit :: "char \<Rightarrow> bool" where
  "letter_or_digit c \<longleftrightarrow> ascii_letter c \<or> (let n = of_char c :: nat in 48 \<le> n \<and> n \<le> 57)"

definition dns_label :: "string \<Rightarrow> bool" where
  "dns_label l \<longleftrightarrow> l \<noteq> [] \<and> lower_or_digit (hd l) \<and> lower_or_digit (last l)
     \<and> list_all (\<lambda>c. lower_or_digit c \<or> c = CHR ''-'') l"

definition type_name :: "string \<Rightarrow> bool" where
  "type_name n \<longleftrightarrow> n \<noteq> [] \<and> letter_or_digit (hd n) \<and> letter_or_digit (last n)
     \<and> list_all (\<lambda>c. letter_or_digit c \<or> c \<in> {CHR ''-'', CHR ''_'', CHR ''.''}) n"

definition type_ok :: "string \<Rightarrow> bool" where
  "type_ok ty \<longleftrightarrow> length ty \<le> 316
     \<and> (case parts_at (CHR ''/'') ty of
          [n] \<Rightarrow> type_name n
        | [domain, n] \<Rightarrow> list_all dns_label (parts_at (CHR ''.'') domain) \<and> type_name n
        | _ \<Rightarrow> False)"

text \<open>All the schema says of a condition, but for the length of the message.\<close>

definition condition_ok :: "Condition \<Rightarrow> bool" where
  "condition_ok c \<longleftrightarrow> type_ok (cond_Type c) \<and> reason_ok (cond_Reason c) \<and> 0 \<le> cond_ObservedGeneration c"

definition conditions_ok :: "Condition list \<Rightarrow> bool" where
  "conditions_ok cs \<longleftrightarrow> distinct (map cond_Type cs) \<and> list_all condition_ok cs"

text \<open>The conditions of an object; a Secret has none.\<close>

fun conditions_of :: "api_object \<Rightarrow> Condition list" where
  "conditions_of (ObjCluster x) = csf_Conditions (cst_Common (c_Status x))"
| "conditions_of (ObjConnection x) = csf_Conditions (ost_Common (on_Status x))"
| "conditions_of (ObjControlPlane x) = csf_Conditions (cpt_Common (cp_Status x))"
| "conditions_of (ObjWorkers x) = csf_Conditions (wst_Common (w_Status x))"
| "conditions_of (ObjMachine x) = csf_Conditions (mast_Common (m_Status x))"
| "conditions_of (ObjKubeconfigExport x) = csf_Conditions (ket_Common (ke_Status x))"
| "conditions_of (ObjSecretSync x) = csf_Conditions (sst_Common (ss_Status x))"
| "conditions_of (ObjHelmRelease x) = csf_Conditions (hst_Common (hr_Status x))"
| "conditions_of (ObjSecret s) = []"

definition object_ok :: "api_object \<Rightarrow> bool" where
  "object_ok x \<longleftrightarrow> conditions_ok (conditions_of x) \<and> 0 \<le> om_Generation (object_meta x)"

text \<open>A status that is written is that of a well-typed object.\<close>

fun writes_ok_status :: "event \<Rightarrow> bool" where
  "writes_ok_status (EvStatusUpdate x r) = object_ok x"
| "writes_ok_status e = True"

lemma reasons_ok [simp]:
  "reason_ok ReasonAccepted" "reason_ok ReasonConnectionReady" "reason_ok ReasonConnectionFailed"
  "reason_ok ReasonDeleteFailed" "reason_ok ReasonDeleting" "reason_ok ReasonExported" "reason_ok ReasonExportFailed"
  "reason_ok ReasonHelmInstalled" "reason_ok ReasonHelmUninstalled" "reason_ok ReasonHelmUpgraded"
  "reason_ok ReasonReconcileFailed" "reason_ok ReasonMissingCluster" "reason_ok ReasonMissingConnection"
  "reason_ok ReasonMissingSecret" "reason_ok ReasonMissingTemplate" "reason_ok ReasonStatusFailed"
  "reason_ok ReasonSuspended" "reason_ok ReasonSyncFailed" "reason_ok ReasonSynced" "reason_ok ReasonValidated"
  "reason_ok ReasonValidationFailed"
  by code_simp+

lemma types_ok [simp]:
  "type_ok ConditionReady" "type_ok ConditionStalled" "type_ok ConditionReachable" "type_ok ConditionAccepted"
  "type_ok ConditionValidated" "type_ok ConditionSynced" "type_ok ConditionExported" "type_ok ConditionReleased"
  by code_simp+

lemma NewCondition_ok [simp]:
  "condition_ok (NewCondition ty st g reason msg) \<longleftrightarrow> type_ok ty \<and> reason_ok reason \<and> 0 \<le> g"
  by (auto simp: condition_ok_def)

lemma acceptedCondition_ok [simp]: "condition_ok (acceptedCondition L g name ex) \<longleftrightarrow> 0 \<le> g"
  by (simp add: acceptedCondition_def)

lemma upsert_ok: "list_all condition_ok cs \<Longrightarrow> condition_ok c \<Longrightarrow> list_all condition_ok (upsert_condition now cs c)"
  by (induction cs) (auto simp: condition_ok_def)

lemma SetCondition_ok [simp]:
  assumes "condition_contract L" "conditions_ok cs" "condition_ok c" "cond_LastTransitionTime c = zero_time"
  shows "conditions_ok (SetCondition L now cs c)"
  using assms by (simp add: conditions_ok_def SetCondition_upsert upsert_ok upsert_condition_distinct)

lemma status_write_ok:
  assumes "env_retry_ok E" and "answers_in object_ok mk A"
    and "\<And>now x. object_ok (mk x) \<Longrightarrow> object_ok (mk (mutate now x))"
  shows "every writes_ok_status (write_status E A kind mk oc mutate key)"
  by (rule status_write_every [OF assms(1,2)]) (simp_all add: assms(3))

section \<open>The statuses of the controllers\<close>

lemmas set_condition_defs = set_cluster_condition_def set_connection_condition_def set_export_condition_def
  set_sync_condition_def set_helm_condition_def

lemma cluster_statuses_ok:
  assumes "condition_contract L" "0 \<le> om_Generation (c_Meta c)" "conditions_ok (csf_Conditions (cst_Common s))"
  shows "type_ok ty \<Longrightarrow> reason_ok reason \<Longrightarrow> conditions_ok (csf_Conditions (cst_Common (failed_status L c ty reason msg now s)))"
    and "conditions_ok (csf_Conditions (cst_Common (suspended_status L c now s)))"
    and "conditions_ok (csf_Conditions (cst_Common (invalid_status L c conn rendered msg now s)))"
    and "conditions_ok (csf_Conditions (cst_Common (sync_failed_status L c conn rendered att out msg now s)))"
    and "conditions_ok (csf_Conditions (cst_Common (synced_status L c conn rendered att out out' err now s)))"
    and "conditions_ok (csf_Conditions (cst_Common (delete_failed_status L c out msg now s)))"
  using assms
  by (simp_all add: failed_status_def suspended_status_def invalid_status_def sync_failed_status_def synced_status_def
      delete_failed_status_def set_cluster_condition_def setRenderedStatus_def set_observed_generation_def
      valid_template_condition_def Let_def split: option.split)

lemma connection_statuses_ok:
  assumes "condition_contract L" "0 \<le> om_Generation (on_Meta c)" "conditions_ok (csf_Conditions (ost_Common s))"
  shows "conditions_ok (csf_Conditions (ost_Common (ping_status L c checked out err now s)))"
    and "conditions_ok (csf_Conditions (ost_Common (waiting_status L c msg now s)))"
  using assms
  by (simp_all add: ping_status_def waiting_status_def set_connection_condition_def observe_connection_def Let_def
      split: option.split)

lemma child_statuses_ok:
  assumes "condition_contract L"
  shows "object_ok (ObjControlPlane x) \<Longrightarrow> object_ok (ObjControlPlane (accept_control_plane L ex now x))"
    and "object_ok (ObjWorkers y) \<Longrightarrow> object_ok (ObjWorkers (accept_workers L ex now y))"
    and "object_ok (ObjMachine z) \<Longrightarrow> object_ok (ObjMachine (accept_machine L ex now z))"
  using assms
  by (simp_all add: object_ok_def accept_control_plane_def accept_workers_def accept_machine_def accept_common_def Let_def)

lemma export_status_ok:
  assumes "condition_contract L" "object_ok (ObjKubeconfigExport x)" "ku_reason input = [] \<or> reason_ok (ku_reason input)"
  shows "object_ok (ObjKubeconfigExport (export_status L input now x))"
  using assms
  by (auto simp: object_ok_def export_status_def set_export_outcome_def set_export_condition_def export_status_fields_def Let_def)

lemma sync_reason_ok:
  "su_reason input = [] \<or> reason_ok (su_reason input) \<Longrightarrow> reason_ok (fst (secretSyncConditionReasonMessage L item input))"
  by (auto simp: secretSyncConditionReasonMessage_def split: option.split)

lemma sync_status_ok:
  assumes "condition_contract L" "object_ok (ObjSecretSync x)" "su_reason input = [] \<or> reason_ok (su_reason input)"
  shows "object_ok (ObjSecretSync (sync_status L input now x))"
  using assms
  by (simp add: object_ok_def sync_status_def set_sync_condition_def sync_status_fields_def case_prod_beta sync_reason_ok Let_def)

lemma helm_reason_ok:
  "hu_reason input = [] \<or> reason_ok (hu_reason input) \<Longrightarrow> reason_ok (fst (helmReleaseConditionReasonMessage L item input))"
  by (auto simp: helmReleaseConditionReasonMessage_def Let_def split: option.split)

lemma helm_fields_conditions:
  "csf_Conditions (hst_Common (helm_status_fields input now x)) = csf_Conditions (hst_Common (hr_Status x))"
  by (simp add: helm_status_fields_def Let_def split: option.split)

lemma helm_status_ok:
  assumes "condition_contract L" "object_ok (ObjHelmRelease x)" "hu_reason input = [] \<or> reason_ok (hu_reason input)"
  shows "object_ok (ObjHelmRelease (helm_status L input now x))"
  using assms
  by (simp add: object_ok_def helm_status_def set_helm_condition_def case_prod_beta helm_reason_ok helm_fields_conditions Let_def)

section \<open>The runs of the controllers\<close>

lemma cluster_runs_ok:
  assumes "env_ok E" and "server_answers object_ok E"
  shows "every writes_ok_status (Cluster_Reconcile E req)"
proof -
  have contracts: "env_retry_ok E" "condition_contract (env_Lib E)" "answers_in object_ok ObjCluster (env_Clusters E)"
    using assms by (simp_all add: env_ok_def server_answers_def)
  have status: "every writes_ok_status (updateClusterStatus E c mutate)"
    if "\<And>now s. conditions_ok (csf_Conditions (cst_Common s)) \<Longrightarrow> conditions_ok (csf_Conditions (cst_Common (mutate now s)))"
    for c mutate
    unfolding updateClusterStatus_def
    by (rule status_write_ok [OF contracts(1,3)]) (use that in \<open>simp add: object_ok_def\<close>)
  have delete: "every writes_ok_status (Cluster_reconcileDelete E x)" if "object_ok (ObjCluster x)" for x
  proof -
    have "0 \<le> om_Generation (c_Meta x)" using that by (simp add: object_ok_def)
    note statuses = cluster_statuses_ok [OF contracts(2) this]
    show ?thesis
      unfolding Cluster_reconcileDelete_def markClusterFailed_def release_cluster_def k_get_def k_update_def
        omni_call_defs Let_def
      by (intro every_rules status statuses) simp_all
  qed
  have live: "every writes_ok_status (reconcile_live E x)" if "object_ok (ObjCluster x)" for x
  proof -
    have "0 \<le> om_Generation (c_Meta x)" using that by (simp add: object_ok_def)
    note statuses = cluster_statuses_ok [OF contracts(2) this]
    show ?thesis
      unfolding reconcile_live_def reconcile_template_def templateInputs_def sync_cluster_def markClusterFailed_def
        report_and_requeue_def k_get_def k_list_def k_update_def omni_call_defs Let_def
      by (intro every_rules status statuses) simp_all
  qed
  show ?thesis
    unfolding Cluster_Reconcile_def by (intro every_get [OF contracts(3)] every_if every_return delete live) simp_all
qed

lemma objects_okD:
  assumes "env_ok E" and "server_answers object_ok E"
  shows "env_retry_ok E" "condition_contract (env_Lib E)"
    "answers_in object_ok ObjConnection (env_Connections E)" "answers_in object_ok ObjControlPlane (env_ControlPlanes E)"
    "answers_in object_ok ObjWorkers (env_Workers E)" "answers_in object_ok ObjMachine (env_Machines E)"
    "answers_in object_ok ObjKubeconfigExport (env_KubeconfigExports E)" "answers_in object_ok ObjSecretSync (env_SecretSyncs E)"
    "answers_in object_ok ObjHelmRelease (env_HelmReleases E)"
  using assms by (simp_all add: env_ok_def server_answers_def)

lemma connection_runs_ok:
  assumes "env_ok E" and "server_answers object_ok E"
  shows "every writes_ok_status (Connection_Reconcile E req)"
proof -
  note facts = objects_okD [OF assms]
  have status: "every writes_ok_status (updateConnectionStatus E c mutate)"
    if "\<And>now s. conditions_ok (csf_Conditions (ost_Common s)) \<Longrightarrow> conditions_ok (csf_Conditions (ost_Common (mutate now s)))"
    for c mutate
    unfolding updateConnectionStatus_def
    by (rule status_write_ok [OF facts(1,3)]) (use that in \<open>simp add: object_ok_def\<close>)
  have release: "every writes_ok_status (removeFinalizers E c)" for c
    by (rule every_emits [OF removeFinalizers_emits [OF facts(1)]]) (auto elim!: list_all_weaken)
  have live: "every writes_ok_status (updateConnectionStatus E x (ping_status (env_Lib E) x checked out err))"
    "every writes_ok_status (updateConnectionStatus E x (waiting_status (env_Lib E) x msg))"
    if "object_ok (ObjConnection x)" for x checked out err msg
    using that by (auto intro!: status connection_statuses_ok [OF facts(2)] simp: object_ok_def)
  have delete: "every writes_ok_status (Connection_reconcileDelete E x)" if "object_ok (ObjConnection x)" for x
    unfolding Connection_reconcileDelete_def referencingClusterNames_def k_list_def Let_def
    by (intro every_rules live(2) release that) simp_all
  show ?thesis
    unfolding Connection_Reconcile_def Let_def k_update_def omni_call_defs
    by (intro every_get [OF facts(3)] delete every_rules live(1)) simp_all
qed

lemma child_runs_ok:
  assumes "env_ok E" and "server_answers object_ok E"
  shows "every writes_ok_status (ControlPlane_Reconcile E req)"
    and "every writes_ok_status (Workers_Reconcile E req)"
    and "every writes_ok_status (Machine_Reconcile E req)"
proof -
  note facts = objects_okD [OF assms]
  have "every writes_ok_status (clusterExists E ns name)" for ns name
    unfolding clusterExists_def k_get_def by (intro every_rules) simp_all
  note rules = this every_rules status_write_ok [OF facts(1)] child_statuses_ok [OF facts(2)]
  show "every writes_ok_status (ControlPlane_Reconcile E req)"
    unfolding ControlPlane_Reconcile_def updateControlPlaneStatus_def
    by (intro every_get [OF facts(4)] rules facts(4)) simp_all
  show "every writes_ok_status (Workers_Reconcile E req)"
    unfolding Workers_Reconcile_def updateWorkersStatus_def
    by (intro every_get [OF facts(5)] rules facts(5)) simp_all
  show "every writes_ok_status (Machine_Reconcile E req)"
    unfolding Machine_Reconcile_def updateMachineStatus_def
    by (intro every_get [OF facts(6)] rules facts(6)) simp_all
qed

text \<open>The others report a reason of their own, or none, when the reason follows from the outcome.\<close>

lemma export_runs_ok:
  assumes "env_ok E" and "server_answers object_ok E"
  shows "every writes_ok_status (Export_Reconcile E req)"
proof -
  note facts = objects_okD [OF assms]
  have status: "every writes_ok_status (updateKubeconfigExportStatus E item input)"
    if "ku_reason input = [] \<or> reason_ok (ku_reason input)" for item input
    unfolding updateKubeconfigExportStatus_def
    by (rule status_write_ok [OF facts(1,7)]) (rule export_status_ok [OF facts(2) _ that])
  show ?thesis
    unfolding Export_Reconcile_def reconcile_export_def Export_reconcileDelete_def Export_ensureFinalizer_def
      exportCluster_def exportConnection_def export_target_def deletePreviousTargetSecret_def targetSecret_def
      reusableCurrentKubeconfigSecretState_def generateKubeconfig_def export_failed_def export_reused_def export_generated_def
      export_now_def report_and_requeue_def get_secret_def k_call_defs omni_call_defs Let_def
    by (intro every_rules status) (simp_all add: status_update_zero_def)
qed

lemma sync_runs_ok:
  assumes "env_ok E" and "server_answers object_ok E" and "env_SecretSync E = None"
  shows "every writes_ok_status (SecretSync_Reconcile E req)"
proof -
  note facts = objects_okD [OF assms(1,2)]
  have status: "every writes_ok_status (updateSecretSyncStatus E item input)"
    if "su_reason input = [] \<or> reason_ok (su_reason input)" for item input
    unfolding updateSecretSyncStatus_def
    by (rule status_write_ok [OF facts(1,8)]) (rule sync_status_ok [OF facts(2) _ that])
  have client: "every writes_ok_status (Client_Sync E item source kc name)" "every writes_ok_status (Client_Delete E item kc target)"
    for item source kc name target
    by (rule every_emits [OF Client_Sync_emits] every_emits [OF Client_Delete_emits];
        auto elim!: list_all_weaken simp: client_event_def)+
  have release: "every writes_ok_status (SecretSync_removeFinalizer E item)" for item
    unfolding every_def by (rule secret_sync_release.release_events [OF facts(1)]) simp_all
  show ?thesis
    unfolding SecretSync_Reconcile_def reconcile_secret_sync_def SecretSync_reconcileDelete_def SecretSync_ensureFinalizer_def
      syncCluster_def sourceSecret_def syncKubeconfig_def sync_wait_def sync_with_def sync_now_def deletePreviousSyncTarget_def
      secretSync_Sync_def secretSync_Delete_def assms(3) option.case report_and_requeue_def get_secret_def k_call_defs Let_def
    by (intro every_rules status client release) (simp_all add: sync_failure_def)
qed

lemma helm_runs_ok:
  assumes "env_ok E" and "server_answers object_ok E" and "env_Helm E = None"
  shows "every writes_ok_status (HelmRelease_Reconcile E req)"
proof -
  note facts = objects_okD [OF assms(1,2)]
  have status: "every writes_ok_status (updateHelmReleaseStatus E item input)"
    if "hu_reason input = [] \<or> reason_ok (hu_reason input)" for item input
    unfolding updateHelmReleaseStatus_def
    by (rule status_write_ok [OF facts(1,9)]) (rule helm_status_ok [OF facts(2) _ that])
  have event: "helm_event_of T item e \<Longrightarrow> writes_ok_status e" for T item e by (cases e) auto
  have client: "every writes_ok_status (HelmClient_Reconcile E dir item kc)" "every writes_ok_status (HelmClient_Uninstall E dir item kc)"
    for dir item kc
    by (rule every_emits [OF HelmClient_Reconcile_emits] every_emits [OF HelmClient_Uninstall_emits [where T = "env_Tmpl E"]];
        auto elim!: list_all_weaken simp: helm_reconciled_def intro: event)+
  have release: "every writes_ok_status (HelmRelease_removeFinalizer E item)" for item
    unfolding every_def by (rule helm_release.release_events [OF facts(1)]) simp_all
  show ?thesis
    unfolding HelmRelease_Reconcile_def reconcile_helm_release_def HelmRelease_reconcileDelete_def HelmRelease_ensureFinalizer_def
      helmKubeconfig_def helm_wait_def helm_now_def clusterExists_def helm_Reconcile_def helm_Uninstall_def assms(3) option.case
      get_secret_def k_call_defs Let_def
    by (intro every_rules status client release) (simp_all add: helm_failure_def helm_outcome_def)
qed

text \<open>
  Claim C10.  The conditions of every status that any of the eight controllers writes keep to the API
  server's schema but for the length of messages, on every path, whatever fails, given that the
  conditions and generations of the objects that it reads do: they form a map by type, each with a
  type and a reason of the schema's patterns and lengths and a generation that is not negative.
  Messages are not bounded by the controllers: the schema allows 32768 characters, and a status with
  a longer message is refused.
\<close>

theorem statuses_well_typed:
  assumes "env_ok E" and "server_answers object_ok E" and "env_SecretSync E = None" and "env_Helm E = None"
  shows "every writes_ok_status (Cluster_Reconcile E req) \<and> every writes_ok_status (Connection_Reconcile E req)
    \<and> every writes_ok_status (ControlPlane_Reconcile E req) \<and> every writes_ok_status (Workers_Reconcile E req)
    \<and> every writes_ok_status (Machine_Reconcile E req) \<and> every writes_ok_status (Export_Reconcile E req)
    \<and> every writes_ok_status (SecretSync_Reconcile E req) \<and> every writes_ok_status (HelmRelease_Reconcile E req)"
  using cluster_runs_ok [OF assms(1,2)] connection_runs_ok [OF assms(1,2)] child_runs_ok [OF assms(1,2)]
    export_runs_ok [OF assms(1,2)] sync_runs_ok [OF assms(1-3)] helm_runs_ok [OF assms(1,2,4)] by blast

end
