(* ===== verification/Watch_Setup.thy ===== *)
theory Watch_Setup
  imports Watches Server_Answers Connection_Controller Kubeconfig_Controller Secret_Sync_Controller Helm_Controller
begin

text \<open>
  What every controller watches (the \<^verbatim>\<open>SetupWithManager\<close> functions of
  \<^verbatim>\<open>internal/controller\<close>), and which controllers a change of an object may wake: those with a
  watch on its kind whose predicate lets the change through and whose function maps one of its
  objects to a request.  This is the documented behaviour of controller-runtime's event handlers.
\<close>

section \<open>Watches\<close>

record 'x watch =
  wt_Kind :: api_kind
  wt_Guarded :: bool
  wt_Requests :: "'x env \<Rightarrow> api_object \<Rightarrow> ('x, NamespacedName list) action"

text \<open>
  \<^verbatim>\<open>For(...)\<close> with \<^verbatim>\<open>specOrDeletionChangedPredicate\<close> asks for the object itself; \<^verbatim>\<open>Watches(...)\<close>
  asks for what a function makes of it, with the predicate or without.
\<close>

definition for_kind :: "api_kind \<Rightarrow> 'x watch" where
  "for_kind k = \<lparr>wt_Kind = k, wt_Guarded = True,
     wt_Requests = (\<lambda>E object. State_Monad.return [ObjectKeyFromMeta (object_meta object)])\<rparr>"

definition guarded_list :: "api_kind \<Rightarrow> ('x env \<Rightarrow> ObjectMeta \<Rightarrow> ('x, NamespacedName list) action) \<Rightarrow> 'x watch" where
  "guarded_list k f = \<lparr>wt_Kind = k, wt_Guarded = True, wt_Requests = (\<lambda>E object. f E (object_meta object))\<rparr>"

definition guarded_map :: "api_kind \<Rightarrow> (api_object \<Rightarrow> NamespacedName list) \<Rightarrow> 'x watch" where
  "guarded_map k f = \<lparr>wt_Kind = k, wt_Guarded = True, wt_Requests = (\<lambda>E object. State_Monad.return (f object))\<rparr>"

definition every_secret :: "('x env \<Rightarrow> ObjectMeta \<Rightarrow> ('x, NamespacedName list) action) \<Rightarrow> 'x watch" where
  "every_secret f = \<lparr>wt_Kind = KSecret, wt_Guarded = False, wt_Requests = (\<lambda>E object. f E (object_meta object))\<rparr>"

definition Cluster_SetupWithManager :: "'x watch list" where
  "Cluster_SetupWithManager =
     [for_kind KCluster, guarded_list KConnection clustersForConnection,
      guarded_map KControlPlane requestForChildCluster, guarded_map KWorkers requestForChildCluster,
      guarded_map KMachine requestForChildCluster]"

definition Connection_SetupWithManager :: "'x watch list" where
  "Connection_SetupWithManager = [for_kind KConnection, guarded_map KCluster requestForClusterConnection]"

definition ControlPlane_SetupWithManager :: "'x watch list" where
  "ControlPlane_SetupWithManager = [for_kind KControlPlane, guarded_list KCluster controlPlaneRequestsForCluster]"

definition Workers_SetupWithManager :: "'x watch list" where
  "Workers_SetupWithManager = [for_kind KWorkers, guarded_list KCluster workersRequestsForCluster]"

definition Machine_SetupWithManager :: "'x watch list" where
  "Machine_SetupWithManager = [for_kind KMachine, guarded_list KCluster machineRequestsForCluster]"

definition Export_SetupWithManager :: "'x watch list" where
  "Export_SetupWithManager =
     [for_kind KKubeconfigExport, guarded_list KCluster kubeconfigExportRequestsForCluster,
      guarded_list KConnection kubeconfigExportRequestsForConnection,
      every_secret (\<lambda>E object. State_Monad.return (kubeconfigExportRequestsForSecret (Some object)))]"

definition SecretSync_SetupWithManager :: "'x watch list" where
  "SecretSync_SetupWithManager =
     [for_kind KSecretSync, guarded_list KCluster secretSyncRequestsForCluster, every_secret secretSyncRequestsForSecret]"

definition HelmRelease_SetupWithManager :: "'x watch list" where
  "HelmRelease_SetupWithManager =
     [for_kind KHelmRelease, guarded_list KCluster helmReleaseRequestsForCluster, every_secret helmReleaseRequestsForSecret]"

lemmas setup_defs = Cluster_SetupWithManager_def Connection_SetupWithManager_def ControlPlane_SetupWithManager_def
  Workers_SetupWithManager_def Machine_SetupWithManager_def Export_SetupWithManager_def SecretSync_SetupWithManager_def
  HelmRelease_SetupWithManager_def

lemmas watch_defs = for_kind_def guarded_list_def guarded_map_def every_secret_def

section \<open>Controllers\<close>

datatype controller =
    ClusterController | ConnectionController | ControlPlaneController | WorkersController | MachineController
  | ExportController | SecretSyncController | HelmReleaseController

fun watches_of :: "controller \<Rightarrow> 'x watch list" where
  "watches_of ClusterController = Cluster_SetupWithManager"
| "watches_of ConnectionController = Connection_SetupWithManager"
| "watches_of ControlPlaneController = ControlPlane_SetupWithManager"
| "watches_of WorkersController = Workers_SetupWithManager"
| "watches_of MachineController = Machine_SetupWithManager"
| "watches_of ExportController = Export_SetupWithManager"
| "watches_of SecretSyncController = SecretSync_SetupWithManager"
| "watches_of HelmReleaseController = HelmRelease_SetupWithManager"

fun reconciler :: "'x env \<Rightarrow> controller \<Rightarrow> NamespacedName \<Rightarrow> ('x, Result \<times> goerror option) action" where
  "reconciler E ClusterController req = Cluster_Reconcile E req"
| "reconciler E ConnectionController req = Connection_Reconcile E req"
| "reconciler E ControlPlaneController req = ControlPlane_Reconcile E req"
| "reconciler E WorkersController req = Workers_Reconcile E req"
| "reconciler E MachineController req = Machine_Reconcile E req"
| "reconciler E ExportController req = Export_Reconcile E req"
| "reconciler E SecretSyncController req = SecretSync_Reconcile E req"
| "reconciler E HelmReleaseController req = HelmRelease_Reconcile E req"

section \<open>Changes\<close>

datatype change = Created api_object | Updated api_object api_object | Deleted api_object

fun change_event :: "change \<Rightarrow> watch_event" where
  "change_event (Created x) = CreateEvent"
| "change_event (Updated x y) = UpdateEvent (Some (object_meta x)) (Some (object_meta y))"
| "change_event (Deleted x) = DeleteEvent"

fun change_objects :: "change \<Rightarrow> api_object list" where
  "change_objects (Created x) = [x]"
| "change_objects (Updated x y) = [x, y]"
| "change_objects (Deleted x) = [x]"

definition delivers :: "'x watch \<Rightarrow> change \<Rightarrow> bool" where
  "delivers W ch \<longleftrightarrow> (\<exists>object \<in> set (change_objects ch). kind_of object = wt_Kind W)
     \<and> (wt_Guarded W \<longrightarrow> specOrDeletionChangedPredicate (change_event ch))"

text \<open>The change may add the request \<open>req\<close> to the queue of controller \<open>c\<close>.\<close>

definition may_wake :: "'x env \<Rightarrow> change \<Rightarrow> controller \<Rightarrow> NamespacedName \<Rightarrow> bool" where
  "may_wake E ch c req \<longleftrightarrow>
     (\<exists>W \<in> set (watches_of c). delivers W ch
        \<and> (\<exists>object \<in> set (change_objects ch). \<exists>w. req \<in> set (fst (run_state (wt_Requests W E object) w))))"

text \<open>All watches but those on Secrets have the predicate.\<close>

lemma unguarded_watches: "W \<in> set (watches_of c) \<Longrightarrow> \<not> wt_Guarded W \<Longrightarrow> wt_Kind W = KSecret"
  by (cases c) (auto simp: setup_defs watch_defs)

lemma filtered_wakes_nobody:
  assumes "\<not> specOrDeletionChangedPredicate (change_event ch)"
    and "\<And>object. object \<in> set (change_objects ch) \<Longrightarrow> kind_of object \<noteq> KSecret"
  shows "\<not> may_wake E ch c req"
  using assms unguarded_watches by (fastforce simp: may_wake_def delivers_def)

section \<open>Dependents\<close>

text \<open>
  The requests that the watches of a controller on the kind of an object make of it, one list for
  each watch.
\<close>

definition requests_of :: "'x env \<Rightarrow> (event, 'x) world \<Rightarrow> api_object \<Rightarrow> controller \<Rightarrow> NamespacedName list list" where
  "requests_of E w object c =
     map (\<lambda>W. fst (run_state (wt_Requests W E object) w)) (filter (\<lambda>W. wt_Kind W = kind_of object) (watches_of c))"

definition asks_exactly :: "'x env \<Rightarrow> (event, 'x) world \<Rightarrow> api_object \<Rightarrow> controller \<Rightarrow> NamespacedName multiset \<Rightarrow> bool" where
  "asks_exactly E w object c keys \<longleftrightarrow> (\<exists>requests. requests_of E w object c = [requests] \<and> mset requests = keys)"

definition asks_in_order :: "'x env \<Rightarrow> (event, 'x) world \<Rightarrow> api_object \<Rightarrow> controller \<Rightarrow> NamespacedName multiset \<Rightarrow> bool" where
  "asks_in_order E w object c keys \<longleftrightarrow> (\<exists>requests. requests_of E w object c = [requests] \<and> mset requests = keys
     \<and> sorted (map NamespacedName_String requests))"

lemma asks_in_orderI:
  "requests_of E w object c = [requests] \<Longrightarrow> sorted (map NamespacedName_String requests) \<and> mset requests = keys \<Longrightarrow>
     asks_in_order E w object c keys"
  and asks_exactlyI: "requests_of E w object c = [requests] \<Longrightarrow> mset requests = keys \<Longrightarrow> asks_exactly E w object c keys"
  by (simp_all add: asks_in_order_def asks_exactly_def)

text \<open>The keys of the items that name the changed object.\<close>

abbreviation referring :: "('o \<Rightarrow> ObjectMeta) \<Rightarrow> ('o \<Rightarrow> string) \<Rightarrow> string \<Rightarrow> 'o list \<Rightarrow> NamespacedName multiset" where
  "referring meta_of ref_of name xs \<equiv>
     image_mset (\<lambda>x. ObjectKeyFromMeta (meta_of x)) (mset (filter (\<lambda>x. ref_of x = name) xs))"

lemma cluster_requests_of:
  "requests_of E w (ObjCluster c) ControlPlaneController = [fst (run_state (controlPlaneRequestsForCluster E (c_Meta c)) w)]"
  "requests_of E w (ObjCluster c) WorkersController = [fst (run_state (workersRequestsForCluster E (c_Meta c)) w)]"
  "requests_of E w (ObjCluster c) MachineController = [fst (run_state (machineRequestsForCluster E (c_Meta c)) w)]"
  "requests_of E w (ObjCluster c) ExportController = [fst (run_state (kubeconfigExportRequestsForCluster E (c_Meta c)) w)]"
  "requests_of E w (ObjCluster c) SecretSyncController = [fst (run_state (secretSyncRequestsForCluster E (c_Meta c)) w)]"
  "requests_of E w (ObjCluster c) HelmReleaseController = [fst (run_state (helmReleaseRequestsForCluster E (c_Meta c)) w)]"
  by (simp_all add: requests_of_def setup_defs watch_defs)

lemma connection_requests_of:
  "requests_of E w (ObjConnection n) ClusterController = [fst (run_state (clustersForConnection E (on_Meta n)) w)]"
  "requests_of E w (ObjConnection n) ExportController = [fst (run_state (kubeconfigExportRequestsForConnection E (on_Meta n)) w)]"
  by (simp_all add: requests_of_def setup_defs watch_defs)

lemma export_cluster_requests:
  assumes "fst (api_List (env_KubeconfigExports E) (om_Namespace object) (ext w)) = Inr xs"
  shows "mset (fst (run_state (kubeconfigExportRequestsForCluster E object) w)) =
    referring ke_Meta (\<lambda>x. lor_Name (kes_ClusterRef (ke_Spec x))) (om_Name object) xs"
  using assms
  by (cases "api_List (env_KubeconfigExports E) (om_Namespace object) (ext w)")
    (simp add: kubeconfigExportRequestsForCluster_def k_list_def call_def requests_matching_def ObjectKeyFromMeta_def)

lemma export_connection_requests:
  assumes "api_List (env_Clusters E) (om_Namespace object) (ext w) = (Inr cs, x)"
    and "fst (api_List (env_KubeconfigExports E) (om_Namespace object) x) = Inr xs"
  shows "mset (fst (run_state (kubeconfigExportRequestsForConnection E object) w)) =
    image_mset (\<lambda>e. ObjectKeyFromMeta (ke_Meta e)) (mset (filter (\<lambda>e. list_ex (\<lambda>c.
      lor_Name (cs_ConnectionRef (c_Spec c)) = om_Name object \<and> om_Name (c_Meta c) = lor_Name (kes_ClusterRef (ke_Spec e))) cs) xs))"
proof -
  have names: "lor_Name (kes_ClusterRef (ke_Spec e)) \<in>
        set (map (\<lambda>c. om_Name (c_Meta c)) (filter (\<lambda>c. lor_Name (cs_ConnectionRef (c_Spec c)) = om_Name object) cs))
      \<longleftrightarrow> list_ex (\<lambda>c. lor_Name (cs_ConnectionRef (c_Spec c)) = om_Name object
            \<and> om_Name (c_Meta c) = lor_Name (kes_ClusterRef (ke_Spec e))) cs" for e :: OmniKubeconfigExport
    by (auto simp: list_ex_iff intro: rev_image_eqI)
  show ?thesis
  proof (cases "filter (\<lambda>c. lor_Name (cs_ConnectionRef (c_Spec c)) = om_Name object) cs = []")
    case True
    then have "\<not> list_ex (\<lambda>c. lor_Name (cs_ConnectionRef (c_Spec c)) = om_Name object
            \<and> om_Name (c_Meta c) = lor_Name (kes_ClusterRef (ke_Spec e))) cs" for e :: OmniKubeconfigExport
      by (auto simp: list_ex_iff filter_empty_conv)
    with True show ?thesis
      by (simp add: kubeconfigExportRequestsForConnection_def k_list_def call_def assms(1))
  next
    case False
    then show ?thesis
      using assms(2) names
      by (cases "api_List (env_KubeconfigExports E) (om_Namespace object) x")
        (simp add: kubeconfigExportRequestsForConnection_def k_list_def call_def assms(1) Let_def
          map_is_Nil_conv del: set_map)
  qed
qed

text \<open>
  Claim C35.  A change of a cluster, when the watches on clusters let it through and the lists are
  answered, asks the controllers of its dependents for exactly the items of its namespace that name
  the cluster: control planes, worker sets, machines, secret syncs and Helm releases, in the order of
  their names, and kubeconfig exports, in any order.  In the same way a change of a connection asks
  for exactly the clusters that name it, in the order of their names, and for the kubeconfig exports
  that name one of these clusters.
\<close>

theorem owner_change_wakes_dependents:
  assumes "fst (api_List (env_ControlPlanes E) (om_Namespace (c_Meta cluster)) (ext w)) = Inr cps"
    and "fst (api_List (env_Workers E) (om_Namespace (c_Meta cluster)) (ext w)) = Inr wss"
    and "fst (api_List (env_Machines E) (om_Namespace (c_Meta cluster)) (ext w)) = Inr ms"
    and "fst (api_List (env_SecretSyncs E) (om_Namespace (c_Meta cluster)) (ext w)) = Inr sss"
    and "fst (api_List (env_HelmReleases E) (om_Namespace (c_Meta cluster)) (ext w)) = Inr hrs"
    and "fst (api_List (env_KubeconfigExports E) (om_Namespace (c_Meta cluster)) (ext w)) = Inr kes"
    and "api_List (env_Clusters E) (om_Namespace (on_Meta connection)) (ext w) = (Inr cs, x)"
    and "fst (api_List (env_KubeconfigExports E) (om_Namespace (on_Meta connection)) x) = Inr kes'"
  shows "asks_in_order E w (ObjCluster cluster) ControlPlaneController
      (referring cp_Meta (\<lambda>cp. lor_Name (cps_ClusterRef (cp_Spec cp))) (om_Name (c_Meta cluster)) cps)
    \<and> asks_in_order E w (ObjCluster cluster) WorkersController
      (referring w_Meta (\<lambda>ws. lor_Name (ws_ClusterRef (w_Spec ws))) (om_Name (c_Meta cluster)) wss)
    \<and> asks_in_order E w (ObjCluster cluster) MachineController
      (referring m_Meta (\<lambda>m. lor_Name (mas_ClusterRef (m_Spec m))) (om_Name (c_Meta cluster)) ms)
    \<and> asks_in_order E w (ObjCluster cluster) SecretSyncController
      (referring ss_Meta (\<lambda>s. lor_Name (sss_ClusterRef (ss_Spec s))) (om_Name (c_Meta cluster)) sss)
    \<and> asks_in_order E w (ObjCluster cluster) HelmReleaseController
      (referring hr_Meta (\<lambda>h. lor_Name (hrs_ClusterRef (hr_Spec h))) (om_Name (c_Meta cluster)) hrs)
    \<and> asks_exactly E w (ObjCluster cluster) ExportController
      (referring ke_Meta (\<lambda>e. lor_Name (kes_ClusterRef (ke_Spec e))) (om_Name (c_Meta cluster)) kes)
    \<and> asks_in_order E w (ObjConnection connection) ClusterController
      (referring c_Meta (\<lambda>c. lor_Name (cs_ConnectionRef (c_Spec c))) (om_Name (on_Meta connection)) cs)
    \<and> asks_exactly E w (ObjConnection connection) ExportController
      (image_mset (\<lambda>e. ObjectKeyFromMeta (ke_Meta e)) (mset (filter (\<lambda>e. list_ex (\<lambda>c.
        lor_Name (cs_ConnectionRef (c_Spec c)) = om_Name (on_Meta connection)
        \<and> om_Name (c_Meta c) = lor_Name (kes_ClusterRef (ke_Spec e))) cs) kes')))"
  using assms(7)
  by (intro conjI asks_in_orderI [OF cluster_requests_of(1) control_plane_requests.requests_exact [OF assms(1)]]
      asks_in_orderI [OF cluster_requests_of(2) workers_requests.requests_exact [OF assms(2)]]
      asks_in_orderI [OF cluster_requests_of(3) machine_requests.requests_exact [OF assms(3)]]
      asks_in_orderI [OF cluster_requests_of(5) secret_sync_requests.requests_exact [OF assms(4)]]
      asks_in_orderI [OF cluster_requests_of(6) helm_cluster_requests.requests_exact [OF assms(5)]]
      asks_exactlyI [OF cluster_requests_of(4) export_cluster_requests [OF assms(6)]]
      asks_in_orderI [OF connection_requests_of(1) cluster_requests.requests_exact]
      asks_exactlyI [OF connection_requests_of(2) export_connection_requests [OF assms(7,8)]])
    simp

end
