(* ===== verification/Own_Writes.thy ===== *)
theory Own_Writes
  imports Watch_Setup Finalizer_System Kubeconfig_Safety Helm_Safety Secret_Sync_Safety
begin

text \<open>
  What the operator writes to the API server: of its own kinds, only versions that it has read,
  with other finalizers, and statuses; and the Secrets of kubeconfig exports.  It creates and
  deletes no object of its own kinds.
\<close>

section \<open>Writes\<close>

definition same_version :: "api_object \<Rightarrow> api_object \<Rightarrow> bool" where
  "same_version x y \<longleftrightarrow> kind_of x = kind_of y \<and> om_Namespace (object_meta x) = om_Namespace (object_meta y)
     \<and> om_Name (object_meta x) = om_Name (object_meta y)
     \<and> om_ResourceVersion (object_meta x) = om_ResourceVersion (object_meta y)"

fun same_spec :: "api_object \<Rightarrow> api_object \<Rightarrow> bool" where
  "same_spec (ObjCluster x) (ObjCluster y) = (c_Spec x = c_Spec y)"
| "same_spec (ObjConnection x) (ObjConnection y) = (on_Spec x = on_Spec y)"
| "same_spec (ObjControlPlane x) (ObjControlPlane y) = (cp_Spec x = cp_Spec y)"
| "same_spec (ObjWorkers x) (ObjWorkers y) = (w_Spec x = w_Spec y)"
| "same_spec (ObjMachine x) (ObjMachine y) = (m_Spec x = m_Spec y)"
| "same_spec (ObjKubeconfigExport x) (ObjKubeconfigExport y) = (ke_Spec x = ke_Spec y)"
| "same_spec (ObjSecretSync x) (ObjSecretSync y) = (ss_Spec x = ss_Spec y)"
| "same_spec (ObjHelmRelease x) (ObjHelmRelease y) = (hr_Spec x = hr_Spec y)"
| "same_spec x y = False"

text \<open>The object is a version that was stored, apart from finalizers and status.\<close>

definition from_stored :: "(api_object \<Rightarrow> bool) \<Rightarrow> api_object \<Rightarrow> bool" where
  "from_stored K x \<longleftrightarrow> (\<exists>y. K y \<and> same_version y x \<and> same_spec y x)"

fun own_write :: "(api_object \<Rightarrow> bool) \<Rightarrow> event \<Rightarrow> bool" where
  "own_write K (EvCreate x r) = (kind_of x = KSecret)"
| "own_write K (EvDelete x r) = (kind_of x = KSecret)"
| "own_write K (EvUpdate x r) = (kind_of x = KSecret \<or> from_stored K x)"
| "own_write K (EvStatusUpdate x r) = (kind_of x \<noteq> KSecret)"
| "own_write K e = True"

lemma finalizer_writes [simp]:
  "K (ObjCluster a) \<Longrightarrow> from_stored K (ObjCluster (a\<lparr>c_Meta := (c_Meta a)\<lparr>om_Finalizers := fs\<rparr>\<rparr>))"
  "K (ObjConnection b) \<Longrightarrow> from_stored K (ObjConnection (b\<lparr>on_Meta := (on_Meta b)\<lparr>om_Finalizers := fs\<rparr>\<rparr>))"
  "K (ObjKubeconfigExport d) \<Longrightarrow> from_stored K (ObjKubeconfigExport (d\<lparr>ke_Meta := (ke_Meta d)\<lparr>om_Finalizers := fs\<rparr>\<rparr>))"
  "K (ObjSecretSync f) \<Longrightarrow> from_stored K (ObjSecretSync (f\<lparr>ss_Meta := (ss_Meta f)\<lparr>om_Finalizers := fs\<rparr>\<rparr>))"
  "K (ObjHelmRelease g) \<Longrightarrow> from_stored K (ObjHelmRelease (g\<lparr>hr_Meta := (hr_Meta g)\<lparr>om_Finalizers := fs\<rparr>\<rparr>))"
  unfolding from_stored_def same_version_def by (rule exI, rule conjI, assumption, simp)+

lemmas finalizer_defs = add_finalizer_def remove_finalizers_def strip_finalizer_def

lemma status_own:
  assumes "env_retry_ok E" and "answers_in K mk A" and "\<And>x. kind_of (mk x) \<noteq> KSecret"
  shows "every (own_write K) (write_status E A kind mk oc mutate key)"
  by (rule status_write_every [OF assms(1,2)]) (simp_all add: assms(3))

section \<open>The controllers\<close>

lemma cluster_own:
  assumes "env_ok E" and "server_answers K E"
  shows "every (own_write K) (Cluster_Reconcile E req)"
proof -
  note facts = server_answersD [OF assms(2)]
  have retry: "env_retry_ok E" using assms(1) by (simp add: env_ok_def)
  have status: "every (own_write K) (updateClusterStatus E c mutate)" for c mutate
    unfolding updateClusterStatus_def by (rule status_own [OF retry facts(1)]) simp
  have delete: "every (own_write K) (Cluster_reconcileDelete E x)" if "K (ObjCluster x)" for x
    unfolding Cluster_reconcileDelete_def markClusterFailed_def release_cluster_def k_get_def k_update_def
      omni_call_defs Let_def
    by (intro every_rules status) (simp_all add: that finalizer_defs)
  have live: "every (own_write K) (reconcile_live E x)" if "K (ObjCluster x)" for x
    unfolding reconcile_live_def reconcile_template_def templateInputs_def sync_cluster_def markClusterFailed_def
      report_and_requeue_def k_get_def k_list_def k_update_def omni_call_defs Let_def
    by (intro every_rules status) (simp_all add: that finalizer_defs)
  show ?thesis
    unfolding Cluster_Reconcile_def by (intro every_get [OF facts(1)] every_if every_return delete live) simp_all
qed

lemma connection_own:
  assumes "env_ok E" and "server_answers K E"
  shows "every (own_write K) (Connection_Reconcile E req)"
proof -
  note facts = server_answersD [OF assms(2)]
  have retry: "env_retry_ok E" using assms(1) by (simp add: env_ok_def)
  have status: "every (own_write K) (updateConnectionStatus E c mutate)" for c mutate
    unfolding updateConnectionStatus_def by (rule status_own [OF retry facts(2)]) simp
  have release: "every (own_write K) (removeFinalizers E c)" for c
    unfolding removeFinalizers_def release_attempt_def k_update_def
    by (intro every_retry [OF retry] every_get [OF facts(2)] every_rules) (simp_all add: finalizer_defs)
  show ?thesis
    unfolding Connection_Reconcile_def Connection_reconcileDelete_def referencingClusterNames_def Let_def
      k_update_def k_list_def omni_call_defs
    by (intro every_get [OF facts(2)] every_rules status release) (simp_all add: finalizer_defs)
qed

lemma child_own:
  assumes "env_ok E" and "server_answers K E"
  shows "every (own_write K) (ControlPlane_Reconcile E req)"
    and "every (own_write K) (Workers_Reconcile E req)"
    and "every (own_write K) (Machine_Reconcile E req)"
proof -
  note facts = server_answersD [OF assms(2)]
  have retry: "env_retry_ok E" using assms(1) by (simp add: env_ok_def)
  have "every (own_write K) (clusterExists E ns name)" for ns name
    unfolding clusterExists_def k_get_def by (intro every_rules) simp_all
  note rules = this every_rules status_own [OF retry]
  show "every (own_write K) (ControlPlane_Reconcile E req)"
    unfolding ControlPlane_Reconcile_def updateControlPlaneStatus_def
    by (intro every_get [OF facts(3)] rules facts(3)) simp_all
  show "every (own_write K) (Workers_Reconcile E req)"
    unfolding Workers_Reconcile_def updateWorkersStatus_def
    by (intro every_get [OF facts(4)] rules facts(4)) simp_all
  show "every (own_write K) (Machine_Reconcile E req)"
    unfolding Machine_Reconcile_def updateMachineStatus_def
    by (intro every_get [OF facts(5)] rules facts(5)) simp_all
qed

lemma export_own:
  assumes "env_ok E" and "server_answers K E"
  shows "every (own_write K) (Export_Reconcile E req)"
proof -
  note facts = server_answersD [OF assms(2)]
  have retry: "env_retry_ok E" using assms(1) by (simp add: env_ok_def)
  have status: "every (own_write K) (updateKubeconfigExportStatus E item input)" for item input
    unfolding updateKubeconfigExportStatus_def by (rule status_own [OF retry facts(6)]) simp
  show ?thesis
    unfolding Export_Reconcile_def reconcile_export_def Export_reconcileDelete_def Export_ensureFinalizer_def
      exportCluster_def exportConnection_def export_target_def deletePreviousTargetSecret_def targetSecret_def
      reusableCurrentKubeconfigSecretState_def generateKubeconfig_def export_failed_def export_reused_def export_generated_def
      export_now_def report_and_requeue_def get_secret_def k_update_def k_create_def k_delete_def omni_call_defs Let_def
    by (intro every_get [OF facts(6)] every_rules status) (simp_all add: finalizer_defs k_get_def every_call)
qed

lemma sync_own:
  assumes "env_ok E" and "server_answers K E" and "env_SecretSync E = None"
  shows "every (own_write K) (SecretSync_Reconcile E req)"
proof -
  note facts = server_answersD [OF assms(2)]
  have retry: "env_retry_ok E" using assms(1) by (simp add: env_ok_def)
  have status: "every (own_write K) (updateSecretSyncStatus E item input)" for item input
    unfolding updateSecretSyncStatus_def by (rule status_own [OF retry facts(7)]) simp
  have client: "every (own_write K) (Client_Sync E item source kc name)" "every (own_write K) (Client_Delete E item kc target)"
    for item source kc name target
    by (rule every_emits [OF Client_Sync_emits] every_emits [OF Client_Delete_emits];
        auto elim!: list_all_weaken simp: client_event_def)+
  have release: "every (own_write K) (SecretSync_removeFinalizer E item)" for item
    unfolding SecretSync_removeFinalizer_def sync_release_attempt_def k_update_def
    by (intro every_retry [OF retry] every_get [OF facts(7)] every_rules) (simp_all add: finalizer_defs)
  have read: "every (own_write K) (get_secret E key)" for key
    unfolding get_secret_def k_get_def by (intro every_rules) simp_all
  show ?thesis
    unfolding SecretSync_Reconcile_def reconcile_secret_sync_def SecretSync_reconcileDelete_def SecretSync_ensureFinalizer_def
      syncCluster_def sourceSecret_def syncKubeconfig_def sync_wait_def sync_with_def sync_now_def deletePreviousSyncTarget_def
      secretSync_Sync_def secretSync_Delete_def assms(3) option.case report_and_requeue_def k_update_def Let_def
    by (intro every_get [OF facts(7)] every_rules status client release read)
      (simp_all add: finalizer_defs k_get_def every_call)
qed

lemma helm_own:
  assumes "env_ok E" and "server_answers K E" and "env_Helm E = None"
  shows "every (own_write K) (HelmRelease_Reconcile E req)"
proof -
  note facts = server_answersD [OF assms(2)]
  have retry: "env_retry_ok E" using assms(1) by (simp add: env_ok_def)
  have status: "every (own_write K) (updateHelmReleaseStatus E item input)" for item input
    unfolding updateHelmReleaseStatus_def by (rule status_own [OF retry facts(8)]) simp
  have event: "helm_event_of T item e \<Longrightarrow> own_write K e" for T item e by (cases e) auto
  have client: "every (own_write K) (HelmClient_Reconcile E dir item kc)" "every (own_write K) (HelmClient_Uninstall E dir item kc)"
    for dir item kc
    by (rule every_emits [OF HelmClient_Reconcile_emits] every_emits [OF HelmClient_Uninstall_emits [where T = "env_Tmpl E"]];
        auto elim!: list_all_weaken simp: helm_reconciled_def intro: event)+
  have release: "every (own_write K) (HelmRelease_removeFinalizer E item)" for item
    unfolding HelmRelease_removeFinalizer_def helm_release_attempt_def k_update_def
    by (intro every_retry [OF retry] every_get [OF facts(8)] every_rules) (simp_all add: finalizer_defs)
  have reads: "every (own_write K) (get_secret E key)" "every (own_write K) (clusterExists E ns name)" for key ns name
    unfolding get_secret_def clusterExists_def k_get_def by (intro every_rules; simp)+
  show ?thesis
    unfolding HelmRelease_Reconcile_def reconcile_helm_release_def HelmRelease_reconcileDelete_def HelmRelease_ensureFinalizer_def
      helmKubeconfig_def helm_wait_def helm_now_def helm_Reconcile_def helm_Uninstall_def assms(3) option.case
      k_update_def Let_def
    by (intro every_get [OF facts(8)] every_rules status client release reads) (simp_all add: finalizer_defs)
qed

lemma operator_own:
  assumes "env_ok E" and "server_answers K E" and "env_SecretSync E = None" and "env_Helm E = None"
  shows "every (own_write K) (reconciler E c req)"
  using assms by (cases c) (simp_all add: cluster_own connection_own child_own export_own sync_own helm_own)

end
