(* ===== verification/Settling.thy ===== *)
theory Settling
  imports Own_Writes Cluster_System "HOL-Library.FSet"
begin

text \<open>
  Without changes by others, the runs that cause each other, by asking to be called again at once
  without an error or by writing an object of the operator's own kinds that a controller watches,
  form chains of bounded length.  Writes of Secrets are left aside (\<open>Rejected_Kubeconfig\<close> is about
  them), and so are failed runs, which the queue repeats with growing delays, and the runs that the
  controllers schedule for later.
\<close>

section \<open>What a program returns\<close>

definition returns :: "('a \<Rightarrow> bool) \<Rightarrow> ('e, 'x, 'a) act \<Rightarrow> bool" where
  "returns P m \<longleftrightarrow> (\<forall>w. P (fst (run_state m w)))"

named_theorems returns_rules \<open>backward rules for returns\<close>

lemma returns_return [returns_rules]: "P a \<Longrightarrow> returns P (State_Monad.return a)"
  by (simp add: returns_def)

lemma returns_if [returns_rules]:
  "(b \<Longrightarrow> returns P m) \<Longrightarrow> (\<not> b \<Longrightarrow> returns P n) \<Longrightarrow> returns P (if b then m else n)"
  by simp

lemma returns_case_sum [returns_rules]:
  "(\<And>e. s = Inl e \<Longrightarrow> returns P (f e)) \<Longrightarrow> (\<And>a. s = Inr a \<Longrightarrow> returns P (g a))
    \<Longrightarrow> returns P (case s of Inl e \<Rightarrow> f e | Inr a \<Rightarrow> g a)"
  by (cases s) simp_all

lemma returns_case_option [returns_rules]:
  "(x = None \<Longrightarrow> returns P f) \<Longrightarrow> (\<And>a. x = Some a \<Longrightarrow> returns P (g a))
    \<Longrightarrow> returns P (case x of None \<Rightarrow> f | Some a \<Rightarrow> g a)"
  by (cases x) simp_all

lemma returns_case_prod [returns_rules]:
  "(\<And>a b. p = (a, b) \<Longrightarrow> returns P (f a b)) \<Longrightarrow> returns P (case p of (a, b) \<Rightarrow> f a b)"
  by (cases p) simp

lemma returns_then:
  assumes "returns Q m" and "\<And>a. Q a \<Longrightarrow> returns P (k a)"
  shows "returns P (State_Monad.bind m k)"
  using assms by (simp add: returns_def split: prod.split) (metis fst_conv)

lemma returns_bind [returns_rules]: "(\<And>a. returns P (k a)) \<Longrightarrow> returns P (State_Monad.bind m k)"
  by (rule returns_then [where Q = "\<lambda>a. True"]) (simp_all add: returns_def)

lemma returns_run: "returns P m \<Longrightarrow> run_state m w = (a, w') \<Longrightarrow> P a"
  unfolding returns_def by (metis fst_conv)

section \<open>Runs that do not come back at once\<close>

definition calm :: "Result \<times> goerror option \<Rightarrow> bool" where
  "calm out \<longleftrightarrow> \<not> res_Requeue (fst out)"

fun early_calm :: "early + 'a \<Rightarrow> bool" where
  "early_calm (Inl out) = calm out"
| "early_calm (Inr a) = True"

lemma calm_simps [simp]: "calm (no_requeue, e)" "calm (requeue_after d, e)" "\<not> calm (requeue_now, e)"
  by (simp_all add: calm_def no_requeue_def requeue_after_def requeue_now_def)

lemma report_and_requeue_calm [returns_rules]: "returns calm (report_and_requeue m after err)"
  unfolding report_and_requeue_def by (intro returns_rules) (simp split: option.split)

lemma report_early_calm: "returns early_calm (do { out \<leftarrow> report_and_requeue m after err; State_Monad.return (Inl out) })"
  by (rule returns_then [OF report_and_requeue_calm]) (intro returns_rules; simp)

lemma cluster_delete_calm: "returns calm (Cluster_reconcileDelete E x)"
  unfolding Cluster_reconcileDelete_def release_cluster_def Let_def
  by (intro returns_rules) (simp_all split: option.split)

lemma cluster_live_calm: "has_finalizer (env_Lib E) (c_Meta x) \<Longrightarrow> returns calm (reconcile_live E x)"
  unfolding reconcile_live_def reconcile_template_def sync_cluster_def Let_def
  by (intro returns_rules) (simp_all split: option.split)

text \<open>What a run does with the connection it has read.\<close>

definition connection_handler :: "'x env \<Rightarrow> OmniConnection \<Rightarrow> ('x, Result \<times> goerror option) action" where
  "connection_handler E connection =
     (if \<not> Time_IsZero (om_DeletionTimestamp (on_Meta connection)) then Connection_reconcileDelete E connection
      else if \<not> has_finalizer (env_Lib E) (on_Meta connection) then do {
        err \<leftarrow> k_update (env_Connections E) ObjConnection
          (connection\<lparr>on_Meta := add_finalizer (env_Lib E) (on_Meta connection)\<rparr>);
        State_Monad.return (case err of Some e \<Rightarrow> (no_requeue, Some e) | None \<Rightarrow> (requeue_now, None)) }
      else do {
        now \<leftarrow> observe (env_Now E);
        (outp, err) \<leftarrow> omni_Ping E connection;
        statusErr \<leftarrow> updateConnectionStatus E connection (ping_status (env_Lib E) connection now outp err);
        State_Monad.return (case statusErr of
            Some e \<Rightarrow> (no_requeue, Some e)
          | None \<Rightarrow> (case err of
              Some e \<Rightarrow> (requeue_after Minute, Some e)
            | None \<Rightarrow> (requeue_after (5 * Minute), None))) })"

lemma Connection_Reconcile_handler:
  "Connection_Reconcile E req = do {
     got \<leftarrow> k_get (env_Connections E) KConnection req;
     (case got of
        Inl err \<Rightarrow> State_Monad.return (if IsNotFound err then (no_requeue, None) else (no_requeue, Some err))
      | Inr connection \<Rightarrow> connection_handler E connection) }"
  unfolding Connection_Reconcile_def connection_handler_def Let_def ..

lemma connection_delete_calm: "returns calm (Connection_reconcileDelete E x)"
  unfolding Connection_reconcileDelete_def Let_def by (intro returns_rules) simp_all

lemma connection_live_calm:
  "has_finalizer (env_Lib E) (on_Meta x) \<Longrightarrow> returns calm (connection_handler E x)"
  unfolding connection_handler_def
  by (intro returns_rules connection_delete_calm) (simp_all split: option.split)

lemma child_calm:
  "returns calm (ControlPlane_Reconcile E req)" "returns calm (Workers_Reconcile E req)" "returns calm (Machine_Reconcile E req)"
  unfolding ControlPlane_Reconcile_def Workers_Reconcile_def Machine_Reconcile_def
  by (intro returns_rules; simp split: option.split)+

lemma export_delete_calm: "returns calm (Export_reconcileDelete E x)"
  unfolding Export_reconcileDelete_def Let_def by (intro returns_rules) simp_all

lemma export_early_calm:
  "returns early_calm (exportCluster E x)" "returns early_calm (exportConnection E x cluster)"
  "returns early_calm (generateKubeconfig E x cluster connection name)"
  unfolding exportCluster_def exportConnection_def generateKubeconfig_def export_failed_def Let_def
  by (intro report_early_calm returns_rules; simp)+

lemma export_target_calm: "returns calm (export_target E x cluster connection specHash)"
  unfolding export_target_def export_reused_def export_generated_def Let_def
  by (intro returns_then [OF export_early_calm(3)] returns_rules) simp_all

lemma export_live_calm:
  "lib_ContainsFinalizer (env_Lib E) (om_Finalizers (ke_Meta x)) Finalizer \<Longrightarrow> returns calm (reconcile_export E x)"
  unfolding reconcile_export_def
  by (simp add: export_claim.ensure_claimed)
    (intro conjI impI export_delete_calm returns_then [OF export_early_calm(1)] returns_then [OF export_early_calm(2)]
      export_target_calm returns_rules; simp)

lemma sync_early_calm:
  "returns early_calm (sync_wait E x input)" "returns early_calm (syncCluster E x)" "returns early_calm (sourceSecret E x)"
  "returns early_calm (syncKubeconfig E x)"
  unfolding syncCluster_def sourceSecret_def syncKubeconfig_def sync_wait_def Let_def
  by (intro returns_rules; simp)+

lemma sync_delete_calm: "returns calm (SecretSync_reconcileDelete E x)"
  unfolding SecretSync_reconcileDelete_def Let_def
  by (intro returns_then [OF sync_early_calm(4)] returns_rules) simp_all

lemma sync_live_calm:
  "lib_ContainsFinalizer (env_Lib E) (om_Finalizers (ss_Meta x)) Finalizer \<Longrightarrow> returns calm (reconcile_secret_sync E x)"
  unfolding reconcile_secret_sync_def sync_with_def sync_now_def
  by (simp add: secret_sync_claim.ensure_claimed)
    (intro conjI impI sync_delete_calm returns_then [OF sync_early_calm(2)] returns_then [OF sync_early_calm(3)]
      returns_then [OF sync_early_calm(4)] returns_rules; simp split: option.split sum.split)

lemma helm_early_calm: "returns calm (helm_wait E x input)" "returns early_calm (helmKubeconfig E x)"
proof -
  show wait: "returns calm (helm_wait E x input)" for input
    unfolding helm_wait_def by (intro returns_rules) simp
  show "returns early_calm (helmKubeconfig E x)"
    unfolding helmKubeconfig_def Let_def by (intro returns_then [OF wait] returns_rules; simp)
qed

lemma helm_delete_calm: "returns calm (HelmRelease_reconcileDelete E x)"
  unfolding HelmRelease_reconcileDelete_def Let_def
  by (intro returns_then [OF helm_early_calm(2)] returns_rules) simp_all

lemma helm_live_calm:
  "lib_ContainsFinalizer (env_Lib E) (om_Finalizers (hr_Meta x)) Finalizer \<Longrightarrow> returns calm (reconcile_helm_release E x)"
  unfolding reconcile_helm_release_def helm_now_def
  by (simp add: helm_claim.ensure_claimed)
    (intro conjI impI helm_delete_calm helm_early_calm(1) returns_then [OF helm_early_calm(2)] returns_rules;
      simp split: option.split)

section \<open>Runs that do\<close>

text \<open>
  The contract of a controller that claims its items: a run on a claimed item does not ask to be
  called again at once, and a run on another item asks for that, without an error, only when it
  has written the item with the finalizer.
\<close>

locale claiming_controller =
  fixes reconcile :: "'x env \<Rightarrow> NamespacedName \<Rightarrow> ('x, early) action"
    and api :: "'x env \<Rightarrow> ('x, 'o) kind_api"
    and kind :: api_kind
    and mk :: "'o \<Rightarrow> api_object"
    and handler :: "'x env \<Rightarrow> 'o \<Rightarrow> ('x, early) action"
    and claimed_item :: "klib \<Rightarrow> 'o \<Rightarrow> bool"
  assumes reconcile_eq: "reconcile E req = do {
      got \<leftarrow> k_get (api E) kind req;
      (case got of
         Inl err \<Rightarrow> State_Monad.return (if IsNotFound err then (no_requeue, None) else (no_requeue, Some err))
       | Inr item \<Rightarrow> handler E item) }"
    and claimed_calm: "claimed_item (env_Lib E) item \<Longrightarrow> returns calm (handler E item)"
    and claims: "finalizer_contract (env_Lib E) \<Longrightarrow> \<not> claimed_item (env_Lib E) item \<Longrightarrow>
      emits (handler E item)
        (\<lambda>out t. calm out \<or> snd out \<noteq> None \<or> (\<exists>x. t = [EvUpdate (mk x) None] \<and> claimed_item (env_Lib E) x))"
begin

lemma called_again:
  assumes "finalizer_contract (env_Lib E)" and run: "run_state (reconcile E req) w = (out, w')"
    and trace: "trace w' = trace w @ t" and "\<not> calm out" "snd out = None"
  obtains item x where "fst (api_Get (api E) req (ext w)) = Inr item" "\<not> claimed_item (env_Lib E) item"
    "t = [EvGet kind req None, EvUpdate (mk x) None]" "claimed_item (env_Lib E) x"
proof -
  obtain got y where get: "api_Get (api E) req (ext w) = (got, y)" by force
  let ?w = "\<lparr>ext = y, trace = trace w @ [EvGet kind req (err_of got)]\<rparr>"
  obtain item where item: "got = Inr item" and rest: "run_state (handler E item) ?w = (out, w')"
    using run get assms(4) by (cases got) (auto simp: reconcile_eq k_get_def call_def split: if_splits)
  have unclaimed: "\<not> claimed_item (env_Lib E) item"
    using claimed_calm [of E item] rest assms(4) by (auto simp: returns_def) (metis fst_conv)
  obtain u where u: "trace w' = trace ?w @ u"
    and "calm out \<or> snd out \<noteq> None \<or> (\<exists>x. u = [EvUpdate (mk x) None] \<and> claimed_item (env_Lib E) x)"
    using emits_run [OF claims [OF assms(1) unclaimed] rest] by blast
  then obtain x where x: "u = [EvUpdate (mk x) None]" "claimed_item (env_Lib E) x"
    using assms(4,5) by blast
  have "t = [EvGet kind req None, EvUpdate (mk x) None]"
    using trace u x(1) item by simp
  with that get item unclaimed x(2) show thesis by simp
qed

end

lemma finalizer_claims [simp]:
  assumes "finalizer_contract L"
  shows "has_finalizer L (add_finalizer L m)" "lib_ContainsFinalizer L (om_Finalizers (add_finalizer L m)) Finalizer"
  using assms by (simp_all add: finalizer_contract_def has_finalizer_def add_finalizer_def)

interpretation cluster_claiming: claiming_controller Cluster_Reconcile env_Clusters KCluster ObjCluster cluster_handler
  "\<lambda>L x. has_finalizer L (c_Meta x)"
proof unfold_locales
  show "returns calm (cluster_handler E x)" if "has_finalizer (env_Lib E) (c_Meta x)" for E :: "'x env" and x
    using that by (simp add: cluster_handler_def cluster_delete_calm cluster_live_calm)
  show "emits (cluster_handler E x) (\<lambda>out t. calm out \<or> snd out \<noteq> None
      \<or> (\<exists>y. t = [EvUpdate (ObjCluster y) None] \<and> has_finalizer (env_Lib E) (c_Meta y)))"
    if "finalizer_contract (env_Lib E)" "\<not> has_finalizer (env_Lib E) (c_Meta x)" for E :: "'x env" and x
    using that unfolding cluster_handler_def Cluster_reconcileDelete_def reconcile_live_def k_update_def Let_def
    by simp (intro conjI impI emits_rules; auto split: option.splits)
qed (rule Cluster_Reconcile_handler)

interpretation connection_claiming: claiming_controller Connection_Reconcile env_Connections KConnection ObjConnection
  connection_handler "\<lambda>L x. has_finalizer L (on_Meta x)"
proof unfold_locales
  show "emits (connection_handler E x) (\<lambda>out t. calm out \<or> snd out \<noteq> None
      \<or> (\<exists>y. t = [EvUpdate (ObjConnection y) None] \<and> has_finalizer (env_Lib E) (on_Meta y)))"
    if "finalizer_contract (env_Lib E)" "\<not> has_finalizer (env_Lib E) (on_Meta x)" for E :: "'x env" and x
    using that unfolding connection_handler_def Connection_reconcileDelete_def k_update_def Let_def
    by simp (intro conjI impI emits_rules; auto split: option.splits)
qed (rule Connection_Reconcile_handler connection_live_calm, assumption?)+

text \<open>The three that claim by the same function.\<close>

interpretation export_claiming: claiming_controller Export_Reconcile env_KubeconfigExports KKubeconfigExport
  ObjKubeconfigExport reconcile_export "\<lambda>L x. lib_ContainsFinalizer L (om_Finalizers (ke_Meta x)) Finalizer"
proof unfold_locales
  show "emits (reconcile_export E x) (\<lambda>out t. calm out \<or> snd out \<noteq> None
      \<or> (\<exists>y. t = [EvUpdate (ObjKubeconfigExport y) None] \<and> lib_ContainsFinalizer (env_Lib E) (om_Finalizers (ke_Meta y)) Finalizer))"
    if "finalizer_contract (env_Lib E)" "\<not> lib_ContainsFinalizer (env_Lib E) (om_Finalizers (ke_Meta x)) Finalizer"
    for E :: "'x env" and x
    using that unfolding reconcile_export_def Export_reconcileDelete_def Export_ensureFinalizer_def k_update_def Let_def
    by simp (intro conjI impI emits_rules; auto split: option.splits)
qed (simp_all add: export_live_calm Export_Reconcile_def)

interpretation sync_claiming: claiming_controller SecretSync_Reconcile env_SecretSyncs KSecretSync
  ObjSecretSync reconcile_secret_sync "\<lambda>L x. lib_ContainsFinalizer L (om_Finalizers (ss_Meta x)) Finalizer"
proof unfold_locales
  show "emits (reconcile_secret_sync E x) (\<lambda>out t. calm out \<or> snd out \<noteq> None
      \<or> (\<exists>y. t = [EvUpdate (ObjSecretSync y) None] \<and> lib_ContainsFinalizer (env_Lib E) (om_Finalizers (ss_Meta y)) Finalizer))"
    if "finalizer_contract (env_Lib E)" "\<not> lib_ContainsFinalizer (env_Lib E) (om_Finalizers (ss_Meta x)) Finalizer"
    for E :: "'x env" and x
    using that unfolding reconcile_secret_sync_def SecretSync_reconcileDelete_def SecretSync_ensureFinalizer_def k_update_def Let_def
    by simp (intro conjI impI emits_rules; auto split: option.splits)
qed (simp_all add: sync_live_calm SecretSync_Reconcile_def)

interpretation helm_claiming: claiming_controller HelmRelease_Reconcile env_HelmReleases KHelmRelease
  ObjHelmRelease reconcile_helm_release "\<lambda>L x. lib_ContainsFinalizer L (om_Finalizers (hr_Meta x)) Finalizer"
proof unfold_locales
  show "emits (reconcile_helm_release E x) (\<lambda>out t. calm out \<or> snd out \<noteq> None
      \<or> (\<exists>y. t = [EvUpdate (ObjHelmRelease y) None] \<and> lib_ContainsFinalizer (env_Lib E) (om_Finalizers (hr_Meta y)) Finalizer))"
    if "finalizer_contract (env_Lib E)" "\<not> lib_ContainsFinalizer (env_Lib E) (om_Finalizers (hr_Meta x)) Finalizer"
    for E :: "'x env" and x
    using that unfolding reconcile_helm_release_def HelmRelease_reconcileDelete_def HelmRelease_ensureFinalizer_def k_update_def Let_def
    by simp (intro conjI impI emits_rules; auto split: option.splits)
qed (simp_all add: helm_live_calm HelmRelease_Reconcile_def)

section \<open>What a write causes\<close>

text \<open>
  The versions of the objects, as far as the API server ever stored them, are those with \<open>K\<close>; a
  version is known by its kind, its name and its resource version.
\<close>

definition unique_versions :: "(api_object \<Rightarrow> bool) \<Rightarrow> bool" where
  "unique_versions K \<longleftrightarrow> (\<forall>x y. K x \<and> K y \<and> same_version x y \<longrightarrow> x = y)"

definition same_generation :: "api_object \<Rightarrow> api_object \<Rightarrow> bool" where
  "same_generation x y \<longleftrightarrow> om_Generation (object_meta x) = om_Generation (object_meta y)"

definition same_deletion :: "api_object \<Rightarrow> api_object \<Rightarrow> bool" where
  "same_deletion x y \<longleftrightarrow> om_DeletionTimestamp (object_meta x) = om_DeletionTimestamp (object_meta y)"

text \<open>
  The change that the API server reports for a write of one of the operator's kinds, whatever the
  answer was.  A write takes effect on the version it names; it raises the generation only when it
  changes the specification; and it does not mark the object for deletion.  It may remove a marked
  object that lost its last finalizer.
\<close>

inductive echo :: "(api_object \<Rightarrow> bool) \<Rightarrow> event \<Rightarrow> change \<Rightarrow> bool" for K where
  status: "kind_of old = kind_of x \<Longrightarrow> kind_of new = kind_of x \<Longrightarrow> same_generation old new \<Longrightarrow> same_deletion old new
    \<Longrightarrow> echo K (EvStatusUpdate x r) (Updated old new)"
| update: "kind_of x \<noteq> KSecret \<Longrightarrow> K old \<Longrightarrow> same_version old x \<Longrightarrow> kind_of new = kind_of x
    \<Longrightarrow> (same_spec old x \<Longrightarrow> same_generation old new) \<Longrightarrow> same_deletion old new
    \<Longrightarrow> echo K (EvUpdate x r) (Updated old new)"
| gone: "kind_of x \<noteq> KSecret \<Longrightarrow> K old \<Longrightarrow> same_version old x \<Longrightarrow> echo K (EvUpdate x r) (Deleted old)"
| created: "kind_of x \<noteq> KSecret \<Longrightarrow> echo K (EvCreate x r) (Created new)"
| deleted: "kind_of x \<noteq> KSecret \<Longrightarrow> echo K (EvDelete x r) ch"

inductive_cases echo_updateE: "echo K (EvUpdate x r) ch"
inductive_cases echo_statusE: "echo K (EvStatusUpdate x r) ch"
inductive_cases echo_createE: "echo K (EvCreate x r) ch"
inductive_cases echo_deleteE: "echo K (EvDelete x r) ch"

lemma unfiltered:
  assumes "same_generation old new" and "same_deletion old new" and "kind_of old \<noteq> KSecret" and "kind_of new \<noteq> KSecret"
  shows "\<not> may_wake E (Updated old new) c req"
  using assms by (intro filtered_wakes_nobody) (auto simp: same_generation_def same_deletion_def)

text \<open>The operator's own writes wake nobody, except when they remove an object.\<close>

lemma own_write_wakes:
  assumes wrote: "own_write K e" and versions: "unique_versions K" and echo: "echo K e ch" and wake: "may_wake E ch c req"
  obtains old where "ch = Deleted old"
proof (cases e)
  case (EvUpdate x r)
  show ?thesis
  proof (rule echo_updateE [OF echo [unfolded EvUpdate]])
    fix old new
    assume ch: "ch = Updated old new" and x: "kind_of x \<noteq> KSecret" "K old" "same_version old x" "kind_of new = kind_of x"
      and gen: "same_spec old x \<Longrightarrow> same_generation old new" and del: "same_deletion old new"
    obtain y where y: "K y" "same_version y x" "same_spec y x"
      using wrote x(1) by (auto simp: EvUpdate from_stored_def)
    then have "same_version y old"
      using x(3) by (simp add: same_version_def)
    then have "y = old" using versions y(1) x(2) by (simp add: unique_versions_def)
    moreover have "kind_of old \<noteq> KSecret" using x(1,3) by (simp add: same_version_def)
    ultimately show thesis
      using unfiltered [OF gen del, of E c req] y(3) x(1,4) wake ch by simp
  qed (rule that)
next
  case (EvStatusUpdate x r)
  show ?thesis
    using echo wake wrote unfolding EvStatusUpdate
    by (auto elim!: echo_statusE dest: unfiltered)
qed (use echo wrote in \<open>auto elim: echo.cases\<close>)

section \<open>Chains of runs\<close>

text \<open>Whether the item that a run of a controller finds, if it finds one, has the finalizer.\<close>

definition finds :: "('o \<Rightarrow> bool) \<Rightarrow> (goerror + 'o) \<times> 'x \<Rightarrow> bool" where
  "finds P answer = (case fst answer of Inl err \<Rightarrow> True | Inr x \<Rightarrow> P x)"

definition has_current :: "klib \<Rightarrow> ObjectMeta \<Rightarrow> bool" where
  "has_current L m = lib_ContainsFinalizer L (om_Finalizers m) Finalizer"

fun finds_claimed :: "'x env \<Rightarrow> controller \<Rightarrow> NamespacedName \<Rightarrow> 'x \<Rightarrow> bool" where
  "finds_claimed E ClusterController req s =
     finds (\<lambda>x. has_finalizer (env_Lib E) (c_Meta x)) (api_Get (env_Clusters E) req s)"
| "finds_claimed E ConnectionController req s =
     finds (\<lambda>x. has_finalizer (env_Lib E) (on_Meta x)) (api_Get (env_Connections E) req s)"
| "finds_claimed E ExportController req s =
     finds (\<lambda>x. has_current (env_Lib E) (ke_Meta x)) (api_Get (env_KubeconfigExports E) req s)"
| "finds_claimed E SecretSyncController req s =
     finds (\<lambda>x. has_current (env_Lib E) (ss_Meta x)) (api_Get (env_SecretSyncs E) req s)"
| "finds_claimed E HelmReleaseController req s =
     finds (\<lambda>x. has_current (env_Lib E) (hr_Meta x)) (api_Get (env_HelmReleases E) req s)"
| "finds_claimed E c req s = True"

text \<open>The events of a run end with a write of the item with the finalizer, and it was not refused.\<close>

fun claim_event :: "klib \<Rightarrow> event \<Rightarrow> bool" where
  "claim_event L (EvUpdate (ObjCluster x) None) = has_finalizer L (c_Meta x)"
| "claim_event L (EvUpdate (ObjConnection x) None) = has_finalizer L (on_Meta x)"
| "claim_event L (EvUpdate (ObjKubeconfigExport x) None) = has_current L (ke_Meta x)"
| "claim_event L (EvUpdate (ObjSecretSync x) None) = has_current L (ss_Meta x)"
| "claim_event L (EvUpdate (ObjHelmRelease x) None) = has_current L (hr_Meta x)"
| "claim_event L e = False"

definition wrote_claim :: "klib \<Rightarrow> event list \<Rightarrow> bool" where
  "wrote_claim L t \<longleftrightarrow> t \<noteq> [] \<and> claim_event L (last t)"

lemma called_again_claims:
  assumes "finalizer_contract (env_Lib E)" and "run_state (reconciler E c req) w = (out, w')"
    and "trace w' = trace w @ t" and "\<not> calm out" and "snd out = None"
  shows "\<not> finds_claimed E c req (ext w) \<and> wrote_claim (env_Lib E) t"
proof (cases c)
  case ClusterController
  then show ?thesis using assms
    by (auto simp: finds_def wrote_claim_def elim!: cluster_claiming.called_again [rotated])
next
  case ConnectionController
  then show ?thesis using assms
    by (auto simp: finds_def wrote_claim_def elim!: connection_claiming.called_again [rotated])
next
  case ExportController
  then show ?thesis using assms
    by (auto simp: finds_def wrote_claim_def has_current_def elim!: export_claiming.called_again [rotated])
next
  case SecretSyncController
  then show ?thesis using assms
    by (auto simp: finds_def wrote_claim_def has_current_def elim!: sync_claiming.called_again [rotated])
next
  case HelmReleaseController
  then show ?thesis using assms
    by (auto simp: finds_def wrote_claim_def has_current_def elim!: helm_claiming.called_again [rotated])
qed (use assms(2,4) in \<open>auto dest: returns_run [OF child_calm(1)] returns_run [OF child_calm(2)] returns_run [OF child_calm(3)]\<close>)

text \<open>
  A run about to happen: the objects of the operator's kinds that are stored, the controller and
  its request, and whether the run follows one that has just claimed the item.
\<close>

type_synonym object_id = "api_kind \<times> NamespacedName"

record activity =
  ac_Stored :: "object_id fset"
  ac_Who :: controller
  ac_Request :: NamespacedName
  ac_Claimed :: bool

definition object_id :: "api_object \<Rightarrow> object_id" where
  "object_id x = (kind_of x, ObjectKeyFromMeta (object_meta x))"

text \<open>
  The run takes place, in some state of the world: it returns \<open>out\<close> and makes the calls \<open>t\<close>.  After
  a claim it finds the item claimed, or, with an older version of it, its writes are refused.
\<close>

definition takes_place :: "'x env \<Rightarrow> activity \<Rightarrow> Result \<times> goerror option \<Rightarrow> event list \<Rightarrow> bool" where
  "takes_place E a out t \<longleftrightarrow>
     (\<exists>w w'. run_state (reconciler E (ac_Who a) (ac_Request a)) w = (out, w') \<and> trace w' = trace w @ t
        \<and> (ac_Claimed a \<longrightarrow> finds_claimed E (ac_Who a) (ac_Request a) (ext w) \<or> \<not> wrote_claim (env_Lib E) t))"

text \<open>
  The next run in a chain: the same again when the run asked for it without an error, or one that a
  write of the run woke.  Nobody creates objects; what was removed is not stored any more.
\<close>

inductive causes :: "'x env \<Rightarrow> (api_object \<Rightarrow> bool) \<Rightarrow> activity \<Rightarrow> activity \<Rightarrow> bool" for E K where
  at_once: "takes_place E a out t \<Longrightarrow> snd out = None \<Longrightarrow> res_Requeue (fst out) \<Longrightarrow> S |\<subseteq>| ac_Stored a
    \<Longrightarrow> causes E K a (a\<lparr>ac_Stored := S, ac_Claimed := wrote_claim (env_Lib E) t\<rparr>)"
| changed: "takes_place E a out t \<Longrightarrow> e \<in> set t \<Longrightarrow> echo K e (Updated old new)
    \<Longrightarrow> may_wake E (Updated old new) c req \<Longrightarrow> S |\<subseteq>| ac_Stored a
    \<Longrightarrow> causes E K a \<lparr>ac_Stored = S, ac_Who = c, ac_Request = req, ac_Claimed = False\<rparr>"
| created: "takes_place E a out t \<Longrightarrow> e \<in> set t \<Longrightarrow> echo K e (Created x)
    \<Longrightarrow> may_wake E (Created x) c req \<Longrightarrow> S |\<subseteq>| finsert (object_id x) (ac_Stored a)
    \<Longrightarrow> causes E K a \<lparr>ac_Stored = S, ac_Who = c, ac_Request = req, ac_Claimed = False\<rparr>"
| removed: "takes_place E a out t \<Longrightarrow> e \<in> set t \<Longrightarrow> echo K e (Deleted x) \<Longrightarrow> object_id x |\<in>| ac_Stored a
    \<Longrightarrow> may_wake E (Deleted x) c req \<Longrightarrow> S |\<subseteq>| ac_Stored a |-| {|object_id x|}
    \<Longrightarrow> causes E K a \<lparr>ac_Stored = S, ac_Who = c, ac_Request = req, ac_Claimed = False\<rparr>"

definition activity_measure :: "activity \<Rightarrow> nat" where
  "activity_measure a = 2 * fcard (ac_Stored a) + (if ac_Claimed a then 0 else 1)"

lemma causes_decreases:
  assumes ok: "env_ok E" "server_answers K E" "env_SecretSync E = None" "env_Helm E = None" "unique_versions K"
    and "causes E K a b"
  shows "activity_measure b < activity_measure a"
proof -
  have own: "own_write K e" if "takes_place E a out t" "e \<in> set t" for out t e
  proof -
    from that(1) obtain w w' where "run_state (reconciler E (ac_Who a) (ac_Request a)) w = (out, w')" "trace w' = trace w @ t"
      by (auto simp: takes_place_def)
    then have "list_all (own_write K) t" by (rule every_run [OF operator_own [OF ok(1-4)]])
    with that(2) show ?thesis by (simp add: list_all_iff)
  qed
  have contract: "finalizer_contract (env_Lib E)" using ok(1) by (simp add: env_ok_def)
  show ?thesis
    using assms(6)
  proof cases
    case (at_once out t S)
    then obtain w w' where w: "run_state (reconciler E (ac_Who a) (ac_Request a)) w = (out, w')" "trace w' = trace w @ t"
        "ac_Claimed a \<longrightarrow> finds_claimed E (ac_Who a) (ac_Request a) (ext w) \<or> \<not> wrote_claim (env_Lib E) t"
      by (auto simp: takes_place_def)
    have "\<not> finds_claimed E (ac_Who a) (ac_Request a) (ext w)" "wrote_claim (env_Lib E) t"
      using called_again_claims [OF contract w(1,2)] at_once(3,4) by (simp_all add: calm_def)
    then show ?thesis
      using at_once(1,5) w(3) fcard_mono [of S "ac_Stored a"] by (auto simp: activity_measure_def)
  next
    case (changed out t e old new c req S)
    then show ?thesis
      using own_write_wakes [OF own [OF changed(2,3)] ok(5) changed(4,5)] by blast
  next
    case (created out t e x c req S)
    then show ?thesis
      using own_write_wakes [OF own [OF created(2,3)] ok(5) created(4,5)] by blast
  next
    case (removed out t e x c req S)
    have "fcard S \<le> fcard (ac_Stored a |-| {|object_id x|})" using removed(7) by (rule fcard_mono)
    also have "\<dots> < fcard (ac_Stored a)" using removed(5) by (metis fcard_fminus1_less)
    finally show ?thesis using removed(1) by (auto simp: activity_measure_def)
  qed
qed

text \<open>
  Claim C4.  The operator does not keep itself busy by requeues and by writes to its own kinds.  As
  long as nobody else changes anything, a chain of runs, each caused by the one before because that
  ended without an error and asked to be called again at once, or because one of its writes to an
  object of the operator's eight kinds woke a controller, is no longer than twice the number of
  stored objects of these kinds and one.  Three other causes of runs are not counted: writes of
  Secrets, by which a kubeconfig export can wake itself again and again, the repetition of failed
  runs by the queue, and requeues after a delay.  It is assumed that stored versions are told apart
  by their resource versions, that what is read was stored at some time, and that the run after a
  claim reads the item as claimed or fails to claim it again.
\<close>

theorem own_wake_ups_bounded:
  assumes "env_ok E" and "server_answers K E" and "env_SecretSync E = None" and "env_Helm E = None"
    and "unique_versions K" and "(causes E K ^^ n) a b"
  shows "n \<le> 2 * fcard (ac_Stored a) + 1"
proof -
  have "n + activity_measure b \<le> activity_measure a"
    using assms(6)
  proof (induction n arbitrary: b)
    case (Suc n)
    then obtain c where "(causes E K ^^ n) a c" "causes E K c b" by auto
    then show ?case using Suc.IH causes_decreases [OF assms(1-5)] by fastforce
  qed simp
  then show ?thesis by (auto simp: activity_measure_def split: if_splits)
qed

end
