(* ===== verification/Rejected_Kubeconfig.thy ===== *)
theory Rejected_Kubeconfig
  imports Settling
begin

text \<open>
  A kubeconfig that the workload cluster rejects is replaced at once, and the Secret that is written
  wakes the export again: while the cluster goes on rejecting, the runs do not settle.
\<close>

text \<open>A Secret was written whose annotations lead back to the export.\<close>

definition renews :: "OmniKubeconfigExport \<Rightarrow> event \<Rightarrow> bool" where
  "renews item e \<longleftrightarrow>
     (\<exists>s. (e = EvUpdate (ObjSecret s) None \<or> e = EvCreate (ObjSecret s) None)
        \<and> kubeconfigExportRequestsForSecret (Some (sec_Meta s)) = [ObjectKeyFromMeta (ke_Meta item)])"

lemma export_secret_wakes_owner:
  assumes "om_Name (ke_Meta item) \<noteq> []" and "om_Namespace (ke_Meta item) \<noteq> []"
  shows "kubeconfigExportRequestsForSecret (Some (sec_Meta (export_secret item existing name sh kc expires rotated))) =
    [ObjectKeyFromMeta (ke_Meta item)]"
  using assms merge_annotations_not_nil
  by (force simp: kubeconfigExportRequestsForSecret_def ObjectKeyFromMeta_def Let_def)

lemma secret_wakes_export:
  assumes "kubeconfigExportRequestsForSecret (Some (sec_Meta s)) = [key]"
  shows "may_wake E (Updated old (ObjSecret s)) ExportController key" "may_wake E (Created (ObjSecret s)) ExportController key"
proof -
  let ?W = "every_secret (\<lambda>E object. State_Monad.return (kubeconfigExportRequestsForSecret (Some object)))"
  have "?W \<in> set (watches_of ExportController)" "delivers ?W (Updated old (ObjSecret s))" "delivers ?W (Created (ObjSecret s))"
    "key \<in> set (fst (run_state (wt_Requests ?W E (ObjSecret s)) w))" for w
    using assms by (simp_all add: Export_SetupWithManager_def delivers_def every_secret_def)
  then show "may_wake E (Updated old (ObjSecret s)) ExportController key" "may_wake E (Created (ObjSecret s)) ExportController key"
    unfolding may_wake_def by fastforce+
qed

text \<open>A successful end of a run comes after such a write.\<close>

definition renewed :: "OmniKubeconfigExport \<Rightarrow> Result \<times> goerror option \<Rightarrow> event list \<Rightarrow> bool" where
  "renewed item out t \<longleftrightarrow> (snd out = None \<longrightarrow> list_ex (renews item) t)"

lemma renewed_after:
  assumes "emits m Q" and "\<And>a t. Q a t \<Longrightarrow> emits (k a) (renewed item)"
  shows "emits (State_Monad.bind m k) (renewed item)"
  by (rule emits_then [OF assms(1)], rule emits_mono [OF assms(2)]) (auto simp: renewed_def)

lemma emits_returns: "emits m Q \<Longrightarrow> returns P m \<Longrightarrow> emits m (\<lambda>a t. Q a t \<and> P a)"
  unfolding emits_def by (auto dest: returns_run)

fun early_failed :: "early + 'a \<Rightarrow> bool" where
  "early_failed (Inl out) = (snd out \<noteq> None)"
| "early_failed (Inr a) = True"

lemma generate_failed: "returns early_failed (generateKubeconfig E item cluster connection name)"
proof -
  have "returns early_failed (export_failed E item cluster connection err msg)" for err msg
    unfolding export_failed_def report_and_requeue_def
    by (rule returns_then [where Q = "\<lambda>out. snd out \<noteq> None"]; intro returns_rules; simp split: option.split)
  then show ?thesis
    unfolding generateKubeconfig_def Let_def by (intro returns_rules) simp_all
qed

lemma generated_renews:
  assumes "env_retry_ok E" and "condition_contract (env_Lib E)"
    and "om_Name (ke_Meta item) \<noteq> []" and "om_Namespace (ke_Meta item) \<noteq> []"
  shows "emits (export_generated E item cluster connection sh now existing kc) (renewed item)"
  unfolding export_generated_def Let_def k_create_def k_update_def report_and_requeue_def
  by (rule emits_bind, intro emits_if emits_call emits_case_option emits_return
      emits_then [OF updateKubeconfigExportStatus_emits [OF assms(1,2)]])
    (auto simp: renewed_def renews_def export_secret_wakes_owner [OF assms(3,4)])

lemma reusable_rejected:
  assumes "\<And>kc x. kubeconfigValidationRequiresRotation (fst (kubeconfigValidator E kc x))"
  shows "emits (case existing of None \<Rightarrow> State_Monad.return None
      | Some secret \<Rightarrow> reusableCurrentKubeconfigSecretState E secret key sh now rb) (\<lambda>r t. r = None)"
proof -
  have validation: "emits (call (kubeconfigValidator E kc) ev) (\<lambda>v t. kubeconfigValidationRequiresRotation v)" for kc ev
    unfolding emits_def call_def using assms by (auto split: prod.splits) (metis fst_conv)
  show ?thesis
    unfolding reusableCurrentKubeconfigSecretState_def
    by (intro emits_case_option emits_return emits_then [OF validation]) simp_all
qed

text \<open>
  Claim C36.  A rejected kubeconfig is renewed without end.  If the workload cluster rejects every
  kubeconfig that is tried, then every run for a valid export that gets as far as its target Secret
  and ends without an error has written that Secret anew, even when it was current, and the change
  wakes the same export again at once.
\<close>

theorem rejected_kubeconfig_wakes_itself:
  assumes "env_retry_ok E" and "condition_contract (env_Lib E)" and "kubeconfigExportSpecError item = None"
    and "om_Name (ke_Meta item) \<noteq> []" and "om_Namespace (ke_Meta item) \<noteq> []"
    and "\<And>kc x. kubeconfigValidationRequiresRotation (fst (kubeconfigValidator E kc x))"
  shows "emits (export_target E item cluster connection sh) (\<lambda>out t. if snd out = None
    then \<exists>s. (EvUpdate (ObjSecret s) None \<in> set t \<or> EvCreate (ObjSecret s) None \<in> set t)
      \<and> (\<forall>old. may_wake E (Updated old (ObjSecret s)) ExportController (ObjectKeyFromMeta (ke_Meta item)))
      \<and> may_wake E (Created (ObjSecret s)) ExportController (ObjectKeyFromMeta (ke_Meta item))
    else True)"
proof -
  have rejected: "emits (case existing of None \<Rightarrow> State_Monad.return None
      | Some secret \<Rightarrow> reusableCurrentKubeconfigSecretState E secret key sh now rb) (\<lambda>r t. r = None)" for existing key now rb
    by (rule reusable_rejected [OF assms(6)])
  note generate = emits_returns [OF generateKubeconfig_emits [OF assms(1-3)] generate_failed]
  have "emits (export_target E item cluster connection sh) (renewed item)"
    unfolding export_target_def
    by (intro renewed_after [OF export_now_emits] renewed_after [OF deletePreviousTargetSecret_emits]
        renewed_after [OF targetSecret_emits] renewed_after [OF rejected] renewed_after [OF generate]
        emits_case_option emits_case_sum generated_renews assms(1,2,4,5) emits_return)
      (simp_all add: renewed_def)
  then show ?thesis
    by (rule emits_mono) (auto simp: renewed_def list_ex_iff renews_def dest: secret_wakes_export)
qed

end
