(* ===== verification/System_Witnesses.thy ===== *)
theory System_Witnesses
  imports Cluster_System Helm_System Secret_Sync_System Status_Conditions Rejected_Kubeconfig Demo_Env
begin

text \<open>
  The systems of an item, its controller and everybody else, run: in each of them an item is
  created, the controller claims it, and then creates what it guards.  Then the other properties of
  several controllers together: statuses, chains of runs, rejected kubeconfigs.
\<close>

lemma reading_run_steps:
  "list_all (\<lambda>e. gu_Written G e = None) u \<Longrightarrow>
     run_steps G s u (s\<lparr>sy_External := fold (outside G) u (sy_External s)\<rparr>)"
proof (induction u rule: rev_induct)
  case Nil
  show ?case using run_steps.at_start [of G s] by simp
next
  case (snoc e u)
  let ?s = "s\<lparr>sy_External := fold (outside G) u (sy_External s)\<rparr>"
  have "event_step G ?s e (?s\<lparr>sy_External := outside G e (sy_External ?s)\<rparr>)"
    using snoc.prems by (intro event_step.no_write) simp
  with snoc show ?case by (auto dest: run_steps.event)
qed

text \<open>The item is created as \<open>c\<close> and claimed by the first event of a run, and stored as \<open>x'\<close>.\<close>

lemma claim_reachable:
  assumes "gu_Kept G c" "\<not> gu_Protected G c" "\<not> gu_Deleting G c"
    and "gu_Run G c (e # t)" "gu_Written G e = Some x" "gu_Version G x = gu_Version G c" "gu_Protected G x"
    and "gu_Kept G x'" "gu_Protected G x'" "\<not> gu_Deleting G x'" "gu_Version G x' \<noteq> gu_Version G c"
    and "\<not> gu_Acquires G e"
  shows "reachable G \<lparr>sy_Stored = Some x', sy_Seen = [c, x'], sy_External = False\<rparr>"
proof -
  let ?s = "\<lparr>sy_Stored = Some c, sy_Seen = [c], sy_External = False\<rparr>"
  have "other_step G sys_init (store_version c sys_init)"
    using assms(1-3) by (intro other_step.created) (simp_all add: sys_init_def stores_def)
  then have start: "reachable G ?s"
    using reachable.by_others [OF reachable.initially] by (simp add: store_version_def sys_init_def)
  have "event_step G ?s e (store_version x' (?s\<lparr>sy_External := outside G e (sy_External ?s)\<rparr>))"
    using assms by (intro event_step.wrote [of G e x]) (simp_all add: stores_def)
  then have "run_steps G ?s [e] \<lparr>sy_Stored = Some x', sy_Seen = [c, x'], sy_External = False\<rparr>"
    using run_steps.event [OF run_steps.at_start] assms(12) by (fastforce simp: store_version_def outside_def)
  then show ?thesis
    using reachable.by_run [OF start, of 0 "e # t" "[e]"] assms(4) by simp
qed

text \<open>A run, up to any of its events, on the item that was claimed.\<close>

lemma work_reachable:
  assumes "reachable G \<lparr>sy_Stored = Some x, sy_Seen = [c, x], sy_External = False\<rparr>"
    and "gu_Run G x t" and "prefix u t" and "list_all (\<lambda>e. gu_Written G e = None) u"
  shows "reachable G \<lparr>sy_Stored = Some x, sy_Seen = [x], sy_External = fold (outside G) u False\<rparr>"
  using reachable.by_run [OF assms(1), of 1 t u] reading_run_steps [OF assms(4)] assms(2,3) by fastforce

section \<open>Helm releases\<close>

text \<open>The release before it is claimed, and after.\<close>

definition new_release :: OmniHelmRelease where
  "new_release = demo_release\<lparr>hr_Meta := (hr_Meta demo_release)\<lparr>om_Finalizers := [], om_ResourceVersion := ''0''\<rparr>\<rparr>"

definition claimed_release :: OmniHelmRelease where
  "claimed_release = new_release\<lparr>hr_Meta := add_finalizer demo_klib (hr_Meta new_release)\<rparr>"

lemma demo_environments_ok:
  "env_ok (demo_env_over W cluster)" "helm_env_ok (demo_env_over W cluster)" "secret_sync_env_ok (demo_env_over W cluster)"
  by (simp_all add: env_ok_def helm_env_ok_def secret_sync_env_ok_def)

text \<open>The events of a run of the controller from the demo world.\<close>

abbreviation demo_events :: "(unit, 'a) action \<Rightarrow> event list" where
  "demo_events m \<equiv> trace (snd (run_state m demo_world))"

lemma demo_events_run: "runs_of m (demo_events m)"
  by (rule runs_of_trace) (simp add: demo_world_def)

lemma new_release_run:
  "demo_events (reconcile_helm_release (demo_env demo_cluster) new_release) = [EvUpdate (ObjHelmRelease claimed_release) None]"
  by code_simp

lemma new_release_facts:
  "ReleaseName new_release = ''ingress'' \<and> ReleaseNamespace new_release = ''web'' \<and> \<not> helm_orphaned new_release
   \<and> \<not> helm_deleting new_release \<and> \<not> lib_ContainsFinalizer demo_klib (om_Finalizers (hr_Meta new_release)) Finalizer
   \<and> om_ResourceVersion (hr_Meta new_release) = ''0''"
  by code_simp

lemma demo_release_facts:
  "ReleaseName demo_release = ''ingress'' \<and> ReleaseNamespace demo_release = ''web'' \<and> \<not> helm_orphaned demo_release
   \<and> \<not> helm_deleting demo_release \<and> lib_ContainsFinalizer demo_klib (om_Finalizers (hr_Meta demo_release)) Finalizer
   \<and> om_ResourceVersion (hr_Meta demo_release) = ''1''"
  by code_simp

lemma claimed_release_facts:
  "lib_ContainsFinalizer demo_klib (om_Finalizers (hr_Meta claimed_release)) Finalizer
   \<and> om_ResourceVersion (hr_Meta claimed_release) = ''0''"
  by code_simp

text \<open>The run that installs the release, up to its end.\<close>

definition leaves_release :: "event list \<Rightarrow> bool" where
  "leaves_release t \<longleftrightarrow>
     list_all (\<lambda>e. helm_written e = None \<and> through_configs {0} e) t
     \<and> fold (\<lambda>e b. if installs e \<or> upgrades e then True else if uninstalled_named ''ingress'' e then False else b) t False"

lemma install_events:
  "leaves_release (demo_events (reconcile_helm_release (demo_env demo_cluster) demo_release))"
  by code_simp

abbreviation installed_state :: "OmniHelmRelease sys" where
  "installed_state \<equiv> \<lparr>sy_Stored = Some demo_release, sy_Seen = [demo_release], sy_External = True\<rparr>"

lemma installed_reachable: "reachable (helm_system (demo_env demo_cluster) {0} ''web'' ''ingress'') installed_state"
proof -
  let ?E = "demo_env demo_cluster"
  let ?G = "helm_system ?E {0} ''web'' ''ingress''"
  have "gu_Run ?G new_release [EvUpdate (ObjHelmRelease claimed_release) None]"
    using demo_events_run [of "reconcile_helm_release ?E new_release"] new_release_run by simp
  then have "reachable ?G \<lparr>sy_Stored = Some demo_release, sy_Seen = [new_release, demo_release], sy_External = False\<rparr>"
    by (rule claim_reachable [rotated 3, where x = claimed_release])
      (simp_all add: new_release_facts demo_release_facts claimed_release_facts)
  moreover have "outside ?G = (\<lambda>e b. if installs e \<or> upgrades e then True else if uninstalled_named ''ingress'' e then False else b)"
    by (intro ext) (simp add: outside_def)
  ultimately show ?thesis
    using work_reachable [of ?G demo_release new_release "demo_events (reconcile_helm_release ?E demo_release)"]
      demo_events_run install_events by (fastforce simp: leaves_release_def list_all_iff)
qed

theorem helm_release_never_left_behind_witness:
  "sy_External installed_state \<and> helm_env_ok (demo_env demo_cluster)
   \<and> (case sy_Stored installed_state of
        None \<Rightarrow> \<not> sy_External installed_state
      | Some x \<Rightarrow> if sy_External installed_state
          then lib_ContainsFinalizer (env_Lib (demo_env demo_cluster)) (om_Finalizers (hr_Meta x)) Finalizer else True)"
  using helm_release_never_left_behind [OF demo_environments_ok(2) installed_reachable] demo_environments_ok(2) by simp


section \<open>Clusters\<close>

definition new_cluster :: OmniCluster where
  "new_cluster = demo_cluster\<lparr>c_Meta := (c_Meta demo_cluster)\<lparr>om_Finalizers := [], om_ResourceVersion := ''0''\<rparr>\<rparr>"

definition claimed_cluster :: OmniCluster where
  "claimed_cluster = new_cluster\<lparr>c_Meta := add_finalizer demo_klib (c_Meta new_cluster)\<rparr>"

lemma new_cluster_run:
  "demo_events (cluster_handler (demo_env demo_cluster) new_cluster) = [EvUpdate (ObjCluster claimed_cluster) None]"
  by code_simp

lemma quiet_endpoint:
  "cluster_quiet e \<Longrightarrow> calls_endpoint ep e" "cluster_status_write e \<Longrightarrow> calls_endpoint ep e"
  by (auto elim: cluster_quiet.elims cluster_status_write.elims)

text \<open>The run that sends the template: what it reads before, and the rest of it.\<close>

lemma demo_cluster_inputs:
  "run_state (templateInputs (demo_env demo_cluster) demo_cluster) w =
     (Inr (demo_inputs [demo_workers ''w1'']),
      w\<lparr>trace := trace w @ [EvList KControlPlane ''omni'' None, EvList KWorkers ''omni'' None, EvList KMachine ''omni'' None]\<rparr>)"
  by (simp add: templateInputs_def k_call_defs call_def demo_env_over_def fixed_api_def demo_inputs_def demo_cluster_def
      demo_control_plane_def demo_workers_def demo_machine_def demo_meta_def Let_def)

lemma demo_cluster_claimed:
  "has_finalizer demo_klib (c_Meta demo_cluster) \<and> \<not> cs_Suspend (c_Spec demo_cluster)
   \<and> Time_IsZero (om_DeletionTimestamp (c_Meta demo_cluster)) \<and> ClusterName demo_cluster = ''edge''
   \<and> \<not> cdp_Orphan (cs_DeletePolicy (c_Spec demo_cluster)) \<and> om_ResourceVersion (c_Meta demo_cluster) = ''1''"
  by code_simp

lemma demo_cluster_sync:
  "\<exists>ans rest. demo_events (cluster_handler (demo_env demo_cluster) demo_cluster) =
     [EvGet KConnection (connection_key demo_cluster) None, EvList KControlPlane ''omni'' None,
      EvList KWorkers ''omni'' None, EvList KMachine ''omni'' None] @ sync_event demo_cluster demo_connection demo_rendered ans # rest
     \<and> list_all (calls_endpoint ep) rest"
proof -
  let ?E = "demo_env demo_cluster"
  let ?pre = "[EvGet KConnection (connection_key demo_cluster) None, EvList KControlPlane ''omni'' None,
      EvList KWorkers ''omni'' None, EvList KMachine ''omni'' None]"
  let ?w = "\<lparr>ext = (), trace = ?pre\<rparr> :: (event, unit) world"
  have valid: "run_state (Validate ?E tmpl root) x = (None, x)" for tmpl root and x :: unit
    by (simp add: Validate_def OpenRoot_def closeRoot_def demo_env_over_def demo_sdk_def)
  have env: "env_Tmpl ?E = demo_tmpl"
    "api_Get (env_Connections ?E) key x = (Inr demo_connection, x)" for key and x :: unit
    by (simp_all add: demo_env_over_def fixed_api_def)
  have "run_state (cluster_handler ?E demo_cluster) demo_world
      = run_state (sync_cluster ?E demo_cluster demo_connection demo_rendered) ?w"
    by (simp add: cluster_handler_def reconcile_live_def reconcile_template_def demo_cluster_claimed env valid
        demo_cluster_inputs demo_render k_get_def call_def observe_def demo_world_def Let_def)
  moreover have "emits (sync_cluster ?E demo_cluster demo_connection demo_rendered)
      (\<lambda>out t. sync_run demo_cluster demo_connection demo_rendered t)"
    by (rule emits_mono [OF sync_cluster_emits]) simp_all
  ultimately obtain t where t: "demo_events (cluster_handler ?E demo_cluster) = ?pre @ t"
    and "sync_run demo_cluster demo_connection demo_rendered t"
    using emits_run [of "sync_cluster ?E demo_cluster demo_connection demo_rendered" _ ?w]
    by (metis (no_types, lifting) prod.collapse world.select_convs(2))
  then show ?thesis by (auto elim!: sync_run.cases list_all_weaken simp: quiet_endpoint)
qed

text \<open>The state in which the template was sent.\<close>

abbreviation synced_state :: "OmniCluster sys" where
  "synced_state \<equiv> \<lparr>sy_Stored = Some demo_cluster, sy_Seen = [demo_cluster], sy_External = True\<rparr>"

lemma new_cluster_facts:
  "ClusterName new_cluster = ''edge'' \<and> \<not> cdp_Orphan (cs_DeletePolicy (c_Spec new_cluster))
   \<and> Time_IsZero (om_DeletionTimestamp (c_Meta new_cluster)) \<and> \<not> has_finalizer demo_klib (c_Meta new_cluster)
   \<and> om_ResourceVersion (c_Meta new_cluster) = ''0''"
  "has_finalizer demo_klib (c_Meta claimed_cluster) \<and> om_ResourceVersion (c_Meta claimed_cluster) = ''0''"
  by code_simp+

lemma synced_reachable: "reachable (cluster_system (demo_env demo_cluster) ''https://omni'' ''edge'') synced_state"
proof -
  let ?E = "demo_env demo_cluster"
  let ?G = "cluster_system ?E ''https://omni'' ''edge''"
  obtain ans rest where run: "demo_events (cluster_handler ?E demo_cluster) =
     [EvGet KConnection (connection_key demo_cluster) None, EvList KControlPlane ''omni'' None,
      EvList KWorkers ''omni'' None, EvList KMachine ''omni'' None] @ sync_event demo_cluster demo_connection demo_rendered ans # rest"
    and "list_all (calls_endpoint ''https://omni'') rest"
    using demo_cluster_sync [of "''https://omni''"] by blast
  let ?u = "[EvGet KConnection (connection_key demo_cluster) None, EvList KControlPlane ''omni'' None,
      EvList KWorkers ''omni'' None, EvList KMachine ''omni'' None, sync_event demo_cluster demo_connection demo_rendered ans]"
  have "ons_Endpoint (on_Spec demo_connection) = ''https://omni''" by (simp add: demo_connection_def)
  then have work: "gu_Run ?G demo_cluster (demo_events (cluster_handler ?E demo_cluster))"
    using demo_events_run [of "cluster_handler ?E demo_cluster"] run \<open>list_all _ rest\<close> by simp
  have "gu_Run ?G new_cluster [EvUpdate (ObjCluster claimed_cluster) None]"
    using demo_events_run [of "cluster_handler ?E new_cluster"] new_cluster_run by simp
  then have start: "reachable ?G \<lparr>sy_Stored = Some demo_cluster, sy_Seen = [new_cluster, demo_cluster], sy_External = False\<rparr>"
    by (rule claim_reachable [rotated 3, where x = claimed_cluster])
      (simp_all add: new_cluster_facts demo_cluster_claimed)
  have "reachable ?G \<lparr>sy_Stored = Some demo_cluster, sy_Seen = [demo_cluster], sy_External = fold (outside ?G) ?u False\<rparr>"
    by (rule work_reachable [OF start work]) (simp_all add: run)
  then show ?thesis by (simp add: outside_def)
qed

theorem omni_cluster_never_left_behind_witness:
  "sy_External synced_state \<and> env_ok (demo_env demo_cluster)
   \<and> (case sy_Stored synced_state of
        None \<Rightarrow> \<not> sy_External synced_state
      | Some c \<Rightarrow> if sy_External synced_state then has_finalizer (env_Lib (demo_env demo_cluster)) (c_Meta c) else True)"
  using omni_cluster_never_left_behind [OF demo_environments_ok(1) synced_reachable] demo_environments_ok(1) by simp

section \<open>Secrets\<close>

text \<open>A sync into a workload cluster that stores what it is given, of an item that has not synced before.\<close>

definition store_demo :: "secret_map env" where
  "store_demo = demo_env_over store_workload demo_cluster"

definition kept_sync :: OmniSecretSync where
  "kept_sync = demo_sync\<lparr>ss_Spec := (ss_Spec demo_sync)\<lparr>sss_CreateNamespace := False\<rparr>,
     ss_Status := (ss_Status demo_sync)\<lparr>sst_TargetSecretRef := []\<rparr>\<rparr>"

definition new_sync :: OmniSecretSync where
  "new_sync = kept_sync\<lparr>ss_Meta := (ss_Meta kept_sync)\<lparr>om_Finalizers := [], om_ResourceVersion := ''0''\<rparr>\<rparr>"

definition claimed_sync :: OmniSecretSync where
  "claimed_sync = new_sync\<lparr>ss_Meta := add_finalizer demo_klib (ss_Meta new_sync)\<rparr>"

definition store_world :: "(event, secret_map) world" where
  "store_world = \<lparr>ext = Map.empty, trace = []\<rparr>"

lemma sync_facts:
  "sync_kept new_sync new_sync \<and> sync_kept new_sync kept_sync"
  "Time_IsZero (om_DeletionTimestamp (ss_Meta new_sync)) \<and> \<not> lib_ContainsFinalizer demo_klib (om_Finalizers (ss_Meta new_sync)) Finalizer
   \<and> om_ResourceVersion (ss_Meta new_sync) = ''0''"
  "lib_ContainsFinalizer demo_klib (om_Finalizers (ss_Meta claimed_sync)) Finalizer \<and> om_ResourceVersion (ss_Meta claimed_sync) = ''0''"
  "Time_IsZero (om_DeletionTimestamp (ss_Meta kept_sync)) \<and> lib_ContainsFinalizer demo_klib (om_Finalizers (ss_Meta kept_sync)) Finalizer
   \<and> om_ResourceVersion (ss_Meta kept_sync) = ''1'' \<and> secretSyncSpecError kept_sync = None"
  by code_simp+

text \<open>The status is written after the Secret, and nothing else happens.\<close>

lemma status_work_clientsets: "status_work e \<Longrightarrow> through_clientsets H e"
  by (auto elim: status_work.elims)

lemma store_demo_facts:
  "clientset store_demo kc = Inr 0" "env_Workload store_demo = store_workload" "env_SecretSync store_demo = None"
  "env_Lib store_demo = demo_klib" "env_retry_ok store_demo" "recorded_target kept_sync = None"
  "api_Get (env_Clusters store_demo) key x = (Inr demo_cluster, x)" "api_Get (env_Secrets store_demo) key x = (Inr demo_secret, x)"
  "secretReader_Get store_demo key x = (Inr demo_secret, x)" "env_Clientcmd store_demo = demo_clientcmd"
  by (simp_all add: store_demo_def clientset_def demo_env_over_def demo_clientcmd_def kept_sync_def recorded_target_def
      fixed_api_def secretReader_Get_def retry_steps_contract)

lemma store_demo_reads:
  "\<exists>key. run_state (syncCluster store_demo kept_sync) w = (Inr demo_cluster, w\<lparr>trace := trace w @ [EvGet KCluster key None]\<rparr>)"
  "\<exists>key. run_state (sourceSecret store_demo kept_sync) w = (Inr demo_secret, w\<lparr>trace := trace w @ [EvGet KSecret key None]\<rparr>)"
  "\<exists>key. run_state (syncKubeconfig store_demo kept_sync) w =
     (Inr (data_index (sec_Data demo_secret) (KubeconfigSecretKey kept_sync)), w\<lparr>trace := trace w @ [EvGet KSecret key None]\<rparr>)"
proof -
  have "data_index (sec_Data demo_secret) (KubeconfigSecretKey kept_sync) \<noteq> []" by code_simp
  then show "\<exists>key. run_state (syncKubeconfig store_demo kept_sync) w =
      (Inr (data_index (sec_Data demo_secret) (KubeconfigSecretKey kept_sync)), w\<lparr>trace := trace w @ [EvGet KSecret key None]\<rparr>)"
    by (cases w) (simp add: syncKubeconfig_def get_secret_def k_get_def call_def store_demo_facts demo_clientcmd_def Let_def)
qed (cases w, simp add: syncCluster_def sourceSecret_def get_secret_def k_get_def call_def store_demo_facts Let_def)+

lemma store_demo_client:
  assumes "ext w = Map.empty"
  shows "\<exists>res x get s. run_state (Client_Sync store_demo kept_sync demo_secret kc name) w =
    (Inr res, \<lparr>ext = x, trace = trace w @ [EvWorkload 0 (WGetSecret (target_key (TargetForItem kept_sync)) get), EvWorkload 0 (WCreateSecret s None)]\<rparr>)"
proof -
  have "\<not> sss_CreateNamespace (ss_Spec kept_sync)" by (simp add: kept_sync_def)
  then show ?thesis
    by (simp add: Client_Sync_def store_demo_facts sync_target_def SyncHash_def Let_def write_target_def w_call_defs call_def
        store_workload_def assms)
qed

lemma store_demo_sync:
  "\<exists>pre s rest. trace (snd (run_state (reconcile_secret_sync store_demo kept_sync) store_world)) =
       pre @ EvWorkload 0 (WCreateSecret s None) # rest
     \<and> list_all (through_clientsets {0}) pre \<and> list_all (through_clientsets {0}) rest
     \<and> list_all (\<lambda>e. \<not> object_write e) pre"
proof -
  let ?kc = "data_index (sec_Data demo_secret) (KubeconfigSecretKey kept_sync)" and ?name = "ClusterName demo_cluster"
  obtain k1 where 1: "run_state (syncCluster store_demo kept_sync) store_world
      = (Inr demo_cluster, store_world\<lparr>trace := [EvGet KCluster k1 None]\<rparr>)"
    using store_demo_reads(1) [of store_world] by (auto simp: store_world_def)
  obtain k2 where 2: "run_state (sourceSecret store_demo kept_sync) (store_world\<lparr>trace := [EvGet KCluster k1 None]\<rparr>)
      = (Inr demo_secret, store_world\<lparr>trace := [EvGet KCluster k1 None, EvGet KSecret k2 None]\<rparr>)"
    using store_demo_reads(2) [of "store_world\<lparr>trace := [EvGet KCluster k1 None]\<rparr>"] by auto
  obtain k3 where 3: "run_state (syncKubeconfig store_demo kept_sync) (store_world\<lparr>trace := [EvGet KCluster k1 None, EvGet KSecret k2 None]\<rparr>)
      = (Inr ?kc, store_world\<lparr>trace := [EvGet KCluster k1 None, EvGet KSecret k2 None, EvGet KSecret k3 None]\<rparr>)"
    using store_demo_reads(3) [of "store_world\<lparr>trace := [EvGet KCluster k1 None, EvGet KSecret k2 None]\<rparr>"] by auto
  let ?pre = "[EvGet KCluster k1 None, EvGet KSecret k2 None, EvGet KSecret k3 None]"
  obtain res x get s where 4: "run_state (Client_Sync store_demo kept_sync demo_secret ?kc ?name) (store_world\<lparr>trace := ?pre\<rparr>)
      = (Inr res, \<lparr>ext = x, trace = ?pre @ [EvWorkload 0 (WGetSecret (target_key (TargetForItem kept_sync)) get), EvWorkload 0 (WCreateSecret s None)]\<rparr>)"
    using store_demo_client [of "store_world\<lparr>trace := ?pre\<rparr>" ?kc ?name] by (auto simp: store_world_def)
  define m where "m = do {
     _ \<leftarrow> remark (EvSync kept_sync demo_secret ?kc ?name (Inr res));
     statusErr \<leftarrow> updateSecretSyncStatus store_demo kept_sync
       \<lparr>su_acceptedKnown = True, su_clusterExists = True, su_result = Some res, su_err = None, su_reason = [], su_message = []\<rparr>;
     State_Monad.return (case statusErr of
         Some e \<Rightarrow> (no_requeue, Some e)
       | None \<Rightarrow> (case Inr res of
           Inl e \<Rightarrow> (requeue_after secretSyncRetryInterval, Some e)
         | Inr res \<Rightarrow> (no_requeue, None))) }"
  let ?w = "\<lparr>ext = x, trace = ?pre @ [EvWorkload 0 (WGetSecret (target_key (TargetForItem kept_sync)) get), EvWorkload 0 (WCreateSecret s None)]\<rparr>"
  have previous: "deletePreviousSyncTarget store_demo kept_sync ?kc = State_Monad.return None"
    by (simp add: deletePreviousSyncTarget_def store_demo_facts)
  have "run_state (reconcile_secret_sync store_demo kept_sync) store_world = run_state m ?w"
    by (simp add: reconcile_secret_sync_def sync_facts secret_sync_claim.ensure_claimed store_demo_facts sync_with_def
        previous sync_now_def secretSync_Sync_def 1 2 3 4 m_def)
  moreover have "every (through_clientsets {0}) m"
    unfolding m_def
    by (intro every_rules sync_pieces_every(1) [OF store_demo_facts(5) status_work_clientsets]) simp_all
  then have "emits m (\<lambda>out t. list_all (through_clientsets {0}) t)" by (simp add: every_def)
  ultimately obtain t where "trace (snd (run_state (reconcile_secret_sync store_demo kept_sync) store_world)) = trace ?w @ t"
    "list_all (through_clientsets {0}) t"
    using emits_run [of m _ ?w] by (metis prod.collapse)
  then show ?thesis
    by (intro exI [of _ "?pre @ [EvWorkload 0 (WGetSecret (target_key (TargetForItem kept_sync)) get)]"] exI [of _ s] exI [of _ t]) simp
qed


abbreviation stored_state :: "OmniSecretSync sys" where
  "stored_state \<equiv> \<lparr>sy_Stored = Some kept_sync, sy_Seen = [kept_sync], sy_External = True\<rparr>"

lemma new_sync_run:
  "trace (snd (run_state (reconcile_secret_sync store_demo new_sync) store_world)) = [EvUpdate (ObjSecretSync claimed_sync) None]"
proof -
  have "api_Update (env_SecretSyncs store_demo) y x = (None, x)" for y x
    by (simp add: store_demo_def demo_env_over_def fixed_api_def)
  then show ?thesis
    by (simp add: reconcile_secret_sync_def SecretSync_ensureFinalizer_def sync_facts store_demo_facts k_update_def call_def
        store_world_def claimed_sync_def)
qed

lemma stored_reachable: "reachable (secret_sync_system store_demo {0} new_sync) stored_state"
proof -
  let ?G = "secret_sync_system store_demo {0} new_sync"
  let ?events = "\<lambda>item. trace (snd (run_state (reconcile_secret_sync store_demo item) store_world))"
  have runs: "runs_of (reconcile_secret_sync store_demo item) (?events item)" for item
    by (rule runs_of_trace) (simp add: store_world_def)
  obtain pre s rest where run: "?events kept_sync = pre @ EvWorkload 0 (WCreateSecret s None) # rest"
    and clientsets: "list_all (through_clientsets {0}) pre" "list_all (through_clientsets {0}) rest"
    and reads: "list_all (\<lambda>e. \<not> object_write e) pre"
    using store_demo_sync by blast
  have "gu_Run ?G new_sync [EvUpdate (ObjSecretSync claimed_sync) None]"
    using runs [of new_sync] new_sync_run by simp
  then have start: "reachable ?G \<lparr>sy_Stored = Some kept_sync, sy_Seen = [new_sync, kept_sync], sy_External = False\<rparr>"
    by (rule claim_reachable [rotated 3, where x = claimed_sync])
      (simp_all add: sync_facts store_demo_facts)
  have "reachable ?G \<lparr>sy_Stored = Some kept_sync, sy_Seen = [kept_sync],
      sy_External = fold (outside ?G) (pre @ [EvWorkload 0 (WCreateSecret s None)]) False\<rparr>"
  proof (rule work_reachable [OF start])
    show "gu_Run ?G kept_sync (?events kept_sync)" using runs [of kept_sync] clientsets by (simp add: run)
    show "prefix (pre @ [EvWorkload 0 (WCreateSecret s None)]) (?events kept_sync)" by (simp add: run)
    show "list_all (\<lambda>e. gu_Written ?G e = None) (pre @ [EvWorkload 0 (WCreateSecret s None)])"
      using reads by (auto simp: list_all_iff no_write_sync_written)
  qed
  then show ?thesis by (simp add: outside_def)
qed

theorem synced_secret_never_left_behind_witness:
  "sy_External stored_state \<and> secret_sync_env_ok store_demo
   \<and> (case sy_Stored stored_state of
        None \<Rightarrow> \<not> sy_External stored_state
      | Some x \<Rightarrow> if sy_External stored_state
          then lib_ContainsFinalizer (env_Lib store_demo) (om_Finalizers (ss_Meta x)) Finalizer else True)"
proof -
  have "secret_sync_env_ok store_demo"
    by (simp add: store_demo_def secret_sync_env_ok_def env_ok_def)
  then show ?thesis
    using synced_secret_never_left_behind [OF _ stored_reachable] by simp
qed

section \<open>Statuses\<close>

lemma fixed_answers [simp]: "answers_in K mk (fixed_api obj items) = K (mk obj)"
  by (simp add: answers_in_def fixed_api_def)

lemma demo_objects_ok: "server_answers object_ok (demo_env demo_cluster)"
proof -
  have objects: "list_all object_ok [ObjCluster demo_cluster, ObjConnection demo_connection,
      ObjControlPlane (accept_control_plane demo_klib True demo_time demo_control_plane),
      ObjWorkers (accept_workers demo_klib True demo_time (demo_workers ''w1'')),
      ObjMachine (accept_machine demo_klib True demo_time demo_machine),
      ObjKubeconfigExport demo_export, ObjSecretSync demo_sync, ObjHelmRelease demo_release]"
    by code_simp
  then show ?thesis by (simp add: server_answers_def demo_env_over_def)
qed

text \<open>The run of the release that installs it writes a status, and that is well typed.\<close>

definition status_writes :: "event list \<Rightarrow> api_object list" where
  "status_writes t = concat (map (\<lambda>e. case e of EvStatusUpdate x r \<Rightarrow> [x] | _ \<Rightarrow> []) t)"

lemma release_status_written:
  "status_writes (demo_events (HelmRelease_Reconcile (demo_env demo_cluster) demo_key)) \<noteq> []"
  by code_simp

theorem statuses_well_typed_witness:
  "every writes_ok_status (HelmRelease_Reconcile (demo_env demo_cluster) demo_key)
   \<and> every writes_ok_status (Cluster_Reconcile (demo_env demo_cluster) demo_key)
   \<and> status_writes (demo_events (HelmRelease_Reconcile (demo_env demo_cluster) demo_key)) \<noteq> []"
  using statuses_well_typed [OF demo_environments_ok(1) demo_objects_ok, of demo_key] release_status_written by simp

section \<open>Dependents\<close>

theorem owner_change_wakes_dependents_witness:
  "asks_in_order (demo_env demo_cluster) demo_world (ObjCluster demo_cluster) WorkersController
     {#\<lparr>nn_Namespace = ''omni'', nn_Name = ''w1''\<rparr>#}
   \<and> asks_in_order (demo_env demo_cluster) demo_world (ObjConnection demo_connection) ClusterController {#demo_key#}"
  using owner_change_wakes_dependents [of "demo_env demo_cluster" demo_cluster demo_world "[demo_control_plane]"
      "[demo_workers ''w1'']" "[demo_machine]" "[demo_sync]" "[demo_release]" "[demo_export]" demo_connection
      "[demo_cluster]" "()" "[demo_export]"]
  by (simp add: demo_env_over_def fixed_api_def demo_world_def demo_workers_def demo_connection_def demo_meta_def
      ObjectKeyFromMeta_def demo_cluster_def demo_key_def)

section \<open>Chains of runs\<close>

text \<open>The objects that the API server of the demo environment answers with.\<close>

definition demo_versions :: "api_object list" where
  "demo_versions = [ObjCluster new_cluster, ObjConnection demo_connection,
     ObjControlPlane (accept_control_plane demo_klib True demo_time demo_control_plane),
     ObjWorkers (accept_workers demo_klib True demo_time (demo_workers ''w1'')),
     ObjMachine (accept_machine demo_klib True demo_time demo_machine),
     ObjKubeconfigExport demo_export, ObjSecretSync demo_sync, ObjHelmRelease demo_release]"

lemma demo_versions_answer: "server_answers (\<lambda>x. x \<in> set demo_versions) (demo_env new_cluster)"
  by (simp add: server_answers_def demo_env_over_def demo_versions_def)

lemma demo_versions_unique: "unique_versions (\<lambda>x. x \<in> set demo_versions)"
  by (auto simp: unique_versions_def demo_versions_def same_version_def)

text \<open>The run that claims a new cluster, and the run that it asks for.\<close>

definition first_run :: activity where
  "first_run = \<lparr>ac_Stored = {|(KCluster, demo_key)|}, ac_Who = ClusterController, ac_Request = demo_key, ac_Claimed = False\<rparr>"

definition claim_run :: "bool" where
  "claim_run \<longleftrightarrow> (let r = run_state (Cluster_Reconcile (demo_env new_cluster) demo_key) demo_world in
     fst r = (requeue_now, None) \<and> wrote_claim demo_klib (trace (snd r)))"

lemma claim_run: claim_run
  by code_simp

lemma first_run_again:
  "causes (demo_env new_cluster) (\<lambda>x. x \<in> set demo_versions) first_run (first_run\<lparr>ac_Claimed := True\<rparr>)"
proof -
  let ?E = "demo_env new_cluster"
  let ?r = "run_state (Cluster_Reconcile ?E demo_key) demo_world"
  have "fst ?r = (requeue_now, None)" and claim: "wrote_claim demo_klib (trace (snd ?r))"
    using claim_run by (simp_all add: claim_run_def Let_def)
  then have "takes_place ?E first_run (requeue_now, None) (trace (snd ?r))"
    unfolding takes_place_def
    by (intro exI [of _ demo_world] exI [of _ "snd ?r"]) (auto simp: first_run_def demo_world_def prod_eq_iff)
  from causes.at_once [OF this, of "ac_Stored first_run"] claim show ?thesis
    by (simp add: requeue_now_def)
qed

theorem own_wake_ups_bounded_witness:
  "(causes (demo_env new_cluster) (\<lambda>x. x \<in> set demo_versions) ^^ 1) first_run (first_run\<lparr>ac_Claimed := True\<rparr>)
   \<and> \<not> (\<exists>a. (causes (demo_env new_cluster) (\<lambda>x. x \<in> set demo_versions) ^^ 4) first_run a)"
proof -
  have "4 \<le> 2 * fcard (ac_Stored first_run) + 1"
    if "(causes (demo_env new_cluster) (\<lambda>x. x \<in> set demo_versions) ^^ 4) first_run a" for a
    by (rule own_wake_ups_bounded [OF demo_environments_ok(1) demo_versions_answer _ _ demo_versions_unique that]) simp_all
  moreover have "fcard (ac_Stored first_run) = 1"
    by (simp add: first_run_def fcard_finsert_if)
  ultimately show ?thesis
    using first_run_again by fastforce
qed

section \<open>A rejected kubeconfig\<close>

text \<open>A workload cluster that rejects every kubeconfig, and a run that ends well all the same.\<close>

definition rejecting :: "unit env" where
  "rejecting = (demo_env demo_cluster)
     \<lparr>env_KubeconfigValidator := Some (\<lambda>kc x. (Some (StatusError Unauthorized ''unauthorized''), x))\<rparr>"

lemma rejecting_facts:
  "env_Retry rejecting = retry_steps 4" "env_Lib rejecting = demo_klib" "env_Now rejecting = (\<lambda>x. (demo_time, x))"
  "env_KubeconfigExports rejecting = fixed_api demo_export [demo_export]" "env_Clock rejecting = None"
  "env_Secrets rejecting = fixed_api demo_secret [demo_secret]" "env_SecretReader rejecting = None"
  "env_Omni rejecting = Some demo_omni" "env_Clientcmd rejecting = demo_clientcmd"
  "kubeconfigValidator rejecting kc x = (Some (StatusError Unauthorized ''unauthorized''), x)"
  by (simp_all add: rejecting_def demo_env_over_def kubeconfigValidator_def)

lemma rejecting_status:
  "fst (run_state (updateKubeconfigExportStatus rejecting demo_export input) w) = None"
  by (simp add: updateKubeconfigExportStatus_def write_status_def rejecting_facts status_attempt_def k_get_def
      k_status_update_def call_def fixed_api_def observe_def numeral_eq_Suc split: prod.split)

lemma rejecting_run:
  "snd (fst (run_state (export_target rejecting demo_export demo_cluster demo_connection ''h'') demo_world)) = None"
proof -
  have "TargetSecretKey demo_export = ''kubeconfig''"
    by code_simp
  then have "currentKubeconfigSecretState demo_secret (TargetSecretKey demo_export) ''h'' now rb = None" for now rb
    by (simp add: currentKubeconfigSecretState_def demo_secret_def data_index_def fmlookup_of_list)
  moreover have "kes_DeletionPolicy (ke_Spec demo_export) \<noteq> KubeconfigExportDeletionPolicyDelete"
    "kes_ContextNamespace (ke_Spec demo_export) = []"
    by code_simp+
  ultimately show ?thesis
    by (simp add: export_target_def export_now_def observe_def rejecting_facts deletePreviousTargetSecret_def
        targetSecret_def get_secret_def secretReader_Get_def k_get_def call_def fixed_api_def
        reusableCurrentKubeconfigSecretState_def generateKubeconfig_def omni_Kubeconfig_def omniClient_def demo_omni_def
        demo_clientcmd_def export_generated_def k_update_def report_and_requeue_def rejecting_status Let_def
        case_prod_beta)
qed

theorem rejected_kubeconfig_wakes_itself_witness:
  "snd (fst (run_state (export_target rejecting demo_export demo_cluster demo_connection ''h'') demo_world)) = None
   \<and> emits (export_target rejecting demo_export demo_cluster demo_connection ''h'') (\<lambda>out t. if snd out = None
    then \<exists>s. (EvUpdate (ObjSecret s) None \<in> set t \<or> EvCreate (ObjSecret s) None \<in> set t)
      \<and> (\<forall>old. may_wake rejecting (Updated old (ObjSecret s)) ExportController (ObjectKeyFromMeta (ke_Meta demo_export)))
      \<and> may_wake rejecting (Created (ObjSecret s)) ExportController (ObjectKeyFromMeta (ke_Meta demo_export))
    else True)"
proof (rule conjI [OF rejecting_run], rule rejected_kubeconfig_wakes_itself)
  show "kubeconfigExportSpecError demo_export = None" by code_simp
  show "om_Name (ke_Meta demo_export) \<noteq> []" "om_Namespace (ke_Meta demo_export) \<noteq> []" by code_simp+
  show "kubeconfigValidationRequiresRotation (fst (kubeconfigValidator rejecting kc x))" for kc x
    by (simp add: rejecting_facts kubeconfigValidationRequiresRotation_def)
qed (simp_all add: rejecting_facts retry_steps_contract demo_condition_contract)

end
