(* ===== verification/Workload_Progress.thy ===== *)
theory Workload_Progress
  imports Secret_Sync_Safety Helm_Safety
begin

text \<open>
  What a successful deletion of a secret sync or a Helm release means: when the handler reports
  success and does not ask to come back, the item is gone or was written without the finalizer.
\<close>

section \<open>Items that are let go\<close>

fun item_gone :: "api_kind \<Rightarrow> NamespacedName \<Rightarrow> event \<Rightarrow> bool" where
  "item_gone k key (EvGet k' key' (Some err)) = (k' = k \<and> key' = key \<and> IsNotFound err)"
| "item_gone k key e = False"

definition sync_let_go :: "klib \<Rightarrow> OmniSecretSync \<Rightarrow> event list \<Rightarrow> bool" where
  "sync_let_go L item t =
     list_ex (\<lambda>e. item_gone KSecretSync (ObjectKeyFromMeta (ss_Meta item)) e \<or> releases_sync L e) t"

definition helm_let_go :: "klib \<Rightarrow> OmniHelmRelease \<Rightarrow> event list \<Rightarrow> bool" where
  "helm_let_go L item t =
     list_ex (\<lambda>e. item_gone KHelmRelease (ObjectKeyFromMeta (hr_Meta item)) e \<or> releases_helm L e) t"

lemma let_go_events_append [simp]:
  "sync_let_go L item (s @ t) \<longleftrightarrow> sync_let_go L item s \<or> sync_let_go L item t"
  "helm_let_go L release (s @ t) \<longleftrightarrow> helm_let_go L release s \<or> helm_let_go L release t"
  by (simp_all add: sync_let_go_def helm_let_go_def)

lemma sync_release_progress:
  assumes "env_retry_ok E" and "finalizer_contract (env_Lib E)"
  shows "emits (SecretSync_removeFinalizer E item) (\<lambda>r t. r = None \<longrightarrow> sync_let_go (env_Lib E) item t)"
  by (rule emits_mono [OF secret_sync_release.release_emits [OF assms(1)]])
    (auto simp: secret_sync_release.let_go_def sync_let_go_def strip_finalizer_lacks [OF assms(2)])

lemma helm_release_progress:
  assumes "env_retry_ok E" and "finalizer_contract (env_Lib E)"
  shows "emits (HelmRelease_removeFinalizer E item) (\<lambda>r t. r = None \<longrightarrow> helm_let_go (env_Lib E) item t)"
  by (rule emits_mono [OF helm_release.release_emits [OF assms(1)]])
    (auto simp: helm_release.let_go_def helm_let_go_def strip_finalizer_lacks [OF assms(2)])

section \<open>Waiting is not success\<close>

abbreviation finished :: early where
  "finished \<equiv> (no_requeue, None)"

lemma waiting_not_finished [simp]:
  "requeue_after secretSyncRetryInterval \<noteq> no_requeue"
  "requeue_after helmReleaseRetryInterval \<noteq> no_requeue"
  by (simp_all add: requeue_after_def no_requeue_def secretSyncRetryInterval_def helmReleaseRetryInterval_def
      Minute_def Second_def)

lemma sync_wait_unfinished:
  assumes "env_retry_ok E" and "condition_contract (env_Lib E)"
  shows "emits (sync_wait E item input) (\<lambda>r t. r \<noteq> Inl finished)"
  unfolding sync_wait_def
  by (intro emits_then [OF updateSecretSyncStatus_emits [OF assms]] emits_return) simp

lemma syncKubeconfig_unfinished:
  assumes "env_retry_ok E" and "condition_contract (env_Lib E)"
  shows "emits (syncKubeconfig E item) (\<lambda>r t. r \<noteq> Inl finished)"
  unfolding syncKubeconfig_def get_secret_def Let_def
  by (intro emits_call_bind emits_case_sum emits_if emits_return sync_wait_unfinished [OF assms]) simp_all

lemma helmKubeconfig_unfinished:
  assumes "env_retry_ok E" and "condition_contract (env_Lib E)"
  shows "emits (helmKubeconfig E item) (\<lambda>r t. r \<noteq> Inl finished)"
proof -
  have wait: "emits (helm_wait E item input) (\<lambda>r t. r \<noteq> finished)" for input
    unfolding helm_wait_def
    by (intro emits_then [OF updateHelmReleaseStatus_emits [OF assms]] emits_return) simp
  show ?thesis
    unfolding helmKubeconfig_def get_secret_def Let_def
    by (intro emits_call_bind emits_case_sum emits_if emits_return emits_then [OF wait]) simp_all
qed

section \<open>Deletion\<close>

lemma sync_deletion_progress:
  assumes "env_retry_ok E" and "condition_contract (env_Lib E)" and "finalizer_contract (env_Lib E)"
    and "env_SecretSync E = None" and "lib_ContainsFinalizer (env_Lib E) (om_Finalizers (ss_Meta item)) Finalizer"
  shows "emits (SecretSync_reconcileDelete E item) (\<lambda>out t. out = finished \<longrightarrow> sync_let_go (env_Lib E) item t)"
proof -
  have release: "emits (State_Monad.bind (SecretSync_removeFinalizer E item) (\<lambda>err. State_Monad.return (no_requeue, err)))
      (\<lambda>out t. out = finished \<longrightarrow> sync_let_go (env_Lib E) item t)"
    by (intro emits_then [OF sync_release_progress [OF assms(1,3)]] emits_return) auto
  have failed: "emits (report_and_requeue (updateSecretSyncStatus E item input) secretSyncRetryInterval out)
      (\<lambda>out u. out \<noteq> finished)" for input out
    unfolding report_and_requeue_def
    by (intro emits_then [OF updateSecretSyncStatus_emits [OF assms(1,2)]] emits_return) (simp split: option.split)
  show ?thesis
    unfolding SecretSync_reconcileDelete_def Let_def
    using release assms(5)
    by (intro emits_if emits_then [OF syncKubeconfig_unfinished [OF assms(1,2)]] emits_case_sum emits_return
        emits_then [OF secretSync_Delete_emits [OF assms(4), where L = "env_Lib E" and item = item]] emits_case_option
        emits_mono [OF failed] emits_mono [OF release])
      auto
qed

lemma helm_deletion_progress:
  assumes "env_retry_ok E" and "condition_contract (env_Lib E)" and "finalizer_contract (env_Lib E)"
    and "env_Helm E = None" and "helm_deleting item"
    and "lib_ContainsFinalizer (env_Lib E) (om_Finalizers (hr_Meta item)) Finalizer"
  shows "emits (HelmRelease_reconcileDelete E item) (\<lambda>out t. out = finished \<longrightarrow> helm_let_go (env_Lib E) item t)"
proof -
  have release: "emits (State_Monad.bind (HelmRelease_removeFinalizer E item) (\<lambda>err. State_Monad.return (no_requeue, err)))
      (\<lambda>out t. out = finished \<longrightarrow> helm_let_go (env_Lib E) item t)"
    by (intro emits_then [OF helm_release_progress [OF assms(1,3)]] emits_return) auto
  show ?thesis
    unfolding HelmRelease_reconcileDelete_def Let_def helm_orphaned_def [symmetric]
    using release assms(6)
    by (intro emits_if emits_then [OF helmKubeconfig_unfinished [OF assms(1,2)]] emits_case_sum emits_return
        emits_then [OF helm_Uninstall_emits [OF assms(4,5)]] emits_then [OF updateHelmReleaseStatus_emits [OF assms(1,2)]]
        emits_case_option emits_mono [OF release])
      auto
qed

end
