(* ===== verification/Manager.thy ===== *)
theory Manager
  imports Effects K8s_Meta Go_Text
begin

text \<open>
  The manager process (\<^verbatim>\<open>cmd/main.go\<close>): the options it builds from the flags, the namespace it
  confines itself to, and the order in which it sets up the controllers, the webhooks and the
  checks before it starts.  Flag parsing and logging are left out: the flags come parsed.  The
  operating system and controller-runtime are parameters; \<^verbatim>\<open>os.Exit(1)\<close> and the end of \<^verbatim>\<open>main\<close> are the
  exit codes 1 and 0.
\<close>

section \<open>Flags and options\<close>

record flags =
  fl_metricsAddr :: string
  fl_metricsCertPath :: string
  fl_metricsCertName :: string
  fl_metricsCertKey :: string
  fl_webhookCertPath :: string
  fl_webhookCertName :: string
  fl_webhookCertKey :: string
  fl_enableLeaderElection :: bool
  fl_probeAddr :: string
  fl_secureMetrics :: bool
  fl_enableHTTP2 :: bool

definition default_flags :: flags where
  "default_flags =
     \<lparr>fl_metricsAddr = ''0'', fl_metricsCertPath = [], fl_metricsCertName = ''tls.crt'', fl_metricsCertKey = ''tls.key'',
      fl_webhookCertPath = [], fl_webhookCertName = ''tls.crt'', fl_webhookCertKey = ''tls.key'',
      fl_enableLeaderElection = False, fl_probeAddr = '':8081'', fl_secureMetrics = True, fl_enableHTTP2 = False\<rparr>"

text \<open>What the program sets of a \<^verbatim>\<open>tls.Config\<close>.\<close>

type_synonym NextProtos = "string list"

definition disableHTTP2 :: "NextProtos \<Rightarrow> NextProtos" where
  "disableHTTP2 c = [''http/1.1'']"

record CertOptions =
  co_CertDir :: string
  co_CertName :: string
  co_KeyName :: string

record WebhookOptions =
  wo_TLSOpts :: "(NextProtos \<Rightarrow> NextProtos) list"
  wo_Cert :: CertOptions

record MetricsOptions =
  mo_BindAddress :: string
  mo_SecureServing :: bool
  mo_TLSOpts :: "(NextProtos \<Rightarrow> NextProtos) list"
  mo_Authenticated :: bool
  mo_Cert :: CertOptions

record ManagerOptions =
  mgo_Metrics :: MetricsOptions
  mgo_Webhook :: WebhookOptions
  mgo_HealthProbeBindAddress :: string
  mgo_LeaderElection :: bool
  mgo_LeaderElectionID :: string
  mgo_DefaultNamespaces :: "string set"

definition cert_options :: "string \<Rightarrow> string \<Rightarrow> string \<Rightarrow> CertOptions" where
  "cert_options path name key =
     (if length path > 0 then \<lparr>co_CertDir = path, co_CertName = name, co_KeyName = key\<rparr>
      else \<lparr>co_CertDir = [], co_CertName = [], co_KeyName = []\<rparr>)"

definition tlsOpts :: "flags \<Rightarrow> (NextProtos \<Rightarrow> NextProtos) list" where
  "tlsOpts f = (if \<not> fl_enableHTTP2 f then [disableHTTP2] else [])"

definition webhookServerOptions :: "flags \<Rightarrow> WebhookOptions" where
  "webhookServerOptions f =
     \<lparr>wo_TLSOpts = tlsOpts f,
      wo_Cert = cert_options (fl_webhookCertPath f) (fl_webhookCertName f) (fl_webhookCertKey f)\<rparr>"

definition metricsServerOptions :: "flags \<Rightarrow> MetricsOptions" where
  "metricsServerOptions f =
     \<lparr>mo_BindAddress = fl_metricsAddr f, mo_SecureServing = fl_secureMetrics f, mo_TLSOpts = tlsOpts f,
      mo_Authenticated = fl_secureMetrics f,
      mo_Cert = cert_options (fl_metricsCertPath f) (fl_metricsCertName f) (fl_metricsCertKey f)\<rparr>"

definition managerOptions :: "flags \<Rightarrow> string \<Rightarrow> ManagerOptions" where
  "managerOptions f watchNamespace =
     \<lparr>mgo_Metrics = metricsServerOptions f, mgo_Webhook = webhookServerOptions f,
      mgo_HealthProbeBindAddress = fl_probeAddr f, mgo_LeaderElection = fl_enableLeaderElection f,
      mgo_LeaderElectionID = ''5dc6398d.texashpc.com'', mgo_DefaultNamespaces = {watchNamespace}\<rparr>"

section \<open>The process\<close>

record 'x process =
  pr_Getenv :: "string \<Rightarrow> 'x \<Rightarrow> string \<times> 'x"
  pr_ReadFile :: "string \<Rightarrow> 'x \<Rightarrow> (goerror + string) \<times> 'x"
  pr_GetConfig :: "'x \<Rightarrow> (goerror + nat) \<times> 'x"
  pr_NewManager :: "nat \<Rightarrow> ManagerOptions \<Rightarrow> 'x \<Rightarrow> goerror option \<times> 'x"
  pr_SetupController :: "string \<Rightarrow> 'x \<Rightarrow> goerror option \<times> 'x"
  pr_SetupWebhook :: "string \<Rightarrow> 'x \<Rightarrow> goerror option \<times> 'x"
  pr_AddCheck :: "string \<Rightarrow> 'x \<Rightarrow> goerror option \<times> 'x"
  pr_Start :: "'x \<Rightarrow> goerror option \<times> 'x"

datatype startup_event =
    NewManager ManagerOptions "goerror option"
  | SetupController string "goerror option"
  | SetupWebhook string "goerror option"
  | AddCheck string "goerror option"
  | Start "goerror option"

type_synonym ('x, 'a) startup = "(startup_event, 'x, 'a) act"

definition serviceAccountNamespacePath :: string where
  "serviceAccountNamespacePath = ''/var/run/secrets/kubernetes.io/serviceaccount/namespace''"

definition managerNamespace :: "'x process \<Rightarrow> ('x, goerror + string) startup" where
  "managerNamespace P = do {
     namespace \<leftarrow> observe (pr_Getenv P ''POD_NAMESPACE'');
     if TrimSpace namespace \<noteq> [] then State_Monad.return (Inr (TrimSpace namespace))
     else do {
       contents \<leftarrow> observe (pr_ReadFile P serviceAccountNamespacePath);
       State_Monad.return
         (if (case contents of Inl err \<Rightarrow> False | Inr text \<Rightarrow> TrimSpace text \<noteq> [])
          then Inr (TrimSpace (case contents of Inl err \<Rightarrow> [] | Inr text \<Rightarrow> text))
          else Inl (ErrorString (''POD_NAMESPACE is required when '' @ serviceAccountNamespacePath @ '' is unavailable''))) } }"

text \<open>A step that ends the process when it fails, and a list of them.\<close>

definition or_exit :: "('x, goerror option) startup \<Rightarrow> ('x, int) startup \<Rightarrow> ('x, int) startup" where
  "or_exit step rest = do {
     err \<leftarrow> step;
     (case err of Some e \<Rightarrow> State_Monad.return 1 | None \<Rightarrow> rest) }"

primrec each_or_exit ::
  "(string \<Rightarrow> ('x, goerror option) startup) \<Rightarrow> string list \<Rightarrow> ('x, int) startup \<Rightarrow> ('x, int) startup" where
  "each_or_exit step [] rest = rest"
| "each_or_exit step (name # names) rest = or_exit (step name) (each_or_exit step names rest)"

definition controllers :: "string list" where
  "controllers =
     [''omnicluster'', ''omniconnection'', ''omnicontrolplane'', ''omniworkers'', ''omnimachine'', ''omnikubeconfigexport'',
      ''omnihelmrelease'', ''omnisecretsync'']"

definition webhooks :: "string list" where
  "webhooks =
     [''OmniCluster'', ''OmniConnection'', ''OmniControlPlane'', ''OmniHelmRelease'', ''OmniKubeconfigExport'',
      ''OmniMachine'', ''OmniSecretSync'', ''OmniWorkers'']"

definition start_manager :: "'x process \<Rightarrow> ('x, int) startup" where
  "start_manager P =
     each_or_exit (\<lambda>name. call (pr_AddCheck P name) (AddCheck name)) [''healthz'', ''readyz'']
       (or_exit (call (pr_Start P) Start) (State_Monad.return 0))"

definition setup_webhooks :: "'x process \<Rightarrow> string \<Rightarrow> ('x, int) startup" where
  "setup_webhooks P enabled =
     (if enabled \<noteq> ''false''
      then each_or_exit (\<lambda>name. call (pr_SetupWebhook P name) (SetupWebhook name)) webhooks (start_manager P)
      else start_manager P)"

definition setup_controllers :: "'x process \<Rightarrow> ('x, int) startup" where
  "setup_controllers P =
     each_or_exit (\<lambda>name. call (pr_SetupController P name) (SetupController name)) controllers
       (do {
          enabled \<leftarrow> observe (pr_Getenv P ''ENABLE_WEBHOOKS'');
          setup_webhooks P enabled })"

definition manager_main :: "'x process \<Rightarrow> flags \<Rightarrow> ('x, int) startup" where
  "manager_main P f = do {
     watchNamespace \<leftarrow> managerNamespace P;
     (case watchNamespace of
        Inl err \<Rightarrow> State_Monad.return 1
      | Inr namespace \<Rightarrow> do {
          config \<leftarrow> observe (pr_GetConfig P);
          (case config of
             Inl err \<Rightarrow> State_Monad.return 1
           | Inr cfg \<Rightarrow>
               or_exit (call (pr_NewManager P cfg (managerOptions f namespace)) (NewManager (managerOptions f namespace)))
                 (setup_controllers P)) }) }"

section \<open>The order of the steps\<close>

text \<open>Steps that all succeed, or stop at the first that fails.\<close>

definition steps_then ::
  "(string \<Rightarrow> goerror option \<Rightarrow> startup_event) \<Rightarrow> string list \<Rightarrow> (int \<Rightarrow> startup_event list \<Rightarrow> bool)
     \<Rightarrow> int \<Rightarrow> startup_event list \<Rightarrow> bool" where
  "steps_then ev names Q code t \<longleftrightarrow>
     (\<exists>done' name rest e. names = done' @ name # rest \<and> code = 1
        \<and> t = map (\<lambda>n. ev n None) done' @ [ev name (Some e)])
     \<or> (\<exists>u. t = map (\<lambda>n. ev n None) names @ u \<and> Q code u)"

lemma emits_each_or_exit:
  assumes "emits rest Q"
  shows "emits (each_or_exit (\<lambda>name. call (f name) (ev name)) names rest) (steps_then ev names Q)"
proof (induction names)
  case Nil
  show ?case by (simp, rule emits_mono [OF assms]) (simp add: steps_then_def)
next
  case (Cons name names)
  have failed: "steps_then ev (name # names) Q 1 [ev name (Some e)]" for e
    unfolding steps_then_def by (rule disjI1, rule exI [of _ "[]"]) auto
  have went_on: "steps_then ev (name # names) Q code (ev name None # t)" if "steps_then ev names Q code t" for code t
    using that unfolding steps_then_def
  proof (elim disjE exE conjE)
    fix done' n rest e
    assume "names = done' @ n # rest" "code = 1" "t = map (\<lambda>n. ev n None) done' @ [ev n (Some e)]"
    then show "(\<exists>done' n rest e. name # names = done' @ n # rest \<and> code = 1
        \<and> ev name None # t = map (\<lambda>n. ev n None) done' @ [ev n (Some e)])
      \<or> (\<exists>u. ev name None # t = map (\<lambda>n. ev n None) (name # names) @ u \<and> Q code u)"
      by (intro disjI1 exI [of _ "name # done'"]) auto
  qed auto
  show ?case
    by (simp add: or_exit_def, intro emits_call_bind emits_case_option emits_return emits_mono [OF Cons.IH])
      (auto intro: failed went_on)
qed

text \<open>The events of a startup in which every step succeeds, up to the start.\<close>

definition startup_steps :: "ManagerOptions \<Rightarrow> bool \<Rightarrow> startup_event list" where
  "startup_steps opts with_webhooks =
     [NewManager opts None] @ map (\<lambda>n. SetupController n None) controllers
     @ (if with_webhooks then map (\<lambda>n. SetupWebhook n None) webhooks else [])
     @ [AddCheck ''healthz'' None, AddCheck ''readyz'' None]"

fun is_start :: "startup_event \<Rightarrow> bool" where
  "is_start (Start r) = True"
| "is_start e = False"

text \<open>A piece of the startup: it ends in a start with the steps before it, or fails without one.\<close>

definition started :: "startup_event list set \<Rightarrow> int \<Rightarrow> startup_event list \<Rightarrow> bool" where
  "started steps code t \<longleftrightarrow>
     (\<exists>s \<in> steps. \<exists>r. t = s @ [Start r] \<and> code = (if r = None then 0 else 1))
     \<or> (code = 1 \<and> list_all (\<lambda>e. \<not> is_start e) t)"

lemma started_append:
  assumes "started steps code u" and "list_all (\<lambda>e. \<not> is_start e) v"
  shows "started ((\<lambda>s. v @ s) ` steps) code (v @ u)"
  using assms(1) unfolding started_def
proof (elim disjE bexE exE conjE)
  fix s r assume "s \<in> steps" "u = s @ [Start r]" "code = (if r = None then 0 else 1)"
  then show "(\<exists>s \<in> (\<lambda>s. v @ s) ` steps. \<exists>r. v @ u = s @ [Start r] \<and> code = (if r = None then 0 else 1))
    \<or> code = 1 \<and> list_all (\<lambda>e. \<not> is_start e) (v @ u)"
    by (intro disjI1 bexI [of _ "v @ s"] exI [of _ r]) auto
qed (simp add: assms(2))

lemma started_after:
  assumes "steps_then ev names (started steps) code t" and "\<And>n r. \<not> is_start (ev n r)"
  shows "started ((\<lambda>s. map (\<lambda>n. ev n None) names @ s) ` steps) code t"
  using assms(1) unfolding steps_then_def
proof (elim disjE exE conjE)
  fix done' name rest e
  assume "code = 1" "t = map (\<lambda>n. ev n None) done' @ [ev name (Some e)]"
  then show ?thesis by (simp add: started_def list_all_iff assms(2))
next
  fix u assume "t = map (\<lambda>n. ev n None) names @ u" "started steps code u"
  then show ?thesis using started_append assms(2) by (auto simp: list_all_iff)
qed

lemma started_cons: "started steps code t \<Longrightarrow> \<not> is_start e \<Longrightarrow> started ((\<lambda>s. [e] @ s) ` steps) code ([e] @ t)"
  by (rule started_append) simp_all

lemma started_mono: "started steps code t \<Longrightarrow> steps \<subseteq> wider \<Longrightarrow> started wider code t"
  unfolding started_def by blast

lemma emits_steps:
  assumes "emits rest (started steps)" and "\<And>n r. \<not> is_start (ev n r)"
    and "(\<lambda>s. map (\<lambda>n. ev n None) names @ s) ` steps \<subseteq> wider"
  shows "emits (each_or_exit (\<lambda>name. call (f name) (ev name)) names rest) (started wider)"
  by (rule emits_mono [OF emits_each_or_exit [OF assms(1)]])
    (rule started_mono [OF _ assms(3)], erule started_after, rule assms(2))

definition checks_done :: "startup_event list" where
  "checks_done = [AddCheck ''healthz'' None, AddCheck ''readyz'' None]"

lemma start_manager_emits: "emits (start_manager P) (started {checks_done})"
proof -
  have "emits (or_exit (call (pr_Start P) Start) (State_Monad.return 0)) (started {[]})"
    unfolding or_exit_def by (intro emits_call_bind emits_case_option emits_return) (auto simp: started_def)
  then show ?thesis
    unfolding start_manager_def by (rule emits_steps) (auto simp: checks_done_def)
qed

lemma setup_webhooks_emits:
  "emits (setup_webhooks P enabled) (started {map (\<lambda>n. SetupWebhook n None) webhooks @ checks_done, checks_done})"
  unfolding setup_webhooks_def
  by (intro emits_if emits_steps [OF start_manager_emits] emits_mono [OF start_manager_emits])
    (auto elim: started_mono)

lemma setup_controllers_emits:
  "emits (setup_controllers P) (started ((\<lambda>s. map (\<lambda>n. SetupController n None) controllers @ s) `
     {map (\<lambda>n. SetupWebhook n None) webhooks @ checks_done, checks_done}))"
  unfolding setup_controllers_def
  by (rule emits_steps, rule emits_observe_bind, rule setup_webhooks_emits) simp_all

text \<open>A name that is not blank and has no space around it.\<close>

definition trimmed_name :: "string \<Rightarrow> bool" where
  "trimmed_name ns \<longleftrightarrow> \<not> blank ns \<and> TrimSpace ns = ns"

lemma managerNamespace_emits:
  "emits (managerNamespace P) (\<lambda>r t. t = [] \<and> (\<forall>ns. r = Inr ns \<longrightarrow> trimmed_name ns))"
  unfolding managerNamespace_def
  by (intro emits_observe_bind emits_if emits_return)
    (auto simp: trimmed_name_def trimmed_not_blank split: if_splits sum.splits)

lemma startup_steps_eq:
  "startup_steps opts b = NewManager opts None # map (\<lambda>n. SetupController n None) controllers
     @ (if b then map (\<lambda>n. SetupWebhook n None) webhooks @ checks_done else checks_done)"
  by (simp add: startup_steps_def checks_done_def)

lemma manager_main_emits:
  "emits (manager_main P f) (\<lambda>code t. started {startup_steps (managerOptions f ns) b | ns b. trimmed_name ns} code t)"
proof -
  have failed: "started S 1 []" for S by (simp add: started_def)
  have no_manager: "started S 1 [NewManager opts (Some e)]" for S opts e by (simp add: started_def)
  have "started {startup_steps (managerOptions f ns) b | ns b. trimmed_name ns} code (NewManager (managerOptions f ns) None # t)"
    if "trimmed_name ns" and "started ((\<lambda>s. map (\<lambda>n. SetupController n None) controllers @ s) `
      {map (\<lambda>n. SetupWebhook n None) webhooks @ checks_done, checks_done}) code t" for ns code t
  proof -
    have "started ((#) (NewManager (managerOptions f ns) None) ` (\<lambda>s. map (\<lambda>n. SetupController n None) controllers @ s) `
      {map (\<lambda>n. SetupWebhook n None) webhooks @ checks_done, checks_done}) code (NewManager (managerOptions f ns) None # t)"
      using started_cons [OF that(2), of "NewManager (managerOptions f ns) None"] by simp
    moreover have "startup_steps (managerOptions f ns) b \<in> {startup_steps (managerOptions f ns) b | ns b. trimmed_name ns}" for b
      using that(1) by blast
    from this [of True] this [of False]
    have "(#) (NewManager (managerOptions f ns) None) ` (\<lambda>s. map (\<lambda>n. SetupController n None) controllers @ s) `
        {map (\<lambda>n. SetupWebhook n None) webhooks @ checks_done, checks_done}
      \<subseteq> {startup_steps (managerOptions f ns) b | ns b. trimmed_name ns}"
      by (simp add: startup_steps_eq)
    ultimately show ?thesis by (rule started_mono)
  qed
  then show ?thesis
    unfolding manager_main_def or_exit_def
    by (intro emits_then [OF managerNamespace_emits] emits_case_sum emits_observe_bind emits_call_bind emits_case_option
        emits_return emits_mono [OF setup_controllers_emits])
      (auto intro: failed no_manager)
qed

text \<open>
  Claim C26.  The manager starts only when it is complete: a run that ends well, or that starts the
  manager at all, has created it confined to one namespace, whose name is not blank and has no
  space around it, has set up all eight controllers, then all eight webhooks or none, then both
  checks, each without an error and in this order; anything that fails before ends the process
  with code 1 and without a start.
\<close>

theorem manager_starts_complete:
  "emits (manager_main P f) (\<lambda>code t.
     (\<exists>ns b r. t = startup_steps (managerOptions f ns) b @ [Start r] \<and> \<not> blank ns \<and> TrimSpace ns = ns
        \<and> mgo_DefaultNamespaces (managerOptions f ns) = {ns} \<and> code = (if r = None then 0 else 1))
     \<or> (code = 1 \<and> list_all (\<lambda>e. \<not> is_start e) t))"
proof (rule emits_mono [OF manager_main_emits])
  fix code t assume "started {startup_steps (managerOptions f ns) b | ns b. trimmed_name ns} code t"
  then consider ns b r where "trimmed_name ns" "t = startup_steps (managerOptions f ns) b @ [Start r]" "code = (if r = None then 0 else 1)"
    | "code = 1 \<and> list_all (\<lambda>e. \<not> is_start e) t"
    unfolding started_def by blast
  then show "(\<exists>ns b r. t = startup_steps (managerOptions f ns) b @ [Start r] \<and> \<not> blank ns \<and> TrimSpace ns = ns
        \<and> mgo_DefaultNamespaces (managerOptions f ns) = {ns} \<and> code = (if r = None then 0 else 1))
     \<or> (code = 1 \<and> list_all (\<lambda>e. \<not> is_start e) t)"
    by cases (auto simp: managerOptions_def trimmed_name_def)
qed

end
