(* ===== verification/Go_Store.thy ===== *)
theory Go_Store
  imports Main "HOL-Library.Finite_Map"
begin

text \<open>
  Go's memory, as far as copying needs it: the rest of the development works on values, which is
  right as long as no two of them share memory.  Here pointers, slices and maps are references to
  cells of a store, so that sharing can be stated, and what a deep copy has to do is said for each
  type: the copy reads like the original, and shares no cell with anything that was there before.

  The rules of \<open>deep_copier\<close> follow the statements that \<^verbatim>\<open>controller-gen\<close> writes for a field.
\<close>

section \<open>Values and the store\<close>

text \<open>
  A scalar is a string, a number or a flag; a nil pointer, slice or map is \<open>GNil\<close>; a slice is a
  part of an array, given by its first index and its length; a struct is the list of its fields.
\<close>

datatype gval =
    GText string
  | GNum int
  | GFlag bool
  | GNil
  | GRef nat
  | GSlice nat nat nat
  | GStruct "(string \<times> gval) list"

datatype gcell =
    GVar gval
  | GArray "gval list"
  | GMap "(string, string) fmap"

record gstore =
  gs_cells :: "nat \<Rightarrow> gcell option"
  gs_next :: nat

definition alloc :: "gcell \<Rightarrow> gstore \<Rightarrow> nat \<times> gstore" where
  "alloc c s = (gs_next s, s\<lparr>gs_cells := (gs_cells s)(gs_next s \<mapsto> c), gs_next := Suc (gs_next s)\<rparr>)"

definition store_ok :: "gstore \<Rightarrow> bool" where
  "store_ok s \<longleftrightarrow> (\<forall>a. gs_cells s a \<noteq> None \<longrightarrow> a < gs_next s)"

text \<open>A store that has grown has new cells, and all the old ones as they were.\<close>

definition grows :: "gstore \<Rightarrow> gstore \<Rightarrow> bool" where
  "grows s s' \<longleftrightarrow> gs_next s \<le> gs_next s' \<and> (\<forall>a < gs_next s. gs_cells s' a = gs_cells s a)"

lemma grows_refl [simp]: "grows s s"
  by (simp add: grows_def)

lemma grows_trans: "grows s s' \<Longrightarrow> grows s' s'' \<Longrightarrow> grows s s''"
  by (auto simp: grows_def)

lemma alloc_facts:
  assumes "store_ok s" and "alloc c s = (a, s')"
  shows "store_ok s'" "grows s s'" "gs_cells s' a = Some c" "a = gs_next s"
  using assms by (auto simp: alloc_def store_ok_def grows_def less_Suc_eq)

section \<open>Types\<close>

datatype gty =
    TScalar
  | TPtr gty
  | TSlice gty
  | TMap
  | TStruct "(string \<times> gty) list"

text \<open>The value of a field, and the elements of a slice.\<close>

definition field :: "(string \<times> gval) list \<Rightarrow> string \<Rightarrow> gval" where
  "field vs f = (case map_of vs f of None \<Rightarrow> GNil | Some v \<Rightarrow> v)"

fun elements :: "gstore \<Rightarrow> gval \<Rightarrow> gval list option" where
  "elements s (GSlice a off len) =
     (case gs_cells s a of
        Some (GArray xs) \<Rightarrow> if off + len \<le> length xs then Some (take len (drop off xs)) else None
      | _ \<Rightarrow> None)"
| "elements s v = None"

fun pointee :: "gstore \<Rightarrow> gval \<Rightarrow> gval option" where
  "pointee s (GRef a) = (case gs_cells s a of Some (GVar x) \<Rightarrow> Some x | _ \<Rightarrow> None)"
| "pointee s v = None"

fun mapping :: "gstore \<Rightarrow> gval \<Rightarrow> (string, string) fmap option" where
  "mapping s (GRef a) = (case gs_cells s a of Some (GMap m) \<Rightarrow> Some m | _ \<Rightarrow> None)"
| "mapping s v = None"

text \<open>The cell that a value refers to.\<close>

fun addr_of :: "gval \<Rightarrow> nat set" where
  "addr_of (GRef a) = {a}"
| "addr_of (GSlice a off len) = {a}"
| "addr_of v = {}"

fun scalar :: "gval \<Rightarrow> bool" where
  "scalar (GText s) = True"
| "scalar (GNum i) = True"
| "scalar (GFlag b) = True"
| "scalar v = False"

lemma gty_field_size [termination_simp]: "(f, t) \<in> set fs \<Longrightarrow> size t < Suc (size_list (size_prod (\<lambda>x. 0) size) fs)"
  by (induction fs) auto

text \<open>A value of a type, in a store.\<close>

fun has_type :: "gty \<Rightarrow> gstore \<Rightarrow> gval \<Rightarrow> bool" where
  "has_type TScalar s v = scalar v"
| "has_type (TPtr t) s v = (v = GNil \<or> (case pointee s v of None \<Rightarrow> False | Some x \<Rightarrow> has_type t s x))"
| "has_type (TSlice t) s v = (v = GNil \<or> (case elements s v of None \<Rightarrow> False | Some xs \<Rightarrow> \<forall>x \<in> set xs. has_type t s x))"
| "has_type TMap s v = (v = GNil \<or> mapping s v \<noteq> None)"
| "has_type (TStruct fs) s v =
     (case v of
        GStruct vs \<Rightarrow> map fst vs = map fst fs \<and> (\<forall>(f, t) \<in> set fs. has_type t s (field vs f))
      | _ \<Rightarrow> False)"

text \<open>What a value says when it is read to its end; nil and empty are told apart.\<close>

datatype gtree =
    LData gval
  | LNil
  | LPtr gtree
  | LList "gtree list"
  | LMap "(string, string) fmap"
  | LStruct "(string \<times> gtree) list"

fun contents :: "gty \<Rightarrow> gstore \<Rightarrow> gval \<Rightarrow> gtree" where
  "contents TScalar s v = LData v"
| "contents (TPtr t) s v = (case pointee s v of None \<Rightarrow> LNil | Some x \<Rightarrow> LPtr (contents t s x))"
| "contents (TSlice t) s v = (case elements s v of None \<Rightarrow> LNil | Some xs \<Rightarrow> LList (map (contents t s) xs))"
| "contents TMap s v = (case mapping s v of None \<Rightarrow> LNil | Some m \<Rightarrow> LMap m)"
| "contents (TStruct fs) s v =
     (case v of GStruct vs \<Rightarrow> LStruct (map (\<lambda>(f, t). (f, contents t s (field vs f))) fs) | _ \<Rightarrow> LNil)"

text \<open>The cells that are read for it.\<close>

fun reach :: "gty \<Rightarrow> gstore \<Rightarrow> gval \<Rightarrow> nat set" where
  "reach TScalar s v = {}"
| "reach (TPtr t) s v = addr_of v \<union> (case pointee s v of None \<Rightarrow> {} | Some x \<Rightarrow> reach t s x)"
| "reach (TSlice t) s v = addr_of v \<union> (case elements s v of None \<Rightarrow> {} | Some xs \<Rightarrow> \<Union>x \<in> set xs. reach t s x)"
| "reach TMap s v = addr_of v"
| "reach (TStruct fs) s v =
     (case v of GStruct vs \<Rightarrow> \<Union>(f, t) \<in> set fs. reach t s (field vs f) | _ \<Rightarrow> {})"

text \<open>Nothing else is read.\<close>

lemma same_cell:
  assumes "\<forall>a \<in> addr_of v. gs_cells s' a = gs_cells s a"
  shows "pointee s' v = pointee s v" "elements s' v = elements s v" "mapping s' v = mapping s v"
  using assms by (cases v; simp)+

lemma frame:
  assumes "\<forall>a \<in> reach t s v. gs_cells s' a = gs_cells s a"
  shows "has_type t s' v = has_type t s v \<and> contents t s' v = contents t s v \<and> reach t s' v = reach t s v"
  using assms
proof (induction t s v rule: has_type.induct)
  case (1 s v)
  show ?case by simp
next
  case (2 t s v)
  then have "pointee s' v = pointee s v" by (intro same_cell) simp
  with 2 show ?case by (cases "pointee s v") simp_all
next
  case (3 t s v)
  then have same: "elements s' v = elements s v" by (intro same_cell) simp
  show ?case
  proof (cases "elements s v")
    case (Some xs)
    have "has_type t s' x = has_type t s x \<and> contents t s' x = contents t s x \<and> reach t s' x = reach t s x"
      if "x \<in> set xs" for x
    proof -
      have "\<forall>a \<in> reach t s x. gs_cells s' a = gs_cells s a" using 3(2) Some that by auto
      then show ?thesis using 3(1) [OF Some that] by blast
    qed
    with same Some show ?thesis by simp
  qed (simp add: same)
next
  case (4 s v)
  then have "mapping s' v = mapping s v" by (intro same_cell) simp
  then show ?case by simp
next
  case (5 fs s v)
  show ?case
  proof (cases v)
    case (GStruct vs)
    have "has_type t s' (field vs f) = has_type t s (field vs f) \<and> contents t s' (field vs f) = contents t s (field vs f)
      \<and> reach t s' (field vs f) = reach t s (field vs f)" if "(f, t) \<in> set fs" for f t
      using 5 GStruct that by fastforce
    then show ?thesis using GStruct by (auto simp: case_prod_beta)
  qed simp_all
qed

text \<open>All that is read of a typed value is there.\<close>

lemma typed_reach: "store_ok s \<Longrightarrow> has_type t s v \<Longrightarrow> a \<in> reach t s v \<Longrightarrow> a < gs_next s"
proof (induction t s v rule: has_type.induct)
  case (2 t s v)
  then show ?case
    by (cases v; auto simp: store_ok_def split: option.splits gcell.splits)
next
  case (3 t s v)
  then show ?case
    by (cases v; auto simp: store_ok_def split: option.splits gcell.splits if_splits)
next
  case (4 s v)
  then show ?case
    by (cases v; auto simp: store_ok_def split: option.splits gcell.splits)
next
  case (5 fs s v)
  then show ?case by (cases v; fastforce)
qed simp

lemma typed_grows:
  assumes "store_ok s" and "has_type t s v" and "grows s s'"
  shows "has_type t s' v" "contents t s' v = contents t s v" "reach t s' v = reach t s v"
  using frame [of t s v s'] typed_reach [OF assms(1,2)] assms(2,3) by (auto simp: grows_def)

section \<open>Deep copies\<close>

type_synonym copier = "gval \<Rightarrow> gstore \<Rightarrow> (gval \<times> gstore) option"

text \<open>The copy reads like the original and consists of new cells; the old ones are untouched.\<close>

definition copied :: "gty \<Rightarrow> gstore \<Rightarrow> gval \<Rightarrow> gstore \<Rightarrow> gval \<Rightarrow> bool" where
  "copied t s v s' v' \<longleftrightarrow> has_type t s' v' \<and> contents t s' v' = contents t s v \<and> (\<forall>a \<in> reach t s' v'. gs_next s \<le> a)"

definition deep_copier :: "gty \<Rightarrow> copier \<Rightarrow> bool" where
  "deep_copier t cp \<longleftrightarrow>
     (\<forall>s v. store_ok s \<longrightarrow> has_type t s v \<longrightarrow>
        (\<exists>v' s'. cp v s = Some (v', s') \<and> store_ok s' \<and> grows s s' \<and> copied t s v s' v'))"

lemma deep_copierE:
  assumes "deep_copier t cp" "store_ok s" "has_type t s v"
  obtains v' s' where "cp v s = Some (v', s')" "store_ok s'" "grows s s'" "copied t s v s' v'"
  using assms unfolding deep_copier_def by blast

text \<open>A copy stays one when the store grows, and is one of whatever was there before the original.\<close>

lemma copied_grows:
  assumes "copied t s v s' v'" "store_ok s'" "grows s' s''"
  shows "copied t s v s'' v'"
  using assms typed_grows [of s' t v' s''] by (simp add: copied_def)

lemma copied_since:
  assumes "copied t s v s' v'" "store_ok s0" "has_type t s0 v" "grows s0 s"
  shows "copied t s0 v s' v'"
  using assms typed_grows [of s0 t v s] by (auto simp: copied_def grows_def)

text \<open>
  A later change of any cell that was there before does not show in the copy, and a change of the
  copy's own cells does not show in the original.
\<close>

lemma copied_independent:
  assumes "copied t s v s' v'" "store_ok s" "has_type t s v" "grows s s'"
  shows "\<forall>a. gs_next s \<le> a \<longrightarrow> gs_cells s'' a = gs_cells s' a \<Longrightarrow> contents t s'' v' = contents t s v"
    and "\<forall>a. a \<notin> reach t s' v' \<longrightarrow> gs_cells s'' a = gs_cells s' a \<Longrightarrow> contents t s'' v = contents t s v"
proof -
  assume "\<forall>a. gs_next s \<le> a \<longrightarrow> gs_cells s'' a = gs_cells s' a"
  then show "contents t s'' v' = contents t s v"
    using frame [of t s' v' s''] assms(1) by (auto simp: copied_def)
next
  assume same: "\<forall>a. a \<notin> reach t s' v' \<longrightarrow> gs_cells s'' a = gs_cells s' a"
  have "gs_cells s'' a = gs_cells s a" if "a \<in> reach t s v" for a
  proof -
    have "a < gs_next s" using typed_reach [OF assms(2,3) that] .
    then have "a \<notin> reach t s' v'" "gs_cells s' a = gs_cells s a"
      using assms(1,4) by (auto simp: copied_def grows_def)
    then show ?thesis using same by simp
  qed
  then show "contents t s'' v = contents t s v" using frame by blast
qed

section \<open>The statements of a generated function\<close>

text \<open>\<^verbatim>\<open>*out = *in\<close>, or \<^verbatim>\<open>out.F = in.F\<close>: fine for a value without references.\<close>

definition assign :: copier where
  "assign v s = Some (v, s)"

fun plain :: "gty \<Rightarrow> bool" where
  "plain TScalar = True"
| "plain (TStruct fs) = (\<forall>(f, t) \<in> set fs. plain t)"
| "plain t = False"

text \<open>\<^verbatim>\<open>if in.F != nil { ... }\<close>, a field that stays nil otherwise.\<close>

definition unless_nil :: "copier \<Rightarrow> copier" where
  "unless_nil cp v s = (if v = GNil then Some (GNil, s) else cp v s)"

text \<open>\<^verbatim>\<open>*out = new(T)\<close>, and the value behind the pointer copied into it.\<close>

definition new_into :: "copier \<Rightarrow> copier" where
  "new_into cp v s =
     (case pointee s v of
        None \<Rightarrow> None
      | Some x \<Rightarrow> (case cp x s of
          None \<Rightarrow> None
        | Some (x', s') \<Rightarrow> (case alloc (GVar x') s' of (a, s'') \<Rightarrow> Some (GRef a, s''))))"

text \<open>\<^verbatim>\<open>*out = make([]T, len(*in))\<close>, and then \<^verbatim>\<open>copy(*out, *in)\<close> or the elements one by one.\<close>

definition make_copy :: copier where
  "make_copy v s =
     (case elements s v of
        None \<Rightarrow> None
      | Some xs \<Rightarrow> (case alloc (GArray xs) s of (a, s') \<Rightarrow> Some (GSlice a 0 (length xs), s')))"

fun copy_each :: "copier \<Rightarrow> gval list \<Rightarrow> gstore \<Rightarrow> (gval list \<times> gstore) option" where
  "copy_each cp [] s = Some ([], s)"
| "copy_each cp (x # xs) s =
     (case cp x s of
        None \<Rightarrow> None
      | Some (x', s') \<Rightarrow> (case copy_each cp xs s' of
          None \<Rightarrow> None
        | Some (xs', s'') \<Rightarrow> Some (x' # xs', s'')))"

definition make_each :: "copier \<Rightarrow> copier" where
  "make_each cp v s =
     (case elements s v of
        None \<Rightarrow> None
      | Some xs \<Rightarrow> (case copy_each cp xs s of
          None \<Rightarrow> None
        | Some (xs', s') \<Rightarrow> (case alloc (GArray xs') s' of (a, s'') \<Rightarrow> Some (GSlice a 0 (length xs'), s''))))"

text \<open>\<^verbatim>\<open>*out = make(map[string]string, len(*in))\<close>, and every entry set.\<close>

definition make_map :: copier where
  "make_map v s =
     (case mapping s v of
        None \<Rightarrow> None
      | Some m \<Rightarrow> (case alloc (GMap m) s of (a, s') \<Rightarrow> Some (GRef a, s')))"

text \<open>
  The body of a \<^verbatim>\<open>DeepCopyInto\<close>: \<^verbatim>\<open>*out = *in\<close>, and then one statement for each field that is named,
  which reads the field of \<^verbatim>\<open>in\<close> and sets that of \<^verbatim>\<open>out\<close>.
\<close>

definition set_field :: "string \<Rightarrow> gval \<Rightarrow> (string \<times> gval) list \<Rightarrow> (string \<times> gval) list" where
  "set_field f x vs = map (\<lambda>(g, y). (g, if g = f then x else y)) vs"

fun copy_fields :: "(string \<times> copier) list \<Rightarrow> (string \<times> gval) list \<Rightarrow> (string \<times> gval) list \<Rightarrow> gstore
    \<Rightarrow> ((string \<times> gval) list \<times> gstore) option" where
  "copy_fields [] vin vout s = Some (vout, s)"
| "copy_fields ((f, cp) # steps) vin vout s =
     (case cp (field vin f) s of
        None \<Rightarrow> None
      | Some (x, s') \<Rightarrow> copy_fields steps vin (set_field f x vout) s')"

definition copy_struct :: "(string \<times> copier) list \<Rightarrow> copier" where
  "copy_struct steps v s =
     (case v of
        GStruct vs \<Rightarrow> (case copy_fields steps vs vs s of None \<Rightarrow> None | Some (ws, s') \<Rightarrow> Some (GStruct ws, s'))
      | _ \<Rightarrow> None)"

text \<open>\<^verbatim>\<open>DeepCopy\<close>, and \<^verbatim>\<open>DeepCopyObject\<close>, which returns the copy as an interface.\<close>

definition deep_copy :: "copier \<Rightarrow> copier" where
  "deep_copy into = unless_nil (new_into into)"

definition deep_copy_object :: "copier \<Rightarrow> copier" where
  "deep_copy_object copy v s =
     (case copy v s of
        None \<Rightarrow> None
      | Some (c, s') \<Rightarrow> if c \<noteq> GNil then Some (c, s') else Some (GNil, s'))"

section \<open>They copy deeply\<close>

named_theorems copier_rules \<open>one rule for each statement\<close>

lemma plain_reach: "plain t \<Longrightarrow> has_type t s v \<Longrightarrow> reach t s v = {}"
proof (induction t s v rule: has_type.induct)
  case (5 fs s v)
  then show ?case by (cases v; fastforce)
qed simp_all

lemma assign_deep [copier_rules]: "plain t \<Longrightarrow> deep_copier t assign"
  by (auto simp: deep_copier_def assign_def copied_def plain_reach)

lemma new_into_deep [copier_rules]:
  assumes "deep_copier t cp"
  shows "deep_copier (TPtr t) (unless_nil (new_into cp))"
  unfolding deep_copier_def
proof (intro allI impI)
  fix s v assume ok: "store_ok s" and typed: "has_type (TPtr t) s v"
  show "\<exists>v' s'. unless_nil (new_into cp) v s = Some (v', s') \<and> store_ok s' \<and> grows s s' \<and> copied (TPtr t) s v s' v'"
  proof (cases "v = GNil")
    case True
    then show ?thesis using ok by (simp add: unless_nil_def copied_def)
  next
    case False
    then obtain x where x: "pointee s v = Some x" "has_type t s x"
      using typed by (auto split: option.splits)
    obtain x' s1 where cp: "cp x s = Some (x', s1)" "store_ok s1" "grows s s1" "copied t s x s1 x'"
      using deep_copierE [OF assms ok x(2)] .
    obtain a s2 where a: "alloc (GVar x') s1 = (a, s2)" by fastforce
    note facts = alloc_facts [OF cp(2) a]
    have "copied t s x s2 x'" by (rule copied_grows [OF cp(4,2) facts(2)])
    moreover have "gs_next s \<le> a" using cp(3) facts(4) by (simp add: grows_def)
    ultimately have "copied (TPtr t) s v s2 (GRef a)"
      using x facts(3) by (simp add: copied_def)
    then show ?thesis
      using False x cp a facts grows_trans [OF cp(3) facts(2)] by (simp add: unless_nil_def new_into_def)
  qed
qed

lemma make_copy_deep [copier_rules]:
  assumes "plain t"
  shows "deep_copier (TSlice t) (unless_nil make_copy)"
  unfolding deep_copier_def
proof (intro allI impI)
  fix s v assume ok: "store_ok s" and typed: "has_type (TSlice t) s v"
  show "\<exists>v' s'. unless_nil make_copy v s = Some (v', s') \<and> store_ok s' \<and> grows s s' \<and> copied (TSlice t) s v s' v'"
  proof (cases "v = GNil")
    case True
    then show ?thesis using ok by (simp add: unless_nil_def copied_def)
  next
    case False
    then obtain xs where xs: "elements s v = Some xs" "\<forall>x \<in> set xs. has_type t s x"
      using typed by (auto split: option.splits)
    obtain a s2 where a: "alloc (GArray xs) s = (a, s2)" by fastforce
    note facts = alloc_facts [OF ok a]
    have "has_type t s2 x \<and> contents t s2 x = contents t s x \<and> reach t s2 x = {}" if "x \<in> set xs" for x
      using typed_grows [OF ok _ facts(2), of t x] xs(2) that plain_reach [OF assms] by simp
    then have "copied (TSlice t) s v s2 (GSlice a 0 (length xs))"
      using xs facts(3,4) by (simp add: copied_def)
    then show ?thesis
      using False xs a facts by (simp add: unless_nil_def make_copy_def)
  qed
qed

lemma copy_each_deep:
  assumes cp: "deep_copier t cp" and "store_ok s" and "\<forall>x \<in> set xs. has_type t s x"
  shows "\<exists>ys s'. copy_each cp xs s = Some (ys, s') \<and> store_ok s' \<and> grows s s' \<and> list_all2 (\<lambda>x y. copied t s x s' y) xs ys"
  using assms(2,3)
proof (induction xs arbitrary: s)
  case (Cons x xs)
  obtain y s1 where y: "cp x s = Some (y, s1)" "store_ok s1" "grows s s1" "copied t s x s1 y"
    using deep_copierE [OF cp Cons.prems(1), of x] Cons.prems(2) by auto
  have "\<forall>z \<in> set xs. has_type t s1 z"
    using typed_grows(1) [OF Cons.prems(1) _ y(3)] Cons.prems(2) by simp
  then obtain ys s2 where ys: "copy_each cp xs s1 = Some (ys, s2)" "store_ok s2" "grows s1 s2"
      "list_all2 (\<lambda>x y. copied t s1 x s2 y) xs ys"
    using Cons.IH [OF y(2)] by blast
  have "list_all2 (\<lambda>x y. copied t s x s2 y) xs ys"
    by (rule list.rel_mono_strong [OF ys(4)])
      (use copied_since [OF _ Cons.prems(1) _ y(3)] Cons.prems(2) in auto)
  moreover have "copied t s x s2 y" by (rule copied_grows [OF y(4,2) ys(3)])
  ultimately show ?case
    using y ys grows_trans [OF y(3) ys(3)] by simp
qed simp

lemma make_each_deep [copier_rules]:
  assumes "deep_copier t cp"
  shows "deep_copier (TSlice t) (unless_nil (make_each cp))"
  unfolding deep_copier_def
proof (intro allI impI)
  fix s v assume ok: "store_ok s" and typed: "has_type (TSlice t) s v"
  show "\<exists>v' s'. unless_nil (make_each cp) v s = Some (v', s') \<and> store_ok s' \<and> grows s s' \<and> copied (TSlice t) s v s' v'"
  proof (cases "v = GNil")
    case True
    then show ?thesis using ok by (simp add: unless_nil_def copied_def)
  next
    case False
    then obtain xs where xs: "elements s v = Some xs" "\<forall>x \<in> set xs. has_type t s x"
      using typed by (auto split: option.splits)
    obtain ys s1 where ys: "copy_each cp xs s = Some (ys, s1)" "store_ok s1" "grows s s1"
        "list_all2 (\<lambda>x y. copied t s x s1 y) xs ys"
      using copy_each_deep [OF assms ok xs(2)] by blast
    obtain a s2 where a: "alloc (GArray ys) s1 = (a, s2)" by fastforce
    note facts = alloc_facts [OF ys(2) a]
    have each: "list_all2 (\<lambda>x y. copied t s x s2 y) xs ys"
      by (rule list.rel_mono_strong [OF ys(4)]) (use copied_grows [OF _ ys(2) facts(2)] in auto)
    have "gs_next s \<le> a" using ys(3) facts(4) by (simp add: grows_def)
    moreover have "map (contents t s2) ys = map (contents t s) xs"
      using each by (induction rule: list_all2_induct) (simp_all add: copied_def)
    moreover have "\<forall>y \<in> set ys. has_type t s2 y \<and> (\<forall>b \<in> reach t s2 y. gs_next s \<le> b)"
      using each by (induction rule: list_all2_induct) (simp_all add: copied_def)
    ultimately have "copied (TSlice t) s v s2 (GSlice a 0 (length ys))"
      using xs facts(3) by (auto simp: copied_def)
    then show ?thesis
      using False xs ys a facts grows_trans [OF ys(3) facts(2)] by (simp add: unless_nil_def make_each_def)
  qed
qed

lemma make_map_deep [copier_rules]: "deep_copier TMap (unless_nil make_map)"
  unfolding deep_copier_def
proof (intro allI impI)
  fix s v assume ok: "store_ok s" and typed: "has_type TMap s v"
  show "\<exists>v' s'. unless_nil make_map v s = Some (v', s') \<and> store_ok s' \<and> grows s s' \<and> copied TMap s v s' v'"
  proof (cases "v = GNil")
    case True
    then show ?thesis using ok by (simp add: unless_nil_def copied_def)
  next
    case False
    then obtain m where m: "mapping s v = Some m" using typed by auto
    obtain a s2 where a: "alloc (GMap m) s = (a, s2)" by fastforce
    note facts = alloc_facts [OF ok a]
    have "copied TMap s v s2 (GRef a)" using m facts(3,4) by (simp add: copied_def)
    then show ?thesis using False m a facts by (simp add: unless_nil_def make_map_def)
  qed
qed

text \<open>
  A struct: the fields that are named are copied one after the other, and the others hold no
  reference.  While the fields are copied, each is still that of the original, or a copy of it.
\<close>

lemma map_of_set_field:
  "map_of (set_field f x vs) g = (if g = f then map_option (\<lambda>y. x) (map_of vs f) else map_of vs g)"
  by (induction vs) (auto simp: set_field_def)

lemma field_set: "f \<in> fst ` set vs \<Longrightarrow> field (set_field f x vs) g = (if g = f then x else field vs g)"
  unfolding field_def map_of_set_field by (cases "map_of vs f") (auto simp: map_of_eq_None_iff)

lemma set_field_names [simp]: "map fst (set_field f x vs) = map fst vs"
  by (simp add: set_field_def case_prod_beta)

lemma copy_fields_deep:
  assumes distinct: "distinct (map fst fs)" and ok0: "store_ok s0" and typed0: "\<forall>(f, t) \<in> set fs. has_type t s0 (field vs f)"
    and steps: "distinct (map fst steps)" "\<forall>(f, cp) \<in> set steps. \<exists>t. (f, t) \<in> set fs \<and> deep_copier t cp"
    and ok: "store_ok s" "grows s0 s" "map fst ws = map fst fs"
    and done_: "\<forall>(f, t) \<in> set fs. f \<notin> fst ` set steps \<longrightarrow> copied t s0 (field vs f) s (field ws f)"
  shows "\<exists>ws' s'. copy_fields steps vs ws s = Some (ws', s') \<and> store_ok s' \<and> grows s0 s' \<and> map fst ws' = map fst fs
    \<and> (\<forall>(f, t) \<in> set fs. copied t s0 (field vs f) s' (field ws' f))"
  using steps ok done_
proof (induction steps arbitrary: ws s)
  case Nil
  then show ?case by simp
next
  case (Cons step steps)
  obtain f cp where step: "step = (f, cp)" by fastforce
  obtain t where t: "(f, t) \<in> set fs" "deep_copier t cp" using Cons.prems(2) step by auto
  have typed: "has_type t s0 (field vs f)" using typed0 t(1) by auto
  then have "has_type t s (field vs f)" using typed_grows(1) [OF ok0 _ Cons.prems(4)] by blast
  then obtain x s1 where x: "cp (field vs f) s = Some (x, s1)" "store_ok s1" "grows s s1" "copied t s (field vs f) s1 x"
    using deep_copierE [OF t(2) Cons.prems(3)] by blast
  let ?ws = "set_field f x ws"
  have "f \<in> fst ` set fs" using t(1) by force
  then have "f \<in> fst ` set ws" using Cons.prems(5) by (metis set_map)
  note fields = field_set [OF this, of x]
  have unique: "t' = t" if "(f, t') \<in> set fs" for t'
    using eq_key_imp_eq_value [OF distinct that t(1)] .
  have "\<forall>(g, t') \<in> set fs. g \<notin> fst ` set steps \<longrightarrow> copied t' s0 (field vs g) s1 (field ?ws g)"
  proof (clarify)
    fix g t' assume g: "(g, t') \<in> set fs" "g \<notin> fst ` set steps"
    show "copied t' s0 (field vs g) s1 (field ?ws g)"
    proof (cases "g = f")
      case True
      then show ?thesis
        using unique g(1) fields copied_since [OF x(4) ok0 typed Cons.prems(4)] by auto
    next
      case False
      then have "copied t' s0 (field vs g) s (field ws g)" using Cons.prems(6) g step by auto
      then show ?thesis using False fields copied_grows [OF _ Cons.prems(3) x(3)] by simp
    qed
  qed
  moreover have "distinct (map fst steps)" "\<forall>(f, cp) \<in> set steps. \<exists>t. (f, t) \<in> set fs \<and> deep_copier t cp"
    using Cons.prems(1,2) by simp_all
  ultimately obtain ws' s' where "copy_fields steps vs ?ws s1 = Some (ws', s')" "store_ok s'" "grows s0 s'"
      "map fst ws' = map fst fs" "\<forall>(f, t) \<in> set fs. copied t s0 (field vs f) s' (field ws' f)"
    using Cons.IH [of s1 ?ws] x(2) grows_trans [OF Cons.prems(4) x(3)] Cons.prems(5) by auto
  then show ?case using x(1) step by simp
qed

lemma copy_struct_deep:
  assumes "distinct (map fst fs)" and "distinct (map fst steps)"
    and "\<forall>(f, cp) \<in> set steps. \<exists>t. (f, t) \<in> set fs \<and> deep_copier t cp"
    and "\<forall>(f, t) \<in> set fs. f \<notin> fst ` set steps \<longrightarrow> plain t"
  shows "deep_copier (TStruct fs) (copy_struct steps)"
  unfolding deep_copier_def
proof (intro allI impI)
  fix s v assume ok: "store_ok s" and typed: "has_type (TStruct fs) s v"
  obtain vs where vs: "v = GStruct vs" "map fst vs = map fst fs" "\<forall>(f, t) \<in> set fs. has_type t s (field vs f)"
    using typed by (cases v) auto
  have "\<forall>(f, t) \<in> set fs. f \<notin> fst ` set steps \<longrightarrow> copied t s (field vs f) s (field vs f)"
    using assms(4) vs(3) plain_reach by (fastforce simp: copied_def)
  then obtain ws s' where ws: "copy_fields steps vs vs s = Some (ws, s')" "store_ok s'" "grows s s'"
      "map fst ws = map fst fs" "\<forall>(f, t) \<in> set fs. copied t s (field vs f) s' (field ws f)"
    using copy_fields_deep [OF assms(1) ok vs(3) assms(2,3) ok grows_refl vs(2)] by blast
  then have "copied (TStruct fs) s v s' (GStruct ws)"
    using vs(1) by (auto simp: copied_def)
  then show "\<exists>v' s'. copy_struct steps v s = Some (v', s') \<and> store_ok s' \<and> grows s s' \<and> copied (TStruct fs) s v s' v'"
    using ws vs(1) by (simp add: copy_struct_def)
qed

lemma deep_copy_deep: "deep_copier t cp \<Longrightarrow> deep_copier (TPtr t) (deep_copy cp)"
  unfolding deep_copy_def by (rule new_into_deep)

lemma deep_copy_object_eq: "deep_copy_object cp = cp"
  by (intro ext) (simp add: deep_copy_object_def split: option.split prod.split)

end
