(* ===== verification/Deep_Copy_Types.thy ===== *)
theory Deep_Copy_Types
  imports Go_Store
begin

text \<open>
  The types of the API (\<^verbatim>\<open>api/v1alpha1\<close>) as far as memory goes: the fields of every struct, in order,
  with their types.  An embedded struct is a field of the name of its type, an alias is its type,
  and a named string type is a scalar.
\<close>

section \<open>Types of the Kubernetes libraries\<close>

text \<open>
  The structs of \<^verbatim>\<open>k8s.io\<close> that the API embeds, and their own copy functions, are not part of the
  repository: \<open>lt_\<close> is what such a type looks like, and \<open>lc_\<close> its \<^verbatim>\<open>DeepCopyInto\<close>, as a function from
  the value of \<^verbatim>\<open>in\<close> to that of \<^verbatim>\<open>out\<close>; that of \<^verbatim>\<open>Time\<close> is its \<^verbatim>\<open>DeepCopy\<close>, from pointer to pointer.
\<close>

record copy_lib =
  lt_TypeMeta :: gty
  lt_ObjectMeta :: gty
  lt_ListMeta :: gty
  lt_Condition :: gty
  lt_Duration :: gty
  lt_Time :: gty
  lt_JSON :: gty
  lt_IntOrString :: gty
  lt_SecretType :: gty
  lc_ObjectMeta :: copier
  lc_ListMeta :: copier
  lc_Condition :: copier
  lc_JSON :: copier
  lc_Time_DeepCopy :: copier

text \<open>
  What is documented of them: the ones that are copied by assignment hold no references (a type and
  a version, a number, a string, or a number and a string), and the functions copy deeply.
\<close>

definition copy_lib_ok :: "copy_lib \<Rightarrow> bool" where
  "copy_lib_ok L \<longleftrightarrow>
     plain (lt_TypeMeta L) \<and> plain (lt_Duration L) \<and> plain (lt_IntOrString L) \<and> plain (lt_SecretType L)
     \<and> deep_copier (lt_ObjectMeta L) (lc_ObjectMeta L) \<and> deep_copier (lt_ListMeta L) (lc_ListMeta L)
     \<and> deep_copier (lt_Condition L) (lc_Condition L) \<and> deep_copier (lt_JSON L) (lc_JSON L)
     \<and> deep_copier (TPtr (lt_Time L)) (lc_Time_DeepCopy L)"

section \<open>Types of the API\<close>

definition BackupConfiguration_type :: "gty" where
  "BackupConfiguration_type = TStruct
     [(''Interval'', TScalar)]"

definition BootstrapSpec_type :: "gty" where
  "BootstrapSpec_type = TStruct
     [(''ClusterUUID'', TScalar), (''Snapshot'', TScalar)]"

definition ClusterDeletePolicy_type :: "gty" where
  "ClusterDeletePolicy_type = TStruct
     [(''Orphan'', TScalar), (''DestroyMachines'', TScalar)]"

definition ClusterFeatures_type :: "gty" where
  "ClusterFeatures_type = TStruct
     [(''EnableWorkloadProxy'', TScalar), (''UseEmbeddedDiscoveryService'', TScalar),
      (''DiskEncryption'', TScalar), (''BackupConfiguration'', TPtr BackupConfiguration_type)]"

definition CommonStatusFields_type :: "copy_lib \<Rightarrow> gty" where
  "CommonStatusFields_type L = TStruct
     [(''ObservedGeneration'', TScalar), (''Conditions'', TSlice (lt_Condition L))]"

definition ConnectionStatusFields_type :: "gty" where
  "ConnectionStatusFields_type = TStruct
     [(''ConnectionRef'', TScalar), (''Endpoint'', TScalar)]"

definition Descriptors_type :: "gty" where
  "Descriptors_type = TStruct
     [(''Labels'', TMap), (''Annotations'', TMap)]"

definition HelmReleaseKubeconfigSecretRef_type :: "gty" where
  "HelmReleaseKubeconfigSecretRef_type = TStruct
     [(''Name'', TScalar), (''Key'', TScalar)]"

definition KubeconfigServiceAccountSpec_type :: "gty" where
  "KubeconfigServiceAccountSpec_type = TStruct
     [(''User'', TScalar), (''Groups'', TSlice TScalar), (''AllowClusterAdmin'', TScalar)]"

definition KubeconfigTargetSecretRef_type :: "gty" where
  "KubeconfigTargetSecretRef_type = TStruct
     [(''Name'', TScalar), (''Namespace'', TScalar), (''Key'', TScalar)]"

definition KubernetesManifest_type :: "copy_lib \<Rightarrow> gty" where
  "KubernetesManifest_type L = TStruct
     [(''Name'', TScalar), (''Mode'', TScalar), (''Inline'', TSlice (lt_JSON L)), (''File'', TScalar)]"

definition KubernetesSpec_type :: "copy_lib \<Rightarrow> gty" where
  "KubernetesSpec_type L = TStruct
     [(''Version'', TScalar), (''Manifests'', TSlice (KubernetesManifest_type L))]"

definition LocalObjectReference_type :: "gty" where
  "LocalObjectReference_type = TStruct
     [(''Name'', TScalar)]"

definition MachineClass_type :: "copy_lib \<Rightarrow> gty" where
  "MachineClass_type L = TStruct
     [(''Name'', TScalar), (''Size'', lt_IntOrString L)]"

definition MachineInstallSpec_type :: "gty" where
  "MachineInstallSpec_type = TStruct
     [(''Disk'', TScalar)]"

definition Patch_type :: "copy_lib \<Rightarrow> gty" where
  "Patch_type L = TStruct
     [(''File'', TScalar), (''Name'', TScalar), (''IDOverride'', TScalar), (''Labels'', TMap),
      (''Annotations'', TMap), (''Inline'', TPtr (lt_JSON L))]"

definition MachineSetSpecFields_type :: "copy_lib \<Rightarrow> gty" where
  "MachineSetSpecFields_type L = TStruct
     [(''Descriptors'', Descriptors_type), (''Machines'', TSlice TScalar),
      (''MachineClass'', TPtr (MachineClass_type L)), (''Patches'', TSlice (Patch_type L)),
      (''SystemExtensions'', TSlice TScalar), (''KernelArgs'', TSlice TScalar)]"

definition SecretKeySelector_type :: "gty" where
  "SecretKeySelector_type = TStruct
     [(''Name'', TScalar), (''Key'', TScalar)]"

definition OmniAuthSpec_type :: "gty" where
  "OmniAuthSpec_type = TStruct
     [(''ServiceAccountSecretRef'', SecretKeySelector_type)]"

definition TalosSpec_type :: "gty" where
  "TalosSpec_type = TStruct
     [(''Version'', TScalar)]"

definition OmniClusterSpec_type :: "copy_lib \<Rightarrow> gty" where
  "OmniClusterSpec_type L = TStruct
     [(''Descriptors'', Descriptors_type), (''ConnectionRef'', LocalObjectReference_type),
      (''ClusterName'', TScalar), (''Kubernetes'', KubernetesSpec_type L), (''Talos'', TalosSpec_type),
      (''Features'', TPtr ClusterFeatures_type), (''Patches'', TSlice (Patch_type L)),
      (''SystemExtensions'', TSlice TScalar), (''KernelArgs'', TSlice TScalar),
      (''TemplateRoot'', TScalar), (''DeletePolicy'', ClusterDeletePolicy_type),
      (''SyncInterval'', lt_Duration L), (''Suspend'', TScalar)]"

definition SyncStatusFields_type :: "copy_lib \<Rightarrow> gty" where
  "SyncStatusFields_type L = TStruct
     [(''ClusterName'', TScalar), (''TemplateHash'', TScalar), (''LastAttemptTime'', TPtr (lt_Time L)),
      (''LastSyncTime'', TPtr (lt_Time L)), (''LastSyncOutput'', TScalar), (''LastStatusOutput'', TScalar)]"

definition OmniClusterStatus_type :: "copy_lib \<Rightarrow> gty" where
  "OmniClusterStatus_type L = TStruct
     [(''CommonStatusFields'', CommonStatusFields_type L),
      (''ConnectionStatusFields'', ConnectionStatusFields_type),
      (''SyncStatusFields'', SyncStatusFields_type L), (''ControlPlaneRef'', TScalar),
      (''WorkersRefs'', TSlice TScalar), (''MachineRefs'', TSlice TScalar)]"

definition OmniCluster_type :: "copy_lib \<Rightarrow> gty" where
  "OmniCluster_type L = TStruct
     [(''TypeMeta'', lt_TypeMeta L), (''ObjectMeta'', lt_ObjectMeta L),
      (''Spec'', OmniClusterSpec_type L), (''Status'', OmniClusterStatus_type L)]"

definition OmniClusterList_type :: "copy_lib \<Rightarrow> gty" where
  "OmniClusterList_type L = TStruct
     [(''TypeMeta'', lt_TypeMeta L), (''ListMeta'', lt_ListMeta L),
      (''Items'', TSlice (OmniCluster_type L))]"

definition OmniConnectionSpec_type :: "gty" where
  "OmniConnectionSpec_type = TStruct
     [(''Endpoint'', TScalar), (''Auth'', OmniAuthSpec_type), (''InsecureSkipTLSVerify'', TScalar)]"

definition OmniConnectionStatus_type :: "copy_lib \<Rightarrow> gty" where
  "OmniConnectionStatus_type L = TStruct
     [(''CommonStatusFields'', CommonStatusFields_type L),
      (''ConnectionStatusFields'', ConnectionStatusFields_type), (''LastCheckTime'', TPtr (lt_Time L))]"

definition OmniConnection_type :: "copy_lib \<Rightarrow> gty" where
  "OmniConnection_type L = TStruct
     [(''TypeMeta'', lt_TypeMeta L), (''ObjectMeta'', lt_ObjectMeta L),
      (''Spec'', OmniConnectionSpec_type), (''Status'', OmniConnectionStatus_type L)]"

definition OmniConnectionList_type :: "copy_lib \<Rightarrow> gty" where
  "OmniConnectionList_type L = TStruct
     [(''TypeMeta'', lt_TypeMeta L), (''ListMeta'', lt_ListMeta L),
      (''Items'', TSlice (OmniConnection_type L))]"

definition OmniControlPlaneSpec_type :: "copy_lib \<Rightarrow> gty" where
  "OmniControlPlaneSpec_type L = TStruct
     [(''MachineSetSpecFields'', MachineSetSpecFields_type L),
      (''ClusterRef'', LocalObjectReference_type), (''BootstrapSpec'', TPtr BootstrapSpec_type)]"

definition OmniControlPlaneStatus_type :: "copy_lib \<Rightarrow> gty" where
  "OmniControlPlaneStatus_type L = TStruct
     [(''CommonStatusFields'', CommonStatusFields_type L), (''ClusterRef'', TScalar)]"

definition OmniControlPlane_type :: "copy_lib \<Rightarrow> gty" where
  "OmniControlPlane_type L = TStruct
     [(''TypeMeta'', lt_TypeMeta L), (''ObjectMeta'', lt_ObjectMeta L),
      (''Spec'', OmniControlPlaneSpec_type L), (''Status'', OmniControlPlaneStatus_type L)]"

definition OmniControlPlaneList_type :: "copy_lib \<Rightarrow> gty" where
  "OmniControlPlaneList_type L = TStruct
     [(''TypeMeta'', lt_TypeMeta L), (''ListMeta'', lt_ListMeta L),
      (''Items'', TSlice (OmniControlPlane_type L))]"

definition OmniHelmChartSpec_type :: "copy_lib \<Rightarrow> gty" where
  "OmniHelmChartSpec_type L = TStruct
     [(''Repository'', TScalar), (''Chart'', TScalar), (''Version'', TScalar),
      (''Values'', TPtr (lt_JSON L))]"

definition OmniHelmReleaseSpec_type :: "copy_lib \<Rightarrow> gty" where
  "OmniHelmReleaseSpec_type L = TStruct
     [(''ClusterRef'', LocalObjectReference_type),
      (''KubeconfigSecretRef'', HelmReleaseKubeconfigSecretRef_type), (''ReleaseName'', TScalar),
      (''Namespace'', TScalar), (''Chart'', OmniHelmChartSpec_type L), (''CreateNamespace'', TScalar),
      (''Wait'', TScalar), (''WaitForJobs'', TScalar), (''Timeout'', TPtr (lt_Duration L)),
      (''Atomic'', TScalar), (''DisableHooks'', TScalar), (''SkipCRDs'', TScalar),
      (''MaxHistory'', TScalar), (''DeletionPolicy'', TScalar)]"

definition OmniHelmReleaseStatus_type :: "copy_lib \<Rightarrow> gty" where
  "OmniHelmReleaseStatus_type L = TStruct
     [(''CommonStatusFields'', CommonStatusFields_type L), (''ClusterRef'', TScalar),
      (''KubeconfigSecretRef'', TScalar), (''KubeconfigSecretKey'', TScalar), (''ReleaseName'', TScalar),
      (''Namespace'', TScalar), (''Chart'', TScalar), (''ChartVersion'', TScalar),
      (''ReleaseRevision'', TScalar), (''ReleaseStatus'', TScalar), (''LastAction'', TScalar),
      (''LastAttemptTime'', TPtr (lt_Time L)), (''LastSuccessTime'', TPtr (lt_Time L)),
      (''LastError'', TScalar)]"

definition OmniHelmRelease_type :: "copy_lib \<Rightarrow> gty" where
  "OmniHelmRelease_type L = TStruct
     [(''TypeMeta'', lt_TypeMeta L), (''ObjectMeta'', lt_ObjectMeta L),
      (''Spec'', OmniHelmReleaseSpec_type L), (''Status'', OmniHelmReleaseStatus_type L)]"

definition OmniHelmReleaseList_type :: "copy_lib \<Rightarrow> gty" where
  "OmniHelmReleaseList_type L = TStruct
     [(''TypeMeta'', lt_TypeMeta L), (''ListMeta'', lt_ListMeta L),
      (''Items'', TSlice (OmniHelmRelease_type L))]"

definition OmniKubeconfigExportSpec_type :: "copy_lib \<Rightarrow> gty" where
  "OmniKubeconfigExportSpec_type L = TStruct
     [(''ClusterRef'', LocalObjectReference_type), (''TargetSecretRef'', KubeconfigTargetSecretRef_type),
      (''ServiceAccount'', KubeconfigServiceAccountSpec_type), (''ContextNamespace'', TScalar),
      (''TTL'', lt_Duration L), (''RenewBefore'', TPtr (lt_Duration L)), (''DeletionPolicy'', TScalar)]"

definition OmniKubeconfigExportStatus_type :: "copy_lib \<Rightarrow> gty" where
  "OmniKubeconfigExportStatus_type L = TStruct
     [(''CommonStatusFields'', CommonStatusFields_type L),
      (''ConnectionStatusFields'', ConnectionStatusFields_type), (''ClusterRef'', TScalar),
      (''ClusterName'', TScalar), (''TargetSecretRef'', TScalar), (''TargetSecretNamespace'', TScalar),
      (''TargetSecretKey'', TScalar), (''ServiceAccountUser'', TScalar),
      (''ServiceAccountGroups'', TSlice TScalar), (''KubeconfigHash'', TScalar),
      (''ExpirationTime'', TPtr (lt_Time L)), (''NextRotationTime'', TPtr (lt_Time L)),
      (''LastRotationTime'', TPtr (lt_Time L))]"

definition OmniKubeconfigExport_type :: "copy_lib \<Rightarrow> gty" where
  "OmniKubeconfigExport_type L = TStruct
     [(''TypeMeta'', lt_TypeMeta L), (''ObjectMeta'', lt_ObjectMeta L),
      (''Spec'', OmniKubeconfigExportSpec_type L), (''Status'', OmniKubeconfigExportStatus_type L)]"

definition OmniKubeconfigExportList_type :: "copy_lib \<Rightarrow> gty" where
  "OmniKubeconfigExportList_type L = TStruct
     [(''TypeMeta'', lt_TypeMeta L), (''ListMeta'', lt_ListMeta L),
      (''Items'', TSlice (OmniKubeconfigExport_type L))]"

definition OmniMachineSpec_type :: "copy_lib \<Rightarrow> gty" where
  "OmniMachineSpec_type L = TStruct
     [(''Descriptors'', Descriptors_type), (''ClusterRef'', LocalObjectReference_type),
      (''MachineID'', TScalar), (''Locked'', TScalar), (''Install'', TPtr MachineInstallSpec_type),
      (''Patches'', TSlice (Patch_type L)), (''SystemExtensions'', TSlice TScalar),
      (''KernelArgs'', TSlice TScalar)]"

definition OmniMachineStatus_type :: "copy_lib \<Rightarrow> gty" where
  "OmniMachineStatus_type L = TStruct
     [(''CommonStatusFields'', CommonStatusFields_type L), (''ClusterRef'', TScalar),
      (''MachineID'', TScalar)]"

definition OmniMachine_type :: "copy_lib \<Rightarrow> gty" where
  "OmniMachine_type L = TStruct
     [(''TypeMeta'', lt_TypeMeta L), (''ObjectMeta'', lt_ObjectMeta L),
      (''Spec'', OmniMachineSpec_type L), (''Status'', OmniMachineStatus_type L)]"

definition OmniMachineList_type :: "copy_lib \<Rightarrow> gty" where
  "OmniMachineList_type L = TStruct
     [(''TypeMeta'', lt_TypeMeta L), (''ListMeta'', lt_ListMeta L),
      (''Items'', TSlice (OmniMachine_type L))]"

definition SecretSyncKubeconfigSecretRef_type :: "gty" where
  "SecretSyncKubeconfigSecretRef_type = TStruct
     [(''Name'', TScalar), (''Key'', TScalar)]"

definition SecretSyncSourceSecretRef_type :: "gty" where
  "SecretSyncSourceSecretRef_type = TStruct
     [(''Name'', TScalar)]"

definition SecretSyncTargetSecretRef_type :: "gty" where
  "SecretSyncTargetSecretRef_type = TStruct
     [(''Name'', TScalar), (''Namespace'', TScalar)]"

definition OmniSecretSyncSpec_type :: "copy_lib \<Rightarrow> gty" where
  "OmniSecretSyncSpec_type L = TStruct
     [(''ClusterRef'', LocalObjectReference_type),
      (''KubeconfigSecretRef'', SecretSyncKubeconfigSecretRef_type),
      (''SourceSecretRef'', SecretSyncSourceSecretRef_type),
      (''TargetSecretRef'', SecretSyncTargetSecretRef_type), (''Type'', lt_SecretType L),
      (''Labels'', TMap), (''Annotations'', TMap), (''CreateNamespace'', TScalar),
      (''DeletionPolicy'', TScalar)]"

definition OmniSecretSyncStatus_type :: "copy_lib \<Rightarrow> gty" where
  "OmniSecretSyncStatus_type L = TStruct
     [(''CommonStatusFields'', CommonStatusFields_type L), (''ClusterRef'', TScalar),
      (''KubeconfigSecretRef'', TScalar), (''KubeconfigSecretKey'', TScalar),
      (''SourceSecretRef'', TScalar), (''TargetSecretRef'', TScalar), (''TargetNamespace'', TScalar),
      (''SecretType'', TScalar), (''SecretHash'', TScalar), (''LastAttemptTime'', TPtr (lt_Time L)),
      (''LastSyncTime'', TPtr (lt_Time L)), (''LastError'', TScalar)]"

definition OmniSecretSync_type :: "copy_lib \<Rightarrow> gty" where
  "OmniSecretSync_type L = TStruct
     [(''TypeMeta'', lt_TypeMeta L), (''ObjectMeta'', lt_ObjectMeta L),
      (''Spec'', OmniSecretSyncSpec_type L), (''Status'', OmniSecretSyncStatus_type L)]"

definition OmniSecretSyncList_type :: "copy_lib \<Rightarrow> gty" where
  "OmniSecretSyncList_type L = TStruct
     [(''TypeMeta'', lt_TypeMeta L), (''ListMeta'', lt_ListMeta L),
      (''Items'', TSlice (OmniSecretSync_type L))]"

definition RollingStrategy_type :: "gty" where
  "RollingStrategy_type = TStruct
     [(''MaxParallelism'', TPtr TScalar)]"

definition UpdateStrategy_type :: "gty" where
  "UpdateStrategy_type = TStruct
     [(''Type'', TScalar), (''Rolling'', TPtr RollingStrategy_type)]"

definition OmniWorkersSpec_type :: "copy_lib \<Rightarrow> gty" where
  "OmniWorkersSpec_type L = TStruct
     [(''MachineSetSpecFields'', MachineSetSpecFields_type L),
      (''ClusterRef'', LocalObjectReference_type), (''WorkerSetName'', TScalar),
      (''UpdateStrategy'', TPtr UpdateStrategy_type), (''UpgradeStrategy'', TPtr UpdateStrategy_type),
      (''DeleteStrategy'', TPtr UpdateStrategy_type)]"

definition OmniWorkersStatus_type :: "copy_lib \<Rightarrow> gty" where
  "OmniWorkersStatus_type L = TStruct
     [(''CommonStatusFields'', CommonStatusFields_type L), (''ClusterRef'', TScalar),
      (''WorkerSetName'', TScalar)]"

definition OmniWorkers_type :: "copy_lib \<Rightarrow> gty" where
  "OmniWorkers_type L = TStruct
     [(''TypeMeta'', lt_TypeMeta L), (''ObjectMeta'', lt_ObjectMeta L),
      (''Spec'', OmniWorkersSpec_type L), (''Status'', OmniWorkersStatus_type L)]"

definition OmniWorkersList_type :: "copy_lib \<Rightarrow> gty" where
  "OmniWorkersList_type L = TStruct
     [(''TypeMeta'', lt_TypeMeta L), (''ListMeta'', lt_ListMeta L),
      (''Items'', TSlice (OmniWorkers_type L))]"

text \<open>The structs without references.\<close>

lemmas plain_type_defs = BackupConfiguration_type_def BootstrapSpec_type_def ClusterDeletePolicy_type_def
  ConnectionStatusFields_type_def HelmReleaseKubeconfigSecretRef_type_def
  KubeconfigTargetSecretRef_type_def LocalObjectReference_type_def MachineClass_type_def
  MachineInstallSpec_type_def SecretKeySelector_type_def OmniAuthSpec_type_def TalosSpec_type_def
  OmniConnectionSpec_type_def SecretSyncKubeconfigSecretRef_type_def
  SecretSyncSourceSecretRef_type_def SecretSyncTargetSecretRef_type_def

lemma plain_types [simp]:
  "plain BackupConfiguration_type"
  "plain BootstrapSpec_type"
  "plain ClusterDeletePolicy_type"
  "plain ConnectionStatusFields_type"
  "plain HelmReleaseKubeconfigSecretRef_type"
  "plain KubeconfigTargetSecretRef_type"
  "plain LocalObjectReference_type"
  "copy_lib_ok L \<Longrightarrow> plain (MachineClass_type L)"
  "plain MachineInstallSpec_type"
  "plain SecretKeySelector_type"
  "plain OmniAuthSpec_type"
  "plain TalosSpec_type"
  "plain OmniConnectionSpec_type"
  "plain SecretSyncKubeconfigSecretRef_type"
  "plain SecretSyncSourceSecretRef_type"
  "plain SecretSyncTargetSecretRef_type"
  by (simp_all add: plain_type_defs copy_lib_ok_def)

end
