(* ===== verification/Deep_Copy.thy ===== *)
theory Deep_Copy
  imports Deep_Copy_Types
begin

text \<open>
  The deep copies of the API types (\<^verbatim>\<open>api/v1alpha1/zz_generated.deepcopy.go\<close>): the 59 functions
  \<^verbatim>\<open>DeepCopyInto\<close>, as functions from the value of \<^verbatim>\<open>in\<close> to that of \<^verbatim>\<open>out\<close> that work on the store, with
  one entry for each statement after \<^verbatim>\<open>*out = *in\<close>, in order; the 59 functions \<^verbatim>\<open>DeepCopy\<close>; and the 16
  functions \<^verbatim>\<open>DeepCopyObject\<close> of the resources and their lists.
\<close>

definition BackupConfiguration_DeepCopyInto :: "copier" where
  "BackupConfiguration_DeepCopyInto = copy_struct []"

definition BackupConfiguration_DeepCopy :: "copier" where
  "BackupConfiguration_DeepCopy = deep_copy BackupConfiguration_DeepCopyInto"

definition BootstrapSpec_DeepCopyInto :: "copier" where
  "BootstrapSpec_DeepCopyInto = copy_struct []"

definition BootstrapSpec_DeepCopy :: "copier" where
  "BootstrapSpec_DeepCopy = deep_copy BootstrapSpec_DeepCopyInto"

definition ClusterDeletePolicy_DeepCopyInto :: "copier" where
  "ClusterDeletePolicy_DeepCopyInto = copy_struct []"

definition ClusterDeletePolicy_DeepCopy :: "copier" where
  "ClusterDeletePolicy_DeepCopy = deep_copy ClusterDeletePolicy_DeepCopyInto"

definition ClusterFeatures_DeepCopyInto :: "copier" where
  "ClusterFeatures_DeepCopyInto = copy_struct
     [(''BackupConfiguration'', unless_nil (new_into assign))]"

definition ClusterFeatures_DeepCopy :: "copier" where
  "ClusterFeatures_DeepCopy = deep_copy ClusterFeatures_DeepCopyInto"

definition CommonStatusFields_DeepCopyInto :: "copy_lib \<Rightarrow> copier" where
  "CommonStatusFields_DeepCopyInto L = copy_struct
     [(''Conditions'', unless_nil (make_each (lc_Condition L)))]"

definition CommonStatusFields_DeepCopy :: "copy_lib \<Rightarrow> copier" where
  "CommonStatusFields_DeepCopy L = deep_copy (CommonStatusFields_DeepCopyInto L)"

definition ConnectionStatusFields_DeepCopyInto :: "copier" where
  "ConnectionStatusFields_DeepCopyInto = copy_struct []"

definition ConnectionStatusFields_DeepCopy :: "copier" where
  "ConnectionStatusFields_DeepCopy = deep_copy ConnectionStatusFields_DeepCopyInto"

definition Descriptors_DeepCopyInto :: "copier" where
  "Descriptors_DeepCopyInto = copy_struct
     [(''Labels'', unless_nil make_map), (''Annotations'', unless_nil make_map)]"

definition Descriptors_DeepCopy :: "copier" where
  "Descriptors_DeepCopy = deep_copy Descriptors_DeepCopyInto"

definition HelmReleaseKubeconfigSecretRef_DeepCopyInto :: "copier" where
  "HelmReleaseKubeconfigSecretRef_DeepCopyInto = copy_struct []"

definition HelmReleaseKubeconfigSecretRef_DeepCopy :: "copier" where
  "HelmReleaseKubeconfigSecretRef_DeepCopy = deep_copy HelmReleaseKubeconfigSecretRef_DeepCopyInto"

definition KubeconfigServiceAccountSpec_DeepCopyInto :: "copier" where
  "KubeconfigServiceAccountSpec_DeepCopyInto = copy_struct
     [(''Groups'', unless_nil make_copy)]"

definition KubeconfigServiceAccountSpec_DeepCopy :: "copier" where
  "KubeconfigServiceAccountSpec_DeepCopy = deep_copy KubeconfigServiceAccountSpec_DeepCopyInto"

definition KubeconfigTargetSecretRef_DeepCopyInto :: "copier" where
  "KubeconfigTargetSecretRef_DeepCopyInto = copy_struct []"

definition KubeconfigTargetSecretRef_DeepCopy :: "copier" where
  "KubeconfigTargetSecretRef_DeepCopy = deep_copy KubeconfigTargetSecretRef_DeepCopyInto"

definition KubernetesManifest_DeepCopyInto :: "copy_lib \<Rightarrow> copier" where
  "KubernetesManifest_DeepCopyInto L = copy_struct
     [(''Inline'', unless_nil (make_each (lc_JSON L)))]"

definition KubernetesManifest_DeepCopy :: "copy_lib \<Rightarrow> copier" where
  "KubernetesManifest_DeepCopy L = deep_copy (KubernetesManifest_DeepCopyInto L)"

definition KubernetesSpec_DeepCopyInto :: "copy_lib \<Rightarrow> copier" where
  "KubernetesSpec_DeepCopyInto L = copy_struct
     [(''Manifests'', unless_nil (make_each (KubernetesManifest_DeepCopyInto L)))]"

definition KubernetesSpec_DeepCopy :: "copy_lib \<Rightarrow> copier" where
  "KubernetesSpec_DeepCopy L = deep_copy (KubernetesSpec_DeepCopyInto L)"

definition LocalObjectReference_DeepCopyInto :: "copier" where
  "LocalObjectReference_DeepCopyInto = copy_struct []"

definition LocalObjectReference_DeepCopy :: "copier" where
  "LocalObjectReference_DeepCopy = deep_copy LocalObjectReference_DeepCopyInto"

definition MachineClass_DeepCopyInto :: "copier" where
  "MachineClass_DeepCopyInto = copy_struct
     [(''Size'', assign)]"

definition MachineClass_DeepCopy :: "copier" where
  "MachineClass_DeepCopy = deep_copy MachineClass_DeepCopyInto"

definition MachineInstallSpec_DeepCopyInto :: "copier" where
  "MachineInstallSpec_DeepCopyInto = copy_struct []"

definition MachineInstallSpec_DeepCopy :: "copier" where
  "MachineInstallSpec_DeepCopy = deep_copy MachineInstallSpec_DeepCopyInto"

definition Patch_DeepCopyInto :: "copy_lib \<Rightarrow> copier" where
  "Patch_DeepCopyInto L = copy_struct
     [(''Labels'', unless_nil make_map), (''Annotations'', unless_nil make_map),
      (''Inline'', unless_nil (new_into (lc_JSON L)))]"

definition Patch_DeepCopy :: "copy_lib \<Rightarrow> copier" where
  "Patch_DeepCopy L = deep_copy (Patch_DeepCopyInto L)"

definition MachineSetSpecFields_DeepCopyInto :: "copy_lib \<Rightarrow> copier" where
  "MachineSetSpecFields_DeepCopyInto L = copy_struct
     [(''Descriptors'', Descriptors_DeepCopyInto), (''Machines'', unless_nil make_copy),
      (''MachineClass'', unless_nil (new_into assign)),
      (''Patches'', unless_nil (make_each (Patch_DeepCopyInto L))),
      (''SystemExtensions'', unless_nil make_copy), (''KernelArgs'', unless_nil make_copy)]"

definition MachineSetSpecFields_DeepCopy :: "copy_lib \<Rightarrow> copier" where
  "MachineSetSpecFields_DeepCopy L = deep_copy (MachineSetSpecFields_DeepCopyInto L)"

definition SecretKeySelector_DeepCopyInto :: "copier" where
  "SecretKeySelector_DeepCopyInto = copy_struct []"

definition SecretKeySelector_DeepCopy :: "copier" where
  "SecretKeySelector_DeepCopy = deep_copy SecretKeySelector_DeepCopyInto"

definition OmniAuthSpec_DeepCopyInto :: "copier" where
  "OmniAuthSpec_DeepCopyInto = copy_struct
     [(''ServiceAccountSecretRef'', assign)]"

definition OmniAuthSpec_DeepCopy :: "copier" where
  "OmniAuthSpec_DeepCopy = deep_copy OmniAuthSpec_DeepCopyInto"

definition TalosSpec_DeepCopyInto :: "copier" where
  "TalosSpec_DeepCopyInto = copy_struct []"

definition TalosSpec_DeepCopy :: "copier" where
  "TalosSpec_DeepCopy = deep_copy TalosSpec_DeepCopyInto"

definition OmniClusterSpec_DeepCopyInto :: "copy_lib \<Rightarrow> copier" where
  "OmniClusterSpec_DeepCopyInto L = copy_struct
     [(''Descriptors'', Descriptors_DeepCopyInto), (''ConnectionRef'', LocalObjectReference_DeepCopyInto),
      (''Kubernetes'', KubernetesSpec_DeepCopyInto L), (''Talos'', assign),
      (''Features'', unless_nil (new_into ClusterFeatures_DeepCopyInto)),
      (''Patches'', unless_nil (make_each (Patch_DeepCopyInto L))),
      (''SystemExtensions'', unless_nil make_copy), (''KernelArgs'', unless_nil make_copy),
      (''DeletePolicy'', assign), (''SyncInterval'', assign)]"

definition OmniClusterSpec_DeepCopy :: "copy_lib \<Rightarrow> copier" where
  "OmniClusterSpec_DeepCopy L = deep_copy (OmniClusterSpec_DeepCopyInto L)"

definition SyncStatusFields_DeepCopyInto :: "copy_lib \<Rightarrow> copier" where
  "SyncStatusFields_DeepCopyInto L = copy_struct
     [(''LastAttemptTime'', unless_nil (lc_Time_DeepCopy L)),
      (''LastSyncTime'', unless_nil (lc_Time_DeepCopy L))]"

definition SyncStatusFields_DeepCopy :: "copy_lib \<Rightarrow> copier" where
  "SyncStatusFields_DeepCopy L = deep_copy (SyncStatusFields_DeepCopyInto L)"

definition OmniClusterStatus_DeepCopyInto :: "copy_lib \<Rightarrow> copier" where
  "OmniClusterStatus_DeepCopyInto L = copy_struct
     [(''CommonStatusFields'', CommonStatusFields_DeepCopyInto L), (''ConnectionStatusFields'', assign),
      (''SyncStatusFields'', SyncStatusFields_DeepCopyInto L), (''WorkersRefs'', unless_nil make_copy),
      (''MachineRefs'', unless_nil make_copy)]"

definition OmniClusterStatus_DeepCopy :: "copy_lib \<Rightarrow> copier" where
  "OmniClusterStatus_DeepCopy L = deep_copy (OmniClusterStatus_DeepCopyInto L)"

definition OmniCluster_DeepCopyInto :: "copy_lib \<Rightarrow> copier" where
  "OmniCluster_DeepCopyInto L = copy_struct
     [(''TypeMeta'', assign), (''ObjectMeta'', lc_ObjectMeta L),
      (''Spec'', OmniClusterSpec_DeepCopyInto L), (''Status'', OmniClusterStatus_DeepCopyInto L)]"

definition OmniCluster_DeepCopy :: "copy_lib \<Rightarrow> copier" where
  "OmniCluster_DeepCopy L = deep_copy (OmniCluster_DeepCopyInto L)"

definition OmniCluster_DeepCopyObject :: "copy_lib \<Rightarrow> copier" where
  "OmniCluster_DeepCopyObject L = deep_copy_object (OmniCluster_DeepCopy L)"

definition OmniClusterList_DeepCopyInto :: "copy_lib \<Rightarrow> copier" where
  "OmniClusterList_DeepCopyInto L = copy_struct
     [(''TypeMeta'', assign), (''ListMeta'', lc_ListMeta L),
      (''Items'', unless_nil (make_each (OmniCluster_DeepCopyInto L)))]"

definition OmniClusterList_DeepCopy :: "copy_lib \<Rightarrow> copier" where
  "OmniClusterList_DeepCopy L = deep_copy (OmniClusterList_DeepCopyInto L)"

definition OmniClusterList_DeepCopyObject :: "copy_lib \<Rightarrow> copier" where
  "OmniClusterList_DeepCopyObject L = deep_copy_object (OmniClusterList_DeepCopy L)"

definition OmniConnectionSpec_DeepCopyInto :: "copier" where
  "OmniConnectionSpec_DeepCopyInto = copy_struct
     [(''Auth'', assign)]"

definition OmniConnectionSpec_DeepCopy :: "copier" where
  "OmniConnectionSpec_DeepCopy = deep_copy OmniConnectionSpec_DeepCopyInto"

definition OmniConnectionStatus_DeepCopyInto :: "copy_lib \<Rightarrow> copier" where
  "OmniConnectionStatus_DeepCopyInto L = copy_struct
     [(''CommonStatusFields'', CommonStatusFields_DeepCopyInto L), (''ConnectionStatusFields'', assign),
      (''LastCheckTime'', unless_nil (lc_Time_DeepCopy L))]"

definition OmniConnectionStatus_DeepCopy :: "copy_lib \<Rightarrow> copier" where
  "OmniConnectionStatus_DeepCopy L = deep_copy (OmniConnectionStatus_DeepCopyInto L)"

definition OmniConnection_DeepCopyInto :: "copy_lib \<Rightarrow> copier" where
  "OmniConnection_DeepCopyInto L = copy_struct
     [(''TypeMeta'', assign), (''ObjectMeta'', lc_ObjectMeta L), (''Spec'', assign),
      (''Status'', OmniConnectionStatus_DeepCopyInto L)]"

definition OmniConnection_DeepCopy :: "copy_lib \<Rightarrow> copier" where
  "OmniConnection_DeepCopy L = deep_copy (OmniConnection_DeepCopyInto L)"

definition OmniConnection_DeepCopyObject :: "copy_lib \<Rightarrow> copier" where
  "OmniConnection_DeepCopyObject L = deep_copy_object (OmniConnection_DeepCopy L)"

definition OmniConnectionList_DeepCopyInto :: "copy_lib \<Rightarrow> copier" where
  "OmniConnectionList_DeepCopyInto L = copy_struct
     [(''TypeMeta'', assign), (''ListMeta'', lc_ListMeta L),
      (''Items'', unless_nil (make_each (OmniConnection_DeepCopyInto L)))]"

definition OmniConnectionList_DeepCopy :: "copy_lib \<Rightarrow> copier" where
  "OmniConnectionList_DeepCopy L = deep_copy (OmniConnectionList_DeepCopyInto L)"

definition OmniConnectionList_DeepCopyObject :: "copy_lib \<Rightarrow> copier" where
  "OmniConnectionList_DeepCopyObject L = deep_copy_object (OmniConnectionList_DeepCopy L)"

definition OmniControlPlaneSpec_DeepCopyInto :: "copy_lib \<Rightarrow> copier" where
  "OmniControlPlaneSpec_DeepCopyInto L = copy_struct
     [(''MachineSetSpecFields'', MachineSetSpecFields_DeepCopyInto L),
      (''ClusterRef'', LocalObjectReference_DeepCopyInto),
      (''BootstrapSpec'', unless_nil (new_into assign))]"

definition OmniControlPlaneSpec_DeepCopy :: "copy_lib \<Rightarrow> copier" where
  "OmniControlPlaneSpec_DeepCopy L = deep_copy (OmniControlPlaneSpec_DeepCopyInto L)"

definition OmniControlPlaneStatus_DeepCopyInto :: "copy_lib \<Rightarrow> copier" where
  "OmniControlPlaneStatus_DeepCopyInto L = copy_struct
     [(''CommonStatusFields'', CommonStatusFields_DeepCopyInto L)]"

definition OmniControlPlaneStatus_DeepCopy :: "copy_lib \<Rightarrow> copier" where
  "OmniControlPlaneStatus_DeepCopy L = deep_copy (OmniControlPlaneStatus_DeepCopyInto L)"

definition OmniControlPlane_DeepCopyInto :: "copy_lib \<Rightarrow> copier" where
  "OmniControlPlane_DeepCopyInto L = copy_struct
     [(''TypeMeta'', assign), (''ObjectMeta'', lc_ObjectMeta L),
      (''Spec'', OmniControlPlaneSpec_DeepCopyInto L), (''Status'', OmniControlPlaneStatus_DeepCopyInto L)]"

definition OmniControlPlane_DeepCopy :: "copy_lib \<Rightarrow> copier" where
  "OmniControlPlane_DeepCopy L = deep_copy (OmniControlPlane_DeepCopyInto L)"

definition OmniControlPlane_DeepCopyObject :: "copy_lib \<Rightarrow> copier" where
  "OmniControlPlane_DeepCopyObject L = deep_copy_object (OmniControlPlane_DeepCopy L)"

definition OmniControlPlaneList_DeepCopyInto :: "copy_lib \<Rightarrow> copier" where
  "OmniControlPlaneList_DeepCopyInto L = copy_struct
     [(''TypeMeta'', assign), (''ListMeta'', lc_ListMeta L),
      (''Items'', unless_nil (make_each (OmniControlPlane_DeepCopyInto L)))]"

definition OmniControlPlaneList_DeepCopy :: "copy_lib \<Rightarrow> copier" where
  "OmniControlPlaneList_DeepCopy L = deep_copy (OmniControlPlaneList_DeepCopyInto L)"

definition OmniControlPlaneList_DeepCopyObject :: "copy_lib \<Rightarrow> copier" where
  "OmniControlPlaneList_DeepCopyObject L = deep_copy_object (OmniControlPlaneList_DeepCopy L)"

definition OmniHelmChartSpec_DeepCopyInto :: "copy_lib \<Rightarrow> copier" where
  "OmniHelmChartSpec_DeepCopyInto L = copy_struct
     [(''Values'', unless_nil (new_into (lc_JSON L)))]"

definition OmniHelmChartSpec_DeepCopy :: "copy_lib \<Rightarrow> copier" where
  "OmniHelmChartSpec_DeepCopy L = deep_copy (OmniHelmChartSpec_DeepCopyInto L)"

definition OmniHelmReleaseSpec_DeepCopyInto :: "copy_lib \<Rightarrow> copier" where
  "OmniHelmReleaseSpec_DeepCopyInto L = copy_struct
     [(''ClusterRef'', LocalObjectReference_DeepCopyInto), (''KubeconfigSecretRef'', assign),
      (''Chart'', OmniHelmChartSpec_DeepCopyInto L), (''Timeout'', unless_nil (new_into assign))]"

definition OmniHelmReleaseSpec_DeepCopy :: "copy_lib \<Rightarrow> copier" where
  "OmniHelmReleaseSpec_DeepCopy L = deep_copy (OmniHelmReleaseSpec_DeepCopyInto L)"

definition OmniHelmReleaseStatus_DeepCopyInto :: "copy_lib \<Rightarrow> copier" where
  "OmniHelmReleaseStatus_DeepCopyInto L = copy_struct
     [(''CommonStatusFields'', CommonStatusFields_DeepCopyInto L),
      (''LastAttemptTime'', unless_nil (lc_Time_DeepCopy L)),
      (''LastSuccessTime'', unless_nil (lc_Time_DeepCopy L))]"

definition OmniHelmReleaseStatus_DeepCopy :: "copy_lib \<Rightarrow> copier" where
  "OmniHelmReleaseStatus_DeepCopy L = deep_copy (OmniHelmReleaseStatus_DeepCopyInto L)"

definition OmniHelmRelease_DeepCopyInto :: "copy_lib \<Rightarrow> copier" where
  "OmniHelmRelease_DeepCopyInto L = copy_struct
     [(''TypeMeta'', assign), (''ObjectMeta'', lc_ObjectMeta L),
      (''Spec'', OmniHelmReleaseSpec_DeepCopyInto L), (''Status'', OmniHelmReleaseStatus_DeepCopyInto L)]"

definition OmniHelmRelease_DeepCopy :: "copy_lib \<Rightarrow> copier" where
  "OmniHelmRelease_DeepCopy L = deep_copy (OmniHelmRelease_DeepCopyInto L)"

definition OmniHelmRelease_DeepCopyObject :: "copy_lib \<Rightarrow> copier" where
  "OmniHelmRelease_DeepCopyObject L = deep_copy_object (OmniHelmRelease_DeepCopy L)"

definition OmniHelmReleaseList_DeepCopyInto :: "copy_lib \<Rightarrow> copier" where
  "OmniHelmReleaseList_DeepCopyInto L = copy_struct
     [(''TypeMeta'', assign), (''ListMeta'', lc_ListMeta L),
      (''Items'', unless_nil (make_each (OmniHelmRelease_DeepCopyInto L)))]"

definition OmniHelmReleaseList_DeepCopy :: "copy_lib \<Rightarrow> copier" where
  "OmniHelmReleaseList_DeepCopy L = deep_copy (OmniHelmReleaseList_DeepCopyInto L)"

definition OmniHelmReleaseList_DeepCopyObject :: "copy_lib \<Rightarrow> copier" where
  "OmniHelmReleaseList_DeepCopyObject L = deep_copy_object (OmniHelmReleaseList_DeepCopy L)"

definition OmniKubeconfigExportSpec_DeepCopyInto :: "copier" where
  "OmniKubeconfigExportSpec_DeepCopyInto = copy_struct
     [(''ClusterRef'', LocalObjectReference_DeepCopyInto), (''TargetSecretRef'', assign),
      (''ServiceAccount'', KubeconfigServiceAccountSpec_DeepCopyInto), (''TTL'', assign),
      (''RenewBefore'', unless_nil (new_into assign))]"

definition OmniKubeconfigExportSpec_DeepCopy :: "copier" where
  "OmniKubeconfigExportSpec_DeepCopy = deep_copy OmniKubeconfigExportSpec_DeepCopyInto"

definition OmniKubeconfigExportStatus_DeepCopyInto :: "copy_lib \<Rightarrow> copier" where
  "OmniKubeconfigExportStatus_DeepCopyInto L = copy_struct
     [(''CommonStatusFields'', CommonStatusFields_DeepCopyInto L), (''ConnectionStatusFields'', assign),
      (''ServiceAccountGroups'', unless_nil make_copy),
      (''ExpirationTime'', unless_nil (lc_Time_DeepCopy L)),
      (''NextRotationTime'', unless_nil (lc_Time_DeepCopy L)),
      (''LastRotationTime'', unless_nil (lc_Time_DeepCopy L))]"

definition OmniKubeconfigExportStatus_DeepCopy :: "copy_lib \<Rightarrow> copier" where
  "OmniKubeconfigExportStatus_DeepCopy L = deep_copy (OmniKubeconfigExportStatus_DeepCopyInto L)"

definition OmniKubeconfigExport_DeepCopyInto :: "copy_lib \<Rightarrow> copier" where
  "OmniKubeconfigExport_DeepCopyInto L = copy_struct
     [(''TypeMeta'', assign), (''ObjectMeta'', lc_ObjectMeta L),
      (''Spec'', OmniKubeconfigExportSpec_DeepCopyInto),
      (''Status'', OmniKubeconfigExportStatus_DeepCopyInto L)]"

definition OmniKubeconfigExport_DeepCopy :: "copy_lib \<Rightarrow> copier" where
  "OmniKubeconfigExport_DeepCopy L = deep_copy (OmniKubeconfigExport_DeepCopyInto L)"

definition OmniKubeconfigExport_DeepCopyObject :: "copy_lib \<Rightarrow> copier" where
  "OmniKubeconfigExport_DeepCopyObject L = deep_copy_object (OmniKubeconfigExport_DeepCopy L)"

definition OmniKubeconfigExportList_DeepCopyInto :: "copy_lib \<Rightarrow> copier" where
  "OmniKubeconfigExportList_DeepCopyInto L = copy_struct
     [(''TypeMeta'', assign), (''ListMeta'', lc_ListMeta L),
      (''Items'', unless_nil (make_each (OmniKubeconfigExport_DeepCopyInto L)))]"

definition OmniKubeconfigExportList_DeepCopy :: "copy_lib \<Rightarrow> copier" where
  "OmniKubeconfigExportList_DeepCopy L = deep_copy (OmniKubeconfigExportList_DeepCopyInto L)"

definition OmniKubeconfigExportList_DeepCopyObject :: "copy_lib \<Rightarrow> copier" where
  "OmniKubeconfigExportList_DeepCopyObject L = deep_copy_object (OmniKubeconfigExportList_DeepCopy L)"

definition OmniMachineSpec_DeepCopyInto :: "copy_lib \<Rightarrow> copier" where
  "OmniMachineSpec_DeepCopyInto L = copy_struct
     [(''Descriptors'', Descriptors_DeepCopyInto), (''ClusterRef'', LocalObjectReference_DeepCopyInto),
      (''Install'', unless_nil (new_into assign)),
      (''Patches'', unless_nil (make_each (Patch_DeepCopyInto L))),
      (''SystemExtensions'', unless_nil make_copy), (''KernelArgs'', unless_nil make_copy)]"

definition OmniMachineSpec_DeepCopy :: "copy_lib \<Rightarrow> copier" where
  "OmniMachineSpec_DeepCopy L = deep_copy (OmniMachineSpec_DeepCopyInto L)"

definition OmniMachineStatus_DeepCopyInto :: "copy_lib \<Rightarrow> copier" where
  "OmniMachineStatus_DeepCopyInto L = copy_struct
     [(''CommonStatusFields'', CommonStatusFields_DeepCopyInto L)]"

definition OmniMachineStatus_DeepCopy :: "copy_lib \<Rightarrow> copier" where
  "OmniMachineStatus_DeepCopy L = deep_copy (OmniMachineStatus_DeepCopyInto L)"

definition OmniMachine_DeepCopyInto :: "copy_lib \<Rightarrow> copier" where
  "OmniMachine_DeepCopyInto L = copy_struct
     [(''TypeMeta'', assign), (''ObjectMeta'', lc_ObjectMeta L),
      (''Spec'', OmniMachineSpec_DeepCopyInto L), (''Status'', OmniMachineStatus_DeepCopyInto L)]"

definition OmniMachine_DeepCopy :: "copy_lib \<Rightarrow> copier" where
  "OmniMachine_DeepCopy L = deep_copy (OmniMachine_DeepCopyInto L)"

definition OmniMachine_DeepCopyObject :: "copy_lib \<Rightarrow> copier" where
  "OmniMachine_DeepCopyObject L = deep_copy_object (OmniMachine_DeepCopy L)"

definition OmniMachineList_DeepCopyInto :: "copy_lib \<Rightarrow> copier" where
  "OmniMachineList_DeepCopyInto L = copy_struct
     [(''TypeMeta'', assign), (''ListMeta'', lc_ListMeta L),
      (''Items'', unless_nil (make_each (OmniMachine_DeepCopyInto L)))]"

definition OmniMachineList_DeepCopy :: "copy_lib \<Rightarrow> copier" where
  "OmniMachineList_DeepCopy L = deep_copy (OmniMachineList_DeepCopyInto L)"

definition OmniMachineList_DeepCopyObject :: "copy_lib \<Rightarrow> copier" where
  "OmniMachineList_DeepCopyObject L = deep_copy_object (OmniMachineList_DeepCopy L)"

definition SecretSyncKubeconfigSecretRef_DeepCopyInto :: "copier" where
  "SecretSyncKubeconfigSecretRef_DeepCopyInto = copy_struct []"

definition SecretSyncKubeconfigSecretRef_DeepCopy :: "copier" where
  "SecretSyncKubeconfigSecretRef_DeepCopy = deep_copy SecretSyncKubeconfigSecretRef_DeepCopyInto"

definition SecretSyncSourceSecretRef_DeepCopyInto :: "copier" where
  "SecretSyncSourceSecretRef_DeepCopyInto = copy_struct []"

definition SecretSyncSourceSecretRef_DeepCopy :: "copier" where
  "SecretSyncSourceSecretRef_DeepCopy = deep_copy SecretSyncSourceSecretRef_DeepCopyInto"

definition SecretSyncTargetSecretRef_DeepCopyInto :: "copier" where
  "SecretSyncTargetSecretRef_DeepCopyInto = copy_struct []"

definition SecretSyncTargetSecretRef_DeepCopy :: "copier" where
  "SecretSyncTargetSecretRef_DeepCopy = deep_copy SecretSyncTargetSecretRef_DeepCopyInto"

definition OmniSecretSyncSpec_DeepCopyInto :: "copier" where
  "OmniSecretSyncSpec_DeepCopyInto = copy_struct
     [(''ClusterRef'', LocalObjectReference_DeepCopyInto), (''KubeconfigSecretRef'', assign),
      (''SourceSecretRef'', assign), (''TargetSecretRef'', assign), (''Labels'', unless_nil make_map),
      (''Annotations'', unless_nil make_map)]"

definition OmniSecretSyncSpec_DeepCopy :: "copier" where
  "OmniSecretSyncSpec_DeepCopy = deep_copy OmniSecretSyncSpec_DeepCopyInto"

definition OmniSecretSyncStatus_DeepCopyInto :: "copy_lib \<Rightarrow> copier" where
  "OmniSecretSyncStatus_DeepCopyInto L = copy_struct
     [(''CommonStatusFields'', CommonStatusFields_DeepCopyInto L),
      (''LastAttemptTime'', unless_nil (lc_Time_DeepCopy L)),
      (''LastSyncTime'', unless_nil (lc_Time_DeepCopy L))]"

definition OmniSecretSyncStatus_DeepCopy :: "copy_lib \<Rightarrow> copier" where
  "OmniSecretSyncStatus_DeepCopy L = deep_copy (OmniSecretSyncStatus_DeepCopyInto L)"

definition OmniSecretSync_DeepCopyInto :: "copy_lib \<Rightarrow> copier" where
  "OmniSecretSync_DeepCopyInto L = copy_struct
     [(''TypeMeta'', assign), (''ObjectMeta'', lc_ObjectMeta L),
      (''Spec'', OmniSecretSyncSpec_DeepCopyInto), (''Status'', OmniSecretSyncStatus_DeepCopyInto L)]"

definition OmniSecretSync_DeepCopy :: "copy_lib \<Rightarrow> copier" where
  "OmniSecretSync_DeepCopy L = deep_copy (OmniSecretSync_DeepCopyInto L)"

definition OmniSecretSync_DeepCopyObject :: "copy_lib \<Rightarrow> copier" where
  "OmniSecretSync_DeepCopyObject L = deep_copy_object (OmniSecretSync_DeepCopy L)"

definition OmniSecretSyncList_DeepCopyInto :: "copy_lib \<Rightarrow> copier" where
  "OmniSecretSyncList_DeepCopyInto L = copy_struct
     [(''TypeMeta'', assign), (''ListMeta'', lc_ListMeta L),
      (''Items'', unless_nil (make_each (OmniSecretSync_DeepCopyInto L)))]"

definition OmniSecretSyncList_DeepCopy :: "copy_lib \<Rightarrow> copier" where
  "OmniSecretSyncList_DeepCopy L = deep_copy (OmniSecretSyncList_DeepCopyInto L)"

definition OmniSecretSyncList_DeepCopyObject :: "copy_lib \<Rightarrow> copier" where
  "OmniSecretSyncList_DeepCopyObject L = deep_copy_object (OmniSecretSyncList_DeepCopy L)"

definition RollingStrategy_DeepCopyInto :: "copier" where
  "RollingStrategy_DeepCopyInto = copy_struct
     [(''MaxParallelism'', unless_nil (new_into assign))]"

definition RollingStrategy_DeepCopy :: "copier" where
  "RollingStrategy_DeepCopy = deep_copy RollingStrategy_DeepCopyInto"

definition UpdateStrategy_DeepCopyInto :: "copier" where
  "UpdateStrategy_DeepCopyInto = copy_struct
     [(''Rolling'', unless_nil (new_into RollingStrategy_DeepCopyInto))]"

definition UpdateStrategy_DeepCopy :: "copier" where
  "UpdateStrategy_DeepCopy = deep_copy UpdateStrategy_DeepCopyInto"

definition OmniWorkersSpec_DeepCopyInto :: "copy_lib \<Rightarrow> copier" where
  "OmniWorkersSpec_DeepCopyInto L = copy_struct
     [(''MachineSetSpecFields'', MachineSetSpecFields_DeepCopyInto L),
      (''ClusterRef'', LocalObjectReference_DeepCopyInto),
      (''UpdateStrategy'', unless_nil (new_into UpdateStrategy_DeepCopyInto)),
      (''UpgradeStrategy'', unless_nil (new_into UpdateStrategy_DeepCopyInto)),
      (''DeleteStrategy'', unless_nil (new_into UpdateStrategy_DeepCopyInto))]"

definition OmniWorkersSpec_DeepCopy :: "copy_lib \<Rightarrow> copier" where
  "OmniWorkersSpec_DeepCopy L = deep_copy (OmniWorkersSpec_DeepCopyInto L)"

definition OmniWorkersStatus_DeepCopyInto :: "copy_lib \<Rightarrow> copier" where
  "OmniWorkersStatus_DeepCopyInto L = copy_struct
     [(''CommonStatusFields'', CommonStatusFields_DeepCopyInto L)]"

definition OmniWorkersStatus_DeepCopy :: "copy_lib \<Rightarrow> copier" where
  "OmniWorkersStatus_DeepCopy L = deep_copy (OmniWorkersStatus_DeepCopyInto L)"

definition OmniWorkers_DeepCopyInto :: "copy_lib \<Rightarrow> copier" where
  "OmniWorkers_DeepCopyInto L = copy_struct
     [(''TypeMeta'', assign), (''ObjectMeta'', lc_ObjectMeta L),
      (''Spec'', OmniWorkersSpec_DeepCopyInto L), (''Status'', OmniWorkersStatus_DeepCopyInto L)]"

definition OmniWorkers_DeepCopy :: "copy_lib \<Rightarrow> copier" where
  "OmniWorkers_DeepCopy L = deep_copy (OmniWorkers_DeepCopyInto L)"

definition OmniWorkers_DeepCopyObject :: "copy_lib \<Rightarrow> copier" where
  "OmniWorkers_DeepCopyObject L = deep_copy_object (OmniWorkers_DeepCopy L)"

definition OmniWorkersList_DeepCopyInto :: "copy_lib \<Rightarrow> copier" where
  "OmniWorkersList_DeepCopyInto L = copy_struct
     [(''TypeMeta'', assign), (''ListMeta'', lc_ListMeta L),
      (''Items'', unless_nil (make_each (OmniWorkers_DeepCopyInto L)))]"

definition OmniWorkersList_DeepCopy :: "copy_lib \<Rightarrow> copier" where
  "OmniWorkersList_DeepCopy L = deep_copy (OmniWorkersList_DeepCopyInto L)"

definition OmniWorkersList_DeepCopyObject :: "copy_lib \<Rightarrow> copier" where
  "OmniWorkersList_DeepCopyObject L = deep_copy_object (OmniWorkersList_DeepCopy L)"

end
