(* ===== verification/Deep_Copy_Safety.thy ===== *)
theory Deep_Copy_Safety
  imports Deep_Copy
begin

text \<open>
  Every generated function copies deeply: it returns, the copy reads like the original, and the two
  share no memory, so that neither shows what is done to the other.
\<close>

declare copier_rules [simp]

lemma copy_lib_facts [simp]:
  assumes "copy_lib_ok L"
  shows "plain (lt_TypeMeta L)" "plain (lt_Duration L)" "plain (lt_IntOrString L)" "plain (lt_SecretType L)"
    "deep_copier (lt_ObjectMeta L) (lc_ObjectMeta L)" "deep_copier (lt_ListMeta L) (lc_ListMeta L)"
    "deep_copier (lt_Condition L) (lc_Condition L)" "deep_copier (lt_JSON L) (lc_JSON L)"
    "deep_copier (TPtr (lt_Time L)) (lc_Time_DeepCopy L)"
  using assms by (simp_all add: copy_lib_ok_def)

lemma nil_deep [simp]: "deep_copier (TPtr t) cp \<Longrightarrow> deep_copier (TPtr t) (unless_nil cp)"
  unfolding deep_copier_def by (auto simp: unless_nil_def copied_def)

section \<open>One type after the other\<close>

lemma BackupConfiguration_deep [simp]: "deep_copier BackupConfiguration_type BackupConfiguration_DeepCopyInto"
  unfolding BackupConfiguration_type_def BackupConfiguration_DeepCopyInto_def by (rule copy_struct_deep) simp_all

lemma BootstrapSpec_deep [simp]: "deep_copier BootstrapSpec_type BootstrapSpec_DeepCopyInto"
  unfolding BootstrapSpec_type_def BootstrapSpec_DeepCopyInto_def by (rule copy_struct_deep) simp_all

lemma ClusterDeletePolicy_deep [simp]: "deep_copier ClusterDeletePolicy_type ClusterDeletePolicy_DeepCopyInto"
  unfolding ClusterDeletePolicy_type_def ClusterDeletePolicy_DeepCopyInto_def by (rule copy_struct_deep) simp_all

lemma ClusterFeatures_deep [simp]: "deep_copier ClusterFeatures_type ClusterFeatures_DeepCopyInto"
  unfolding ClusterFeatures_type_def ClusterFeatures_DeepCopyInto_def by (rule copy_struct_deep) simp_all

lemma CommonStatusFields_deep [simp]: "copy_lib_ok L \<Longrightarrow> deep_copier (CommonStatusFields_type L) (CommonStatusFields_DeepCopyInto L)"
  unfolding CommonStatusFields_type_def CommonStatusFields_DeepCopyInto_def by (rule copy_struct_deep) simp_all

lemma ConnectionStatusFields_deep [simp]: "deep_copier ConnectionStatusFields_type ConnectionStatusFields_DeepCopyInto"
  unfolding ConnectionStatusFields_type_def ConnectionStatusFields_DeepCopyInto_def by (rule copy_struct_deep) simp_all

lemma Descriptors_deep [simp]: "deep_copier Descriptors_type Descriptors_DeepCopyInto"
  unfolding Descriptors_type_def Descriptors_DeepCopyInto_def by (rule copy_struct_deep) simp_all

lemma HelmReleaseKubeconfigSecretRef_deep [simp]: "deep_copier HelmReleaseKubeconfigSecretRef_type HelmReleaseKubeconfigSecretRef_DeepCopyInto"
  unfolding HelmReleaseKubeconfigSecretRef_type_def HelmReleaseKubeconfigSecretRef_DeepCopyInto_def by (rule copy_struct_deep) simp_all

lemma KubeconfigServiceAccountSpec_deep [simp]: "deep_copier KubeconfigServiceAccountSpec_type KubeconfigServiceAccountSpec_DeepCopyInto"
  unfolding KubeconfigServiceAccountSpec_type_def KubeconfigServiceAccountSpec_DeepCopyInto_def by (rule copy_struct_deep) simp_all

lemma KubeconfigTargetSecretRef_deep [simp]: "deep_copier KubeconfigTargetSecretRef_type KubeconfigTargetSecretRef_DeepCopyInto"
  unfolding KubeconfigTargetSecretRef_type_def KubeconfigTargetSecretRef_DeepCopyInto_def by (rule copy_struct_deep) simp_all

lemma KubernetesManifest_deep [simp]: "copy_lib_ok L \<Longrightarrow> deep_copier (KubernetesManifest_type L) (KubernetesManifest_DeepCopyInto L)"
  unfolding KubernetesManifest_type_def KubernetesManifest_DeepCopyInto_def by (rule copy_struct_deep) simp_all

lemma KubernetesSpec_deep [simp]: "copy_lib_ok L \<Longrightarrow> deep_copier (KubernetesSpec_type L) (KubernetesSpec_DeepCopyInto L)"
  unfolding KubernetesSpec_type_def KubernetesSpec_DeepCopyInto_def by (rule copy_struct_deep) simp_all

lemma LocalObjectReference_deep [simp]: "deep_copier LocalObjectReference_type LocalObjectReference_DeepCopyInto"
  unfolding LocalObjectReference_type_def LocalObjectReference_DeepCopyInto_def by (rule copy_struct_deep) simp_all

lemma MachineClass_deep [simp]: "copy_lib_ok L \<Longrightarrow> deep_copier (MachineClass_type L) MachineClass_DeepCopyInto"
  unfolding MachineClass_type_def MachineClass_DeepCopyInto_def by (rule copy_struct_deep) simp_all

lemma MachineInstallSpec_deep [simp]: "deep_copier MachineInstallSpec_type MachineInstallSpec_DeepCopyInto"
  unfolding MachineInstallSpec_type_def MachineInstallSpec_DeepCopyInto_def by (rule copy_struct_deep) simp_all

lemma Patch_deep [simp]: "copy_lib_ok L \<Longrightarrow> deep_copier (Patch_type L) (Patch_DeepCopyInto L)"
  unfolding Patch_type_def Patch_DeepCopyInto_def by (rule copy_struct_deep) simp_all

lemma MachineSetSpecFields_deep [simp]: "copy_lib_ok L \<Longrightarrow> deep_copier (MachineSetSpecFields_type L) (MachineSetSpecFields_DeepCopyInto L)"
  unfolding MachineSetSpecFields_type_def MachineSetSpecFields_DeepCopyInto_def by (rule copy_struct_deep) simp_all

lemma SecretKeySelector_deep [simp]: "deep_copier SecretKeySelector_type SecretKeySelector_DeepCopyInto"
  unfolding SecretKeySelector_type_def SecretKeySelector_DeepCopyInto_def by (rule copy_struct_deep) simp_all

lemma OmniAuthSpec_deep [simp]: "deep_copier OmniAuthSpec_type OmniAuthSpec_DeepCopyInto"
  unfolding OmniAuthSpec_type_def OmniAuthSpec_DeepCopyInto_def by (rule copy_struct_deep) simp_all

lemma TalosSpec_deep [simp]: "deep_copier TalosSpec_type TalosSpec_DeepCopyInto"
  unfolding TalosSpec_type_def TalosSpec_DeepCopyInto_def by (rule copy_struct_deep) simp_all

lemma OmniClusterSpec_deep [simp]: "copy_lib_ok L \<Longrightarrow> deep_copier (OmniClusterSpec_type L) (OmniClusterSpec_DeepCopyInto L)"
  unfolding OmniClusterSpec_type_def OmniClusterSpec_DeepCopyInto_def by (rule copy_struct_deep) simp_all

lemma SyncStatusFields_deep [simp]: "copy_lib_ok L \<Longrightarrow> deep_copier (SyncStatusFields_type L) (SyncStatusFields_DeepCopyInto L)"
  unfolding SyncStatusFields_type_def SyncStatusFields_DeepCopyInto_def by (rule copy_struct_deep) simp_all

lemma OmniClusterStatus_deep [simp]: "copy_lib_ok L \<Longrightarrow> deep_copier (OmniClusterStatus_type L) (OmniClusterStatus_DeepCopyInto L)"
  unfolding OmniClusterStatus_type_def OmniClusterStatus_DeepCopyInto_def by (rule copy_struct_deep) simp_all

lemma OmniCluster_deep [simp]: "copy_lib_ok L \<Longrightarrow> deep_copier (OmniCluster_type L) (OmniCluster_DeepCopyInto L)"
  unfolding OmniCluster_type_def OmniCluster_DeepCopyInto_def by (rule copy_struct_deep) simp_all

lemma OmniClusterList_deep [simp]: "copy_lib_ok L \<Longrightarrow> deep_copier (OmniClusterList_type L) (OmniClusterList_DeepCopyInto L)"
  unfolding OmniClusterList_type_def OmniClusterList_DeepCopyInto_def by (rule copy_struct_deep) simp_all

lemma OmniConnectionSpec_deep [simp]: "deep_copier OmniConnectionSpec_type OmniConnectionSpec_DeepCopyInto"
  unfolding OmniConnectionSpec_type_def OmniConnectionSpec_DeepCopyInto_def by (rule copy_struct_deep) simp_all

lemma OmniConnectionStatus_deep [simp]: "copy_lib_ok L \<Longrightarrow> deep_copier (OmniConnectionStatus_type L) (OmniConnectionStatus_DeepCopyInto L)"
  unfolding OmniConnectionStatus_type_def OmniConnectionStatus_DeepCopyInto_def by (rule copy_struct_deep) simp_all

lemma OmniConnection_deep [simp]: "copy_lib_ok L \<Longrightarrow> deep_copier (OmniConnection_type L) (OmniConnection_DeepCopyInto L)"
  unfolding OmniConnection_type_def OmniConnection_DeepCopyInto_def by (rule copy_struct_deep) simp_all

lemma OmniConnectionList_deep [simp]: "copy_lib_ok L \<Longrightarrow> deep_copier (OmniConnectionList_type L) (OmniConnectionList_DeepCopyInto L)"
  unfolding OmniConnectionList_type_def OmniConnectionList_DeepCopyInto_def by (rule copy_struct_deep) simp_all

lemma OmniControlPlaneSpec_deep [simp]: "copy_lib_ok L \<Longrightarrow> deep_copier (OmniControlPlaneSpec_type L) (OmniControlPlaneSpec_DeepCopyInto L)"
  unfolding OmniControlPlaneSpec_type_def OmniControlPlaneSpec_DeepCopyInto_def by (rule copy_struct_deep) simp_all

lemma OmniControlPlaneStatus_deep [simp]: "copy_lib_ok L \<Longrightarrow> deep_copier (OmniControlPlaneStatus_type L) (OmniControlPlaneStatus_DeepCopyInto L)"
  unfolding OmniControlPlaneStatus_type_def OmniControlPlaneStatus_DeepCopyInto_def by (rule copy_struct_deep) simp_all

lemma OmniControlPlane_deep [simp]: "copy_lib_ok L \<Longrightarrow> deep_copier (OmniControlPlane_type L) (OmniControlPlane_DeepCopyInto L)"
  unfolding OmniControlPlane_type_def OmniControlPlane_DeepCopyInto_def by (rule copy_struct_deep) simp_all

lemma OmniControlPlaneList_deep [simp]: "copy_lib_ok L \<Longrightarrow> deep_copier (OmniControlPlaneList_type L) (OmniControlPlaneList_DeepCopyInto L)"
  unfolding OmniControlPlaneList_type_def OmniControlPlaneList_DeepCopyInto_def by (rule copy_struct_deep) simp_all

lemma OmniHelmChartSpec_deep [simp]: "copy_lib_ok L \<Longrightarrow> deep_copier (OmniHelmChartSpec_type L) (OmniHelmChartSpec_DeepCopyInto L)"
  unfolding OmniHelmChartSpec_type_def OmniHelmChartSpec_DeepCopyInto_def by (rule copy_struct_deep) simp_all

lemma OmniHelmReleaseSpec_deep [simp]: "copy_lib_ok L \<Longrightarrow> deep_copier (OmniHelmReleaseSpec_type L) (OmniHelmReleaseSpec_DeepCopyInto L)"
  unfolding OmniHelmReleaseSpec_type_def OmniHelmReleaseSpec_DeepCopyInto_def by (rule copy_struct_deep) simp_all

lemma OmniHelmReleaseStatus_deep [simp]: "copy_lib_ok L \<Longrightarrow> deep_copier (OmniHelmReleaseStatus_type L) (OmniHelmReleaseStatus_DeepCopyInto L)"
  unfolding OmniHelmReleaseStatus_type_def OmniHelmReleaseStatus_DeepCopyInto_def by (rule copy_struct_deep) simp_all

lemma OmniHelmRelease_deep [simp]: "copy_lib_ok L \<Longrightarrow> deep_copier (OmniHelmRelease_type L) (OmniHelmRelease_DeepCopyInto L)"
  unfolding OmniHelmRelease_type_def OmniHelmRelease_DeepCopyInto_def by (rule copy_struct_deep) simp_all

lemma OmniHelmReleaseList_deep [simp]: "copy_lib_ok L \<Longrightarrow> deep_copier (OmniHelmReleaseList_type L) (OmniHelmReleaseList_DeepCopyInto L)"
  unfolding OmniHelmReleaseList_type_def OmniHelmReleaseList_DeepCopyInto_def by (rule copy_struct_deep) simp_all

lemma OmniKubeconfigExportSpec_deep [simp]: "copy_lib_ok L \<Longrightarrow> deep_copier (OmniKubeconfigExportSpec_type L) OmniKubeconfigExportSpec_DeepCopyInto"
  unfolding OmniKubeconfigExportSpec_type_def OmniKubeconfigExportSpec_DeepCopyInto_def by (rule copy_struct_deep) simp_all

lemma OmniKubeconfigExportStatus_deep [simp]: "copy_lib_ok L \<Longrightarrow> deep_copier (OmniKubeconfigExportStatus_type L) (OmniKubeconfigExportStatus_DeepCopyInto L)"
  unfolding OmniKubeconfigExportStatus_type_def OmniKubeconfigExportStatus_DeepCopyInto_def by (rule copy_struct_deep) simp_all

lemma OmniKubeconfigExport_deep [simp]: "copy_lib_ok L \<Longrightarrow> deep_copier (OmniKubeconfigExport_type L) (OmniKubeconfigExport_DeepCopyInto L)"
  unfolding OmniKubeconfigExport_type_def OmniKubeconfigExport_DeepCopyInto_def by (rule copy_struct_deep) simp_all

lemma OmniKubeconfigExportList_deep [simp]: "copy_lib_ok L \<Longrightarrow> deep_copier (OmniKubeconfigExportList_type L) (OmniKubeconfigExportList_DeepCopyInto L)"
  unfolding OmniKubeconfigExportList_type_def OmniKubeconfigExportList_DeepCopyInto_def by (rule copy_struct_deep) simp_all

lemma OmniMachineSpec_deep [simp]: "copy_lib_ok L \<Longrightarrow> deep_copier (OmniMachineSpec_type L) (OmniMachineSpec_DeepCopyInto L)"
  unfolding OmniMachineSpec_type_def OmniMachineSpec_DeepCopyInto_def by (rule copy_struct_deep) simp_all

lemma OmniMachineStatus_deep [simp]: "copy_lib_ok L \<Longrightarrow> deep_copier (OmniMachineStatus_type L) (OmniMachineStatus_DeepCopyInto L)"
  unfolding OmniMachineStatus_type_def OmniMachineStatus_DeepCopyInto_def by (rule copy_struct_deep) simp_all

lemma OmniMachine_deep [simp]: "copy_lib_ok L \<Longrightarrow> deep_copier (OmniMachine_type L) (OmniMachine_DeepCopyInto L)"
  unfolding OmniMachine_type_def OmniMachine_DeepCopyInto_def by (rule copy_struct_deep) simp_all

lemma OmniMachineList_deep [simp]: "copy_lib_ok L \<Longrightarrow> deep_copier (OmniMachineList_type L) (OmniMachineList_DeepCopyInto L)"
  unfolding OmniMachineList_type_def OmniMachineList_DeepCopyInto_def by (rule copy_struct_deep) simp_all

lemma SecretSyncKubeconfigSecretRef_deep [simp]: "deep_copier SecretSyncKubeconfigSecretRef_type SecretSyncKubeconfigSecretRef_DeepCopyInto"
  unfolding SecretSyncKubeconfigSecretRef_type_def SecretSyncKubeconfigSecretRef_DeepCopyInto_def by (rule copy_struct_deep) simp_all

lemma SecretSyncSourceSecretRef_deep [simp]: "deep_copier SecretSyncSourceSecretRef_type SecretSyncSourceSecretRef_DeepCopyInto"
  unfolding SecretSyncSourceSecretRef_type_def SecretSyncSourceSecretRef_DeepCopyInto_def by (rule copy_struct_deep) simp_all

lemma SecretSyncTargetSecretRef_deep [simp]: "deep_copier SecretSyncTargetSecretRef_type SecretSyncTargetSecretRef_DeepCopyInto"
  unfolding SecretSyncTargetSecretRef_type_def SecretSyncTargetSecretRef_DeepCopyInto_def by (rule copy_struct_deep) simp_all

lemma OmniSecretSyncSpec_deep [simp]: "copy_lib_ok L \<Longrightarrow> deep_copier (OmniSecretSyncSpec_type L) OmniSecretSyncSpec_DeepCopyInto"
  unfolding OmniSecretSyncSpec_type_def OmniSecretSyncSpec_DeepCopyInto_def by (rule copy_struct_deep) simp_all

lemma OmniSecretSyncStatus_deep [simp]: "copy_lib_ok L \<Longrightarrow> deep_copier (OmniSecretSyncStatus_type L) (OmniSecretSyncStatus_DeepCopyInto L)"
  unfolding OmniSecretSyncStatus_type_def OmniSecretSyncStatus_DeepCopyInto_def by (rule copy_struct_deep) simp_all

lemma OmniSecretSync_deep [simp]: "copy_lib_ok L \<Longrightarrow> deep_copier (OmniSecretSync_type L) (OmniSecretSync_DeepCopyInto L)"
  unfolding OmniSecretSync_type_def OmniSecretSync_DeepCopyInto_def by (rule copy_struct_deep) simp_all

lemma OmniSecretSyncList_deep [simp]: "copy_lib_ok L \<Longrightarrow> deep_copier (OmniSecretSyncList_type L) (OmniSecretSyncList_DeepCopyInto L)"
  unfolding OmniSecretSyncList_type_def OmniSecretSyncList_DeepCopyInto_def by (rule copy_struct_deep) simp_all

lemma RollingStrategy_deep [simp]: "deep_copier RollingStrategy_type RollingStrategy_DeepCopyInto"
  unfolding RollingStrategy_type_def RollingStrategy_DeepCopyInto_def by (rule copy_struct_deep) simp_all

lemma UpdateStrategy_deep [simp]: "deep_copier UpdateStrategy_type UpdateStrategy_DeepCopyInto"
  unfolding UpdateStrategy_type_def UpdateStrategy_DeepCopyInto_def by (rule copy_struct_deep) simp_all

lemma OmniWorkersSpec_deep [simp]: "copy_lib_ok L \<Longrightarrow> deep_copier (OmniWorkersSpec_type L) (OmniWorkersSpec_DeepCopyInto L)"
  unfolding OmniWorkersSpec_type_def OmniWorkersSpec_DeepCopyInto_def by (rule copy_struct_deep) simp_all

lemma OmniWorkersStatus_deep [simp]: "copy_lib_ok L \<Longrightarrow> deep_copier (OmniWorkersStatus_type L) (OmniWorkersStatus_DeepCopyInto L)"
  unfolding OmniWorkersStatus_type_def OmniWorkersStatus_DeepCopyInto_def by (rule copy_struct_deep) simp_all

lemma OmniWorkers_deep [simp]: "copy_lib_ok L \<Longrightarrow> deep_copier (OmniWorkers_type L) (OmniWorkers_DeepCopyInto L)"
  unfolding OmniWorkers_type_def OmniWorkers_DeepCopyInto_def by (rule copy_struct_deep) simp_all

lemma OmniWorkersList_deep [simp]: "copy_lib_ok L \<Longrightarrow> deep_copier (OmniWorkersList_type L) (OmniWorkersList_DeepCopyInto L)"
  unfolding OmniWorkersList_type_def OmniWorkersList_DeepCopyInto_def by (rule copy_struct_deep) simp_all

section \<open>All of them\<close>

lemmas deep_copy_definitions =
  BackupConfiguration_DeepCopy_def BootstrapSpec_DeepCopy_def ClusterDeletePolicy_DeepCopy_def
  ClusterFeatures_DeepCopy_def CommonStatusFields_DeepCopy_def ConnectionStatusFields_DeepCopy_def
  Descriptors_DeepCopy_def HelmReleaseKubeconfigSecretRef_DeepCopy_def
  KubeconfigServiceAccountSpec_DeepCopy_def KubeconfigTargetSecretRef_DeepCopy_def
  KubernetesManifest_DeepCopy_def KubernetesSpec_DeepCopy_def LocalObjectReference_DeepCopy_def
  MachineClass_DeepCopy_def MachineInstallSpec_DeepCopy_def Patch_DeepCopy_def
  MachineSetSpecFields_DeepCopy_def SecretKeySelector_DeepCopy_def OmniAuthSpec_DeepCopy_def
  TalosSpec_DeepCopy_def OmniClusterSpec_DeepCopy_def SyncStatusFields_DeepCopy_def
  OmniClusterStatus_DeepCopy_def OmniCluster_DeepCopy_def OmniClusterList_DeepCopy_def
  OmniConnectionSpec_DeepCopy_def OmniConnectionStatus_DeepCopy_def OmniConnection_DeepCopy_def
  OmniConnectionList_DeepCopy_def OmniControlPlaneSpec_DeepCopy_def
  OmniControlPlaneStatus_DeepCopy_def OmniControlPlane_DeepCopy_def OmniControlPlaneList_DeepCopy_def
  OmniHelmChartSpec_DeepCopy_def OmniHelmReleaseSpec_DeepCopy_def OmniHelmReleaseStatus_DeepCopy_def
  OmniHelmRelease_DeepCopy_def OmniHelmReleaseList_DeepCopy_def OmniKubeconfigExportSpec_DeepCopy_def
  OmniKubeconfigExportStatus_DeepCopy_def OmniKubeconfigExport_DeepCopy_def
  OmniKubeconfigExportList_DeepCopy_def OmniMachineSpec_DeepCopy_def OmniMachineStatus_DeepCopy_def
  OmniMachine_DeepCopy_def OmniMachineList_DeepCopy_def SecretSyncKubeconfigSecretRef_DeepCopy_def
  SecretSyncSourceSecretRef_DeepCopy_def SecretSyncTargetSecretRef_DeepCopy_def
  OmniSecretSyncSpec_DeepCopy_def OmniSecretSyncStatus_DeepCopy_def OmniSecretSync_DeepCopy_def
  OmniSecretSyncList_DeepCopy_def RollingStrategy_DeepCopy_def UpdateStrategy_DeepCopy_def
  OmniWorkersSpec_DeepCopy_def OmniWorkersStatus_DeepCopy_def OmniWorkers_DeepCopy_def
  OmniWorkersList_DeepCopy_def

lemmas deep_copy_object_definitions =
  OmniCluster_DeepCopyObject_def OmniClusterList_DeepCopyObject_def OmniConnection_DeepCopyObject_def
  OmniConnectionList_DeepCopyObject_def OmniControlPlane_DeepCopyObject_def
  OmniControlPlaneList_DeepCopyObject_def OmniHelmRelease_DeepCopyObject_def
  OmniHelmReleaseList_DeepCopyObject_def OmniKubeconfigExport_DeepCopyObject_def
  OmniKubeconfigExportList_DeepCopyObject_def OmniMachine_DeepCopyObject_def
  OmniMachineList_DeepCopyObject_def OmniSecretSync_DeepCopyObject_def
  OmniSecretSyncList_DeepCopyObject_def OmniWorkers_DeepCopyObject_def
  OmniWorkersList_DeepCopyObject_def

definition deep_copies :: "copy_lib \<Rightarrow> (gty \<times> copier) list" where
  "deep_copies L =
     [(BackupConfiguration_type, BackupConfiguration_DeepCopy),
      (BootstrapSpec_type, BootstrapSpec_DeepCopy),
      (ClusterDeletePolicy_type, ClusterDeletePolicy_DeepCopy),
      (ClusterFeatures_type, ClusterFeatures_DeepCopy),
      (CommonStatusFields_type L, CommonStatusFields_DeepCopy L),
      (ConnectionStatusFields_type, ConnectionStatusFields_DeepCopy),
      (Descriptors_type, Descriptors_DeepCopy),
      (HelmReleaseKubeconfigSecretRef_type, HelmReleaseKubeconfigSecretRef_DeepCopy),
      (KubeconfigServiceAccountSpec_type, KubeconfigServiceAccountSpec_DeepCopy),
      (KubeconfigTargetSecretRef_type, KubeconfigTargetSecretRef_DeepCopy),
      (KubernetesManifest_type L, KubernetesManifest_DeepCopy L),
      (KubernetesSpec_type L, KubernetesSpec_DeepCopy L),
      (LocalObjectReference_type, LocalObjectReference_DeepCopy),
      (MachineClass_type L, MachineClass_DeepCopy),
      (MachineInstallSpec_type, MachineInstallSpec_DeepCopy), (Patch_type L, Patch_DeepCopy L),
      (MachineSetSpecFields_type L, MachineSetSpecFields_DeepCopy L),
      (SecretKeySelector_type, SecretKeySelector_DeepCopy), (OmniAuthSpec_type, OmniAuthSpec_DeepCopy),
      (TalosSpec_type, TalosSpec_DeepCopy), (OmniClusterSpec_type L, OmniClusterSpec_DeepCopy L),
      (SyncStatusFields_type L, SyncStatusFields_DeepCopy L),
      (OmniClusterStatus_type L, OmniClusterStatus_DeepCopy L),
      (OmniCluster_type L, OmniCluster_DeepCopy L), (OmniClusterList_type L, OmniClusterList_DeepCopy L),
      (OmniConnectionSpec_type, OmniConnectionSpec_DeepCopy),
      (OmniConnectionStatus_type L, OmniConnectionStatus_DeepCopy L),
      (OmniConnection_type L, OmniConnection_DeepCopy L),
      (OmniConnectionList_type L, OmniConnectionList_DeepCopy L),
      (OmniControlPlaneSpec_type L, OmniControlPlaneSpec_DeepCopy L),
      (OmniControlPlaneStatus_type L, OmniControlPlaneStatus_DeepCopy L),
      (OmniControlPlane_type L, OmniControlPlane_DeepCopy L),
      (OmniControlPlaneList_type L, OmniControlPlaneList_DeepCopy L),
      (OmniHelmChartSpec_type L, OmniHelmChartSpec_DeepCopy L),
      (OmniHelmReleaseSpec_type L, OmniHelmReleaseSpec_DeepCopy L),
      (OmniHelmReleaseStatus_type L, OmniHelmReleaseStatus_DeepCopy L),
      (OmniHelmRelease_type L, OmniHelmRelease_DeepCopy L),
      (OmniHelmReleaseList_type L, OmniHelmReleaseList_DeepCopy L),
      (OmniKubeconfigExportSpec_type L, OmniKubeconfigExportSpec_DeepCopy),
      (OmniKubeconfigExportStatus_type L, OmniKubeconfigExportStatus_DeepCopy L),
      (OmniKubeconfigExport_type L, OmniKubeconfigExport_DeepCopy L),
      (OmniKubeconfigExportList_type L, OmniKubeconfigExportList_DeepCopy L),
      (OmniMachineSpec_type L, OmniMachineSpec_DeepCopy L),
      (OmniMachineStatus_type L, OmniMachineStatus_DeepCopy L),
      (OmniMachine_type L, OmniMachine_DeepCopy L), (OmniMachineList_type L, OmniMachineList_DeepCopy L),
      (SecretSyncKubeconfigSecretRef_type, SecretSyncKubeconfigSecretRef_DeepCopy),
      (SecretSyncSourceSecretRef_type, SecretSyncSourceSecretRef_DeepCopy),
      (SecretSyncTargetSecretRef_type, SecretSyncTargetSecretRef_DeepCopy),
      (OmniSecretSyncSpec_type L, OmniSecretSyncSpec_DeepCopy),
      (OmniSecretSyncStatus_type L, OmniSecretSyncStatus_DeepCopy L),
      (OmniSecretSync_type L, OmniSecretSync_DeepCopy L),
      (OmniSecretSyncList_type L, OmniSecretSyncList_DeepCopy L),
      (RollingStrategy_type, RollingStrategy_DeepCopy), (UpdateStrategy_type, UpdateStrategy_DeepCopy),
      (OmniWorkersSpec_type L, OmniWorkersSpec_DeepCopy L),
      (OmniWorkersStatus_type L, OmniWorkersStatus_DeepCopy L),
      (OmniWorkers_type L, OmniWorkers_DeepCopy L), (OmniWorkersList_type L, OmniWorkersList_DeepCopy L)]"

definition object_copies :: "copy_lib \<Rightarrow> (gty \<times> copier) list" where
  "object_copies L =
     [(OmniCluster_type L, OmniCluster_DeepCopyObject L),
      (OmniClusterList_type L, OmniClusterList_DeepCopyObject L),
      (OmniConnection_type L, OmniConnection_DeepCopyObject L),
      (OmniConnectionList_type L, OmniConnectionList_DeepCopyObject L),
      (OmniControlPlane_type L, OmniControlPlane_DeepCopyObject L),
      (OmniControlPlaneList_type L, OmniControlPlaneList_DeepCopyObject L),
      (OmniHelmRelease_type L, OmniHelmRelease_DeepCopyObject L),
      (OmniHelmReleaseList_type L, OmniHelmReleaseList_DeepCopyObject L),
      (OmniKubeconfigExport_type L, OmniKubeconfigExport_DeepCopyObject L),
      (OmniKubeconfigExportList_type L, OmniKubeconfigExportList_DeepCopyObject L),
      (OmniMachine_type L, OmniMachine_DeepCopyObject L),
      (OmniMachineList_type L, OmniMachineList_DeepCopyObject L),
      (OmniSecretSync_type L, OmniSecretSync_DeepCopyObject L),
      (OmniSecretSyncList_type L, OmniSecretSyncList_DeepCopyObject L),
      (OmniWorkers_type L, OmniWorkers_DeepCopyObject L),
      (OmniWorkersList_type L, OmniWorkersList_DeepCopyObject L)]"

lemma all_deep:
  assumes "copy_lib_ok L" and "(t, cp) \<in> set (deep_copies L @ object_copies L)"
  shows "deep_copier (TPtr t) cp"
proof -
  have deep: "list_all (\<lambda>(t, cp). deep_copier (TPtr t) cp) (deep_copies L)"
    by (simp add: deep_copies_def deep_copy_definitions deep_copy_deep assms(1))
  then have "list_all (\<lambda>(t, cp). deep_copier (TPtr t) cp) (object_copies L)"
    by (simp add: deep_copies_def object_copies_def deep_copy_object_definitions deep_copy_object_eq)
  with deep show ?thesis using assms(2) by (auto simp: list_all_iff)
qed

text \<open>
  Claim C24.  Each of the 59 generated \<^verbatim>\<open>DeepCopy\<close> functions of the API types and of the 16
  \<^verbatim>\<open>DeepCopyObject\<close> functions returns, for every pointer to a value of its type: the copy reads
  like the original to its end, nil and empty told apart, and is nil exactly when the original is;
  whatever is done afterwards to the memory that was there before does not show in the copy, and
  whatever is done to the memory of the copy does not show in the original.
\<close>

theorem deep_copies_share_nothing:
  assumes "copy_lib_ok L" and "(t, cp) \<in> set (deep_copies L @ object_copies L)"
    and "store_ok s" and "has_type (TPtr t) s p"
  shows "\<exists>p' s'. cp p s = Some (p', s') \<and> contents (TPtr t) s' p' = contents (TPtr t) s p \<and> (p' = GNil) = (p = GNil)
    \<and> (\<forall>s''. (\<forall>a. gs_next s \<le> a \<longrightarrow> gs_cells s'' a = gs_cells s' a) \<longrightarrow> contents (TPtr t) s'' p' = contents (TPtr t) s p)
    \<and> (\<forall>s''. (\<forall>a. a \<notin> reach (TPtr t) s' p' \<longrightarrow> gs_cells s'' a = gs_cells s' a) \<longrightarrow> contents (TPtr t) s'' p = contents (TPtr t) s p)"
proof -
  obtain p' s' where copy: "cp p s = Some (p', s')" "store_ok s'" "grows s s'" "copied (TPtr t) s p s' p'"
    using deep_copierE [OF all_deep [OF assms(1,2)] assms(3,4)] .
  have "(p' = GNil) = (p = GNil)"
    using copy(4) assms(4) by (auto simp: copied_def split: option.splits)
  then show ?thesis
    using copy copied_independent [OF copy(4) assms(3,4) copy(3)] unfolding copied_def by blast
qed

section \<open>An application\<close>

text \<open>A library in which the types are small, and a cluster's features with a backup configuration.\<close>

definition demo_copy_lib :: copy_lib where
  "demo_copy_lib =
     \<lparr>lt_TypeMeta = TStruct [(''Kind'', TScalar), (''APIVersion'', TScalar)],
      lt_ObjectMeta = TStruct [(''Name'', TScalar), (''Labels'', TMap)], lt_ListMeta = TStruct [(''ResourceVersion'', TScalar)],
      lt_Condition = TStruct [(''Type'', TScalar), (''Status'', TScalar)], lt_Duration = TScalar, lt_Time = TScalar,
      lt_JSON = TStruct [(''Raw'', TSlice TScalar)], lt_IntOrString = TStruct [(''IntVal'', TScalar), (''StrVal'', TScalar)],
      lt_SecretType = TScalar, lc_ObjectMeta = copy_struct [(''Labels'', unless_nil make_map)], lc_ListMeta = assign,
      lc_Condition = assign, lc_JSON = copy_struct [(''Raw'', unless_nil make_copy)], lc_Time_DeepCopy = deep_copy assign\<rparr>"

lemma demo_copy_lib_ok: "copy_lib_ok demo_copy_lib"
  by (simp add: copy_lib_ok_def demo_copy_lib_def copy_struct_deep deep_copy_deep)

definition features_store :: "string \<Rightarrow> gstore" where
  "features_store interval =
     \<lparr>gs_cells = [0 \<mapsto> GVar (GStruct [(''EnableWorkloadProxy'', GFlag True), (''UseEmbeddedDiscoveryService'', GFlag False),
          (''DiskEncryption'', GFlag True), (''BackupConfiguration'', GRef 1)]),
        1 \<mapsto> GVar (GStruct [(''Interval'', GText interval)])],
      gs_next = 2\<rparr>"

lemma features_typed: "store_ok (features_store interval)" "has_type (TPtr ClusterFeatures_type) (features_store interval) (GRef 0)"
  by (simp_all add: features_store_def store_ok_def ClusterFeatures_type_def BackupConfiguration_type_def field_def)

theorem deep_copies_share_nothing_witness:
  "\<exists>p' s'. ClusterFeatures_DeepCopy (GRef 0) (features_store ''1h'') = Some (p', s') \<and> p' \<noteq> GNil
    \<and> contents (TPtr ClusterFeatures_type) (s'\<lparr>gs_cells := (gs_cells s')(1 \<mapsto> GVar (GStruct [(''Interval'', GText ''2h'')]))\<rparr>) p'
      = contents (TPtr ClusterFeatures_type) (features_store ''1h'') (GRef 0)"
proof -
  have "(ClusterFeatures_type, ClusterFeatures_DeepCopy) \<in> set (deep_copies demo_copy_lib @ object_copies demo_copy_lib)"
    by (simp add: deep_copies_def)
  from deep_copies_share_nothing [OF demo_copy_lib_ok this features_typed, of "''1h''"]
  obtain p' s' where copy: "ClusterFeatures_DeepCopy (GRef 0) (features_store ''1h'') = Some (p', s')" "p' \<noteq> GNil"
    and apart: "\<forall>s''. (\<forall>a. gs_next (features_store ''1h'') \<le> a \<longrightarrow> gs_cells s'' a = gs_cells s' a)
      \<longrightarrow> contents (TPtr ClusterFeatures_type) s'' p' = contents (TPtr ClusterFeatures_type) (features_store ''1h'') (GRef 0)"
    by auto
  have "gs_next (features_store ''1h'') = 2" by (simp add: features_store_def)
  then show ?thesis using copy apart by auto
qed

end
