(* ===== verification/Spec2Isabelle.thy ===== *)
theory Spec2Isabelle
  imports Witnesses Workload_Witnesses System_Witnesses Workload_Progress Manager Deep_Copy_Safety
begin

text \<open>
  A verification library of the Omni cluster operator: a Kubernetes operator, written in Go,
  that keeps Sidero Omni clusters, their machines and kubeconfigs in step with custom resources,
  and copies Secrets and installs Helm releases into the clusters.

  \<^bold>\<open>The program.\<close>  An OmniCluster names an OmniConnection (an endpoint and a service account key in a
  Secret); OmniControlPlane, OmniWorkers and OmniMachine refer to a cluster.  The cluster
  controller collects the resources that refer to a cluster, renders them to a template, has it
  validated and sends it to Omni; on deletion it deletes the cluster in Omni before it lets the
  resource go.  The connection controller pings the endpoint and holds a connection back while
  clusters refer to it.  The child controllers report whether their cluster exists.  An
  OmniKubeconfigExport asks Omni for a kubeconfig, keeps it in a Secret and rotates it.  An
  OmniSecretSync takes such a kubeconfig and copies a Secret into the workload cluster; an
  OmniHelmRelease takes it and installs, upgrades and uninstalls a Helm release there.  Admission
  webhooks check resources before they are stored, and watches wake the controllers when a
  resource that concerns them changes.  The manager process sets all of this up and starts it.

  \<^bold>\<open>Theories, in the order of their imports.\<close>
  \<^item> \<^theory_text>\<open>Prelude\<close>: Go maps as optional finite maps, byte slices, and facts about sorted lists.
  \<^item> \<^theory_text>\<open>Go_Text\<close>, \<^theory_text>\<open>Go_Time\<close>, \<^theory_text>\<open>Go_Encoding\<close>, \<^theory_text>\<open>Go_Path\<close>: the parts of Go's standard library the
    source uses: UTF-8 decoding, \<^verbatim>\<open>strings.TrimSpace\<close>, \<^verbatim>\<open>%q\<close>; instants, the calendar, RFC 3339
    (parsing undoes formatting, to the second); SHA-256 over 32-bit words, hexadecimal, base64,
    JSON; \<^verbatim>\<open>filepath.Clean\<close>, \<^verbatim>\<open>Join\<close> and \<^verbatim>\<open>Rel\<close>.
  \<^item> \<^theory_text>\<open>K8s_Meta\<close>, \<^theory_text>\<open>Api_Types\<close>: object metadata, conditions, errors; the types of
    \<^verbatim>\<open>api/v1alpha1\<close>, one record per struct.
  \<^item> \<^theory_text>\<open>Effects\<close>, \<^theory_text>\<open>Operator_Env\<close>, \<^theory_text>\<open>Finalizers\<close>: how calls to the outside are modelled (below),
    status writes under retry, claiming a resource and letting it go.
  \<^item> \<^theory_text>\<open>Template\<close> (\<^verbatim>\<open>internal/omnitemplate/builder.go\<close>), \<^theory_text>\<open>Omni_Api\<close> and \<^theory_text>\<open>Omni_Credentials\<close>
    (\<^verbatim>\<open>internal/omniapi/client.go\<close>).
  \<^item> \<^theory_text>\<open>Cluster_Controller\<close>, \<^theory_text>\<open>Child_Controllers\<close>, \<^theory_text>\<open>Connection_Controller\<close>, \<^theory_text>\<open>Watches\<close>: the
    controllers of \<^verbatim>\<open>internal/controller\<close> for clusters, children and connections, and the
    functions that map changes to reconcile requests.
  \<^item> \<^theory_text>\<open>Kubeconfig_Export\<close> (\<^verbatim>\<open>internal/kubeconfigexport\<close>), \<^theory_text>\<open>Kubeconfig_Controller\<close> and
    \<^theory_text>\<open>Kubeconfig_Safety\<close> (\<^verbatim>\<open>omnikubeconfigexport_controller.go\<close>).
  \<^item> \<^theory_text>\<open>Secret_Sync\<close>, \<^theory_text>\<open>Secret_Sync_Client\<close> and \<^theory_text>\<open>Secret_Sync_Store\<close> (\<^verbatim>\<open>internal/secretsync\<close>: its
    data, its client, and the abstract operations the client refines), \<^theory_text>\<open>Secret_Sync_Controller\<close>
    and \<^theory_text>\<open>Secret_Sync_Safety\<close> (\<^verbatim>\<open>omnisecretsync_controller.go\<close>).
  \<^item> \<^theory_text>\<open>Helm_Release\<close>, \<^theory_text>\<open>Helm_Client\<close> and \<^theory_text>\<open>Helm_Client_Safety\<close> (\<^verbatim>\<open>internal/helmrelease\<close> and
    \<^verbatim>\<open>internal/helmchart\<close>), \<^theory_text>\<open>Helm_Controller\<close> and \<^theory_text>\<open>Helm_Safety\<close>
    (\<^verbatim>\<open>omnihelmrelease_controller.go\<close>); \<^theory_text>\<open>Workload_Progress\<close>: what a finished deletion of either
    means.
  \<^item> \<^theory_text>\<open>Webhooks\<close> and \<^theory_text>\<open>Workload_Webhooks\<close> (\<^verbatim>\<open>internal/webhook/v1alpha1\<close>).
  \<^item> \<^theory_text>\<open>Manager\<close> (\<^verbatim>\<open>cmd/main.go\<close>).
  \<^item> \<^theory_text>\<open>Finalizer_System\<close>: an item with a finalizer, its controller and everybody else as one
    transition system, with the invariant that what the controller made for the item is never
    left behind; \<^theory_text>\<open>Cluster_System\<close>, \<^theory_text>\<open>Helm_System\<close>, \<^theory_text>\<open>Secret_Sync_System\<close>: the three
    controllers plugged into it.
  \<^item> \<^theory_text>\<open>Server_Answers\<close>, \<^theory_text>\<open>Status_Conditions\<close>: from what the API server answers to what all
    controllers write back; the conditions of their statuses keep to the schema.
  \<^item> \<^theory_text>\<open>Watch_Setup\<close> (the \<^verbatim>\<open>SetupWithManager\<close> functions), \<^theory_text>\<open>Own_Writes\<close>, \<^theory_text>\<open>Settling\<close> and
    \<^theory_text>\<open>Rejected_Kubeconfig\<close>: which items a change of their owner asks for, which controllers a
    write wakes, that the chains of runs caused by requeues and by writes to the operator's own
    kinds end, and the chain through kubeconfig Secrets that need not.
  \<^item> \<^theory_text>\<open>Go_Store\<close>, \<^theory_text>\<open>Deep_Copy_Types\<close>, \<^theory_text>\<open>Deep_Copy\<close>, \<^theory_text>\<open>Deep_Copy_Safety\<close>
    (\<^verbatim>\<open>api/v1alpha1/zz_generated.deepcopy.go\<close>): Go values with pointers, slices and maps in a
    store, the Go types of the API, and the generated copies.
  \<^item> \<^theory_text>\<open>Demo_Env\<close>, \<^theory_text>\<open>Witnesses\<close>, \<^theory_text>\<open>Workload_Witnesses\<close>, \<^theory_text>\<open>System_Witnesses\<close>: a concrete
    environment that satisfies every contract, and the properties applied to it.

  \<^bold>\<open>State and effects.\<close>  A reconciler keeps no state between runs: all state is in the API server,
  in Omni, in the workload clusters and in the process (its working directory and a lock).  They
  are a hidden value of an arbitrary type, together with all that other actors do to it, and a
  call is an arbitrary function of that value.  A handler is a term of the state monad whose
  world also carries the list of the calls made so far, with their arguments and answers.  A
  theorem of the form \<^term>\<open>emits m Q\<close> says that every run of \<open>m\<close>, whatever the servers answer and
  wherever they fail, appends events \<open>t\<close> and returns \<open>a\<close> with \<open>Q a t\<close>; \<^const>\<open>preceded\<close> states
  orderings such as ``released only after deleted''.  For the cluster controller the allowed runs
  are described by inductive relations (\<^const>\<open>sync_run\<close>, \<^const>\<open>live_run\<close>, \<^const>\<open>delete_run\<close>), which the
  handlers are shown to follow, and so is the isolated working directory (\<^const>\<open>isolated\<close>); the
  properties are consequences.  \<^const>\<open>every\<close> is the special case of a fact about each event.

  \<^bold>\<open>Many runs.\<close>  In \<^const>\<open>reachable\<close> the runs of a controller, as lists of events, are the steps
  of a system in which others change, delete and recreate the item at any point, the controller
  reads from a cache that lags behind but never goes back, a write succeeds only when it is based
  on the stored version and may have taken effect although it was answered with an error, and a
  run may end after any of its events.  One run works on an item at a time, as in the queue of
  controller-runtime.  In \<^const>\<open>causes\<close> a run follows another because that asked for it at once or
  wrote what is watched; \<^const>\<open>echo\<close> describes the changes that the API server reports for a
  write, and \<^const>\<open>may_wake\<close> whom a change may wake, both generously.

  \<^bold>\<open>Values and references.\<close>  In all of this the values of the model are immutable.  The source
  changes objects in place only when they are its own: what the API client returned is a copy,
  made by the generated functions, and \<open>Deep_Copy_Safety\<close> shows that such a copy shares no memory
  with its origin.

  \<^bold>\<open>What is assumed.\<close>  Code outside the repository is a parameter: controller-runtime's finalizer
  helpers and \<^verbatim>\<open>meta.SetStatusCondition\<close> (\<^typ>\<open>klib\<close>), the copies of the types of k8s.io
  (\<^typ>\<open>copy_lib\<close>, assumed to be deep: \<^const>\<open>copy_lib_ok\<close>), the YAML encoder and the JSON decoder
  (\<^typ>\<open>tmpl_lib\<close>), the API client, the Omni client library, clientcmd and the client of the
  workload cluster, Helm's library, the operating system and the clock (\<open>env\<close>), controller-runtime's
  manager (\<open>process\<close>), and the UUID and URL parsers (\<^typ>\<open>admission_lib\<close>).  Documented
  contracts appear as hypotheses: \<^const>\<open>retry_contract\<close> (a conflict is retried, any other result is
  returned, giving up is an error), \<^const>\<open>condition_contract\<close>, \<^const>\<open>finalizer_contract\<close>, and, for
  the theorems about the contents of a workload cluster only, \<^const>\<open>keeps_secrets\<close> and
  \<^const>\<open>secret_store\<close> (what is written is read back, and nobody else writes at the same time).
  The theorems about runs assume nothing of the API server, of Omni, of Helm or of the workload
  clusters.  The properties of the secret sync and Helm controllers are about the clients of the
  repository, which the program uses (\<^const>\<open>env_SecretSync\<close> and \<^const>\<open>env_Helm\<close> are \<^const>\<open>None\<close>).
  Loops of the source run over lists and are structural recursions; the retry loop is bounded by
  the library, and no definition of the model needs fuel.

  \<^bold>\<open>Interfaces.\<close>  \<open>child_controller\<close> is the contract of the three child controllers, \<open>claimed_kind\<close> and
  \<open>released_kind\<close> those of the handlers that add a finalizer and remove it under retry, \<open>request_mapper\<close>
  that of the functions that list and select requests, and \<open>admission_validator\<close> that of the
  webhooks, with two extensions: \<open>custom_validator\<close> for those that judge an update by the new
  object, and \<open>pinning_validator\<close> for those that also keep a part of the object as it was.
  \<open>guarded_resource\<close> is what a controller owes the system of its item: the finalizer comes before
  what it guards, and goes after.  \<open>claiming_controller\<close> is the contract of the five controllers that
  claim their items.  Each is interpreted on the definitions of the model that provide it.

  \<^bold>\<open>What is shown.\<close>  Clusters: release only after deletion in Omni, Ready only after a successful
  sync and status read, only rendered templates are sent, no remote call while suspended, every
  run is scheduled again.  Template: when rendering can succeed and with what, for every sort that
  \<^verbatim>\<open>sort.Slice\<close> may make (\<^const>\<open>renders\<close>; \<^const>\<open>Render\<close> is the outcome of a stable one), independence
  of the order of inputs and of the sort when names are distinct.  Children: decisions follow the
  lookup, statuses settle.  Connections: consistent conditions, held back while referenced.  Credentials: exactly which
  stored values are used; none, no call.  Kubeconfig exports: only owned Secrets are deleted,
  exactly the access that the spec describes and permits is requested, an export is reported only
  when the Secret it looked for is in place, a written Secret is recognised until rotation is due,
  rotation is not forgotten.  Secret syncs: the client refines abstract operations on a map of
  Secrets; only the item itself and its own Secret are written and only marked ones are deleted;
  synced only when the target has the content of the source, released only when clean; a second sync
  only reads.  A finished deletion of a secret sync or a Helm release has let the item go.  Helm releases: installs and
  upgrades follow Helm's history; ready only when deployed, released only when uninstalled;
  charts are located in a directory of their own under the lock, and the caches lie below one
  directory.  Webhooks: admission agrees with the controllers' own checks, and a secret sync
  keeps its destination.  Manager: it starts only when everything is set up, in one namespace.
  Watches: a change of a cluster or a connection asks for exactly the items that name it.
  Across runs: as long as an item keeps the name and place of what it stands for and is not to be
  orphaned, and nobody else touches its finalizer, a cluster in Omni, an installed release or a
  synchronised Secret has its item stored with the finalizer, whatever else the others do; the
  conditions of every status keep to the schema but for the length of messages; and without outside
  changes, chains of immediate requeues and of wake-ups by writes to the operator's own kinds have
  bounded length.  Deep copies: same contents, nothing shared.

  \<^bold>\<open>Which object, which answer.\<close>  The events of a trace carry what is written, but of what is read
  only that it was read.  Where a property says what a write is made from, it uses \<^const>\<open>answers\<close> and
  \<^const>\<open>answered\<close>: the value is one that the environment returns, in some state, for this very call and
  this very key.  \<^const>\<open>version_of\<close> says so of the item that a run writes back.

  Five theorems show behaviour that the documentation does not promise:
  \<open>retarget_orphan_keeps_old_secret\<close>, \<open>reserved_name_slips_through\<close>, \<open>failure_forgets_old_target\<close>,
  \<open>sync_takes_over_foreign\<close> and \<open>rejected_kubeconfig_wakes_itself\<close>; and
  \<open>helm_keeps_to_its_release\<close> implies that a release whose name in the spec changes is left behind.

  \<^bold>\<open>What is not modelled.\<close>  Logging; parsing of command-line flags; the registration of the types
  with the scheme (\<^verbatim>\<open>groupversion_info.go\<close>) and of the webhooks with the manager, which only call
  libraries; the queue of controller-runtime beyond what is said above.  The schema of the API
  server is modelled as far as \<^const>\<open>conditions_ok\<close> goes; it also bounds the length of a message,
  which no controller does.
\<close>

section \<open>Deletion in workload clusters\<close>

text \<open>
  Claim C29.  A deletion that is finished has let the item go: when the delete handler of a secret
  sync or of a Helm release that has the finalizer returns without an error and without asking to
  be called again, then in this run the item was found to be gone or its latest version was written
  without the finalizer.
\<close>

theorem workload_deletion_lets_go:
  assumes "env_retry_ok E" and "condition_contract (env_Lib E)" and "finalizer_contract (env_Lib E)"
    and "env_SecretSync E = None" and "env_Helm E = None"
    and "lib_ContainsFinalizer (env_Lib E) (om_Finalizers (ss_Meta item)) Finalizer"
    and "lib_ContainsFinalizer (env_Lib E) (om_Finalizers (hr_Meta release)) Finalizer"
    and "\<not> Time_IsZero (om_DeletionTimestamp (hr_Meta release))"
  shows "emits (SecretSync_reconcileDelete E item)
      (\<lambda>out t. out = (no_requeue, None) \<longrightarrow> sync_let_go (env_Lib E) item t)
    \<and> emits (HelmRelease_reconcileDelete E release)
      (\<lambda>out t. out = (no_requeue, None) \<longrightarrow> helm_let_go (env_Lib E) release t)"
  using sync_deletion_progress [OF assms(1-4,6)] helm_deletion_progress [OF assms(1-3,5) _ assms(7)] assms(8)
  by (simp add: helm_deleting_def)

lemma deleting_items:
  "lib_ContainsFinalizer demo_klib (om_Finalizers (ss_Meta deleting_sync)) Finalizer"
  "lib_ContainsFinalizer demo_klib (om_Finalizers (hr_Meta deleting_release)) Finalizer"
  "\<not> Time_IsZero (om_DeletionTimestamp (hr_Meta deleting_release))"
  by code_simp+

lemma deletions_finish:
  "fst (run_state (SecretSync_reconcileDelete (demo_env demo_cluster) deleting_sync) demo_world) = (no_requeue, None)"
  "fst (run_state (HelmRelease_reconcileDelete (demo_env demo_cluster) deleting_release) demo_world) = (no_requeue, None)"
  by code_simp+

theorem workload_deletion_lets_go_witness:
  "fst (run_state (HelmRelease_reconcileDelete (demo_env demo_cluster) deleting_release) demo_world) = (no_requeue, None)
   \<and> fst (run_state (SecretSync_reconcileDelete (demo_env demo_cluster) deleting_sync) demo_world) = (no_requeue, None)
   \<and> emits (HelmRelease_reconcileDelete (demo_env demo_cluster) deleting_release)
      (\<lambda>out t. out = (no_requeue, None) \<longrightarrow> helm_let_go demo_klib deleting_release t)
   \<and> emits (SecretSync_reconcileDelete (demo_env demo_cluster) deleting_sync)
      (\<lambda>out t. out = (no_requeue, None) \<longrightarrow> sync_let_go demo_klib deleting_sync t)"
  using workload_deletion_lets_go [of "demo_env demo_cluster" deleting_sync deleting_release] deletions_finish
  by (simp add: deleting_items)

end
